(* ===== verification/Prelude.thy ===== *)
theory Prelude
  imports Main "HOL-Library.Word"
begin

text \<open>
  Shared vocabulary of the development: the state-and-error computations every operation of the
  program is written in, the relational reading of SQL's UPDATE on a table (a list of rows), and
  the generic facts on both that the component theories use.

  A Go function with a receiver, an error result and side effects is a function from the world
  to a pair of an outcome (\<open>Inl\<close> the error, \<open>Inr\<close> the value) and the world it leaves.  The world
  an error leaves is kept: an early \<open>return err\<close> does not undo what was done before it.
\<close>

named_theorems run_simps \<open>evaluation of computations on a world\<close>

named_theorems table_simps \<open>facts on tables under UPDATE\<close>

section \<open>Computations\<close>

type_synonym ('s, 'e, 'a) comp = "'s \<Rightarrow> ('e + 'a) \<times> 's"

definition returnE :: "'a \<Rightarrow> ('s, 'e, 'a) comp" where
  "returnE x = (\<lambda>s. (Inr x, s))"

definition throwE :: "'e \<Rightarrow> ('s, 'e, 'a) comp" where
  "throwE e = (\<lambda>s. (Inl e, s))"

text \<open>\<open>x, err := m; if err != nil { return err }; f(x)\<close>\<close>

definition bindE :: "('s, 'e, 'a) comp \<Rightarrow> ('a \<Rightarrow> ('s, 'e, 'b) comp) \<Rightarrow> ('s, 'e, 'b) comp" where
  "bindE m f = (\<lambda>s. case m s of (Inl e, s') \<Rightarrow> (Inl e, s') | (Inr x, s') \<Rightarrow> f x s')"

text \<open>\<open>x, err := m\<close>, with the pair inspected by what follows\<close>

definition attemptE :: "('s, 'e, 'a) comp \<Rightarrow> ('s, 'e, 'e + 'a) comp" where
  "attemptE m = (\<lambda>s. case m s of (r, s') \<Rightarrow> (Inr r, s'))"

text \<open>\<open>if err != nil { return fmt.Errorf("...: %w", err) }\<close>\<close>

definition mapErrE :: "('e \<Rightarrow> 'e) \<Rightarrow> ('s, 'e, 'a) comp \<Rightarrow> ('s, 'e, 'a) comp" where
  "mapErrE g m = (\<lambda>s. case m s of (Inl e, s') \<Rightarrow> (Inl (g e), s') | (Inr x, s') \<Rightarrow> (Inr x, s'))"

text \<open>reading a component of the world\<close>

definition getsE :: "('s \<Rightarrow> 'a) \<Rightarrow> ('s, 'e, 'a) comp" where
  "getsE g = (\<lambda>s. (Inr (g s), s))"

text \<open>\<open>for _, x := range xs { acc = body }\<close>, left at the first error\<close>

primrec foldE :: "('x \<Rightarrow> 'a \<Rightarrow> ('s, 'e, 'a) comp) \<Rightarrow> 'x list \<Rightarrow> 'a \<Rightarrow> ('s, 'e, 'a) comp" where
  "foldE f [] a = returnE a"
| "foldE f (x # xs) a = bindE (f x a) (foldE f xs)"

text \<open>\<open>defer d()\<close> before the rest \<open>m\<close> of a function: \<open>d\<close> runs whatever \<open>m\<close> returns, its result is lost\<close>

definition deferE :: "('s, 'e, 'b) comp \<Rightarrow> ('s, 'e, 'a) comp \<Rightarrow> ('s, 'e, 'a) comp" where
  "deferE d m = (\<lambda>s. case m s of (r, s') \<Rightarrow> (r, snd (d s')))"

text \<open>the call with its result dropped: did it succeed?\<close>

definition succeeds :: "('s, 'e, 'a) comp \<Rightarrow> ('s, 'e, bool) comp" where
  "succeeds m = bindE m (\<lambda>_. returnE True)"

text \<open>Calls made one after the other; a failed call is skipped, the calls that reported success
  are returned.\<close>

primrec run_calls :: "('c \<Rightarrow> ('w, 'e, bool) comp) \<Rightarrow> 'c list \<Rightarrow> 'w \<Rightarrow> 'c list \<times> 'w" where
  "run_calls f [] w = ([], w)"
| "run_calls f (c # cs) w =
    (case f c w of
      (Inr True, w') \<Rightarrow> (case run_calls f cs w' of (won, w'') \<Rightarrow> (c # won, w''))
    | (_, w') \<Rightarrow> run_calls f cs w')"

lemma run_returnE [run_simps]: "returnE x s = (Inr x, s)"
  by (simp add: returnE_def)

lemma run_throwE [run_simps]: "throwE e s = (Inl e, s)"
  by (simp add: throwE_def)

lemma run_bindE [run_simps]:
  "bindE m f s = (case m s of (Inl e, s') \<Rightarrow> (Inl e, s') | (Inr x, s') \<Rightarrow> f x s')"
  by (simp add: bindE_def)

lemma run_attemptE [run_simps]: "attemptE m s = (Inr (fst (m s)), snd (m s))"
  by (simp add: attemptE_def split: prod.split)

lemma run_mapErrE [run_simps]:
  "mapErrE g m s = (case m s of (Inl e, s') \<Rightarrow> (Inl (g e), s') | (Inr x, s') \<Rightarrow> (Inr x, s'))"
  by (simp add: mapErrE_def)

lemma run_succeeds [run_simps]:
  "succeeds m s = (case m s of (Inl e, s') \<Rightarrow> (Inl e, s') | (Inr x, s') \<Rightarrow> (Inr True, s'))"
  by (simp add: succeeds_def bindE_def returnE_def)

lemma run_deferE [run_simps]: "deferE d m s = (fst (m s), snd (d (snd (m s))))"
  by (simp add: deferE_def split: prod.split)

lemma run_getsE [run_simps]: "getsE g s = (Inr (g s), s)"
  by (simp add: getsE_def)

lemma mapErrE_Inr [simp]: "fst (mapErrE g m s) = Inr x \<longleftrightarrow> fst (m s) = Inr x"
  by (auto simp: run_simps split: prod.splits sum.splits)

lemma mapErrE_snd [simp]: "snd (mapErrE g m s) = snd (m s)"
  by (auto simp: run_simps split: prod.splits sum.splits)

lemma bindE_Inr_iff:
  "bindE m f s = (Inr y, s'') \<longleftrightarrow> (\<exists>x s'. m s = (Inr x, s') \<and> f x s' = (Inr y, s''))"
  by (auto simp: run_simps split: prod.splits sum.splits)

lemma bindE_Inl_iff:
  "bindE m f s = (Inl e, s'') \<longleftrightarrow>
     m s = (Inl e, s'') \<or> (\<exists>x s'. m s = (Inr x, s') \<and> f x s' = (Inl e, s''))"
  by (auto simp: run_simps split: prod.splits sum.splits)

lemma mapErrE_Inr_iff: "mapErrE g m s = (Inr y, s') \<longleftrightarrow> m s = (Inr y, s')"
  by (auto simp: run_simps split: prod.splits sum.splits)

lemma mapErrE_Inl_iff: "mapErrE g m s = (Inl e, s') \<longleftrightarrow> (\<exists>e'. e = g e' \<and> m s = (Inl e', s'))"
  by (auto simp: run_simps split: prod.splits sum.splits)

lemma attemptE_iff: "attemptE m s = (r, s') \<longleftrightarrow> (\<exists>q. r = Inr q \<and> m s = (q, s'))"
  by (auto simp: run_simps)

lemma deferE_iff: "deferE d m s = (r, s'') \<longleftrightarrow> (\<exists>s'. m s = (r, s') \<and> s'' = snd (d s'))"
  by (auto simp: deferE_def split: prod.splits)

lemma bind_attemptE: "m s = (q, s') \<Longrightarrow> bindE (attemptE m) f s = f q s'"
  by (simp add: bindE_def attemptE_def)

lemmas comp_iffs =
  bindE_Inr_iff bindE_Inl_iff mapErrE_Inr_iff mapErrE_Inl_iff attemptE_iff
  deferE_iff run_returnE run_throwE run_getsE

lemma run_calls_Cons:
  assumes "run_calls f (c # cs) w = (won, w'')"
  obtains r w' won' where "f c w = (r, w')" "run_calls f cs w' = (won', w'')"
    "won = (if r = Inr True then c # won' else won')"
  using assms by (auto split: prod.splits sum.splits bool.splits)

text \<open>A loop invariant on the accumulator and the world, kept by every iteration that succeeds.\<close>

lemma foldE_invariant:
  assumes "foldE f xs a s = (Inr b, s')" and "P a s"
    and "\<And>x a s b s'. x \<in> set xs \<Longrightarrow> f x a s = (Inr b, s') \<Longrightarrow> P a s \<Longrightarrow> P b s'"
  shows "P b s'"
  using assms
proof (induction xs arbitrary: a s)
  case Nil
  then show ?case by (simp add: run_simps)
next
  case (Cons x xs)
  then obtain a1 s1 where step: "f x a s = (Inr a1, s1)" and rest: "foldE f xs a1 s1 = (Inr b, s')"
    by (auto simp: comp_iffs)
  from Cons.prems(2,3) step have "P a1 s1" by (meson list.set_intros(1))
  with rest show ?case by (rule Cons.IH) (meson Cons.prems(3) list.set_intros(2))
qed

text \<open>The same with the elements processed so far.\<close>

lemma foldE_prefix:
  assumes "foldE f xs a s = (Inr b, s')" and "P [] a s"
    and "\<And>ys x zs a s b s'. xs = ys @ x # zs \<Longrightarrow> f x a s = (Inr b, s') \<Longrightarrow> P ys a s \<Longrightarrow> P (ys @ [x]) b s'"
  shows "P xs b s'"
proof -
  have "P (ys @ zs) b s'" if "foldE f zs a s = (Inr b, s')" "P ys a s" "xs = ys @ zs" for ys zs a s
    using that
  proof (induction zs arbitrary: ys a s)
    case Nil
    then show ?case by (simp add: run_simps)
  next
    case (Cons z zs)
    then obtain a1 s1 where step: "f z a s = (Inr a1, s1)" and rest: "foldE f zs a1 s1 = (Inr b, s')"
      by (auto simp: comp_iffs)
    from assms(3) [OF Cons.prems(3) step Cons.prems(2)] have "P (ys @ [z]) a1 s1" .
    from Cons.IH [OF rest this] Cons.prems(3) show ?case by simp
  qed
  from this [of xs a s "[]"] assms(1,2) show ?thesis by simp
qed

subsection \<open>What a computation does to the world\<close>

text \<open>
  \<open>moves R m\<close>: whatever the outcome, \<open>m\<close> takes the world along \<open>R\<close>.  For a reflexive and
  transitive \<open>R\<close> it is closed under the composition of computations, so a whole handler moves
  along \<open>R\<close> when every call in it does.  \<open>moves (\<lambda>s t. I s \<longrightarrow> I t)\<close> says that \<open>I\<close> is invariant,
  \<open>moves (\<lambda>s t. f t = f s)\<close> that \<open>f\<close> is not touched.
\<close>

definition moves :: "('s \<Rightarrow> 's \<Rightarrow> bool) \<Rightarrow> ('s, 'e, 'a) comp \<Rightarrow> bool" where
  "moves R m \<longleftrightarrow> (\<forall>s. R s (snd (m s)))"

lemma movesD: "moves R m \<Longrightarrow> R s (snd (m s))"
  by (simp add: moves_def)

lemma moves_run: "moves R m \<Longrightarrow> m s = (r, t) \<Longrightarrow> R s t"
  by (metis moves_def snd_conv)

lemma movesI: "(\<And>s r t. m s = (r, t) \<Longrightarrow> R s t) \<Longrightarrow> moves R m"
  by (metis moves_def prod.collapse)

locale effect =
  fixes R :: "'s \<Rightarrow> 's \<Rightarrow> bool"
  assumes eff_refl: "R s s"
    and eff_trans: "R s t \<Longrightarrow> R t u \<Longrightarrow> R s u"
begin

lemma moves_return: "moves R (returnE x)"
  by (simp add: moves_def run_simps eff_refl)

lemma moves_throw: "moves R (throwE e)"
  by (simp add: moves_def run_simps eff_refl)

lemma moves_gets: "moves R (getsE g)"
  by (simp add: moves_def run_simps eff_refl)

lemma moves_mapErr: "moves R m \<Longrightarrow> moves R (mapErrE g m)"
  by (simp add: moves_def)

lemma moves_attempt: "moves R m \<Longrightarrow> moves R (attemptE m)"
  by (simp add: moves_def run_simps)

text \<open>The rest of a computation need only move along for the values its first part can return.\<close>

lemma moves_bind_run:
  assumes m: "moves R m" and f: "\<And>s x s'. m s = (Inr x, s') \<Longrightarrow> moves R (f x)"
  shows "moves R (bindE m f)"
proof (rule movesI)
  fix s r t
  assume run: "bindE m f s = (r, t)"
  obtain q s' where q: "m s = (q, s')" by (cases "m s")
  from m q have step: "R s s'" by (rule moves_run)
  show "R s t"
  proof (cases q)
    case (Inl e)
    with run q step show ?thesis by (simp add: run_simps)
  next
    case (Inr x)
    with run q have "f x s' = (r, t)" by (simp add: run_simps)
    with f q Inr have "R s' t" by (blast intro: moves_run)
    with step show ?thesis by (rule eff_trans)
  qed
qed

lemma moves_bind: "moves R m \<Longrightarrow> (\<And>x. moves R (f x)) \<Longrightarrow> moves R (bindE m f)"
  by (rule moves_bind_run)

lemma moves_defer: "moves R d \<Longrightarrow> moves R m \<Longrightarrow> moves R (deferE d m)"
  by (auto simp: moves_def run_simps intro: eff_trans)

lemma moves_fold: "(\<And>x a. x \<in> set xs \<Longrightarrow> moves R (f x a)) \<Longrightarrow> moves R (foldE f xs a)"
  by (induction xs arbitrary: a) (auto intro: moves_return moves_bind)

lemma moves_calls:
  "run_calls f cs s = (won, t) \<Longrightarrow> (\<And>c. c \<in> set cs \<Longrightarrow> moves R (f c)) \<Longrightarrow> R s t"
proof (induction cs arbitrary: s won)
  case Nil
  then show ?case by (simp add: eff_refl)
next
  case (Cons c cs)
  from Cons.prems(1) obtain r s' won' where "f c s = (r, s')" "run_calls f cs s' = (won', t)"
    by (rule run_calls_Cons)
  with Cons show ?case by (meson eff_trans list.set_intros moves_run)
qed

lemma moves_if: "(b \<Longrightarrow> moves R m) \<Longrightarrow> (\<not> b \<Longrightarrow> moves R n) \<Longrightarrow> moves R (if b then m else n)"
  by simp

lemma moves_option:
  "moves R m \<Longrightarrow> (\<And>x. moves R (f x)) \<Longrightarrow> moves R (case v of None \<Rightarrow> m | Some x \<Rightarrow> f x)"
  by (simp split: option.split)

lemma moves_sum:
  "(\<And>e. moves R (f e)) \<Longrightarrow> (\<And>x. moves R (g x)) \<Longrightarrow> moves R (case v of Inl e \<Rightarrow> f e | Inr x \<Rightarrow> g x)"
  by (simp split: sum.split)

lemma moves_prod: "(\<And>x y. moves R (f x y)) \<Longrightarrow> moves R (case v of (x, y) \<Rightarrow> f x y)"
  by (simp split: prod.split)

lemma moves_let: "moves R (f v) \<Longrightarrow> moves R (let x = v in f x)"
  by simp

lemmas moves_intros =
  moves_return moves_throw moves_gets moves_mapErr moves_attempt moves_bind moves_defer moves_fold
  moves_if moves_option moves_sum moves_prod moves_let

end

section \<open>Tables\<close>

text \<open>
  A table is the list of its rows.  \<open>UPDATE t SET f WHERE c\<close> replaces every row that satisfies
  \<open>c\<close>; the number of rows it affects is the number of those rows.
\<close>

definition sql_update :: "('r \<Rightarrow> bool) \<Rightarrow> ('r \<Rightarrow> 'r) \<Rightarrow> 'r list \<Rightarrow> 'r list" where
  "sql_update c f t = map (\<lambda>r. if c r then f r else r) t"

definition sql_affected :: "('r \<Rightarrow> bool) \<Rightarrow> 'r list \<Rightarrow> nat" where
  "sql_affected c t = length (filter c t)"

text \<open>\<open>LIMIT l OFFSET o\<close>; both are non-negative in every query of the program\<close>

definition sql_page :: "int \<Rightarrow> int \<Rightarrow> 'r list \<Rightarrow> 'r list" where
  "sql_page l off t = take (nat l) (drop (nat off) t)"

lemma length_sql_update [simp]: "length (sql_update c f t) = length t"
  by (simp add: sql_update_def)

lemma set_sql_update:
  "r' \<in> set (sql_update c f t) \<longleftrightarrow> (\<exists>r \<in> set t. r' = (if c r then f r else r))"
  by (auto simp: sql_update_def)

lemma sql_update_none [table_simps]: "(\<And>r. r \<in> set t \<Longrightarrow> \<not> c r) \<Longrightarrow> sql_update c f t = t"
  by (simp add: sql_update_def map_idI)

lemma sql_affected_0_iff: "sql_affected c t = 0 \<longleftrightarrow> (\<forall>r \<in> set t. \<not> c r)"
  by (auto simp: sql_affected_def filter_empty_conv)

lemma sql_affected_0_update: "sql_affected c t = 0 \<Longrightarrow> sql_update c f t = t"
  by (simp add: sql_affected_0_iff sql_update_none)

lemma map_key_sql_update [table_simps]:
  "(\<And>r. key (f r) = key r) \<Longrightarrow> map key (sql_update c f t) = map key t"
  by (simp add: sql_update_def)

lemma find_key_sql_update [table_simps]:
  assumes "\<And>r. key (f r) = key r"
  shows "find (\<lambda>r. key r = k) (sql_update c f t) =
    map_option (\<lambda>r. if c r then f r else r) (find (\<lambda>r. key r = k) t)"
  using assms by (induction t) (auto simp: sql_update_def)

lemma find_key_Some_iff:
  "distinct (map key t) \<Longrightarrow> find (\<lambda>r. key r = k) t = Some r \<longleftrightarrow> r \<in> set t \<and> key r = k"
  by (induction t) (auto simp: image_iff)

lemma find_append_None: "find p xs = None \<Longrightarrow> find p (xs @ ys) = find p ys"
  by (induction xs) (auto split: if_splits)

lemma find_append_Some: "find p xs = Some x \<Longrightarrow> find p (xs @ ys) = Some x"
  by (induction xs) (auto split: if_splits)

lemma find_key_None_iff: "find (\<lambda>r. key r = k) t = None \<longleftrightarrow> (\<forall>r \<in> set t. key r \<noteq> k)"
  by (auto simp: find_None_iff)

text \<open>A WHERE clause that names a primary key affects at most one row.\<close>

lemma filter_key_unique:
  assumes "distinct (map key t)" and "\<And>r. c r \<Longrightarrow> key r = k"
  shows "filter c t = (case find (\<lambda>r. key r = k) t of None \<Rightarrow> [] | Some r \<Rightarrow> if c r then [r] else [])"
  using assms
proof (induction t)
  case Nil
  then show ?case by simp
next
  case (Cons x xs)
  have none: "filter c xs = []" if "key x = k"
    using that Cons.prems by (auto simp: filter_empty_conv image_iff)
  show ?case
    using Cons none by auto
qed

lemma sql_affected_key:
  assumes "distinct (map key t)" and "\<And>r. c r \<Longrightarrow> key r = k"
  shows "sql_affected c t =
    (case find (\<lambda>r. key r = k) t of None \<Rightarrow> 0 | Some r \<Rightarrow> if c r then 1 else 0)"
  using filter_key_unique [OF assms] by (simp add: sql_affected_def split: option.split)

lemma sql_affected_key_1:
  assumes "distinct (map key t)" and "\<And>r. c r \<Longrightarrow> key r = k"
  shows "sql_affected c t = 1 \<longleftrightarrow> (\<exists>r. find (\<lambda>r. key r = k) t = Some r \<and> c r)"
  using sql_affected_key [OF assms] by (simp split: option.split)

lemma filter_other_sql_update:
  assumes "\<And>r. c r \<Longrightarrow> \<not> p r" and "\<And>r. c r \<Longrightarrow> \<not> p (f r)"
  shows "filter p (sql_update c f t) = filter p t"
  using assms by (induction t) (auto simp: sql_update_def)

lemma filter_eq_length_le: "length (filter p xs) \<le> length (filter q xs)" if "\<And>x. p x \<Longrightarrow> q x"
  using that by (induction xs) auto


section \<open>Signed sums\<close>

lemma sint_plus_64:
  fixes x y :: "64 word"
  assumes "- (2 ^ 63) \<le> sint x + sint y" and "sint x + sint y < 2 ^ 63"
  shows "sint (x + y) = sint x + sint y"
  using assms by (simp add: sint_word_ariths signed_take_bit_int_eq_self)

lemma sint_sum_list:
  fixes xs :: "64 word list"
  assumes "\<forall>x \<in> set xs. 0 \<le> sint x" and "sum_list (map sint xs) < 2 ^ 63"
  shows "sint (sum_list xs) = sum_list (map sint xs)"
  using assms
proof (induction xs)
  case Nil
  then show ?case by simp
next
  case (Cons x xs)
  have "0 \<le> sum_list (map sint xs)" using Cons.prems(1) by (auto intro!: sum_list_nonneg)
  with Cons show ?case by (simp add: sint_plus_64)
qed


lemma sum_list_bounded:
  fixes xs :: "64 word list"
  assumes "\<And>x. x \<in> set xs \<Longrightarrow> 0 \<le> sint x \<and> int n * sint x < 2 ^ 63" and "length xs \<le> n"
  shows "sum_list (map sint xs) < 2 ^ 63"
proof (cases "xs = []")
  case False
  define m where "m = Max (sint ` set xs)"
  have m: "m \<in> sint ` set xs" unfolding m_def using False by (intro Max_in) auto
  have "sum_list (map sint xs) \<le> sum_list (map (\<lambda>_. m) xs)"
    by (rule sum_list_mono) (simp add: m_def)
  also have "\<dots> = int (length xs) * m" by (simp add: sum_list_triv)
  also have "\<dots> \<le> int n * m" using m assms by (intro mult_right_mono) auto
  also have "\<dots> < 2 ^ 63" using m assms(1) by auto
  finally show ?thesis .
qed simp

end
