(* ===== verification/Domain.thy ===== *)
theory Domain
  imports Prelude "HOL-Library.Signed_Division"
begin

text \<open>
  \<open>internal/domain\<close>: the sentinel errors and their wrapping, \<open>Money\<close>, the status enumerations
  and the entities.  Entities are records with the fields of the Go structs (a pointer field is
  an \<open>option\<close>); a UUID is its 128 bits, \<open>int64\<close> is a 64-bit word read by \<open>sint\<close>, an instant or a
  duration is a number of microseconds, the resolution of the \<open>TIMESTAMPTZ\<close> columns.
\<close>

type_synonym uuid = "128 word"
type_synonym time = int
type_synonym duration = int
type_synonym int64 = "64 word"

section \<open>Errors\<close>

text \<open>
  Every sentinel of the program is a constructor.  \<open>OpError\<close> is \<open>domain.Error\<close>, \<open>Wrap fmt e\<close> is
  \<open>fmt.Errorf(fmt, ..., e)\<close> with a \<open>%w\<close> verb: the format string is kept, its other arguments
  are not rendered.  \<open>PgErr code\<close> is a \<open>*pgconn.PgError\<close>, \<open>DriverErr\<close> any other failure of a
  driver or the network, \<open>ErrText\<close> an error made by \<open>errors.New\<close> or by \<open>fmt.Errorf\<close> without \<open>%w\<close>.
\<close>

datatype error =
    ErrNotFound | ErrConflict | ErrInvalidInput | ErrUnavailable | ErrExpired
  | ErrNotAdmitted | ErrRateLimited | ErrLockContention
  | ErrNotQueued | ErrLockNotAcquired
  | ErrInvalidCredentials | ErrWeakPassword | ErrRefreshExpired | ErrRefreshRevoked
  | ErrAccountInactive
  | PgErr string
  | DriverErr string
  | ErrText string
  | OpError string error
  | Wrap string error

text \<open>\<open>errors.Is(e, target)\<close> for a sentinel target: the \<open>Unwrap\<close> chain is followed.\<close>

fun errors_Is :: "error \<Rightarrow> error \<Rightarrow> bool" where
  "errors_Is (OpError op e) t = errors_Is e t"
| "errors_Is (Wrap fmt e) t = errors_Is e t"
| "errors_Is e t = (e = t)"

abbreviation NewError :: "string \<Rightarrow> error \<Rightarrow> error" where
  "NewError \<equiv> OpError"

text \<open>\<open>if err != nil { return fmt.Errorf(fmt, err) }\<close>\<close>

abbreviation wrapE :: "string \<Rightarrow> ('s, error, 'a) comp \<Rightarrow> ('s, error, 'a) comp" where
  "wrapE fmt \<equiv> mapErrE (Wrap fmt)"

section \<open>Decimal formatting\<close>

text \<open>The parts of \<open>fmt\<close> the program uses on integers: \<open>%d\<close> and \<open>%02d\<close>.\<close>

definition digit_char :: "nat \<Rightarrow> char" where
  "digit_char n = char_of (48 + n)"

fun nat_dec :: "nat \<Rightarrow> string" where
  "nat_dec n = (if n < 10 then [digit_char n] else nat_dec (n div 10) @ [digit_char (n mod 10)])"

declare nat_dec.simps [simp del]

definition fmt_d :: "int \<Rightarrow> string" where
  "fmt_d i = (if i < 0 then CHR ''-'' # nat_dec (nat (- i)) else nat_dec (nat i))"

definition fmt_02d :: "int \<Rightarrow> string" where
  "fmt_02d i = (let s = fmt_d i in if length s < 2 then CHR ''0'' # s else s)"

section \<open>Strings\<close>

text \<open>\<open>strings.Split\<close> on a one-byte separator, and \<open>strings.SplitN\<close> with a count of 2\<close>

fun strings_Split :: "char \<Rightarrow> string \<Rightarrow> string list" where
  "strings_Split c [] = [[]]"
| "strings_Split c (x # xs) =
    (if x = c then [] # strings_Split c xs
     else (case strings_Split c xs of [] \<Rightarrow> [[x]] | p # ps \<Rightarrow> (x # p) # ps))"

fun strings_SplitN2 :: "char \<Rightarrow> string \<Rightarrow> string list" where
  "strings_SplitN2 c s =
    (case dropWhile (\<lambda>x. x \<noteq> c) s of
      [] \<Rightarrow> [s]
    | _ # rest \<Rightarrow> [takeWhile (\<lambda>x. x \<noteq> c) s, rest])"

text \<open>\<open>strings.ToLower\<close> on ASCII text\<close>

definition ascii_lower :: "char \<Rightarrow> char" where
  "ascii_lower c = (let n = of_char c :: nat in if 65 \<le> n \<and> n \<le> 90 then char_of (n + 32) else c)"

definition strings_ToLower :: "string \<Rightarrow> string" where
  "strings_ToLower = map ascii_lower"

text \<open>\<open>%q\<close> on printable ASCII text\<close>

definition fmt_q :: "string \<Rightarrow> string" where
  "fmt_q s = CHR 0x22 # concat (map (\<lambda>c. if c = CHR 0x22 \<or> c = CHR 0x5C then [CHR 0x5C, c] else [c]) s)
    @ [CHR 0x22]"

section \<open>Conversion to \<open>float64\<close>\<close>

text \<open>\<open>float64(n)\<close> for an integer: 53 significant bits, rounded to nearest, ties to even.\<close>

fun bit_length :: "nat \<Rightarrow> nat" where
  "bit_length n = (if n = 0 then 0 else Suc (bit_length (n div 2)))"

declare bit_length.simps [simp del]

definition round_to_53 :: "nat \<Rightarrow> nat" where
  "round_to_53 n =
    (let e = bit_length n - 53; q = n div 2 ^ e; r = n mod 2 ^ e
     in if e = 0 then n
        else (if 2 ^ e < 2 * r \<or> (2 * r = 2 ^ e \<and> odd q) then q + 1 else q) * 2 ^ e)"

definition float64 :: "int \<Rightarrow> int" where
  "float64 i = (if i < 0 then - int (round_to_53 (nat (- i))) else int (round_to_53 (nat i)))"

section \<open>Money\<close>

record Money =
  Cents :: int64
  Currency :: string

definition NewMoney :: "int64 \<Rightarrow> string \<Rightarrow> error + Money" where
  "NewMoney cents currency =
    (if sint cents < 0 then
       Inl (NewError ''domain.NewMoney'' (Wrap ''%w: cents must be >= 0, got %d'' ErrInvalidInput))
     else if length currency \<noteq> 3 then
       Inl (NewError ''domain.NewMoney''
         (Wrap ''%w: currency must be a 3-letter ISO 4217 code, got %q'' ErrInvalidInput))
     else Inr \<lparr>Cents = cents, Currency = currency\<rparr>)"

definition Money_Add :: "Money \<Rightarrow> Money \<Rightarrow> error + Money" where
  "Money_Add m other =
    (if Currency m \<noteq> Currency other then
       Inl (NewError ''Money.Add'' (Wrap ''%w: currency mismatch %q vs %q'' ErrInvalidInput))
     else Inr \<lparr>Cents = Cents m + Cents other, Currency = Currency m\<rparr>)"

text \<open>\<open>/\<close> and \<open>%\<close> on \<open>int64\<close> truncate towards zero.\<close>

definition Money_String :: "Money \<Rightarrow> string" where
  "Money_String m =
    fmt_d (sint (Cents m) sdiv 100) @ ''.'' @ fmt_02d (sint (Cents m) smod 100) @ '' '' @ Currency m"

section \<open>Statuses\<close>

datatype EventStatus =
  EventStatusDraft | EventStatusScheduled | EventStatusOnSale | EventStatusSoldOut
  | EventStatusCompleted | EventStatusCancelled

datatype InventoryStatus =
  InventoryStatusAvailable | InventoryStatusHeld | InventoryStatusSold | InventoryStatusVoid

datatype OrderStatus =
  OrderStatusPending | OrderStatusAwaitingPayment | OrderStatusPaid | OrderStatusCancelled
  | OrderStatusExpired | OrderStatusRefunded

datatype PaymentProvider = PaymentProviderStripe | PaymentProviderAdyen

datatype PaymentStatus =
  PaymentStatusPending | PaymentStatusAuthorized | PaymentStatusCaptured | PaymentStatusFailed
  | PaymentStatusRefunded | PaymentStatusPartiallyRefunded

datatype TenantStatus = TenantStatusActive | TenantStatusSuspended | TenantStatusInactive

datatype UserStatus = UserStatusActive | UserStatusSuspended | UserStatusDeleted

datatype UserRole = UserRoleFan | UserRoleAdmin

datatype NotificationType = NotificationTypeOrderConfirmation

datatype NotificationStatus =
  NotificationStatusPending | NotificationStatusSent | NotificationStatusFailed

datatype SeatingType = SeatingTypeReserved | SeatingTypeGeneralAdmission

instantiation InventoryStatus :: enum
begin

definition enum_InventoryStatus :: "InventoryStatus list" where
  "enum_InventoryStatus =
    [InventoryStatusAvailable, InventoryStatusHeld, InventoryStatusSold, InventoryStatusVoid]"

definition enum_all_InventoryStatus :: "(InventoryStatus \<Rightarrow> bool) \<Rightarrow> bool" where
  "enum_all_InventoryStatus P \<longleftrightarrow>
    P InventoryStatusAvailable \<and> P InventoryStatusHeld \<and> P InventoryStatusSold
      \<and> P InventoryStatusVoid"

definition enum_ex_InventoryStatus :: "(InventoryStatus \<Rightarrow> bool) \<Rightarrow> bool" where
  "enum_ex_InventoryStatus P \<longleftrightarrow>
    P InventoryStatusAvailable \<or> P InventoryStatusHeld \<or> P InventoryStatusSold
      \<or> P InventoryStatusVoid"

instance
proof
  show "(UNIV :: InventoryStatus set) = set Enum.enum"
    by (auto simp: enum_InventoryStatus_def intro: InventoryStatus.exhaust)
  show "distinct (Enum.enum :: InventoryStatus list)"
    by (simp add: enum_InventoryStatus_def)
  show "Enum.enum_all P \<longleftrightarrow> Ball UNIV P" for P :: "InventoryStatus \<Rightarrow> bool"
    by (auto simp: enum_all_InventoryStatus_def) (metis InventoryStatus.exhaust)
  show "Enum.enum_ex P \<longleftrightarrow> Bex UNIV P" for P :: "InventoryStatus \<Rightarrow> bool"
    by (auto simp: enum_ex_InventoryStatus_def) (metis InventoryStatus.exhaust)
qed

end

section \<open>Entities\<close>

record SeatCategory =
  sc_ID :: uuid
  sc_TenantID :: uuid
  sc_Name :: string
  sc_Color :: string
  sc_CreatedAt :: time
  sc_UpdatedAt :: time

record Event =
  ev_ID :: uuid
  ev_TenantID :: uuid
  ev_VenueID :: uuid
  ev_Name :: string
  ev_Competition :: string
  ev_HomeTeam :: string
  ev_AwayTeam :: string
  ev_StartsAt :: time
  ev_DoorsOpenAt :: "time option"
  ev_SalesStartAt :: time
  ev_SalesEndAt :: time
  ev_Status :: EventStatus
  ev_CreatedAt :: time
  ev_UpdatedAt :: time

definition IsOnSale :: "Event \<Rightarrow> time \<Rightarrow> bool" where
  "IsOnSale e now \<longleftrightarrow>
    ev_Status e = EventStatusOnSale \<and> \<not> now < ev_SalesStartAt e \<and> now < ev_SalesEndAt e"

record EventTicketCategory =
  etc_ID :: uuid
  etc_TenantID :: uuid
  etc_EventID :: uuid
  etc_SeatCategoryID :: uuid
  etc_Price :: Money
  etc_MaxPerOrder :: int
  etc_CreatedAt :: time
  etc_UpdatedAt :: time

record EventFilter =
  ef_TenantID :: uuid
  ef_Status :: "EventStatus option"
  ef_VenueID :: "uuid option"
  ef_From :: "time option"
  ef_To :: "time option"

record EventSeatInventory =
  inv_ID :: uuid
  inv_TenantID :: uuid
  inv_EventID :: uuid
  inv_CategoryID :: uuid
  inv_SeatID :: "uuid option"
  inv_Status :: InventoryStatus
  inv_HoldToken :: "uuid option"
  inv_HeldByUserID :: "uuid option"
  inv_HoldExpiresAt :: "time option"
  inv_CreatedAt :: time
  inv_UpdatedAt :: time

record InventoryCounts =
  Available :: int
  Held :: int
  Sold :: int
  Void :: int

record Order =
  ord_ID :: uuid
  ord_TenantID :: uuid
  ord_UserID :: uuid
  ord_Status :: OrderStatus
  ord_IdempotencyKey :: string
  ord_Subtotal :: Money
  ord_Fees :: Money
  ord_Total :: Money
  ord_ExpiresAt :: "time option"
  ord_CreatedAt :: time
  ord_UpdatedAt :: time

record OrderItem =
  oi_ID :: uuid
  oi_TenantID :: uuid
  oi_OrderID :: uuid
  oi_InventoryID :: uuid
  oi_HoldToken :: uuid
  oi_UnitPrice :: Money
  oi_CreatedAt :: time

record Payment =
  pay_ID :: uuid
  pay_TenantID :: uuid
  pay_OrderID :: uuid
  pay_Provider :: PaymentProvider
  pay_ProviderPaymentID :: string
  pay_Status :: PaymentStatus
  pay_Amount :: Money
  pay_IdempotencyKey :: string
  pay_RawResponse :: "string option"
  pay_CreatedAt :: time
  pay_UpdatedAt :: time

text \<open>
  \<open>map[string]any\<close> of a notification or of a tenant's branding: the values the program stores
  are strings and integers.  After the round trip through the JSONB column every number is a
  \<open>float64\<close>; \<open>AnyFloat n\<close> is the \<open>float64\<close> nearest to the integer \<open>n\<close>.
\<close>

datatype any = AnyString string | AnyInt int | AnyFloat int

record Notification =
  n_ID :: uuid
  n_TenantID :: uuid
  n_UserID :: uuid
  n_Type :: NotificationType
  n_Payload :: "(string \<times> any) list"
  n_Status :: NotificationStatus
  n_Attempts :: int
  n_LastError :: "error option"
  n_CreatedAt :: time
  n_SentAt :: "time option"

record EmailMessage =
  em_To :: string
  em_Subject :: string
  em_Body :: string

record Tenant =
  t_ID :: uuid
  t_Slug :: string
  t_Name :: string
  t_Sport :: string
  t_Status :: TenantStatus
  t_ContactEmail :: string
  t_Branding :: "(string \<times> any) list"
  t_CreatedAt :: time
  t_UpdatedAt :: time

record User =
  u_ID :: uuid
  u_Email :: string
  u_Phone :: string
  u_PasswordHash :: string
  u_FirstName :: string
  u_LastName :: string
  u_Status :: UserStatus
  u_Role :: UserRole
  u_TenantID :: "uuid option"
  u_EmailVerifiedAt :: "time option"
  u_CreatedAt :: time
  u_UpdatedAt :: time

record RefreshToken =
  rt_ID :: uuid
  rt_UserID :: uuid
  rt_TokenHash :: string
  rt_UserAgent :: string
  rt_IPAddress :: string
  rt_ExpiresAt :: time
  rt_RevokedAt :: "time option"
  rt_CreatedAt :: time

record Venue =
  v_ID :: uuid
  v_TenantID :: uuid
  v_Name :: string
  v_Address :: string
  v_City :: string
  v_Country :: string
  v_Timezone :: string
  v_Capacity :: "int option"
  v_CreatedAt :: time
  v_UpdatedAt :: time

record VenueSection =
  vs_ID :: uuid
  vs_TenantID :: uuid
  vs_VenueID :: uuid
  vs_Name :: string
  vs_Code :: string
  vs_SeatingType :: SeatingType
  vs_Capacity :: int
  vs_CreatedAt :: time
  vs_UpdatedAt :: time

record Seat =
  seat_ID :: uuid
  seat_TenantID :: uuid
  seat_SectionID :: uuid
  seat_RowLabel :: string
  seat_SeatNumber :: string
  seat_IsAccessible :: bool
  seat_CreatedAt :: time

section \<open>Facts\<close>

lemma errors_Is_Wrap_iff [simp]: "errors_Is (Wrap fmt e) t \<longleftrightarrow> errors_Is e t"
  by simp

lemma digit_char_inj: "m < 10 \<Longrightarrow> n < 10 \<Longrightarrow> digit_char m = digit_char n \<Longrightarrow> m = n"
  by (auto simp: digit_char_def char_of_eq_iff take_bit_nat_eq_self
      dest: arg_cong [where f = "of_char :: char \<Rightarrow> nat"])

lemma nat_dec_nonempty [simp]: "nat_dec n \<noteq> []"
  by (subst nat_dec.simps) simp

lemma nat_dec_last: "last (nat_dec n) = digit_char (n mod 10)"
  by (subst nat_dec.simps) simp

lemma nat_dec_butlast: "butlast (nat_dec n) = (if n < 10 then [] else nat_dec (n div 10))"
  by (subst nat_dec.simps) simp

lemma nat_dec_inj: "nat_dec m = nat_dec n \<Longrightarrow> m = n"
proof (induction m arbitrary: n rule: nat_dec.induct)
  case (1 m)
  have last: "m mod 10 = n mod 10"
    using nat_dec_last [of m] nat_dec_last [of n] "1.prems" digit_char_inj [of "m mod 10" "n mod 10"]
    by simp
  have but: "(if m < 10 then [] else nat_dec (m div 10)) = (if n < 10 then [] else nat_dec (n div 10))"
    using nat_dec_butlast [of m] nat_dec_butlast [of n] "1.prems" by simp
  show ?case
  proof (cases "m < 10")
    case True
    with but last show ?thesis by (auto split: if_splits dest: sym)
  next
    case False
    with but have n: "\<not> n < 10" and eq: "nat_dec (m div 10) = nat_dec (n div 10)"
      by (auto split: if_splits)
    from False eq have "m div 10 = n div 10" by (rule "1.IH")
    with last show ?thesis by (metis div_mod_decomp)
  qed
qed

lemma strings_Split_nonempty [simp]: "strings_Split c s \<noteq> []"
  by (induction s) (auto split: list.split)

text \<open>Splitting undoes joining with the separator.\<close>

lemma strings_Split_none: "c \<notin> set p \<Longrightarrow> strings_Split c p = [p]"
  by (induction p) auto

lemma strings_Split_append: "c \<notin> set p \<Longrightarrow> strings_Split c (p @ c # s) = p # strings_Split c s"
  by (induction p) auto

lemma strings_SplitN2_append: "c \<notin> set k \<Longrightarrow> strings_SplitN2 c (k @ c # v) = [k, v]"
  by (simp add: dropWhile_append takeWhile_append)

lemma bit_length_le: "n < 2 ^ k \<Longrightarrow> bit_length n \<le> k"
proof (induction k arbitrary: n)
  case 0
  then show ?case by (simp add: bit_length.simps)
next
  case (Suc k)
  then have "bit_length (n div 2) \<le> k" by (intro Suc.IH) simp
  then show ?case by (subst bit_length.simps) simp
qed

lemma float64_exact:
  assumes "0 \<le> i" and "i < 2 ^ 53"
  shows "float64 i = i"
proof -
  have "nat i < 2 ^ 53" using assms by (simp add: nat_less_iff)
  then have "bit_length (nat i) - 53 = 0" using bit_length_le [of "nat i" 53] by simp
  with assms show ?thesis by (simp add: float64_def round_to_53_def)
qed

lemma Money_eta [simp]: "\<lparr>Cents = Cents m, Currency = Currency m\<rparr> = m"
  by (cases m) simp

lemma sint64_range: "- (2 ^ 63) \<le> sint (a :: int64)" "sint (a :: int64) < 2 ^ 63"
  using sint_range_size [of a] by (simp_all add: word_size)

lemma sint64_add_exact:
  fixes a b :: int64
  assumes "- (2 ^ 63) \<le> sint a + sint b" and "sint a + sint b < 2 ^ 63"
  shows "sint (a + b) = sint a + sint b"
  using assms by (simp add: sint_word_ariths signed_take_bit_int_eq_self)

end
