(* ===== verification/StdCrypto.thy ===== *)
theory StdCrypto
  imports Domain
begin

text \<open>
  The parts of Go's standard library the program uses on bytes: \<open>crypto/sha256\<close> (FIPS 180-4),
  \<open>crypto/hmac\<close> over it (RFC 2104), \<open>encoding/hex\<close> and \<open>base64.RawURLEncoding\<close> (RFC 4648).  A byte
  string is a \<open>string\<close>, one character per byte.
\<close>

unbundle bit_operations_syntax

type_synonym u32 = "32 word"

section \<open>Bytes\<close>

definition byte :: "nat \<Rightarrow> char" where
  "byte n = char_of n"

text \<open>big-endian bytes of a word\<close>

definition be32 :: "u32 \<Rightarrow> string" where
  "be32 x = map (\<lambda>i. byte (unat (drop_bit (8 * i) x) mod 256)) [3, 2, 1, 0]"

definition be64 :: "nat \<Rightarrow> string" where
  "be64 n = map (\<lambda>i. byte (n div 256 ^ i mod 256)) [7, 6, 5, 4, 3, 2, 1, 0]"

fun words32 :: "string \<Rightarrow> u32 list" where
  "words32 (a # b # c # d # rest) =
    word_of_nat (((of_char a * 256 + of_char b) * 256 + of_char c) * 256 + of_char d) # words32 rest"
| "words32 _ = []"

text \<open>a list in chunks of \<open>Suc n\<close>, the last one possibly shorter\<close>

function chunks :: "nat \<Rightarrow> 'a list \<Rightarrow> 'a list list" where
  "chunks n [] = []"
| "chunks n (x # xs) = take (Suc n) (x # xs) # chunks n (drop (Suc n) (x # xs))"
  by pat_completeness auto

termination chunks
  by (relation "measure (length \<circ> snd)") auto

section \<open>SHA-256\<close>

text \<open>The first 32 bits of the fractional parts of the cube roots of the first 64 primes, and of the
  square roots of the first 8.\<close>

definition sha256_K :: "u32 list" where
  "sha256_K = [
    1116352408, 1899447441, 3049323471, 3921009573, 961987163, 1508970993, 2453635748, 2870763221,
    3624381080, 310598401, 607225278, 1426881987, 1925078388, 2162078206, 2614888103, 3248222580,
    3835390401, 4022224774, 264347078, 604807628, 770255983, 1249150122, 1555081692, 1996064986,
    2554220882, 2821834349, 2952996808, 3210313671, 3336571891, 3584528711, 113926993, 338241895,
    666307205, 773529912, 1294757372, 1396182291, 1695183700, 1986661051, 2177026350, 2456956037,
    2730485921, 2820302411, 3259730800, 3345764771, 3516065817, 3600352804, 4094571909, 275423344,
    430227734, 506948616, 659060556, 883997877, 958139571, 1322822218, 1537002063, 1747873779,
    1955562222, 2024104815, 2227730452, 2361852424, 2428436474, 2756734187, 3204031479, 3329325298]"

definition sha256_init :: "u32 list" where
  "sha256_init = [1779033703, 3144134277, 1013904242, 2773480762,
    1359893119, 2600822924, 528734635, 1541459225]"

definition sha_Ch :: "u32 \<Rightarrow> u32 \<Rightarrow> u32 \<Rightarrow> u32" where
  "sha_Ch x y z = (x AND y) XOR (NOT x AND z)"

definition sha_Maj :: "u32 \<Rightarrow> u32 \<Rightarrow> u32 \<Rightarrow> u32" where
  "sha_Maj x y z = (x AND y) XOR (x AND z) XOR (y AND z)"

definition sha_S0 :: "u32 \<Rightarrow> u32" where
  "sha_S0 x = word_rotr 2 x XOR word_rotr 13 x XOR word_rotr 22 x"

definition sha_S1 :: "u32 \<Rightarrow> u32" where
  "sha_S1 x = word_rotr 6 x XOR word_rotr 11 x XOR word_rotr 25 x"

definition sha_s0 :: "u32 \<Rightarrow> u32" where
  "sha_s0 x = word_rotr 7 x XOR word_rotr 18 x XOR drop_bit 3 x"

definition sha_s1 :: "u32 \<Rightarrow> u32" where
  "sha_s1 x = word_rotr 17 x XOR word_rotr 19 x XOR drop_bit 10 x"

definition sha_pad :: "string \<Rightarrow> string" where
  "sha_pad m = m @ byte 128 # replicate ((119 - length m mod 64) mod 64) (byte 0) @ be64 (8 * length m)"

text \<open>The message schedule, the latest word first, extended by \<open>n\<close> words.\<close>

primrec sha_extend :: "nat \<Rightarrow> u32 list \<Rightarrow> u32 list" where
  "sha_extend 0 ws = ws"
| "sha_extend (Suc n) ws =
    sha_extend n ((sha_s1 (ws ! 1) + ws ! 6 + sha_s0 (ws ! 14) + ws ! 15) # ws)"

definition sha_schedule :: "u32 list \<Rightarrow> u32 list" where
  "sha_schedule block = rev (sha_extend 48 (rev block))"

fun sha_round :: "u32 \<times> u32 \<Rightarrow> u32 list \<Rightarrow> u32 list" where
  "sha_round (k, w) [a, b, c, d, e, f, g, h] =
    (let t1 = h + sha_S1 e + sha_Ch e f g + k + w; t2 = sha_S0 a + sha_Maj a b c
     in [t1 + t2, a, b, c, d + t1, e, f, g])"
| "sha_round _ s = s"

definition sha_block :: "u32 list \<Rightarrow> u32 list \<Rightarrow> u32 list" where
  "sha_block block s = map2 (+) s (fold sha_round (zip sha256_K (sha_schedule block)) s)"

definition sha256_Sum256 :: "string \<Rightarrow> string" where
  "sha256_Sum256 m = concat (map be32 (fold sha_block (chunks 15 (words32 (sha_pad m))) sha256_init))"

section \<open>HMAC\<close>

definition xor_byte :: "nat \<Rightarrow> char \<Rightarrow> char" where
  "xor_byte n c = byte (n XOR of_char c)"

definition hmac_sha256 :: "string \<Rightarrow> string \<Rightarrow> string" where
  "hmac_sha256 key m =
    (let k = if 64 < length key then sha256_Sum256 key else key;
         k0 = k @ replicate (64 - length k) (byte 0)
     in sha256_Sum256 (map (xor_byte 0x5c) k0 @ sha256_Sum256 (map (xor_byte 0x36) k0 @ m)))"

section \<open>Text encodings\<close>

definition hex_digit :: "nat \<Rightarrow> char" where
  "hex_digit n = ''0123456789abcdef'' ! n"

definition hex_EncodeToString :: "string \<Rightarrow> string" where
  "hex_EncodeToString bs = concat (map (\<lambda>c. [hex_digit (of_char c div 16), hex_digit (of_char c mod 16)]) bs)"

definition base64_digit :: "nat \<Rightarrow> char" where
  "base64_digit n = ''ABCDEFGHIJKLMNOPQRSTUVWXYZabcdefghijklmnopqrstuvwxyz0123456789-_'' ! n"

fun base64_RawURL :: "string \<Rightarrow> string" where
  "base64_RawURL (a # b # c # rest) =
    (let n = (of_char a * 256 + of_char b) * 256 + of_char c :: nat
     in base64_digit (n div 262144) # base64_digit (n div 4096 mod 64) #
        base64_digit (n div 64 mod 64) # base64_digit (n mod 64) # base64_RawURL rest)"
| "base64_RawURL [a, b] =
    (let n = of_char a * 256 + of_char b :: nat
     in [base64_digit (n div 1024), base64_digit (n div 16 mod 64), base64_digit (n mod 16 * 4)])"
| "base64_RawURL [a] =
    (let n = of_char a :: nat in [base64_digit (n div 4), base64_digit (n mod 4 * 16)])"
| "base64_RawURL [] = []"

section \<open>Facts\<close>

text \<open>Hexadecimal text has no comma in it, which separates the parts of a signature header.\<close>

lemma hex_no_comma: "CHR '','' \<notin> set (hex_EncodeToString bs)"
proof -
  have digit: "hex_digit n \<noteq> CHR '',''" if "n < 16" for n
  proof -
    have "hex_digit n \<in> set ''0123456789abcdef''"
      using that unfolding hex_digit_def by (intro nth_mem) simp
    then show ?thesis by auto
  qed
  have "(of_char c :: nat) div 16 < 16" for c :: char
    using nat_of_char_less_256 [of c] by (simp add: less_mult_imp_div_less)
  with digit have "hex_digit (of_char c div 16) \<noteq> CHR '',''" "hex_digit (of_char c mod 16) \<noteq> CHR '',''" for c :: char
    by simp_all
  then show ?thesis by (induction bs) (simp_all add: hex_EncodeToString_def eq_commute [of "CHR '',''"])
qed

lemma length_hex [simp]: "length (hex_EncodeToString bs) = 2 * length bs"
  by (induction bs) (simp_all add: hex_EncodeToString_def)

lemma length_fold_sha_round:
  "length s = 8 \<Longrightarrow> length (fold sha_round xs s) = 8"
proof (induction xs arbitrary: s)
  case (Cons x xs)
  then obtain a b c d e f g h where "s = [a, b, c, d, e, f, g, h]"
    by (auto simp: eval_nat_numeral length_Suc_conv)
  then have "length (sha_round x s) = 8" by (cases x) (simp add: Let_def)
  with Cons.IH show ?case by simp
qed simp

lemma length_fold_sha_block: "length s = 8 \<Longrightarrow> length (fold sha_block bs s) = 8"
  by (induction bs arbitrary: s) (simp_all add: sha_block_def length_fold_sha_round)

lemma length_sha256: "length (sha256_Sum256 m) = 32"
proof -
  have be: "length (be32 x) = 4" for x by (simp add: be32_def)
  have "length (concat (map be32 ws)) = 4 * length ws" for ws
    by (induction ws) (simp_all add: be)
  then show ?thesis
    by (simp add: sha256_Sum256_def length_fold_sha_block sha256_init_def)
qed

lemma length_hmac: "length (hmac_sha256 key m) = 32"
  by (simp add: hmac_sha256_def Let_def length_sha256)

end
