(* ===== verification/World.thy ===== *)
theory World
  imports StdCrypto
begin

text \<open>
  The world the program acts on and the ways it reaches it.

  \<^item> The database of \<open>migrations/\<close> is a record of tables.  Its SQL statements are translated in
    the repository theories; here is how a statement is issued (\<open>pg_stmt\<close>) and how a group of
    them is made one transaction (\<open>WithTx\<close>, \<open>internal/repository/postgres/tx.go\<close>).
  \<^item> Redis is a keyspace and the commands the program sends to it.  The commands belong to the
    Redis server, which is not part of the repository: they are an argument of the model.
    \<open>redis_server\<close> states what the server documents of them.
  \<^item> What the program cannot choose comes from the environment \<open>E\<close>, one answer per external
    call: the clocks, the UUIDs \<open>uuid.New\<close> draws, the bytes of \<open>crypto/rand\<close>, whether a statement
    reaches Postgres, what becomes of a COMMIT, what Stripe and the mail server answer, and what
    the packages for bcrypt, JSON web tokens, UUID text and Postgres' \<open>inet\<close> compute.  \<open>tick\<close> counts the external calls made so far, so each call can be
    given its own answer.
\<close>

section \<open>The database\<close>

record AuditEntry =
  al_TenantID :: uuid
  al_InventoryID :: uuid
  al_PreviousStatus :: "InventoryStatus option"
  al_NewStatus :: InventoryStatus
  al_HoldToken :: "uuid option"
  al_HeldByUserID :: "uuid option"
  al_ChangedAt :: time

record database =
  tenants :: "Tenant list"
  users :: "User list"
  refresh_tokens :: "RefreshToken list"
  venues :: "Venue list"
  venue_sections :: "VenueSection list"
  seats :: "Seat list"
  seat_categories :: "SeatCategory list"
  events :: "Event list"
  event_ticket_categories :: "EventTicketCategory list"
  event_seat_inventory :: "EventSeatInventory list"
  inventory_audit_log :: "AuditEntry list"
  orders :: "Order list"
  order_items :: "OrderItem list"
  payments :: "Payment list"
  notifications :: "Notification list"

definition empty_db :: database where
  "empty_db = \<lparr>tenants = [], users = [], refresh_tokens = [], venues = [], venue_sections = [],
    seats = [], seat_categories = [], events = [], event_ticket_categories = [],
    event_seat_inventory = [], inventory_audit_log = [], orders = [], order_items = [],
    payments = [], notifications = []\<rparr>"

text \<open>SQLSTATE codes; the first two are the constants of \<open>postgres/errors.go\<close>.\<close>

definition pgCodeUniqueViolation :: string where
  "pgCodeUniqueViolation = ''23505''"

definition pgCodeForeignKeyViolation :: string where
  "pgCodeForeignKeyViolation = ''23503''"

definition pgCodeCheckViolation :: string where
  "pgCodeCheckViolation = ''23514''"

fun pgErrorCode :: "error \<Rightarrow> string" where
  "pgErrorCode (PgErr code) = code"
| "pgErrorCode (OpError op e) = pgErrorCode e"
| "pgErrorCode (Wrap fmt e) = pgErrorCode e"
| "pgErrorCode _ = ''''"

section \<open>Redis\<close>

datatype rval = RStr string | RInt int | RZSet "(string \<times> int) list"

text \<open>A key maps to its value and the instant it expires, if it has a TTL.\<close>

type_synonym keyspace = "string \<Rightarrow> (rval \<times> time option) option"

text \<open>
  The commands the program sends.  Each takes the number of the call, so that a command may
  fail at one call and not at another.  \<open>r_eval\<close> runs a Lua script, whose own calls are
  \<open>r_GET\<close> and \<open>r_DEL\<close>; \<open>r_pipeline_set\<close> executes a pipeline of SETs.
\<close>

record redis_cmds =
  r_now :: "nat \<Rightarrow> time"
  r_setnx :: "nat \<Rightarrow> string \<Rightarrow> string \<Rightarrow> duration \<Rightarrow> keyspace \<Rightarrow> (error + bool) \<times> keyspace"
  r_incr :: "nat \<Rightarrow> string \<Rightarrow> keyspace \<Rightarrow> (error + int) \<times> keyspace"
  r_expire :: "nat \<Rightarrow> string \<Rightarrow> duration \<Rightarrow> keyspace \<Rightarrow> (error + unit) \<times> keyspace"
  r_exists :: "nat \<Rightarrow> string \<Rightarrow> keyspace \<Rightarrow> (error + int) \<times> keyspace"
  r_zaddnx :: "nat \<Rightarrow> string \<Rightarrow> int \<Rightarrow> string \<Rightarrow> keyspace \<Rightarrow> (error + unit) \<times> keyspace"
  r_zrank :: "nat \<Rightarrow> string \<Rightarrow> string \<Rightarrow> keyspace \<Rightarrow> (error + int option) \<times> keyspace"
  r_zcard :: "nat \<Rightarrow> string \<Rightarrow> keyspace \<Rightarrow> (error + int) \<times> keyspace"
  r_zpopmin :: "nat \<Rightarrow> string \<Rightarrow> int \<Rightarrow> keyspace \<Rightarrow> (error + (string \<times> int) list) \<times> keyspace"
  r_eval :: "nat \<Rightarrow> (keyspace \<Rightarrow> int \<times> keyspace) \<Rightarrow> keyspace \<Rightarrow> (error + int) \<times> keyspace"
  r_GET :: "nat \<Rightarrow> string \<Rightarrow> keyspace \<Rightarrow> string option"
  r_DEL :: "nat \<Rightarrow> string \<Rightarrow> keyspace \<Rightarrow> int \<times> keyspace"
  r_pipeline_set ::
    "nat \<Rightarrow> (string \<times> string \<times> duration) list \<Rightarrow> keyspace \<Rightarrow> (error + unit) \<times> keyspace"

section \<open>The environment and the world\<close>

datatype commit_outcome = Committed | CommitRejected | CommitReplyLost

text \<open>A POST to Stripe's API, and what comes of it once the body is read and decoded.\<close>

record stripe_request =
  sr_path :: string
  sr_form :: "(string \<times> string) list"
  sr_secretKey :: string
  sr_IdempotencyKey :: "string option"

datatype stripe_reply =
    StripeUnreachable
  | StripeBodyUnreadable
  | StripeBadJSON
  | StripeReply (reply_status: int) (reply_id: string) (reply_client_secret: string)
      (reply_error: "(string \<times> string) option")

text \<open>The payload of an access token (\<open>internal/service/auth\<close>).\<close>

record Claims =
  cl_Subject :: string
  cl_IssuedAt :: time
  cl_ExpiresAt :: time
  cl_Role :: string
  cl_TenantID :: string

text \<open>What \<open>SMTPSender\<close> hands to \<open>smtp.SendMail\<close>.\<close>

record smtp_mail =
  sm_addr :: string
  sm_username :: string
  sm_password :: string
  sm_from :: string
  sm_to :: "string list"
  sm_msg :: string

record env =
  e_now :: "nat \<Rightarrow> time"
  e_pg_now :: "nat \<Rightarrow> time"
  e_uuid :: "nat \<Rightarrow> uuid"
  e_uuid_String :: "uuid \<Rightarrow> string"
  e_uuid_Parse :: "string \<Rightarrow> uuid option"
  e_pg_fault :: "nat \<Rightarrow> bool"
  e_commit :: "nat \<Rightarrow> commit_outcome"
  e_redis :: redis_cmds
  e_stripe :: "nat \<Rightarrow> stripe_request \<Rightarrow> stripe_reply"
  e_inet :: "string \<Rightarrow> string option"
  e_rand :: "nat \<Rightarrow> error + string"
  e_bcrypt_hash :: "nat \<Rightarrow> string \<Rightarrow> error + string"
  e_bcrypt_ok :: "string \<Rightarrow> string \<Rightarrow> bool"
  e_jwt_sign :: "string \<Rightarrow> Claims \<Rightarrow> error + string"
  e_jwt_parse :: "string \<Rightarrow> time \<Rightarrow> string \<Rightarrow> error + Claims \<times> bool"
  e_smtp :: "nat \<Rightarrow> smtp_mail \<Rightarrow> error option"
  e_redis_ping :: "nat \<Rightarrow> bool"

text \<open>
  What the process asked its payment provider to do, in order, whatever the answer.  The program
  keeps no such list; it is the record of the calls it makes at the \<open>domain.PaymentGateway\<close>
  interface.
\<close>

datatype gateway_call = IntentRequested Money string | RefundRequested string Money

record world =
  db :: database
  ks :: keyspace
  tick :: nat
  tx_now :: "time option"
  mock_intents :: "string list"
  gateway_calls :: "gateway_call list"
  console_sent :: "EmailMessage list"

type_synonym 'a op = "(world, error, 'a) comp"

definition time_Now :: "env \<Rightarrow> time op" where
  "time_Now E = (\<lambda>w. (Inr (e_now E (tick w)), w\<lparr>tick := Suc (tick w)\<rparr>))"

definition uuid_New :: "env \<Rightarrow> uuid op" where
  "uuid_New E = (\<lambda>w. (Inr (e_uuid E (tick w)), w\<lparr>tick := Suc (tick w)\<rparr>))"

text \<open>\<open>if x.ID == uuid.Nil { x.ID = uuid.New() }\<close>\<close>

definition id_or_New :: "env \<Rightarrow> uuid \<Rightarrow> uuid op" where
  "id_or_New E i = (if i = 0 then uuid_New E else returnE i)"

text \<open>
  One statement: \<open>f now d\<close> is its effect on the database \<open>d\<close> when SQL's \<open>now()\<close> is \<open>now\<close>, or the
  SQLSTATE it is refused with.  A statement is atomic: refused, it leaves the database as it was.
  Inside a transaction \<open>now()\<close> is the instant the transaction began.
\<close>

definition pg_now :: "env \<Rightarrow> world \<Rightarrow> time" where
  "pg_now E w = (case tx_now w of None \<Rightarrow> e_pg_now E (tick w) | Some t \<Rightarrow> t)"

definition pg_stmt :: "env \<Rightarrow> (time \<Rightarrow> database \<Rightarrow> string + ('a \<times> database)) \<Rightarrow> 'a op" where
  "pg_stmt E f = (\<lambda>w.
    if e_pg_fault E (tick w) then (Inl (DriverErr ''postgres''), w\<lparr>tick := Suc (tick w)\<rparr>)
    else case f (pg_now E w) (db w) of
      Inl code \<Rightarrow> (Inl (PgErr code), w\<lparr>tick := Suc (tick w)\<rparr>)
    | Inr (x, d') \<Rightarrow> (Inr x, w\<lparr>tick := Suc (tick w), db := d'\<rparr>))"

text \<open>a SELECT: it reads the database and changes nothing\<close>

definition pg_query :: "env \<Rightarrow> (database \<Rightarrow> 'a) \<Rightarrow> 'a op" where
  "pg_query E q = pg_stmt E (\<lambda>now d. Inr (q d, d))"

definition redis_call ::
  "env \<Rightarrow> (redis_cmds \<Rightarrow> nat \<Rightarrow> keyspace \<Rightarrow> (error + 'a) \<times> keyspace) \<Rightarrow> 'a op" where
  "redis_call E c = (\<lambda>w. case c (e_redis E) (tick w) (ks w) of
     (r, k) \<Rightarrow> (r, w\<lparr>tick := Suc (tick w), ks := k\<rparr>))"

text \<open>
  \<open>WithTx\<close>: BEGIN, the body, then COMMIT, or ROLLBACK when the body returns an error.  A rollback
  restores the database and nothing else.  A COMMIT may be applied although its reply is lost.
\<close>

definition WithTx :: "env \<Rightarrow> 'a op \<Rightarrow> 'a op" where
  "WithTx E fn = (\<lambda>w.
    if e_pg_fault E (tick w) then
      (Inl (Wrap ''postgres: begin tx: %w'' (DriverErr ''postgres'')), w\<lparr>tick := Suc (tick w)\<rparr>)
    else case fn (w\<lparr>tick := Suc (tick w), tx_now := Some (e_pg_now E (tick w))\<rparr>) of
      (Inl e, w') \<Rightarrow> (Inl e, w'\<lparr>db := db w, tx_now := tx_now w\<rparr>)
    | (Inr x, w') \<Rightarrow>
        (case e_commit E (tick w') of
          Committed \<Rightarrow> (Inr x, w'\<lparr>tick := Suc (tick w'), tx_now := tx_now w\<rparr>)
        | CommitRejected \<Rightarrow>
            (Inl (DriverErr ''commit''),
              w'\<lparr>tick := Suc (tick w'), tx_now := tx_now w, db := db w\<rparr>)
        | CommitReplyLost \<Rightarrow>
            (Inl (DriverErr ''commit''), w'\<lparr>tick := Suc (tick w'), tx_now := tx_now w\<rparr>)))"

text \<open>An INSERT whose row passes the CHECKs, the unique keys and the foreign keys, in this order.\<close>

definition pg_insert :: "bool \<Rightarrow> bool \<Rightarrow> bool \<Rightarrow> database \<Rightarrow> string + (unit \<times> database)" where
  "pg_insert check unique refs d' =
    (if \<not> check then Inl pgCodeCheckViolation
     else if \<not> unique then Inl pgCodeUniqueViolation
     else if \<not> refs then Inl pgCodeForeignKeyViolation
     else Inr ((), d'))"

text \<open>
  Idioms of the repositories: a unique violation becomes \<open>domain.ErrConflict\<close>; a row that is not
  there becomes \<open>domain.ErrNotFound\<close>, and so does an UPDATE that affects no row.
\<close>

definition conflictE :: "string \<Rightarrow> string \<Rightarrow> 'a op \<Rightarrow> 'a op" where
  "conflictE opn fmt = mapErrE (\<lambda>err.
    if pgErrorCode err = pgCodeUniqueViolation then NewError opn ErrConflict else Wrap fmt err)"

definition QueryRow :: "env \<Rightarrow> string \<Rightarrow> string \<Rightarrow> (database \<Rightarrow> 'r option) \<Rightarrow> 'r op" where
  "QueryRow E opn fmt q =
    bindE (wrapE fmt (pg_query E q)) (\<lambda>row.
      case row of None \<Rightarrow> throwE (NewError opn ErrNotFound) | Some r \<Rightarrow> returnE r)"

definition ExecUpdate ::
  "env \<Rightarrow> string \<Rightarrow> string \<Rightarrow> (time \<Rightarrow> database \<Rightarrow> string + (nat \<times> database)) \<Rightarrow> unit op" where
  "ExecUpdate E opn fmt f =
    bindE (wrapE fmt (pg_stmt E f)) (\<lambda>n.
      if n = 0 then throwE (NewError opn ErrNotFound) else returnE ())"

text \<open>An environment in which Postgres answers every call.\<close>

definition pg_healthy :: "env \<Rightarrow> bool" where
  "pg_healthy E \<longleftrightarrow> (\<forall>n. \<not> e_pg_fault E n \<and> e_commit E n = Committed)"

section \<open>Facts\<close>

lemma run_time_Now [run_simps]: "time_Now E w = (Inr (e_now E (tick w)), w\<lparr>tick := Suc (tick w)\<rparr>)"
  by (simp add: time_Now_def)

lemma run_uuid_New [run_simps]: "uuid_New E w = (Inr (e_uuid E (tick w)), w\<lparr>tick := Suc (tick w)\<rparr>)"
  by (simp add: uuid_New_def)

lemma id_or_New_frame: "id_or_New E x w = (r, w') \<Longrightarrow> db w' = db w \<and> tx_now w' = tx_now w"
  by (auto simp: id_or_New_def run_uuid_New run_returnE split: if_splits)

lemma run_pg_query_healthy [run_simps]:
  "pg_healthy E \<Longrightarrow> pg_query E q w = (Inr (q (db w)), w\<lparr>tick := Suc (tick w)\<rparr>)"
  by (simp add: pg_query_def pg_stmt_def pg_healthy_def)

lemma pg_query_Inr_iff:
  "pg_query E q w = (Inr x, w') \<longleftrightarrow>
     \<not> e_pg_fault E (tick w) \<and> x = q (db w) \<and> w' = w\<lparr>tick := Suc (tick w)\<rparr>"
  by (auto simp: pg_query_def pg_stmt_def)

lemma pg_query_Inl_iff:
  "pg_query E q w = (Inl e, w') \<longleftrightarrow>
     e_pg_fault E (tick w) \<and> e = DriverErr ''postgres'' \<and> w' = w\<lparr>tick := Suc (tick w)\<rparr>"
  by (auto simp: pg_query_def pg_stmt_def)

lemma pg_stmt_Inr_iff:
  "pg_stmt E f w = (Inr x, w') \<longleftrightarrow>
     \<not> e_pg_fault E (tick w) \<and>
     (\<exists>d'. f (pg_now E w) (db w) = Inr (x, d') \<and> w' = w\<lparr>tick := Suc (tick w), db := d'\<rparr>)"
  by (auto simp: pg_stmt_def split: sum.splits)

lemma pg_stmt_Inl:
  "pg_stmt E f w = (Inl e, w') \<Longrightarrow>
     w' = w\<lparr>tick := Suc (tick w)\<rparr> \<and> (e = DriverErr ''postgres'' \<or> (\<exists>code. e = PgErr code))"
  by (auto simp: pg_stmt_def split: sum.splits if_splits)

lemma pg_stmt_not_sentinel:
  "pg_stmt E f w = (Inl e, w') \<Longrightarrow> errors_Is e t \<longleftrightarrow> e = t"
  by (auto dest!: pg_stmt_Inl)

lemma pg_insert_Inr_iff:
  "pg_insert check unique refs d' = Inr (x, d'') \<longleftrightarrow> check \<and> unique \<and> refs \<and> d'' = d'"
  by (auto simp: pg_insert_def)

lemma QueryRow_Inr_iff:
  "QueryRow E opn fmt q w = (Inr r, w') \<longleftrightarrow>
     \<not> e_pg_fault E (tick w) \<and> q (db w) = Some r \<and> w' = w\<lparr>tick := Suc (tick w)\<rparr>"
  by (auto simp: QueryRow_def comp_iffs pg_query_Inr_iff split: option.splits)

lemma QueryRow_Inl:
  "QueryRow E opn fmt q w = (Inl e, w') \<Longrightarrow>
     w' = w\<lparr>tick := Suc (tick w)\<rparr> \<and>
     (if e_pg_fault E (tick w) then e = Wrap fmt (DriverErr ''postgres'')
      else q (db w) = None \<and> e = NewError opn ErrNotFound)"
  by (auto simp: QueryRow_def comp_iffs pg_query_Inr_iff pg_query_Inl_iff split: option.splits)

lemma run_QueryRow_healthy [run_simps]:
  "pg_healthy E \<Longrightarrow> QueryRow E opn fmt q w =
     (case q (db w) of None \<Rightarrow> Inl (NewError opn ErrNotFound) | Some r \<Rightarrow> Inr r,
      w\<lparr>tick := Suc (tick w)\<rparr>)"
  by (simp add: QueryRow_def run_simps split: option.split)

lemma redis_call_db [simp]: "db (snd (redis_call E c w)) = db w"
  by (simp add: redis_call_def split: prod.split)

subsection \<open>Effects on the database\<close>

text \<open>
  A relation on databases that is reflexive and transitive is followed by every computation
  whose statements follow it, transactions included.
\<close>

locale db_effect =
  fixes Q :: "database \<Rightarrow> database \<Rightarrow> bool"
  assumes db_refl: "Q d d"
    and db_trans: "Q d d' \<Longrightarrow> Q d' d'' \<Longrightarrow> Q d d''"

sublocale db_effect \<subseteq> effect "\<lambda>w w'. Q (db w) (db w')"
  by unfold_locales (auto intro: db_refl db_trans)

context db_effect
begin

lemma moves_stmt:
  assumes "\<And>now d x d'. f now d = Inr (x, d') \<Longrightarrow> Q d d'"
  shows "moves (\<lambda>w w'. Q (db w) (db w')) (pg_stmt E f)"
  by (rule movesI) (auto simp: pg_stmt_def intro: db_refl assms split: if_splits sum.splits)

lemma moves_query: "moves (\<lambda>w w'. Q (db w) (db w')) (pg_query E q)"
  unfolding pg_query_def by (rule moves_stmt) (auto intro: db_refl)

lemma moves_redis: "moves (\<lambda>w w'. Q (db w) (db w')) (redis_call E c)"
  by (simp add: moves_def db_refl)

lemma moves_now: "moves (\<lambda>w w'. Q (db w) (db w')) (time_Now E)"
  by (simp add: moves_def run_simps db_refl)

lemma moves_uuid: "moves (\<lambda>w w'. Q (db w) (db w')) (uuid_New E)"
  by (simp add: moves_def run_simps db_refl)

lemma moves_id: "moves (\<lambda>w w'. Q (db w) (db w')) (id_or_New E i)"
  by (simp add: id_or_New_def moves_return moves_uuid)

lemma moves_tx:
  assumes "moves (\<lambda>w w'. Q (db w) (db w')) fn"
  shows "moves (\<lambda>w w'. Q (db w) (db w')) (WithTx E fn)"
proof (rule movesI)
  fix w r w''
  assume run: "WithTx E fn w = (r, w'')"
  let ?w1 = "w\<lparr>tick := Suc (tick w), tx_now := Some (e_pg_now E (tick w))\<rparr>"
  obtain q w' where q: "fn ?w1 = (q, w')" by (cases "fn ?w1")
  from moves_run [OF assms q] have "Q (db w) (db w')" by simp
  with run q show "Q (db w) (db w'')"
    by (auto simp: WithTx_def intro: db_refl split: if_splits sum.splits commit_outcome.splits)
qed

lemma moves_QueryRow: "moves (\<lambda>w w'. Q (db w) (db w')) (QueryRow E opn fmt q)"
  unfolding QueryRow_def by (intro moves_intros moves_query)

lemma moves_ExecUpdate:
  assumes "\<And>now d x d'. f now d = Inr (x, d') \<Longrightarrow> Q d d'"
  shows "moves (\<lambda>w w'. Q (db w) (db w')) (ExecUpdate E opn fmt f)"
  unfolding ExecUpdate_def using assms by (intro moves_intros moves_stmt)

lemma moves_conflict:
  "moves (\<lambda>w w'. Q (db w) (db w')) m \<Longrightarrow> moves (\<lambda>w w'. Q (db w) (db w')) (conflictE opn fmt m)"
  unfolding conflictE_def by (rule moves_mapErr)

lemmas db_moves_intros =
  moves_intros moves_QueryRow moves_conflict moves_query moves_redis moves_now moves_uuid moves_id moves_tx

end

text \<open>Leaving a part of the database alone.\<close>

locale db_frame =
  fixes part :: "database \<Rightarrow> 'p"

sublocale db_frame \<subseteq> frame: db_effect "\<lambda>d d'. part d' = part d"
  by unfold_locales auto

lemma WithTx_Inr:
  assumes "WithTx E fn w = (Inr x, w'')"
  shows "\<exists>w'. fn (w\<lparr>tick := Suc (tick w), tx_now := Some (e_pg_now E (tick w))\<rparr>) = (Inr x, w')
    \<and> w'' = w'\<lparr>tick := Suc (tick w'), tx_now := tx_now w\<rparr>"
  using assms
  by (auto simp: WithTx_def split: if_splits sum.splits prod.splits commit_outcome.splits)

text \<open>An error of the body is the error of the transaction, and its writes are undone.\<close>

lemma WithTx_body_error:
  assumes "\<not> e_pg_fault E (tick w)"
    and "fn (w\<lparr>tick := Suc (tick w), tx_now := Some (e_pg_now E (tick w))\<rparr>) = (Inl e, w')"
  shows "WithTx E fn w = (Inl e, w'\<lparr>db := db w, tx_now := tx_now w\<rparr>)"
  using assms by (simp add: WithTx_def)

lemma WithTx_healthy:
  assumes "pg_healthy E"
    and "fn (w\<lparr>tick := Suc (tick w), tx_now := Some (e_pg_now E (tick w))\<rparr>) = (Inr x, w')"
  shows "WithTx E fn w = (Inr x, w'\<lparr>tick := Suc (tick w'), tx_now := tx_now w\<rparr>)"
  using assms by (simp add: WithTx_def pg_healthy_def)

text \<open>A transaction that fails has changed the database only if a COMMIT's reply was lost.\<close>

lemma WithTx_Inl_db:
  assumes "WithTx E fn w = (Inl e, w'')" and "\<And>n. e_commit E n \<noteq> CommitReplyLost"
  shows "db w'' = db w"
  using assms
  by (auto simp: WithTx_def split: if_splits sum.splits prod.splits commit_outcome.splits)

text \<open>A transaction leaves the database as it was or as its body leaves it.\<close>

lemma WithTx_cases:
  assumes "WithTx E fn w = (r, w'')"
  obtains (undone) e where "r = Inl e" "db w'' = db w"
  | (applied) x w' where "fn (w\<lparr>tick := Suc (tick w), tx_now := Some (e_pg_now E (tick w))\<rparr>) = (Inr x, w')"
      "db w'' = db w'" "r = Inr x \<or> r = Inl (DriverErr ''commit'')"
  using assms
  by (auto simp: WithTx_def split: if_splits sum.splits prod.splits commit_outcome.splits)

lemma WithTx_Inl_body:
  assumes "WithTx E fn w = (Inl e, w'')"
  shows "e = Wrap ''postgres: begin tx: %w'' (DriverErr ''postgres'') \<or> e = DriverErr ''commit'' \<or>
    (\<exists>w'. fn (w\<lparr>tick := Suc (tick w), tx_now := Some (e_pg_now E (tick w))\<rparr>) = (Inl e, w') \<and>
      db w'' = db w)"
  using assms
  by (auto simp: WithTx_def split: if_splits sum.splits prod.splits commit_outcome.splits)

subsection \<open>Parts of the world other than the database\<close>

locale pg_frame =
  fixes part :: "world \<Rightarrow> 'p"
  assumes part_tick: "part (w\<lparr>tick := n\<rparr>) = part w"
    and part_db: "part (w\<lparr>db := d\<rparr>) = part w"
    and part_tx: "part (w\<lparr>tx_now := z\<rparr>) = part w"

sublocale pg_frame \<subseteq> outside: effect "\<lambda>w w'. part w' = part w"
  by unfold_locales auto

context pg_frame
begin

lemma outside_stmt: "moves (\<lambda>w w'. part w' = part w) (pg_stmt E f)"
  using part_tick part_db by (auto simp: moves_def pg_stmt_def split: sum.split)

lemma outside_query: "moves (\<lambda>w w'. part w' = part w) (pg_query E q)"
  unfolding pg_query_def by (rule outside_stmt)

lemma outside_now: "moves (\<lambda>w w'. part w' = part w) (time_Now E)"
  by (simp add: moves_def run_simps part_tick)

lemma outside_uuid: "moves (\<lambda>w w'. part w' = part w) (uuid_New E)"
  by (simp add: moves_def run_simps part_tick)

lemma outside_id: "moves (\<lambda>w w'. part w' = part w) (id_or_New E i)"
  by (simp add: id_or_New_def outside_uuid outside.moves_return)

lemma outside_QueryRow: "moves (\<lambda>w w'. part w' = part w) (QueryRow E opn fmt q)"
  unfolding QueryRow_def by (intro outside.moves_intros outside_query)

lemma outside_ExecUpdate: "moves (\<lambda>w w'. part w' = part w) (ExecUpdate E opn fmt f)"
  unfolding ExecUpdate_def by (intro outside.moves_intros outside_stmt)

lemma outside_conflict:
  "moves (\<lambda>w w'. part w' = part w) m \<Longrightarrow> moves (\<lambda>w w'. part w' = part w) (conflictE opn fmt m)"
  unfolding conflictE_def by (rule outside.moves_mapErr)

lemma outside_tx:
  assumes "moves (\<lambda>w w'. part w' = part w) fn"
  shows "moves (\<lambda>w w'. part w' = part w) (WithTx E fn)"
proof (rule movesI)
  fix w r w''
  assume run: "WithTx E fn w = (r, w'')"
  let ?w1 = "w\<lparr>tick := Suc (tick w), tx_now := Some (e_pg_now E (tick w))\<rparr>"
  obtain q w' where q: "fn ?w1 = (q, w')" by fastforce
  have "part w' = part w"
    using moves_run [OF assms q] by (simp add: part_tick part_tx)
  then have outcomes: "part (w'\<lparr>db := d, tx_now := z\<rparr>) = part w"
    "part (w'\<lparr>tick := n, tx_now := z\<rparr>) = part w" "part (w'\<lparr>tick := n, tx_now := z, db := d\<rparr>) = part w"
    for d z n
    by (simp_all add: part_tick part_db part_tx)
  from run q show "part w'' = part w"
    by (auto simp: WithTx_def outcomes part_tick split: if_splits sum.splits commit_outcome.splits)
qed

lemmas outside_intros =
  outside.moves_intros outside_stmt outside_query outside_now outside_uuid outside_id
  outside_QueryRow outside_ExecUpdate outside_conflict outside_tx

end

interpretation no_gateway: pg_frame gateway_calls
  by unfold_locales simp_all

end
