(* ===== verification/SeatStore.thy ===== *)
theory SeatStore
  imports World
begin

text \<open>
  What \<open>domain.InventoryRepository\<close> (\<open>internal/domain/inventory.go\<close>) promises its clients: a seat is
  a small state machine, and every state-changing method is a compare-and-swap on it.  The
  locale \<open>seat_store\<close> states the promise for an arbitrary implementation and derives what a
  sequence of calls, made by any number of callers, can achieve.
\<close>

section \<open>A seat as a state machine\<close>

datatype seat = Free | HeldBy uuid "uuid option" time | Taken | Withdrawn

datatype seat_op = OpHold uuid uuid time | OpRelease uuid | OpConfirm uuid | OpVoid

text \<open>\<open>None\<close>: the operation does not apply, the method reports \<open>false\<close>.\<close>

fun seat_step :: "seat_op \<Rightarrow> seat \<Rightarrow> seat option" where
  "seat_step (OpHold tok u x) Free = Some (HeldBy tok (Some u) x)"
| "seat_step (OpRelease tok) (HeldBy tok' u x) = (if tok = tok' then Some Free else None)"
| "seat_step (OpConfirm tok) (HeldBy tok' u x) = (if tok = tok' then Some Taken else None)"
| "seat_step OpVoid s = Some Withdrawn"
| "seat_step _ _ = None"

fun_cases seat_step_SomeE: "seat_step a s = Some s'"

primrec seat_run :: "seat_op list \<Rightarrow> seat \<Rightarrow> seat option" where
  "seat_run [] s = Some s"
| "seat_run (a # as) s = Option.bind (seat_step a s) (seat_run as)"

lemma seat_run_append: "seat_run (as @ bs) s = Option.bind (seat_run as s) (seat_run bs)"
  by (induction as arbitrary: s) (simp_all split: Option.bind_split)

abbreviation is_hold :: "seat_op \<Rightarrow> bool" where
  "is_hold a \<equiv> (case a of OpHold _ _ _ \<Rightarrow> True | _ \<Rightarrow> False)"

abbreviation is_release :: "seat_op \<Rightarrow> bool" where
  "is_release a \<equiv> (case a of OpRelease _ \<Rightarrow> True | _ \<Rightarrow> False)"

abbreviation is_confirm :: "seat_op \<Rightarrow> bool" where
  "is_confirm a \<equiv> (case a of OpConfirm _ \<Rightarrow> True | _ \<Rightarrow> False)"

abbreviation tally :: "('a \<Rightarrow> bool) \<Rightarrow> 'a list \<Rightarrow> nat" where
  "tally p xs \<equiv> length (filter p xs)"

text \<open>A withdrawn seat stays withdrawn, a taken one can only be withdrawn.\<close>

lemma seat_run_Withdrawn:
  "seat_run as Withdrawn = Some s \<Longrightarrow> s = Withdrawn \<and> tally is_confirm as = 0 \<and> tally is_hold as = 0"
  by (induction as) (auto split: Option.bind_splits elim!: seat_step_SomeE)

lemma seat_run_Taken:
  "seat_run as Taken = Some s \<Longrightarrow> tally is_confirm as = 0 \<and> tally is_hold as = 0"
  by (induction as)
    (auto split: Option.bind_splits elim!: seat_step_SomeE dest: seat_run_Withdrawn)

text \<open>However the operations are ordered, a seat is sold at most once, and every hold after the
  first needs a release before it.\<close>

lemma seat_run_confirm_once: "seat_run as s = Some s' \<Longrightarrow> tally is_confirm as \<le> 1"
proof (induction as arbitrary: s)
  case Nil
  then show ?case by simp
next
  case (Cons a as)
  then obtain s1 where step: "seat_step a s = Some s1" and rest: "seat_run as s1 = Some s'"
    by (auto split: Option.bind_splits)
  show ?case
  proof (cases "is_confirm a")
    case True
    with step have "s1 = Taken" by (cases a; cases s) (auto split: if_splits)
    with rest True show ?thesis by (auto dest: seat_run_Taken)
  next
    case False
    with Cons.IH [OF rest] show ?thesis by simp
  qed
qed

lemma seat_run_hold_release:
  "seat_run as s = Some s' \<Longrightarrow> tally is_hold as \<le> (if s = Free then 1 else 0) + tally is_release as"
proof (induction as arbitrary: s)
  case Nil
  then show ?case by simp
next
  case (Cons a as)
  then obtain s1 where step: "seat_step a s = Some s1" and rest: "seat_run as s1 = Some s'"
    by (auto split: Option.bind_splits)
  from step Cons.IH [OF rest] show ?case
    by (cases a; cases s) (auto split: if_splits)
qed

section \<open>The interface\<close>

text \<open>One reported result against the seat's machine; other seats are not touched.\<close>

definition obeys ::
  "seat_op \<Rightarrow> 'k \<Rightarrow> ('k \<Rightarrow> seat option) \<Rightarrow> bool \<Rightarrow> ('k \<Rightarrow> seat option) \<Rightarrow> bool" where
  "obeys a k m b m' \<longleftrightarrow>
    (case Option.bind (m k) (seat_step a) of
      None \<Rightarrow> \<not> b \<and> m' = m
    | Some s \<Rightarrow> b \<and> m' = m(k \<mapsto> s))"

type_synonym seat_key = "uuid \<times> uuid"

text \<open>the method a caller invokes for an operation on a seat\<close>

fun seat_call ::
  "(uuid \<Rightarrow> uuid \<Rightarrow> uuid \<Rightarrow> uuid \<Rightarrow> time \<Rightarrow> ('w, error, bool) comp) \<Rightarrow>
   (uuid \<Rightarrow> uuid \<Rightarrow> uuid \<Rightarrow> ('w, error, bool) comp) \<Rightarrow>
   (uuid \<Rightarrow> uuid \<Rightarrow> uuid \<Rightarrow> ('w, error, bool) comp) \<Rightarrow>
   (uuid \<Rightarrow> uuid \<Rightarrow> ('w, error, unit) comp) \<Rightarrow>
   seat_key \<times> seat_op \<Rightarrow> ('w, error, bool) comp" where
  "seat_call H R C V ((t, i), OpHold tok u x) = H t i tok u x"
| "seat_call H R C V ((t, i), OpRelease tok) = R t i tok"
| "seat_call H R C V ((t, i), OpConfirm tok) = C t i tok"
| "seat_call H R C V ((t, i), OpVoid) = succeeds (V t i)"

locale seat_store =
  fixes Hold :: "uuid \<Rightarrow> uuid \<Rightarrow> uuid \<Rightarrow> uuid \<Rightarrow> time \<Rightarrow> ('w, error, bool) comp"
    and Release :: "uuid \<Rightarrow> uuid \<Rightarrow> uuid \<Rightarrow> ('w, error, bool) comp"
    and ConfirmSale :: "uuid \<Rightarrow> uuid \<Rightarrow> uuid \<Rightarrow> ('w, error, bool) comp"
    and Withdraw :: "uuid \<Rightarrow> uuid \<Rightarrow> ('w, error, unit) comp"
    and view :: "'w \<Rightarrow> seat_key \<Rightarrow> seat option"
    and ok :: "'w \<Rightarrow> bool"
  assumes hold_ok: "ok w \<Longrightarrow> Hold t i tok u x w = (r, w') \<Longrightarrow> ok w'"
    and release_ok: "ok w \<Longrightarrow> Release t i tok w = (r, w') \<Longrightarrow> ok w'"
    and confirm_ok: "ok w \<Longrightarrow> ConfirmSale t i tok w = (r, w') \<Longrightarrow> ok w'"
    and void_ok: "ok w \<Longrightarrow> Withdraw t i w = (q, w') \<Longrightarrow> ok w'"
    and hold_obeys: "ok w \<Longrightarrow> Hold t i tok u x w = (Inr b, w') \<Longrightarrow>
      obeys (OpHold tok u x) (t, i) (view w) b (view w')"
    and release_obeys: "ok w \<Longrightarrow> Release t i tok w = (Inr b, w') \<Longrightarrow>
      obeys (OpRelease tok) (t, i) (view w) b (view w')"
    and confirm_obeys: "ok w \<Longrightarrow> ConfirmSale t i tok w = (Inr b, w') \<Longrightarrow>
      obeys (OpConfirm tok) (t, i) (view w) b (view w')"
    and void_obeys: "ok w \<Longrightarrow> Withdraw t i w = (Inr z, w') \<Longrightarrow>
      obeys OpVoid (t, i) (view w) True (view w')"
    and hold_error: "ok w \<Longrightarrow> Hold t i tok u x w = (Inl e, w') \<Longrightarrow> view w' = view w"
    and release_error: "ok w \<Longrightarrow> Release t i tok w = (Inl e, w') \<Longrightarrow> view w' = view w"
    and confirm_error: "ok w \<Longrightarrow> ConfirmSale t i tok w = (Inl e, w') \<Longrightarrow> view w' = view w"
    and void_error: "ok w \<Longrightarrow> Withdraw t i w = (Inl e, w') \<Longrightarrow> view w' = view w"
begin

abbreviation call :: "seat_key \<times> seat_op \<Rightarrow> ('w, error, bool) comp" where
  "call \<equiv> seat_call Hold Release ConfirmSale Withdraw"

lemma call_ok: "ok w \<Longrightarrow> call c w = (r, w') \<Longrightarrow> ok w'"
  by (cases c; cases "fst c"; cases "snd c")
    (auto simp: run_simps split: prod.splits sum.splits
      intro: hold_ok release_ok confirm_ok void_ok)

lemma call_obeys: "ok w \<Longrightarrow> call (k, a) w = (Inr b, w') \<Longrightarrow> obeys a k (view w) b (view w')"
  by (cases k; cases a)
    (auto simp: succeeds_def comp_iffs intro: hold_obeys release_obeys confirm_obeys void_obeys)

lemma call_error: "ok w \<Longrightarrow> call (k, a) w = (Inl e, w') \<Longrightarrow> view w' = view w"
  by (cases k; cases a)
    (auto simp: succeeds_def comp_iffs dest: hold_error release_error confirm_error void_error)

text \<open>The successful calls on one seat, in order, are a run of its machine.\<close>

lemma run_calls_machine:
  assumes "run_calls call cs w = (won, w')" and "ok w"
  shows "view w' k =
    Option.bind (view w k) (seat_run (map snd (filter (\<lambda>c. fst c = k) won))) \<and> ok w' \<and>
    (view w' k = None \<longleftrightarrow> view w k = None) \<and> (view w k = None \<longrightarrow> filter (\<lambda>c. fst c = k) won = [])"
  using assms
proof (induction cs arbitrary: w won)
  case Nil
  then show ?case by simp
next
  case (Cons c cs)
  obtain k' a where c: "c = (k', a)" by (cases c)
  obtain r w1 where run: "call c w = (r, w1)" by (cases "call c w")
  have ok1: "ok w1" using Cons.prems(2) run by (rule call_ok)
  show ?case
  proof (cases "r = Inr True")
    case True
    with Cons.prems run obtain won' where rest: "run_calls call cs w1 = (won', w')" "won = c # won'"
      by (auto split: prod.splits)
    have "obeys a k' (view w) True (view w1)"
      using call_obeys Cons.prems(2) run True c by blast
    with Cons.IH [OF rest(1) ok1] rest(2) c show ?thesis
      by (cases "view w k'") (auto simp: obeys_def split: option.splits Option.bind_splits)
  next
    case False
    have same: "view w1 = view w"
    proof (cases r)
      case (Inl e)
      with run c Cons.prems(2) show ?thesis by (auto dest: call_error)
    next
      case (Inr b)
      with False run c Cons.prems(2) have "obeys a k' (view w) False (view w1)"
        by (auto dest: call_obeys)
      then show ?thesis by (simp add: obeys_def split: option.splits)
    qed
    from False run Cons.prems(1) have rest: "run_calls call cs w1 = (won, w')"
      by (auto split: sum.splits bool.splits)
    from Cons.IH [OF rest ok1] show ?thesis unfolding same .
  qed
qed

lemma run_calls_seat_run:
  assumes "run_calls call cs w = (won, w')" and "ok w" and "view w k = Some s"
  obtains s' where "seat_run (map snd (filter (\<lambda>c. fst c = k) won)) s = Some s'"
    "view w' k = Some s'"
  using run_calls_machine [OF assms(1,2), of k] assms(3) by fastforce

end

end
