(* ===== verification/InventoryRepo.thy ===== *)
theory InventoryRepo
  imports SeatStore "HOL-Library.AList"
begin

text \<open>
  \<open>internal/repository/postgres/inventory.go\<close> over the table \<open>event_seat_inventory\<close> of
  \<open>migrations/000006\<close> and the audit trigger of \<open>migrations/000010\<close>: every sellable ticket is one
  row, and every change of a row's status is one conditional UPDATE.
\<close>

section \<open>The table's constraints and triggers\<close>

text \<open>The CHECK of migration 000006: hold data is present exactly while the row is held.\<close>

definition esi_check :: "EventSeatInventory \<Rightarrow> bool" where
  "esi_check r \<longleftrightarrow>
    (inv_Status r = InventoryStatusHeld \<and> inv_HoldToken r \<noteq> None \<and> inv_HoldExpiresAt r \<noteq> None) \<or>
    (inv_Status r \<noteq> InventoryStatusHeld \<and> inv_HoldToken r = None \<and> inv_HoldExpiresAt r = None
      \<and> inv_HeldByUserID r = None)"

text \<open>The foreign keys: event, ticket category and seat within the tenant, and the holder.\<close>

definition esi_holder_exists :: "database \<Rightarrow> EventSeatInventory \<Rightarrow> bool" where
  "esi_holder_exists d r \<longleftrightarrow>
    (case inv_HeldByUserID r of None \<Rightarrow> True | Some u \<Rightarrow> list_ex (\<lambda>x. u_ID x = u) (users d))"

definition esi_refs_exist :: "database \<Rightarrow> EventSeatInventory \<Rightarrow> bool" where
  "esi_refs_exist d r \<longleftrightarrow>
    list_ex (\<lambda>e. ev_ID e = inv_EventID r \<and> ev_TenantID e = inv_TenantID r) (events d) \<and>
    list_ex (\<lambda>c. etc_ID c = inv_CategoryID r \<and> etc_TenantID c = inv_TenantID r)
      (event_ticket_categories d) \<and>
    (case inv_SeatID r of None \<Rightarrow> True | Some s \<Rightarrow>
      list_ex (\<lambda>x. seat_ID x = s \<and> seat_TenantID x = inv_TenantID r) (seats d)) \<and>
    esi_holder_exists d r"

text \<open>The primary key and \<open>UNIQUE (event_id, seat_id)\<close>, which NULL seats are exempt from.\<close>

definition esi_unique :: "EventSeatInventory \<Rightarrow> EventSeatInventory list \<Rightarrow> bool" where
  "esi_unique r t \<longleftrightarrow>
    list_all (\<lambda>x. inv_ID x \<noteq> inv_ID r \<and>
      (inv_SeatID r = None \<or> \<not> (inv_EventID x = inv_EventID r \<and> inv_SeatID x = inv_SeatID r))) t"

text \<open>\<open>log_inventory_status_change\<close>, the AFTER trigger, for an UPDATE of \<open>old\<close> to \<open>new\<close>\<close>

definition log_status_change :: "time \<Rightarrow> EventSeatInventory \<Rightarrow> EventSeatInventory \<Rightarrow> AuditEntry list"
where
  "log_status_change now old new =
    (if inv_Status old \<noteq> inv_Status new then
       [\<lparr>al_TenantID = inv_TenantID new, al_InventoryID = inv_ID new,
         al_PreviousStatus = Some (inv_Status old), al_NewStatus = inv_Status new,
         al_HoldToken = inv_HoldToken new, al_HeldByUserID = inv_HeldByUserID new,
         al_ChangedAt = now\<rparr>]
     else [])"

definition log_insert :: "time \<Rightarrow> EventSeatInventory \<Rightarrow> AuditEntry" where
  "log_insert now new =
    \<lparr>al_TenantID = inv_TenantID new, al_InventoryID = inv_ID new, al_PreviousStatus = None,
      al_NewStatus = inv_Status new, al_HoldToken = inv_HoldToken new,
      al_HeldByUserID = inv_HeldByUserID new, al_ChangedAt = now\<rparr>"

text \<open>
  \<open>UPDATE event_seat_inventory SET f WHERE c\<close>: the BEFORE trigger stamps \<open>updated_at\<close>, the CHECK
  and the holder's foreign key are verified on the new rows, the AFTER trigger logs each change
  of status.  The result is the number of rows affected.
\<close>

definition inventory_UPDATE ::
  "(EventSeatInventory \<Rightarrow> bool) \<Rightarrow> (EventSeatInventory \<Rightarrow> EventSeatInventory) \<Rightarrow>
   time \<Rightarrow> database \<Rightarrow> string + (nat \<times> database)" where
  "inventory_UPDATE c f now d =
    (let upd = (\<lambda>r. (f r)\<lparr>inv_UpdatedAt := now\<rparr>);
         hit = filter c (event_seat_inventory d)
     in if \<not> list_all (\<lambda>r. esi_check (upd r)) hit then Inl pgCodeCheckViolation
        else if \<not> list_all (\<lambda>r. esi_holder_exists d (upd r)) hit then Inl pgCodeForeignKeyViolation
        else Inr (sql_affected c (event_seat_inventory d),
          d\<lparr>event_seat_inventory := sql_update c upd (event_seat_inventory d),
            inventory_audit_log := inventory_audit_log d
              @ concat (map (\<lambda>r. log_status_change now r (upd r)) hit)\<rparr>))"

text \<open>one \<open>INSERT INTO event_seat_inventory\<close>\<close>

definition inventory_INSERT ::
  "EventSeatInventory \<Rightarrow> time \<Rightarrow> database \<Rightarrow> string + database" where
  "inventory_INSERT r now d =
    (if \<not> esi_check r then Inl pgCodeCheckViolation
     else if \<not> esi_unique r (event_seat_inventory d) then Inl pgCodeUniqueViolation
     else if \<not> esi_refs_exist d r then Inl pgCodeForeignKeyViolation
     else Inr (d\<lparr>event_seat_inventory := event_seat_inventory d @ [r],
       inventory_audit_log := inventory_audit_log d @ [log_insert now r]\<rparr>))"

text \<open>a pipelined batch of INSERTs: one implicit transaction, refused as a whole\<close>

primrec inventory_INSERT_batch ::
  "EventSeatInventory list \<Rightarrow> time \<Rightarrow> database \<Rightarrow> string + (unit \<times> database)" where
  "inventory_INSERT_batch [] now d = Inr ((), d)"
| "inventory_INSERT_batch (r # rs) now d =
    (case inventory_INSERT r now d of
      Inl code \<Rightarrow> Inl code
    | Inr d' \<Rightarrow> inventory_INSERT_batch rs now d')"

section \<open>The repository\<close>

text \<open>\<open>BulkCreate\<close>: an id for each row that has none, then the batch, with status 'available'.\<close>

definition BulkCreate_row ::
  "env \<Rightarrow> EventSeatInventory \<Rightarrow> EventSeatInventory list \<Rightarrow> EventSeatInventory list op" where
  "BulkCreate_row E row batch =
    bindE (id_or_New E (inv_ID row)) (\<lambda>i.
    returnE (batch @ [\<lparr>inv_ID = i, inv_TenantID = inv_TenantID row, inv_EventID = inv_EventID row,
      inv_CategoryID = inv_CategoryID row, inv_SeatID = inv_SeatID row,
      inv_Status = InventoryStatusAvailable, inv_HoldToken = None, inv_HeldByUserID = None,
      inv_HoldExpiresAt = None, inv_CreatedAt = 0, inv_UpdatedAt = 0\<rparr>]))"

definition InventoryRepo_BulkCreate :: "env \<Rightarrow> EventSeatInventory list \<Rightarrow> unit op" where
  "InventoryRepo_BulkCreate E rows =
    (if rows = [] then returnE ()
     else bindE (foldE (BulkCreate_row E) rows []) (\<lambda>batch.
       wrapE ''postgres: bulk create inventory: %w''
         (pg_stmt E (\<lambda>now. inventory_INSERT_batch
           (map (\<lambda>r. r\<lparr>inv_CreatedAt := now, inv_UpdatedAt := now\<rparr>) batch) now))))"

definition inventory_by_id :: "uuid \<Rightarrow> uuid \<Rightarrow> database \<Rightarrow> EventSeatInventory option" where
  "inventory_by_id tenantID i d =
    find (\<lambda>r. inv_ID r = i \<and> inv_TenantID r = tenantID) (event_seat_inventory d)"

definition InventoryRepo_GetByID :: "env \<Rightarrow> uuid \<Rightarrow> uuid \<Rightarrow> EventSeatInventory op" where
  "InventoryRepo_GetByID E tenantID i =
    QueryRow E ''postgres.InventoryRepo.GetByID'' ''postgres: get inventory by id: %w''
      (inventory_by_id tenantID i)"

definition hold_where :: "uuid \<Rightarrow> uuid \<Rightarrow> EventSeatInventory \<Rightarrow> bool" where
  "hold_where tenantID i r \<longleftrightarrow>
    inv_ID r = i \<and> inv_TenantID r = tenantID \<and> inv_Status r = InventoryStatusAvailable"

definition hold_set :: "uuid \<Rightarrow> uuid \<Rightarrow> time \<Rightarrow> EventSeatInventory \<Rightarrow> EventSeatInventory" where
  "hold_set holdToken userID expiresAt r =
    r\<lparr>inv_Status := InventoryStatusHeld, inv_HoldToken := Some holdToken,
      inv_HeldByUserID := Some userID, inv_HoldExpiresAt := Some expiresAt\<rparr>"

definition InventoryRepo_Hold :: "env \<Rightarrow> uuid \<Rightarrow> uuid \<Rightarrow> uuid \<Rightarrow> uuid \<Rightarrow> time \<Rightarrow> bool op" where
  "InventoryRepo_Hold E tenantID i holdToken userID expiresAt =
    bindE (wrapE ''postgres: hold inventory: %w''
        (pg_stmt E (inventory_UPDATE (hold_where tenantID i) (hold_set holdToken userID expiresAt))))
      (\<lambda>n. returnE (n = 1))"

text \<open>the WHERE clause \<open>Release\<close> and \<open>ConfirmSale\<close> share\<close>

definition token_where :: "uuid \<Rightarrow> uuid \<Rightarrow> uuid \<Rightarrow> EventSeatInventory \<Rightarrow> bool" where
  "token_where tenantID i holdToken r \<longleftrightarrow>
    inv_ID r = i \<and> inv_TenantID r = tenantID \<and> inv_Status r = InventoryStatusHeld
      \<and> inv_HoldToken r = Some holdToken"

definition clear_hold :: "InventoryStatus \<Rightarrow> EventSeatInventory \<Rightarrow> EventSeatInventory" where
  "clear_hold st r =
    r\<lparr>inv_Status := st, inv_HoldToken := None, inv_HeldByUserID := None, inv_HoldExpiresAt := None\<rparr>"

definition InventoryRepo_Release :: "env \<Rightarrow> uuid \<Rightarrow> uuid \<Rightarrow> uuid \<Rightarrow> bool op" where
  "InventoryRepo_Release E tenantID i holdToken =
    bindE (wrapE ''postgres: release inventory: %w''
        (pg_stmt E (inventory_UPDATE (token_where tenantID i holdToken)
          (clear_hold InventoryStatusAvailable))))
      (\<lambda>n. returnE (n = 1))"

definition InventoryRepo_ConfirmSale :: "env \<Rightarrow> uuid \<Rightarrow> uuid \<Rightarrow> uuid \<Rightarrow> bool op" where
  "InventoryRepo_ConfirmSale E tenantID i holdToken =
    bindE (wrapE ''postgres: confirm sale: %w''
        (pg_stmt E (inventory_UPDATE (token_where tenantID i holdToken)
          (clear_hold InventoryStatusSold))))
      (\<lambda>n. returnE (n = 1))"

definition void_where :: "uuid \<Rightarrow> uuid \<Rightarrow> EventSeatInventory \<Rightarrow> bool" where
  "void_where tenantID i r \<longleftrightarrow> inv_ID r = i \<and> inv_TenantID r = tenantID"

definition InventoryRepo_Void :: "env \<Rightarrow> uuid \<Rightarrow> uuid \<Rightarrow> unit op" where
  "InventoryRepo_Void E tenantID i =
    bindE (wrapE ''postgres: void inventory: %w''
        (pg_stmt E (inventory_UPDATE (void_where tenantID i) (clear_hold InventoryStatusVoid))))
      (\<lambda>n. if n = 0 then throwE (NewError ''postgres.InventoryRepo.Void'' ErrNotFound)
           else returnE ())"

text \<open>\<open>WHERE status = 'held' AND hold_expires_at < before ORDER BY hold_expires_at LIMIT limit\<close>\<close>

definition hold_expired :: "time \<Rightarrow> EventSeatInventory \<Rightarrow> bool" where
  "hold_expired before r \<longleftrightarrow>
    inv_Status r = InventoryStatusHeld \<and>
    (case inv_HoldExpiresAt r of None \<Rightarrow> False | Some t \<Rightarrow> t < before)"

definition expired_holds :: "time \<Rightarrow> int \<Rightarrow> database \<Rightarrow> EventSeatInventory list" where
  "expired_holds before limit d =
    sql_page limit 0 (sort_key (\<lambda>r. case inv_HoldExpiresAt r of None \<Rightarrow> 0 | Some t \<Rightarrow> t)
      (filter (hold_expired before) (event_seat_inventory d)))"

definition InventoryRepo_ListExpiredHolds :: "env \<Rightarrow> time \<Rightarrow> int \<Rightarrow> EventSeatInventory list op"
where
  "InventoryRepo_ListExpiredHolds E before limit =
    wrapE ''postgres: list expired holds: %w'' (pg_query E (expired_holds before limit))"

text \<open>
  \<open>CountByStatus\<close>: the groups of \<open>GROUP BY event_ticket_category_id, status\<close> with their counts,
  then the loop that files each group's count under its category.  The Go map is an
  association list keyed by category.
\<close>

definition status_groups :: "uuid \<Rightarrow> uuid \<Rightarrow> database \<Rightarrow> ((uuid \<times> InventoryStatus) \<times> nat) list" where
  "status_groups tenantID eventID d =
    (let rs = filter (\<lambda>r. inv_TenantID r = tenantID \<and> inv_EventID r = eventID)
           (event_seat_inventory d);
         keys = map (\<lambda>r. (inv_CategoryID r, inv_Status r)) rs
     in map (\<lambda>k. (k, count_list keys k)) (remdups keys))"

definition zero_counts :: InventoryCounts where
  "zero_counts = \<lparr>Available = 0, Held = 0, Sold = 0, Void = 0\<rparr>"

fun put_count :: "InventoryStatus \<Rightarrow> int \<Rightarrow> InventoryCounts \<Rightarrow> InventoryCounts" where
  "put_count InventoryStatusAvailable n c = c\<lparr>Available := n\<rparr>"
| "put_count InventoryStatusHeld n c = c\<lparr>Held := n\<rparr>"
| "put_count InventoryStatusSold n c = c\<lparr>Sold := n\<rparr>"
| "put_count InventoryStatusVoid n c = c\<lparr>Void := n\<rparr>"

definition file_group ::
  "(uuid \<times> InventoryStatus) \<times> nat \<Rightarrow> (uuid \<times> InventoryCounts) list \<Rightarrow> (uuid \<times> InventoryCounts) list"
where
  "file_group g result =
    (case g of ((categoryID, status), n) \<Rightarrow>
      let counts = (case map_of result categoryID of None \<Rightarrow> zero_counts | Some c \<Rightarrow> c)
      in AList.update categoryID (put_count status (int n) counts) result)"

definition counts_by_status :: "uuid \<Rightarrow> uuid \<Rightarrow> database \<Rightarrow> (uuid \<times> InventoryCounts) list" where
  "counts_by_status tenantID eventID d = fold file_group (status_groups tenantID eventID d) []"

definition InventoryRepo_CountByStatus ::
  "env \<Rightarrow> uuid \<Rightarrow> uuid \<Rightarrow> (uuid \<times> InventoryCounts) list op" where
  "InventoryRepo_CountByStatus E tenantID eventID =
    wrapE ''postgres: count inventory by status: %w''
      (pg_query E (counts_by_status tenantID eventID))"

section \<open>What a statement does\<close>

lemmas where_defs = hold_where_def token_where_def void_where_def
lemmas set_defs = hold_set_def clear_hold_def

lemma inventory_UPDATE_Inr_iff:
  "inventory_UPDATE c f now d = Inr (n, d') \<longleftrightarrow>
     (\<forall>r \<in> set (event_seat_inventory d). c r \<longrightarrow>
        esi_check ((f r)\<lparr>inv_UpdatedAt := now\<rparr>) \<and> esi_holder_exists d ((f r)\<lparr>inv_UpdatedAt := now\<rparr>)) \<and>
     n = sql_affected c (event_seat_inventory d) \<and>
     d' = d\<lparr>event_seat_inventory :=
           sql_update c (\<lambda>r. (f r)\<lparr>inv_UpdatedAt := now\<rparr>) (event_seat_inventory d),
         inventory_audit_log := inventory_audit_log d
           @ concat (map (\<lambda>r. log_status_change now r ((f r)\<lparr>inv_UpdatedAt := now\<rparr>))
               (filter c (event_seat_inventory d)))\<rparr>"
  by (auto simp: inventory_UPDATE_def Let_def list_all_iff)

lemma esi_check_stamp [simp]: "esi_check (r\<lparr>inv_UpdatedAt := now\<rparr>) = esi_check r"
  by (simp add: esi_check_def)

lemma esi_check_hold_set [simp]: "esi_check (hold_set tok u x r)"
  by (simp add: esi_check_def hold_set_def)

lemma esi_check_clear_hold [simp]: "esi_check (clear_hold st r) \<longleftrightarrow> st \<noteq> InventoryStatusHeld"
  by (simp add: esi_check_def clear_hold_def)

lemma esi_holder_clear_hold [simp]:
  "esi_holder_exists d ((clear_hold st r)\<lparr>inv_UpdatedAt := now\<rparr>)"
  by (simp add: esi_holder_exists_def clear_hold_def)

lemma set_fields [simp]:
  "inv_ID (hold_set tok u x r) = inv_ID r" "inv_TenantID (hold_set tok u x r) = inv_TenantID r"
  "inv_EventID (hold_set tok u x r) = inv_EventID r"
  "inv_CategoryID (hold_set tok u x r) = inv_CategoryID r"
  "inv_Status (hold_set tok u x r) = InventoryStatusHeld"
  "inv_ID (clear_hold st r) = inv_ID r" "inv_TenantID (clear_hold st r) = inv_TenantID r"
  "inv_EventID (clear_hold st r) = inv_EventID r"
  "inv_CategoryID (clear_hold st r) = inv_CategoryID r"
  "inv_Status (clear_hold st r) = st"
  by (simp_all add: set_defs)

text \<open>Releasing, selling and voiding break no constraint: such a statement is never refused.\<close>

lemma inventory_UPDATE_clear:
  "st \<noteq> InventoryStatusHeld \<Longrightarrow> \<exists>n d'. inventory_UPDATE c (clear_hold st) now d = Inr (n, d')"
  by (simp add: inventory_UPDATE_Inr_iff)

subsection \<open>The table's invariant\<close>

definition inventory_ok :: "database \<Rightarrow> bool" where
  "inventory_ok d \<longleftrightarrow>
    distinct (map inv_ID (event_seat_inventory d)) \<and> list_all esi_check (event_seat_inventory d)"

lemma inventory_ok_UPDATE:
  assumes "inventory_UPDATE c f now d = Inr (n, d')" and "\<And>r. inv_ID (f r) = inv_ID r"
    and "inventory_ok d"
  shows "inventory_ok d'"
  using assms by (auto simp: inventory_ok_def inventory_UPDATE_Inr_iff list_all_iff set_sql_update
      table_simps split: if_splits)

lemma inventory_INSERT_ok:
  "inventory_INSERT r now d = Inr d' \<Longrightarrow> inventory_ok d \<Longrightarrow> inventory_ok d'"
  by (fastforce simp: inventory_INSERT_def inventory_ok_def esi_unique_def list_all_iff
      split: if_splits)

lemma inventory_INSERT_batch_ok:
  "inventory_INSERT_batch rs now d = Inr (x, d') \<Longrightarrow> inventory_ok d \<Longrightarrow> inventory_ok d'"
  by (induction rs arbitrary: d) (auto split: sum.splits dest: inventory_INSERT_ok)

subsection \<open>Rows by key\<close>

lemma inventory_by_id_key:
  "inventory_by_id t i d = find (\<lambda>r. (inv_ID r, inv_TenantID r) = (i, t)) (event_seat_inventory d)"
  by (simp add: inventory_by_id_def)

lemma inventory_ok_key:
  "inventory_ok d \<Longrightarrow> distinct (map (\<lambda>r. (inv_ID r, inv_TenantID r)) (event_seat_inventory d))"
  by (auto simp: inventory_ok_def distinct_map inj_on_def)

lemma inventory_by_id_Some_iff:
  "inventory_ok d \<Longrightarrow> inventory_by_id t i d = Some r \<longleftrightarrow>
     r \<in> set (event_seat_inventory d) \<and> inv_ID r = i \<and> inv_TenantID r = t"
  unfolding inventory_by_id_key
  by (subst find_key_Some_iff [where key = "\<lambda>r. (inv_ID r, inv_TenantID r)"])
    (auto simp: inventory_ok_key)

lemma inventory_by_id_check:
  "inventory_ok d \<Longrightarrow> inventory_by_id t i d = Some r \<Longrightarrow> esi_check r"
  by (auto simp: inventory_by_id_Some_iff inventory_ok_def list_all_iff)

lemma inventory_by_id_UPDATE:
  assumes "inventory_UPDATE c f now d = Inr (n, d')"
    and "\<And>r. inv_ID (f r) = inv_ID r" and "\<And>r. inv_TenantID (f r) = inv_TenantID r"
  shows "inventory_by_id t i d' =
    map_option (\<lambda>r. if c r then (f r)\<lparr>inv_UpdatedAt := now\<rparr> else r) (inventory_by_id t i d)"
  using assms unfolding inventory_by_id_key
  by (subst find_key_sql_update [where key = "\<lambda>r. (inv_ID r, inv_TenantID r)", symmetric])
    (auto simp: inventory_UPDATE_Inr_iff)

text \<open>A statement pinned to one row of one tenant affects that row or none.\<close>

lemma inventory_UPDATE_affected:
  assumes "inventory_UPDATE c f now d = Inr (n, d')" and "inventory_ok d"
    and pin: "\<And>r. c r \<Longrightarrow> inv_ID r = i \<and> inv_TenantID r = t"
  shows "n = (case inventory_by_id t i d of None \<Rightarrow> 0 | Some r \<Rightarrow> if c r then 1 else 0)"
  using sql_affected_key [OF inventory_ok_key [OF assms(2)], of c "(i, t)"] pin assms(1)
  by (auto simp: inventory_UPDATE_Inr_iff inventory_by_id_key split: option.splits)

section \<open>The repository is a seat store\<close>

definition seat_of :: "EventSeatInventory \<Rightarrow> seat" where
  "seat_of r =
    (case (inv_Status r, inv_HoldToken r, inv_HoldExpiresAt r) of
      (InventoryStatusAvailable, _, _) \<Rightarrow> Free
    | (InventoryStatusHeld, Some tok, Some x) \<Rightarrow> HeldBy tok (inv_HeldByUserID r) x
    | (InventoryStatusSold, _, _) \<Rightarrow> Taken
    | _ \<Rightarrow> Withdrawn)"

definition seat_view :: "database \<Rightarrow> seat_key \<Rightarrow> seat option" where
  "seat_view d k = map_option seat_of (inventory_by_id (fst k) (snd k) d)"

lemma seat_of_set [simp]:
  "seat_of ((hold_set tok u x r)\<lparr>inv_UpdatedAt := now\<rparr>) = HeldBy tok (Some u) x"
  "seat_of ((clear_hold InventoryStatusAvailable r)\<lparr>inv_UpdatedAt := now\<rparr>) = Free"
  "seat_of ((clear_hold InventoryStatusSold r)\<lparr>inv_UpdatedAt := now\<rparr>) = Taken"
  "seat_of ((clear_hold InventoryStatusVoid r)\<lparr>inv_UpdatedAt := now\<rparr>) = Withdrawn"
  by (simp_all add: seat_of_def set_defs)

lemma seat_of_check:
  assumes "esi_check r"
  shows "seat_of r = Free \<longleftrightarrow> inv_Status r = InventoryStatusAvailable"
    and "seat_of r = HeldBy tok u x \<longleftrightarrow>
      inv_Status r = InventoryStatusHeld \<and> inv_HoldToken r = Some tok \<and> inv_HeldByUserID r = u
        \<and> inv_HoldExpiresAt r = Some x"
    and "seat_of r = Taken \<longleftrightarrow> inv_Status r = InventoryStatusSold"
    and "seat_of r = Withdrawn \<longleftrightarrow> inv_Status r = InventoryStatusVoid"
  using assms
  by (auto simp: seat_of_def esi_check_def split: InventoryStatus.splits option.splits)

text \<open>
  Each method is one UPDATE pinned to the row.  If its WHERE clause holds of the row exactly when
  the seat's machine has a step, and its SET clause makes that step, the method obeys the machine.
\<close>

lemma UPDATE_obeys:
  assumes run: "inventory_UPDATE c f now d = Inr (n, d')" and ok: "inventory_ok d"
    and keep: "\<And>r. inv_ID (f r) = inv_ID r" "\<And>r. inv_TenantID (f r) = inv_TenantID r"
    and pin: "\<And>r. c r \<Longrightarrow> inv_ID r = i \<and> inv_TenantID r = t"
    and step: "\<And>r. esi_check r \<Longrightarrow> inv_ID r = i \<Longrightarrow> inv_TenantID r = t \<Longrightarrow>
      seat_step a (seat_of r) = (if c r then Some (seat_of ((f r)\<lparr>inv_UpdatedAt := now\<rparr>)) else None)"
  shows "obeys a (t, i) (seat_view d) (n = 1) (seat_view d')" and "n \<le> 1"
proof -
  have n: "n = (case inventory_by_id t i d of None \<Rightarrow> 0 | Some r \<Rightarrow> if c r then 1 else 0)"
    using run ok pin by (rule inventory_UPDATE_affected)
  show "n \<le> 1" by (simp add: n split: option.split)
  have row: "inv_ID r = i \<and> inv_TenantID r = t" if "inventory_by_id t i d = Some r" for t i r
    using that ok by (simp add: inventory_by_id_Some_iff)
  have view': "seat_view d' k = (if k = (t, i) then
      map_option (\<lambda>r. seat_of (if c r then (f r)\<lparr>inv_UpdatedAt := now\<rparr> else r)) (inventory_by_id t i d)
      else seat_view d k)" for k
    unfolding seat_view_def inventory_by_id_UPDATE [OF run keep]
    by (cases k) (auto dest!: pin row simp: option.map_comp comp_def intro!: option.map_cong)
  show "obeys a (t, i) (seat_view d) (n = 1) (seat_view d')"
  proof (cases "inventory_by_id t i d")
    case None
    with n view' show ?thesis by (auto simp: obeys_def seat_view_def)
  next
    case (Some r)
    with ok have "seat_step a (seat_of r) =
        (if c r then Some (seat_of ((f r)\<lparr>inv_UpdatedAt := now\<rparr>)) else None)"
      by (intro step) (auto dest: inventory_by_id_check row)
    with Some n view' show ?thesis
      by (auto simp: obeys_def seat_view_def fun_eq_iff)
  qed
qed

lemma hold_steps:
  "esi_check r \<Longrightarrow> inv_ID r = i \<Longrightarrow> inv_TenantID r = t \<Longrightarrow>
    seat_step (OpHold tok u x) (seat_of r) =
      (if hold_where t i r then Some (seat_of ((hold_set tok u x r)\<lparr>inv_UpdatedAt := now\<rparr>)) else None)"
  by (auto simp: seat_of_def esi_check_def hold_where_def set_defs
      split: InventoryStatus.splits option.splits)

lemma release_steps:
  "esi_check r \<Longrightarrow> inv_ID r = i \<Longrightarrow> inv_TenantID r = t \<Longrightarrow>
    seat_step (OpRelease tok) (seat_of r) =
      (if token_where t i tok r
       then Some (seat_of ((clear_hold InventoryStatusAvailable r)\<lparr>inv_UpdatedAt := now\<rparr>)) else None)"
  by (auto simp: seat_of_def esi_check_def token_where_def set_defs
      split: InventoryStatus.splits option.splits)

lemma confirm_steps:
  "esi_check r \<Longrightarrow> inv_ID r = i \<Longrightarrow> inv_TenantID r = t \<Longrightarrow>
    seat_step (OpConfirm tok) (seat_of r) =
      (if token_where t i tok r
       then Some (seat_of ((clear_hold InventoryStatusSold r)\<lparr>inv_UpdatedAt := now\<rparr>)) else None)"
  by (auto simp: seat_of_def esi_check_def token_where_def set_defs
      split: InventoryStatus.splits option.splits)

lemma void_steps:
  "esi_check r \<Longrightarrow> inv_ID r = i \<Longrightarrow> inv_TenantID r = t \<Longrightarrow>
    seat_step OpVoid (seat_of r) =
      (if void_where t i r
       then Some (seat_of ((clear_hold InventoryStatusVoid r)\<lparr>inv_UpdatedAt := now\<rparr>)) else None)"
  by (simp add: void_where_def)

lemma hold_UPDATE:
  assumes "inventory_UPDATE (hold_where t i) (hold_set tok u x) now d = Inr (n, d')" and "inventory_ok d"
  shows "obeys (OpHold tok u x) (t, i) (seat_view d) (n = 1) (seat_view d')" and "n \<le> 1"
  by (rule UPDATE_obeys [OF assms]; (rule hold_steps; assumption | simp add: where_defs))+

lemma release_UPDATE:
  assumes "inventory_UPDATE (token_where t i tok) (clear_hold InventoryStatusAvailable) now d = Inr (n, d')" and "inventory_ok d"
  shows "obeys (OpRelease tok) (t, i) (seat_view d) (n = 1) (seat_view d')" and "n \<le> 1"
  by (rule UPDATE_obeys [OF assms]; (rule release_steps; assumption | simp add: where_defs))+

lemma confirm_UPDATE:
  assumes "inventory_UPDATE (token_where t i tok) (clear_hold InventoryStatusSold) now d = Inr (n, d')" and "inventory_ok d"
  shows "obeys (OpConfirm tok) (t, i) (seat_view d) (n = 1) (seat_view d')" and "n \<le> 1"
  by (rule UPDATE_obeys [OF assms]; (rule confirm_steps; assumption | simp add: where_defs))+

lemma void_UPDATE:
  assumes "inventory_UPDATE (void_where t i) (clear_hold InventoryStatusVoid) now d = Inr (n, d')" and "inventory_ok d"
  shows "obeys OpVoid (t, i) (seat_view d) (n = 1) (seat_view d')" and "n \<le> 1"
  by (rule UPDATE_obeys [OF assms]; (rule void_steps; assumption | simp add: where_defs))+

text \<open>A method's outcome: its statement took effect, or nothing did.\<close>

lemma cas_run:
  assumes "bindE (wrapE m (pg_stmt E (inventory_UPDATE c f))) g w = (r, w')"
  shows "(\<exists>e. r = Inl e \<and> db w' = db w) \<or>
    (\<exists>n d'. inventory_UPDATE c f (pg_now E w) (db w) = Inr (n, d') \<and> \<not> e_pg_fault E (tick w) \<and>
      g n (w\<lparr>tick := Suc (tick w), db := d'\<rparr>) = (r, w'))"
  using assms
  by (cases r) (auto simp: comp_iffs pg_stmt_Inr_iff dest!: pg_stmt_Inl)

lemma InventoryRepo_Hold_run:
  assumes "InventoryRepo_Hold E t i tok u x w = (r, w')"
  shows "(\<exists>e. r = Inl e \<and> db w' = db w) \<or>
    (\<exists>n. inventory_UPDATE (hold_where t i) (hold_set tok u x) (pg_now E w) (db w) = Inr (n, db w')
      \<and> r = Inr (n = 1))"
  using cas_run [OF assms [unfolded InventoryRepo_Hold_def]] by (auto simp: run_simps)

lemma InventoryRepo_Release_run:
  assumes "InventoryRepo_Release E t i tok w = (r, w')"
  shows "(\<exists>e. r = Inl e \<and> db w' = db w) \<or>
    (\<exists>n. inventory_UPDATE (token_where t i tok) (clear_hold InventoryStatusAvailable)
        (pg_now E w) (db w) = Inr (n, db w') \<and> r = Inr (n = 1))"
  using cas_run [OF assms [unfolded InventoryRepo_Release_def]] by (auto simp: run_simps)

lemma InventoryRepo_ConfirmSale_run:
  assumes "InventoryRepo_ConfirmSale E t i tok w = (r, w')"
  shows "(\<exists>e. r = Inl e \<and> db w' = db w) \<or>
    (\<exists>n. inventory_UPDATE (token_where t i tok) (clear_hold InventoryStatusSold)
        (pg_now E w) (db w) = Inr (n, db w') \<and> r = Inr (n = 1))"
  using cas_run [OF assms [unfolded InventoryRepo_ConfirmSale_def]] by (auto simp: run_simps)

lemma InventoryRepo_Void_run:
  assumes "InventoryRepo_Void E t i w = (r, w')"
  shows "(\<exists>e. r = Inl e \<and> db w' = db w) \<or>
    (\<exists>n. inventory_UPDATE (void_where t i) (clear_hold InventoryStatusVoid)
        (pg_now E w) (db w) = Inr (n, db w') \<and>
      r = (if n = 0 then Inl (NewError ''postgres.InventoryRepo.Void'' ErrNotFound) else Inr ()))"
  using cas_run [OF assms [unfolded InventoryRepo_Void_def]]
proof (elim disjE exE conjE)
  fix n d'
  assume "inventory_UPDATE (void_where t i) (clear_hold InventoryStatusVoid) (pg_now E w) (db w)
      = Inr (n, d')"
    and "(if n = 0 then throwE (NewError ''postgres.InventoryRepo.Void'' ErrNotFound) else returnE ())
      (w\<lparr>tick := Suc (tick w), db := d'\<rparr>) = (r, w')"
  then show ?thesis by (cases "n = 0") (force simp: run_simps)+
qed simp

lemma void_UPDATE_none:
  assumes "inventory_UPDATE c f now d = Inr (0, d')"
  shows "d' = d"
proof -
  from assms have none: "sql_affected c (event_seat_inventory d) = 0"
    by (simp add: inventory_UPDATE_Inr_iff)
  then have "filter c (event_seat_inventory d) = []"
    by (simp add: sql_affected_def)
  with assms sql_affected_0_update [OF none] show ?thesis
    by (simp add: inventory_UPDATE_Inr_iff)
qed

text \<open>Voiding a seat: a unit is reported only when its UPDATE found the row.\<close>

lemma InventoryRepo_Void_success:
  assumes "inventory_ok (db w)" and "InventoryRepo_Void E t i w = (Inr z, w')"
  shows "obeys OpVoid (t, i) (seat_view (db w)) True (seat_view (db w'))"
proof -
  from InventoryRepo_Void_run [OF assms(2)]
  obtain n where run: "inventory_UPDATE (void_where t i) (clear_hold InventoryStatusVoid)
      (pg_now E w) (db w) = Inr (n, db w')" and "n \<noteq> 0"
    by (metis Inl_Inr_False)
  then have "n = 1"
    using void_UPDATE(2) [OF run assms(1)] by simp
  then show ?thesis
    using void_UPDATE(1) [OF run assms(1)] by simp
qed

lemma InventoryRepo_Void_failure:
  assumes "InventoryRepo_Void E t i w = (Inl e, w')"
  shows "db w' = db w"
  using InventoryRepo_Void_run [OF assms]
proof (elim disjE exE conjE)
  fix n
  assume run: "inventory_UPDATE (void_where t i) (clear_hold InventoryStatusVoid)
      (pg_now E w) (db w) = Inr (n, db w')"
    and "Inl e = (if n = 0 then Inl (NewError ''postgres.InventoryRepo.Void'' ErrNotFound) else Inr ())"
  then have "n = 0" by (metis Inl_Inr_False)
  with run show ?thesis by (auto dest: void_UPDATE_none)
qed simp

interpretation inventory_repo: seat_store "InventoryRepo_Hold E" "InventoryRepo_Release E"
  "InventoryRepo_ConfirmSale E" "InventoryRepo_Void E" "\<lambda>w. seat_view (db w)"
  "\<lambda>w. inventory_ok (db w)"
proof (unfold_locales, goal_cases)
  case 1
  then show ?case by (auto dest!: InventoryRepo_Hold_run intro: inventory_ok_UPDATE)
next
  case 2
  then show ?case by (auto dest!: InventoryRepo_Release_run intro: inventory_ok_UPDATE)
next
  case 3
  then show ?case by (auto dest!: InventoryRepo_ConfirmSale_run intro: inventory_ok_UPDATE)
next
  case 4
  then show ?case by (auto dest!: InventoryRepo_Void_run intro: inventory_ok_UPDATE)
next
  case 5
  then show ?case by (auto dest!: InventoryRepo_Hold_run intro!: hold_UPDATE(1))
next
  case 6
  then show ?case
    by (auto dest!: InventoryRepo_Release_run intro!: release_UPDATE(1))
next
  case 7
  then show ?case
    by (auto dest!: InventoryRepo_ConfirmSale_run intro!: confirm_UPDATE(1))
next
  case 8
  then show ?case by (rule InventoryRepo_Void_success)
next
  case 9
  then show ?case by (auto dest!: InventoryRepo_Hold_run)
next
  case 10
  then show ?case by (auto dest!: InventoryRepo_Release_run)
next
  case 11
  then show ?case by (auto dest!: InventoryRepo_ConfirmSale_run)
next
  case 12
  then show ?case by (auto dest: InventoryRepo_Void_failure)
qed

section \<open>Counting\<close>

fun count_of :: "InventoryStatus \<Rightarrow> InventoryCounts \<Rightarrow> int" where
  "count_of InventoryStatusAvailable c = Available c"
| "count_of InventoryStatusHeld c = Held c"
| "count_of InventoryStatusSold c = Sold c"
| "count_of InventoryStatusVoid c = Void c"

abbreviation counts_at :: "(uuid \<times> InventoryCounts) list \<Rightarrow> uuid \<Rightarrow> InventoryCounts" where
  "counts_at m c \<equiv> (case map_of m c of None \<Rightarrow> zero_counts | Some k \<Rightarrow> k)"

lemma count_of_put: "count_of st (put_count st' n c) = (if st = st' then n else count_of st c)"
  by (cases st; cases st') simp_all

lemma count_of_zero [simp]: "count_of st zero_counts = 0"
  by (cases st) (simp_all add: zero_counts_def)

lemma counts_at_file_group:
  "count_of st (counts_at (file_group ((c', st'), n) m) c) =
     (if c = c' \<and> st = st' then int n else count_of st (counts_at m c))"
  by (auto simp: file_group_def Let_def count_of_put update_conv')

lemma counts_at_fold:
  "distinct (map fst gs) \<Longrightarrow>
   count_of st (counts_at (fold file_group gs m) c) =
     (case map_of gs (c, st) of None \<Rightarrow> count_of st (counts_at m c) | Some n \<Rightarrow> int n)"
proof (induction gs arbitrary: m)
  case Nil
  then show ?case by simp
next
  case (Cons g gs)
  obtain c' st' n where g: "g = ((c', st'), n)" by (metis surj_pair)
  have "map_of gs (c', st') = None"
    using Cons.prems g by (simp add: map_of_eq_None_iff)
  with Cons g show ?case by (auto simp: counts_at_file_group split: option.split)
qed

lemma dom_fold_file_group: "dom (map_of (fold file_group gs m)) = dom (map_of m) \<union> fst ` fst ` set gs"
  by (induction gs arbitrary: m) (auto simp: file_group_def Let_def update_conv' split: prod.splits)

lemma distinct_fold_file_group: "distinct (map fst m) \<Longrightarrow> distinct (map fst (fold file_group gs m))"
  by (induction gs arbitrary: m) (auto simp: file_group_def Let_def distinct_update split: prod.splits)

abbreviation in_event :: "uuid \<Rightarrow> uuid \<Rightarrow> uuid \<Rightarrow> EventSeatInventory \<Rightarrow> bool" where
  "in_event t e c r \<equiv> inv_TenantID r = t \<and> inv_EventID r = e \<and> inv_CategoryID r = c"

lemma count_list_filter: "count_list (map f (filter p xs)) y = length (filter (\<lambda>x. p x \<and> f x = y) xs)"
  by (induction xs) auto

lemma counts_by_status_count:
  "count_of st (counts_at (counts_by_status t e d) c) =
     int (length (filter (\<lambda>r. in_event t e c r \<and> inv_Status r = st) (event_seat_inventory d)))"
proof -
  let ?keys = "map (\<lambda>r. (inv_CategoryID r, inv_Status r))
    (filter (\<lambda>r. inv_TenantID r = t \<and> inv_EventID r = e) (event_seat_inventory d))"
  have "count_of st (counts_at (counts_by_status t e d) c) = int (count_list ?keys (c, st))"
    unfolding counts_by_status_def
    by (subst counts_at_fold)
      (auto simp: status_groups_def Let_def comp_def map_of_map_restrict restrict_map_def
        count_list_0_iff split: option.split)
  also have "count_list ?keys (c, st) =
      length (filter (\<lambda>r. in_event t e c r \<and> inv_Status r = st) (event_seat_inventory d))"
    by (simp add: count_list_filter conj_assoc)
  finally show ?thesis .
qed

lemma counts_by_status_None:
  "map_of (counts_by_status t e d) c = None \<longleftrightarrow> (\<forall>r \<in> set (event_seat_inventory d). \<not> in_event t e c r)"
proof -
  have "c \<in> dom (map_of (counts_by_status t e d)) \<longleftrightarrow> (\<exists>r \<in> set (event_seat_inventory d). in_event t e c r)"
    unfolding counts_by_status_def dom_fold_file_group status_groups_def Let_def
    by (auto simp: image_iff)
  then show ?thesis by (auto simp: domIff)
qed

text \<open>Summed over the categories, the available seats are those of the event.\<close>

lemma length_filter_partition:
  "finite K \<Longrightarrow> \<forall>r \<in> set rs. p r \<longrightarrow> f r \<in> K \<Longrightarrow>
   (\<Sum>k \<in> K. length (filter (\<lambda>r. p r \<and> f r = k) rs)) = length (filter p rs)"
proof (induction rs)
  case Nil
  then show ?case by simp
next
  case (Cons r rs)
  then have IH: "(\<Sum>k \<in> K. length (filter (\<lambda>r. p r \<and> f r = k) rs)) = length (filter p rs)" by simp
  have "(\<Sum>k \<in> K. length (filter (\<lambda>r. p r \<and> f r = k) (r # rs))) =
      (\<Sum>k \<in> K. (if p r \<and> f r = k then 1 else 0) + length (filter (\<lambda>r. p r \<and> f r = k) rs))"
    by (intro sum.cong) auto
  also have "\<dots> = (if p r then 1 else 0) + length (filter p rs)"
    using Cons.prems by (simp add: sum.distrib IH sum.delta')
  finally show ?case by simp
qed

lemma counts_by_status_available:
  "sum_list (map (\<lambda>c. Available (snd c)) (counts_by_status t e d)) =
     int (length (filter (\<lambda>r. inv_TenantID r = t \<and> inv_EventID r = e \<and>
       inv_Status r = InventoryStatusAvailable) (event_seat_inventory d)))"
proof -
  let ?m = "counts_by_status t e d" and ?rows = "event_seat_inventory d"
  let ?p = "\<lambda>r. inv_TenantID r = t \<and> inv_EventID r = e \<and> inv_Status r = InventoryStatusAvailable"
  have dist: "distinct (map fst ?m)"
    by (simp add: counts_by_status_def distinct_fold_file_group)
  have avail: "Available v = int (length (filter (\<lambda>r. ?p r \<and> inv_CategoryID r = c) ?rows))"
    if "(c, v) \<in> set ?m" for c v
  proof -
    from that dist have "map_of ?m c = Some v" by simp
    then have "Available v = count_of InventoryStatusAvailable (counts_at ?m c)" by simp
    also have "\<dots> = int (length (filter (\<lambda>r. ?p r \<and> inv_CategoryID r = c) ?rows))"
      unfolding counts_by_status_count by (metis (mono_tags, lifting))
    finally show ?thesis .
  qed
  have "sum_list (map (\<lambda>c. Available (snd c)) ?m) =
      sum_list (map (\<lambda>c. int (length (filter (\<lambda>r. ?p r \<and> inv_CategoryID r = c) ?rows))) (map fst ?m))"
    unfolding map_map
  proof (rule arg_cong [where f = sum_list], rule map_cong [OF refl])
    fix x assume "x \<in> set ?m"
    then show "Available (snd x) =
        ((\<lambda>c. int (length (filter (\<lambda>r. ?p r \<and> inv_CategoryID r = c) ?rows))) \<circ> fst) x"
      unfolding comp_def by (intro avail) simp
  qed
  also have "\<dots> = (\<Sum>c \<in> fst ` set ?m. int (length (filter (\<lambda>r. ?p r \<and> inv_CategoryID r = c) ?rows)))"
    unfolding sum_list_distinct_conv_sum_set [OF dist] by (simp only: set_map)
  also have "\<dots> = int (length (filter ?p ?rows))"
  proof -
    have "inv_CategoryID r \<in> fst ` set ?m" if "r \<in> set ?rows" "?p r" for r
      using that counts_by_status_None [of t e d "inv_CategoryID r"] by (auto simp: map_of_eq_None_iff)
    then have "(\<Sum>c \<in> fst ` set ?m. length (filter (\<lambda>r. ?p r \<and> inv_CategoryID r = c) ?rows)) =
        length (filter ?p ?rows)"
      by (intro length_filter_partition) auto
    then show ?thesis by (simp only: of_nat_sum [symmetric])
  qed
  finally show ?thesis .
qed

end
