(* ===== verification/InventoryHistory.thy ===== *)
theory InventoryHistory
  imports InventoryRepo
begin

text \<open>
  Histories of the inventory table.  \<open>inv_step\<close> is one committed statement of the program as the
  table sees it; its reflexive transitive closure is every history of the table, whatever
  processes the statements come from and in whatever order they reach Postgres.  Under READ
  COMMITTED an UPDATE pinned to a row waits for the row's lock and evaluates its WHERE clause on
  the last committed version, so the committed statements on a row are serialised; statements
  of a transaction that rolls back leave neither a change nor an audit entry.
\<close>

section \<open>Histories\<close>

inductive inv_step :: "database \<Rightarrow> database \<Rightarrow> bool" where
  hold: "inventory_UPDATE (hold_where t i) (hold_set tok u x) now d = Inr (n, d') \<Longrightarrow> inv_step d d'"
| release: "inventory_UPDATE (token_where t i tok) (clear_hold InventoryStatusAvailable) now d
    = Inr (n, d') \<Longrightarrow> inv_step d d'"
| confirm: "inventory_UPDATE (token_where t i tok) (clear_hold InventoryStatusSold) now d
    = Inr (n, d') \<Longrightarrow> inv_step d d'"
| void: "inventory_UPDATE (void_where t i) (clear_hold InventoryStatusVoid) now d
    = Inr (n, d') \<Longrightarrow> inv_step d d'"
| insert: "inventory_INSERT r now d = Inr d' \<Longrightarrow> inv_Status r = InventoryStatusAvailable \<Longrightarrow> inv_step d d'"
| other: "event_seat_inventory d' = event_seat_inventory d \<Longrightarrow>
    inventory_audit_log d' = inventory_audit_log d \<Longrightarrow> inv_step d d'"

abbreviation history :: "database \<Rightarrow> database \<Rightarrow> bool" where
  "history \<equiv> inv_step\<^sup>*\<^sup>*"

interpretation hist: db_effect history
  by unfold_locales auto

section \<open>The audit trail\<close>

definition trail :: "uuid \<Rightarrow> database \<Rightarrow> AuditEntry list" where
  "trail i d = filter (\<lambda>a. al_InventoryID a = i) (inventory_audit_log d)"

definition status_at :: "uuid \<Rightarrow> database \<Rightarrow> InventoryStatus option" where
  "status_at i d = map_option inv_Status (find (\<lambda>r. inv_ID r = i) (event_seat_inventory d))"

text \<open>The transitions the program's statements can make; creation comes from nowhere.\<close>

fun legal :: "InventoryStatus option \<Rightarrow> InventoryStatus \<Rightarrow> bool" where
  "legal None s = (s = InventoryStatusAvailable)"
| "legal (Some InventoryStatusAvailable) s = (s = InventoryStatusHeld \<or> s = InventoryStatusVoid)"
| "legal (Some InventoryStatusHeld) s = (s \<noteq> InventoryStatusHeld)"
| "legal (Some InventoryStatusSold) s = (s = InventoryStatusVoid)"
| "legal (Some InventoryStatusVoid) s = False"

text \<open>The status a trail ends in, if every entry starts where the one before it ended.\<close>

primrec walk :: "AuditEntry list \<Rightarrow> InventoryStatus option \<Rightarrow> InventoryStatus option option" where
  "walk [] s = Some s"
| "walk (a # as) s =
    (if al_PreviousStatus a = s \<and> legal s (al_NewStatus a)
     then walk as (Some (al_NewStatus a)) else None)"

lemma walk_append: "walk (as @ bs) s = Option.bind (walk as s) (walk bs)"
  by (induction as arbitrary: s) auto

abbreviation sales :: "AuditEntry list \<Rightarrow> nat" where
  "sales as \<equiv> length (filter (\<lambda>a. al_NewStatus a = InventoryStatusSold) as)"

text \<open>A legal trail sells at most once, and never again after a sale.\<close>

lemma walk_after_sale:
  assumes "walk as s = Some s'" and "s = Some InventoryStatusSold \<or> s = Some InventoryStatusVoid"
  shows "sales as = 0 \<and> (s' = Some InventoryStatusSold \<or> s' = Some InventoryStatusVoid)"
  using assms by (induction as arbitrary: s) (auto split: if_splits)

lemma walk_sales:
  assumes "walk as s = Some s'" and "s \<noteq> Some InventoryStatusSold"
  shows "sales as \<le> 1 \<and>
    (sales as = 1 \<longrightarrow> s' = Some InventoryStatusSold \<or> s' = Some InventoryStatusVoid) \<and>
    (s' = Some InventoryStatusSold \<longrightarrow> sales as = 1)"
  using assms
proof (induction as arbitrary: s)
  case Nil
  then show ?case by simp
next
  case (Cons a as)
  then have rest: "walk as (Some (al_NewStatus a)) = Some s'"
    by (simp split: if_splits)
  show ?case
  proof (cases "al_NewStatus a = InventoryStatusSold")
    case True
    with walk_after_sale [OF rest] show ?thesis by simp
  next
    case False
    with Cons.IH [OF rest] show ?thesis by simp
  qed
qed

section \<open>Invariant\<close>

text \<open>Every row's trail is legal and ends in the row's status.\<close>

definition audited :: "database \<Rightarrow> bool" where
  "audited d \<longleftrightarrow> inventory_ok d \<and> (\<forall>i. walk (trail i d) None = Some (status_at i d))"

lemma find_id_unique:
  "inventory_ok d \<Longrightarrow> find (\<lambda>r. inv_ID r = i) (event_seat_inventory d) = Some r \<longleftrightarrow>
     r \<in> set (event_seat_inventory d) \<and> inv_ID r = i"
  by (rule find_key_Some_iff) (simp add: inventory_ok_def)

lemma filter_concat_other:
  "(\<And>x. x \<in> set xs \<Longrightarrow> filter p (f x) = []) \<Longrightarrow> filter p (concat (map f xs)) = []"
  by (induction xs) auto

lemma audited_UPDATE:
  assumes run: "inventory_UPDATE c f now d = Inr (n, d')" and "audited d"
    and keep: "\<And>r. inv_ID (f r) = inv_ID r"
    and pin: "\<And>r. c r \<Longrightarrow> inv_ID r = i"
    and law: "\<And>r. c r \<Longrightarrow> inv_Status (f r) = inv_Status r \<or> legal (Some (inv_Status r)) (inv_Status (f r))"
  shows "audited d'"
proof -
  let ?t = "event_seat_inventory d"
  let ?u = "\<lambda>r. (f r)\<lparr>inv_UpdatedAt := now\<rparr>"
  from \<open>audited d\<close> have ok: "inventory_ok d" and aud: "\<And>i. walk (trail i d) None = Some (status_at i d)"
    by (auto simp: audited_def)
  have hit: "filter c ?t =
      (case find (\<lambda>r. inv_ID r = i) ?t of None \<Rightarrow> [] | Some r \<Rightarrow> if c r then [r] else [])"
    using ok pin by (intro filter_key_unique) (auto simp: inventory_ok_def)
  have log: "trail j d' = trail j d @ (case find (\<lambda>r. inv_ID r = i) ?t of None \<Rightarrow> []
      | Some r \<Rightarrow> if c r \<and> j = i then log_status_change now r (?u r) else [])" for j
    using run keep pin
    by (auto simp: trail_def inventory_UPDATE_Inr_iff hit log_status_change_def split: option.split)
  have status: "status_at j d' =
      map_option (\<lambda>r. inv_Status (if c r then f r else r)) (find (\<lambda>r. inv_ID r = j) ?t)" for j
    using run keep
    by (simp add: status_at_def inventory_UPDATE_Inr_iff find_key_sql_update option.map_comp
        comp_def if_distrib cong: if_cong)
  have "walk (trail j d') None = Some (status_at j d')" for j
  proof (cases "find (\<lambda>r. inv_ID r = j) ?t")
    case None
    then have "status_at j d = None" "status_at j d' = None"
      by (simp_all add: status, simp add: status_at_def)
    with None aud [of j] show ?thesis by (auto simp: log split: option.split)
  next
    case (Some r)
    then have "inv_ID r = j" using ok by (simp add: find_id_unique)
    moreover have "status_at j d = Some (inv_Status r)"
      using Some by (simp add: status_at_def)
    ultimately show ?thesis
      using Some aud [of j] law [of r] pin [of r]
      by (auto simp: log status walk_append log_status_change_def split: option.split)
  qed
  with inventory_ok_UPDATE [OF run keep ok] show ?thesis by (simp add: audited_def)
qed

lemma audited_INSERT:
  assumes run: "inventory_INSERT r now d = Inr d'" and "inv_Status r = InventoryStatusAvailable"
    and "audited d"
  shows "audited d'"
proof -
  from run have d': "d' = d\<lparr>event_seat_inventory := event_seat_inventory d @ [r],
       inventory_audit_log := inventory_audit_log d @ [log_insert now r]\<rparr>"
    and fresh: "\<forall>x \<in> set (event_seat_inventory d). inv_ID x \<noteq> inv_ID r"
    by (auto simp: inventory_INSERT_def esi_unique_def list_all_iff split: if_splits)
  have log: "trail j d' = trail j d @ (if inv_ID r = j then [log_insert now r] else [])" for j
    by (simp add: d' trail_def log_insert_def)
  have status: "status_at j d' = (if inv_ID r = j then Some InventoryStatusAvailable else status_at j d)" for j
  proof (cases "find (\<lambda>r. inv_ID r = j) (event_seat_inventory d)")
    case None
    with assms(2) show ?thesis by (simp add: d' status_at_def find_append_None)
  next
    case (Some x)
    then have "x \<in> set (event_seat_inventory d)" "inv_ID x = j"
      by (auto simp: find_Some_iff)
    with Some fresh show ?thesis
      by (auto simp: d' status_at_def find_append_Some)
  qed
  have old: "status_at (inv_ID r) d = None"
    using fresh by (simp add: status_at_def find_None_iff)
  have "walk (trail j d') None = Some (status_at j d')" for j
    using \<open>audited d\<close> old assms(2)
    by (auto simp: audited_def log status walk_append log_insert_def)
  with inventory_INSERT_ok [OF run] \<open>audited d\<close> show ?thesis by (simp add: audited_def)
qed

lemma inv_step_audited: "inv_step d d' \<Longrightarrow> audited d \<Longrightarrow> audited d'"
proof (induction rule: inv_step.induct)
  case (hold t i tok u x now d n d')
  then show ?case by (rule audited_UPDATE [where i = i]) (auto simp: hold_where_def)
next
  case (release t i tok now d n d')
  then show ?case by (rule audited_UPDATE [where i = i]) (auto simp: token_where_def)
next
  case (confirm t i tok now d n d')
  then show ?case by (rule audited_UPDATE [where i = i]) (auto simp: token_where_def)
next
  case (void t i now d n d')
  have "inv_Status (clear_hold InventoryStatusVoid r) = inv_Status r \<or>
      legal (Some (inv_Status r)) (inv_Status (clear_hold InventoryStatusVoid r))" for r
    by (cases "inv_Status r") auto
  then show ?case by (intro audited_UPDATE [where i = i, OF void]) (simp_all add: void_where_def)
next
  case insert
  then show ?case by (rule audited_INSERT)
next
  case (other d' d)
  then show ?case by (auto simp: audited_def inventory_ok_def trail_def status_at_def)
qed

lemma history_audited: "history d d' \<Longrightarrow> audited d \<Longrightarrow> audited d'"
  by (induction rule: rtranclp_induct) (auto intro: inv_step_audited)

lemma audited_empty: "event_seat_inventory d = [] \<Longrightarrow> inventory_audit_log d = [] \<Longrightarrow> audited d"
  by (simp add: audited_def inventory_ok_def trail_def status_at_def)

text \<open>The primary key and the CHECK of the table, along one statement and along many.\<close>

lemma inv_step_ok:
  assumes "inv_step d d'" and "inventory_ok d"
  shows "inventory_ok d'"
  using assms
proof (cases rule: inv_step.cases)
  case hold
  then show ?thesis using assms(2) by (auto intro: inventory_ok_UPDATE)
next
  case release
  then show ?thesis using assms(2) by (auto intro: inventory_ok_UPDATE)
next
  case confirm
  then show ?thesis using assms(2) by (auto intro: inventory_ok_UPDATE)
next
  case void
  then show ?thesis using assms(2) by (auto intro: inventory_ok_UPDATE)
next
  case insert
  then show ?thesis using assms(2) by (blast intro: inventory_INSERT_ok)
next
  case other
  then show ?thesis using assms(2) by (simp add: inventory_ok_def)
qed

lemma history_ok: "history d d' \<Longrightarrow> inventory_ok d \<Longrightarrow> inventory_ok d'"
  by (induction rule: rtranclp_induct) (blast intro: inv_step_ok)+

lemma audited_ok: "audited d \<Longrightarrow> inventory_ok d"
  by (simp add: audited_def)

lemma audited_sales:
  assumes "audited d"
  shows "sales (trail i d) \<le> 1"
    and "status_at i d = Some InventoryStatusSold \<Longrightarrow> sales (trail i d) = 1"
    and "sales (trail i d) = 1 \<Longrightarrow>
      status_at i d = Some InventoryStatusSold \<or> status_at i d = Some InventoryStatusVoid"
  using assms walk_sales [of "trail i d" None "status_at i d"] by (auto simp: audited_def)

section \<open>The repository writes history\<close>

lemma inv_step_INSERT_batch:
  "inventory_INSERT_batch rs now d = Inr (x, d') \<Longrightarrow>
   \<forall>r \<in> set rs. inv_Status r = InventoryStatusAvailable \<Longrightarrow> history d d'"
proof (induction rs arbitrary: d)
  case Nil
  then show ?case by simp
next
  case (Cons r rs)
  then obtain d1 where "inventory_INSERT r now d = Inr d1" "inventory_INSERT_batch rs now d1 = Inr (x, d')"
    by (auto split: sum.splits)
  with Cons show ?case by (auto intro: converse_rtranclp_into_rtranclp inv_step.insert)
qed

lemma cas_moves:
  "inventory_UPDATE (hold_where t i) (hold_set tok u x) now d = Inr (n, d') \<Longrightarrow> history d d'"
  "inventory_UPDATE (token_where t i tok) (clear_hold InventoryStatusAvailable) now d
     = Inr (n, d') \<Longrightarrow> history d d'"
  "inventory_UPDATE (token_where t i tok) (clear_hold InventoryStatusSold) now d
     = Inr (n, d') \<Longrightarrow> history d d'"
  "inventory_UPDATE (void_where t i) (clear_hold InventoryStatusVoid) now d
     = Inr (n, d') \<Longrightarrow> history d d'"
  by (blast intro: inv_step.intros)+

abbreviation writes_history :: "'a op \<Rightarrow> bool" where
  "writes_history \<equiv> moves (\<lambda>w w'. history (db w) (db w'))"

lemma InventoryRepo_Hold_history: "writes_history (InventoryRepo_Hold E t i tok u x)"
  unfolding InventoryRepo_Hold_def
  by (intro hist.db_moves_intros hist.moves_stmt) (rule cas_moves)

lemma InventoryRepo_Release_history: "writes_history (InventoryRepo_Release E t i tok)"
  unfolding InventoryRepo_Release_def
  by (intro hist.db_moves_intros hist.moves_stmt) (rule cas_moves)

lemma InventoryRepo_ConfirmSale_history: "writes_history (InventoryRepo_ConfirmSale E t i tok)"
  unfolding InventoryRepo_ConfirmSale_def
  by (intro hist.db_moves_intros hist.moves_stmt) (rule cas_moves)

lemma InventoryRepo_Void_history: "writes_history (InventoryRepo_Void E t i)"
  unfolding InventoryRepo_Void_def
  by (intro hist.db_moves_intros hist.moves_stmt) (rule cas_moves)

lemma BulkCreate_rows_available:
  assumes "foldE (BulkCreate_row E) rows [] w = (Inr batch, w')"
  shows "\<forall>r \<in> set batch. inv_Status r = InventoryStatusAvailable"
  by (rule foldE_invariant [OF assms]) (auto simp: BulkCreate_row_def comp_iffs)

lemma InventoryRepo_BulkCreate_history: "writes_history (InventoryRepo_BulkCreate E rows)"
  unfolding InventoryRepo_BulkCreate_def
proof (intro hist.moves_if hist.moves_return hist.moves_bind_run)
  show "writes_history (foldE (BulkCreate_row E) rows [])"
    unfolding BulkCreate_row_def by (intro hist.db_moves_intros)
next
  fix w batch w'
  assume "foldE (BulkCreate_row E) rows [] w = (Inr batch, w')"
  from BulkCreate_rows_available [OF this]
  show "writes_history (wrapE ''postgres: bulk create inventory: %w'' (pg_stmt E (\<lambda>now.
      inventory_INSERT_batch (map (\<lambda>r. r\<lparr>inv_CreatedAt := now, inv_UpdatedAt := now\<rparr>) batch) now)))"
    by (intro hist.db_moves_intros hist.moves_stmt) (auto elim!: inv_step_INSERT_batch)
qed

text \<open>A statement on other tables is a step that changes neither the inventory nor its trail.\<close>

lemma other_history:
  assumes "\<And>now d x d'. f now d = Inr (x, d') \<Longrightarrow>
    event_seat_inventory d' = event_seat_inventory d \<and> inventory_audit_log d' = inventory_audit_log d"
  shows "writes_history (pg_stmt E f)"
  using assms by (intro hist.moves_stmt) (auto intro!: r_into_rtranclp inv_step.other)

end
