(* ===== verification/OrderRepo.thy ===== *)
theory OrderRepo
  imports InventoryHistory
begin

text \<open>
  \<open>internal/repository/postgres\<close>: \<open>order.go\<close>, \<open>payment.go\<close> and \<open>notification.go\<close> over the tables of
  migrations 000007, 000008, 000012 and 000014.
\<close>

section \<open>order.go\<close>

definition non_negative :: "Money \<Rightarrow> bool" where
  "non_negative m \<longleftrightarrow> 0 \<le> sint (Cents m)"

text \<open>The one currency column of an order is that of its total (\<open>scanOrder\<close>).\<close>

definition order_row :: "time \<Rightarrow> Order \<Rightarrow> Order" where
  "order_row now o1 = (let c = Currency (ord_Total o1) in
    o1\<lparr>ord_Subtotal := (ord_Subtotal o1)\<lparr>Currency := c\<rparr>, ord_Fees := (ord_Fees o1)\<lparr>Currency := c\<rparr>,
      ord_CreatedAt := now, ord_UpdatedAt := now\<rparr>)"

definition orders_INSERT :: "Order \<Rightarrow> time \<Rightarrow> database \<Rightarrow> string + (unit \<times> database)" where
  "orders_INSERT o1 now d =
    pg_insert
      (non_negative (ord_Subtotal o1) \<and> non_negative (ord_Fees o1) \<and> non_negative (ord_Total o1))
      (list_all (\<lambda>x. ord_ID x \<noteq> ord_ID o1 \<and>
        \<not> (ord_TenantID x = ord_TenantID o1 \<and> ord_IdempotencyKey x = ord_IdempotencyKey o1)) (orders d))
      (list_ex (\<lambda>t. t_ID t = ord_TenantID o1) (tenants d) \<and> list_ex (\<lambda>u. u_ID u = ord_UserID o1) (users d))
      (d\<lparr>orders := orders d @ [order_row now o1]\<rparr>)"

definition order_items_INSERT :: "OrderItem \<Rightarrow> time \<Rightarrow> database \<Rightarrow> string + (unit \<times> database)" where
  "order_items_INSERT it now d =
    pg_insert (non_negative (oi_UnitPrice it))
      (list_all (\<lambda>x. oi_ID x \<noteq> oi_ID it) (order_items d))
      (list_ex (\<lambda>x. ord_ID x = oi_OrderID it \<and> ord_TenantID x = oi_TenantID it) (orders d) \<and>
       list_ex (\<lambda>x. inv_ID x = oi_InventoryID it \<and> inv_TenantID x = oi_TenantID it)
         (event_seat_inventory d))
      (d\<lparr>order_items := order_items d @ [it\<lparr>oi_CreatedAt := now\<rparr>]\<rparr>)"

primrec order_items_INSERT_batch ::
  "OrderItem list \<Rightarrow> time \<Rightarrow> database \<Rightarrow> string + (unit \<times> database)" where
  "order_items_INSERT_batch [] now d = Inr ((), d)"
| "order_items_INSERT_batch (it # its) now d =
    (case order_items_INSERT it now d of
      Inl code \<Rightarrow> Inl code
    | Inr (_, d') \<Rightarrow> order_items_INSERT_batch its now d')"

text \<open>An id for each item that has none; tenant and order are the order's.\<close>

definition CreateWithItems_item ::
  "env \<Rightarrow> Order \<Rightarrow> OrderItem \<Rightarrow> OrderItem list \<Rightarrow> OrderItem list op" where
  "CreateWithItems_item E o1 it batch =
    bindE (id_or_New E (oi_ID it)) (\<lambda>i.
    returnE (batch @ [it\<lparr>oi_ID := i, oi_TenantID := ord_TenantID o1, oi_OrderID := ord_ID o1\<rparr>]))"

text \<open>The order's id is set through the pointer: the order is returned with it.\<close>

definition OrderRepo_CreateWithItems :: "env \<Rightarrow> Order \<Rightarrow> OrderItem list \<Rightarrow> Order op" where
  "OrderRepo_CreateWithItems E o0 items =
    bindE (id_or_New E (ord_ID o0)) (\<lambda>i.
    let o1 = o0\<lparr>ord_ID := i\<rparr> in
    bindE (conflictE ''postgres.OrderRepo.CreateWithItems'' ''postgres: create order: %w''
      (pg_stmt E (orders_INSERT o1))) (\<lambda>_.
    if items = [] then returnE o1
    else bindE (foldE (CreateWithItems_item E o1) items []) (\<lambda>batch.
      bindE (wrapE ''postgres: create order item: %w'' (pg_stmt E (order_items_INSERT_batch batch)))
        (\<lambda>_. returnE o1))))"

definition order_by_id :: "uuid \<Rightarrow> uuid \<Rightarrow> database \<Rightarrow> Order option" where
  "order_by_id tenantID i d = find (\<lambda>o1. ord_ID o1 = i \<and> ord_TenantID o1 = tenantID) (orders d)"

definition OrderRepo_GetByID :: "env \<Rightarrow> uuid \<Rightarrow> uuid \<Rightarrow> Order op" where
  "OrderRepo_GetByID E tenantID i =
    QueryRow E ''postgres.OrderRepo.GetByID'' ''postgres: get order: %w'' (order_by_id tenantID i)"

definition order_by_key :: "uuid \<Rightarrow> string \<Rightarrow> database \<Rightarrow> Order option" where
  "order_by_key tenantID key d =
    find (\<lambda>o1. ord_TenantID o1 = tenantID \<and> ord_IdempotencyKey o1 = key) (orders d)"

definition OrderRepo_GetByIdempotencyKey :: "env \<Rightarrow> uuid \<Rightarrow> string \<Rightarrow> Order op" where
  "OrderRepo_GetByIdempotencyKey E tenantID key =
    QueryRow E ''postgres.OrderRepo.GetByIdempotencyKey''
      ''postgres: get order by idempotency key: %w'' (order_by_key tenantID key)"

text \<open>\<open>ORDER BY created_at\<close>; SQL leaves the order of ties open, here it is that of the table.\<close>

definition items_of_order :: "uuid \<Rightarrow> uuid \<Rightarrow> database \<Rightarrow> OrderItem list" where
  "items_of_order tenantID orderID d =
    sort_key oi_CreatedAt
      (filter (\<lambda>it. oi_TenantID it = tenantID \<and> oi_OrderID it = orderID) (order_items d))"

definition OrderRepo_ListItems :: "env \<Rightarrow> uuid \<Rightarrow> uuid \<Rightarrow> OrderItem list op" where
  "OrderRepo_ListItems E tenantID orderID =
    wrapE ''postgres: list order items: %w'' (pg_query E (items_of_order tenantID orderID))"

definition order_where :: "uuid \<Rightarrow> uuid \<Rightarrow> Order \<Rightarrow> bool" where
  "order_where tenantID i o1 \<longleftrightarrow> ord_ID o1 = i \<and> ord_TenantID o1 = tenantID"

definition orders_SET_status ::
  "uuid \<Rightarrow> uuid \<Rightarrow> OrderStatus \<Rightarrow> time \<Rightarrow> database \<Rightarrow> string + (nat \<times> database)" where
  "orders_SET_status tenantID i st now d =
    Inr (sql_affected (order_where tenantID i) (orders d),
      d\<lparr>orders := sql_update (order_where tenantID i)
        (\<lambda>o1. o1\<lparr>ord_Status := st, ord_UpdatedAt := now\<rparr>) (orders d)\<rparr>)"

definition OrderRepo_UpdateStatus :: "env \<Rightarrow> uuid \<Rightarrow> uuid \<Rightarrow> OrderStatus \<Rightarrow> unit op" where
  "OrderRepo_UpdateStatus E tenantID i st =
    ExecUpdate E ''postgres.OrderRepo.UpdateStatus'' ''postgres: update order status: %w''
      (orders_SET_status tenantID i st)"

definition orders_of_user :: "uuid \<Rightarrow> uuid \<Rightarrow> int \<Rightarrow> int \<Rightarrow> database \<Rightarrow> Order list" where
  "orders_of_user tenantID userID limit off d =
    sql_page limit off (sort_key (\<lambda>o1. - ord_CreatedAt o1)
      (filter (\<lambda>o1. ord_TenantID o1 = tenantID \<and> ord_UserID o1 = userID) (orders d)))"

definition OrderRepo_ListByUser :: "env \<Rightarrow> uuid \<Rightarrow> uuid \<Rightarrow> int \<Rightarrow> int \<Rightarrow> Order list op" where
  "OrderRepo_ListByUser E tenantID userID limit off =
    wrapE ''postgres: list orders by user: %w'' (pg_query E (orders_of_user tenantID userID limit off))"

section \<open>payment.go\<close>

text \<open>An empty provider payment id is stored as NULL, which no unique key compares.\<close>

definition payments_INSERT :: "Payment \<Rightarrow> time \<Rightarrow> database \<Rightarrow> string + (unit \<times> database)" where
  "payments_INSERT p now d =
    pg_insert (non_negative (pay_Amount p))
      (list_all (\<lambda>x. pay_ID x \<noteq> pay_ID p \<and>
        \<not> (pay_TenantID x = pay_TenantID p \<and> pay_IdempotencyKey x = pay_IdempotencyKey p) \<and>
        \<not> (pay_ProviderPaymentID p \<noteq> '''' \<and> pay_Provider x = pay_Provider p \<and>
          pay_ProviderPaymentID x = pay_ProviderPaymentID p)) (payments d))
      (list_ex (\<lambda>x. ord_ID x = pay_OrderID p \<and> ord_TenantID x = pay_TenantID p) (orders d))
      (d\<lparr>payments := payments d @ [p\<lparr>pay_CreatedAt := now, pay_UpdatedAt := now\<rparr>]\<rparr>)"

definition PaymentRepo_Create :: "env \<Rightarrow> Payment \<Rightarrow> unit op" where
  "PaymentRepo_Create E p =
    bindE (id_or_New E (pay_ID p)) (\<lambda>i.
    conflictE ''postgres.PaymentRepo.Create'' ''postgres: create payment: %w''
      (pg_stmt E (payments_INSERT (p\<lparr>pay_ID := i\<rparr>))))"

definition payment_by_id :: "uuid \<Rightarrow> uuid \<Rightarrow> database \<Rightarrow> Payment option" where
  "payment_by_id tenantID i d = find (\<lambda>p. pay_ID p = i \<and> pay_TenantID p = tenantID) (payments d)"

definition PaymentRepo_GetByID :: "env \<Rightarrow> uuid \<Rightarrow> uuid \<Rightarrow> Payment op" where
  "PaymentRepo_GetByID E tenantID i =
    QueryRow E ''postgres.PaymentRepo.GetByID'' ''postgres: get payment: %w'' (payment_by_id tenantID i)"

definition payment_by_key :: "uuid \<Rightarrow> string \<Rightarrow> database \<Rightarrow> Payment option" where
  "payment_by_key tenantID key d =
    find (\<lambda>p. pay_TenantID p = tenantID \<and> pay_IdempotencyKey p = key) (payments d)"

definition PaymentRepo_GetByIdempotencyKey :: "env \<Rightarrow> uuid \<Rightarrow> string \<Rightarrow> Payment op" where
  "PaymentRepo_GetByIdempotencyKey E tenantID key =
    QueryRow E ''postgres.PaymentRepo.GetByIdempotencyKey''
      ''postgres: get payment by idempotency key: %w'' (payment_by_key tenantID key)"

text \<open>\<open>COALESCE\<close>: an empty id and a nil response keep what the row has.\<close>

definition payment_where :: "uuid \<Rightarrow> uuid \<Rightarrow> Payment \<Rightarrow> bool" where
  "payment_where tenantID i p \<longleftrightarrow> pay_ID p = i \<and> pay_TenantID p = tenantID"

definition payment_set ::
  "PaymentStatus \<Rightarrow> string \<Rightarrow> string option \<Rightarrow> time \<Rightarrow> Payment \<Rightarrow> Payment" where
  "payment_set st ppid raw now p =
    p\<lparr>pay_Status := st,
      pay_ProviderPaymentID := (if ppid = '''' then pay_ProviderPaymentID p else ppid),
      pay_RawResponse := (case raw of None \<Rightarrow> pay_RawResponse p | Some r \<Rightarrow> Some r),
      pay_UpdatedAt := now\<rparr>"

definition payments_SET_status ::
  "uuid \<Rightarrow> uuid \<Rightarrow> PaymentStatus \<Rightarrow> string \<Rightarrow> string option \<Rightarrow> time \<Rightarrow> database \<Rightarrow>
   string + (nat \<times> database)" where
  "payments_SET_status tenantID i st ppid raw now d =
    (if ppid \<noteq> '''' \<and> list_ex (payment_where tenantID i) (payments d) \<and>
        \<not> list_all (\<lambda>x. payment_where tenantID i x \<or> pay_ProviderPaymentID x \<noteq> ppid \<or>
          list_all (\<lambda>p. payment_where tenantID i p \<longrightarrow> pay_Provider p \<noteq> pay_Provider x) (payments d))
          (payments d)
     then Inl pgCodeUniqueViolation
     else Inr (sql_affected (payment_where tenantID i) (payments d),
       d\<lparr>payments := sql_update (payment_where tenantID i) (payment_set st ppid raw now) (payments d)\<rparr>))"

definition PaymentRepo_UpdateStatus ::
  "env \<Rightarrow> uuid \<Rightarrow> uuid \<Rightarrow> PaymentStatus \<Rightarrow> string \<Rightarrow> string option \<Rightarrow> unit op" where
  "PaymentRepo_UpdateStatus E tenantID i st ppid raw =
    ExecUpdate E ''postgres.PaymentRepo.UpdateStatus'' ''postgres: update payment status: %w''
      (payments_SET_status tenantID i st ppid raw)"

section \<open>notification.go\<close>

definition notifications_INSERT :: "Notification \<Rightarrow> time \<Rightarrow> database \<Rightarrow> string + (unit \<times> database)" where
  "notifications_INSERT n now d =
    pg_insert True
      (list_all (\<lambda>x. n_ID x \<noteq> n_ID n) (notifications d))
      (list_ex (\<lambda>t. t_ID t = n_TenantID n) (tenants d) \<and> list_ex (\<lambda>u. u_ID u = n_UserID n) (users d))
      (d\<lparr>notifications := notifications d @
        [n\<lparr>n_Attempts := 0, n_LastError := None, n_CreatedAt := now, n_SentAt := None\<rparr>]\<rparr>)"

text \<open>An unset status is 'pending'; the type's \<open>n_Status\<close> is what the caller resolved.\<close>

definition NotificationRepo_Create :: "env \<Rightarrow> Notification \<Rightarrow> unit op" where
  "NotificationRepo_Create E n =
    bindE (id_or_New E (n_ID n)) (\<lambda>i.
    wrapE ''postgres: create notification: %w'' (pg_stmt E (notifications_INSERT (n\<lparr>n_ID := i\<rparr>))))"

text \<open>JSON has no integers: a number read back into \<open>any\<close> is a \<open>float64\<close>.\<close>

fun json_read :: "any \<Rightarrow> any" where
  "json_read (AnyInt i) = AnyFloat (float64 i)"
| "json_read v = v"

definition pending_notifications :: "int \<Rightarrow> database \<Rightarrow> Notification list" where
  "pending_notifications limit d =
    map (\<lambda>n. n\<lparr>n_Payload := map (apsnd json_read) (n_Payload n)\<rparr>)
      (sql_page limit 0 (sort_key n_CreatedAt
        (filter (\<lambda>n. n_Status n = NotificationStatusPending) (notifications d))))"

definition NotificationRepo_ListPending :: "env \<Rightarrow> int \<Rightarrow> Notification list op" where
  "NotificationRepo_ListPending E limit =
    wrapE ''postgres: list pending notifications: %w'' (pg_query E (pending_notifications limit))"

definition notifications_UPDATE ::
  "uuid \<Rightarrow> (time \<Rightarrow> Notification \<Rightarrow> Notification) \<Rightarrow> time \<Rightarrow> database \<Rightarrow> string + (nat \<times> database)" where
  "notifications_UPDATE i f now d =
    Inr (sql_affected (\<lambda>n. n_ID n = i) (notifications d),
      d\<lparr>notifications := sql_update (\<lambda>n. n_ID n = i) (f now) (notifications d)\<rparr>)"

definition sent_set :: "time \<Rightarrow> Notification \<Rightarrow> Notification" where
  "sent_set now n =
    n\<lparr>n_Status := NotificationStatusSent, n_SentAt := Some now, n_Attempts := n_Attempts n + 1\<rparr>"

definition failed_set :: "error \<Rightarrow> time \<Rightarrow> Notification \<Rightarrow> Notification" where
  "failed_set err now n =
    n\<lparr>n_Status := NotificationStatusFailed, n_Attempts := n_Attempts n + 1, n_LastError := Some err\<rparr>"

definition NotificationRepo_MarkSent :: "env \<Rightarrow> uuid \<Rightarrow> unit op" where
  "NotificationRepo_MarkSent E i =
    ExecUpdate E ''postgres.NotificationRepo.MarkSent'' ''postgres: mark notification sent: %w''
      (notifications_UPDATE i sent_set)"

definition NotificationRepo_MarkFailed :: "env \<Rightarrow> uuid \<Rightarrow> error \<Rightarrow> unit op" where
  "NotificationRepo_MarkFailed E i err =
    ExecUpdate E ''postgres.NotificationRepo.MarkFailed'' ''postgres: mark notification failed: %w''
      (notifications_UPDATE i (failed_set err))"

section \<open>Effects\<close>

lemmas order_repo_reads =
  OrderRepo_GetByID_def OrderRepo_GetByIdempotencyKey_def OrderRepo_ListItems_def
  OrderRepo_ListByUser_def PaymentRepo_GetByID_def PaymentRepo_GetByIdempotencyKey_def
  NotificationRepo_ListPending_def

text \<open>None of these statements touches the inventory.\<close>

definition inventory_part :: "database \<Rightarrow> EventSeatInventory list \<times> AuditEntry list" where
  "inventory_part d = (event_seat_inventory d, inventory_audit_log d)"

interpretation same_inventory: db_frame inventory_part .

abbreviation keeps_inventory :: "'a op \<Rightarrow> bool" where
  "keeps_inventory \<equiv> moves (\<lambda>w w'. inventory_part (db w') = inventory_part (db w))"

lemma keeps_inventory_history: "keeps_inventory m \<Longrightarrow> writes_history m"
  by (auto simp: moves_def inventory_part_def intro!: r_into_rtranclp inv_step.other)

lemma items_batch_inventory:
  "order_items_INSERT_batch its now d = Inr (x, d') \<Longrightarrow> inventory_part d' = inventory_part d"
  by (induction its arbitrary: d)
    (auto simp: order_items_INSERT_def pg_insert_Inr_iff inventory_part_def split: sum.splits)

lemma order_repo_keeps_inventory:
  "keeps_inventory (OrderRepo_CreateWithItems E o1 its)"
  "keeps_inventory (OrderRepo_GetByID E t i)"
  "keeps_inventory (OrderRepo_GetByIdempotencyKey E t key)"
  "keeps_inventory (OrderRepo_ListItems E t i)"
  "keeps_inventory (OrderRepo_ListByUser E t u l off)"
  "keeps_inventory (OrderRepo_UpdateStatus E t i st)"
  "keeps_inventory (PaymentRepo_Create E p)"
  "keeps_inventory (PaymentRepo_GetByID E t i)"
  "keeps_inventory (PaymentRepo_GetByIdempotencyKey E t key)"
  "keeps_inventory (PaymentRepo_UpdateStatus E t i ps ppid raw)"
  "keeps_inventory (NotificationRepo_Create E n)"
  "keeps_inventory (NotificationRepo_ListPending E l)"
  "keeps_inventory (NotificationRepo_MarkSent E i)"
  "keeps_inventory (NotificationRepo_MarkFailed E i err)"
  unfolding OrderRepo_CreateWithItems_def CreateWithItems_item_def OrderRepo_UpdateStatus_def
    PaymentRepo_Create_def PaymentRepo_UpdateStatus_def NotificationRepo_Create_def
    NotificationRepo_MarkSent_def NotificationRepo_MarkFailed_def order_repo_reads
  by (intro same_inventory.frame.db_moves_intros same_inventory.frame.moves_stmt
      same_inventory.frame.moves_ExecUpdate;
    auto simp: orders_INSERT_def orders_SET_status_def payments_INSERT_def payments_SET_status_def
      notifications_INSERT_def notifications_UPDATE_def pg_insert_Inr_iff inventory_part_def
      dest: items_batch_inventory [unfolded inventory_part_def] split: if_splits)+

section \<open>What creating an order stores\<close>

text \<open>An item as stored: the caller's, with ids and the creation time filled in.\<close>

definition stored_item :: "Order \<Rightarrow> OrderItem \<Rightarrow> OrderItem \<Rightarrow> bool" where
  "stored_item o1 it st \<longleftrightarrow>
    oi_TenantID st = ord_TenantID o1 \<and> oi_OrderID st = ord_ID o1 \<and>
    oi_InventoryID st = oi_InventoryID it \<and> oi_HoldToken st = oi_HoldToken it \<and>
    oi_UnitPrice st = oi_UnitPrice it"

lemma order_items_batch_Inr:
  "order_items_INSERT_batch batch now d = Inr (x, d') \<Longrightarrow>
   d' = d\<lparr>order_items := order_items d @ map (\<lambda>it. it\<lparr>oi_CreatedAt := now\<rparr>) batch\<rparr>"
proof (induction batch arbitrary: d)
  case Nil
  then show ?case by simp
next
  case (Cons it batch)
  then have "order_items_INSERT_batch batch now (d\<lparr>order_items := order_items d @ [it\<lparr>oi_CreatedAt := now\<rparr>]\<rparr>)
      = Inr (x, d')"
    by (auto simp: order_items_INSERT_def pg_insert_Inr_iff split: sum.splits)
  from Cons.IH [OF this] show ?case by simp
qed

lemma CreateWithItems_batch:
  assumes "foldE (CreateWithItems_item E o1) items [] w = (Inr batch, w')"
  shows "list_all2 (stored_item o1) items batch \<and> db w' = db w \<and> tx_now w' = tx_now w"
  by (rule foldE_prefix [OF assms, where P = "\<lambda>ys b v. list_all2 (stored_item o1) ys b \<and> db v = db w
      \<and> tx_now v = tx_now w"])
    (auto simp: CreateWithItems_item_def comp_iffs id_or_New_def run_uuid_New stored_item_def
      list_all2_appendI split: if_splits)

lemma CreateWithItems_Inr:
  assumes "OrderRepo_CreateWithItems E o0 items w = (Inr o1, w')"
  shows "\<exists>i now st. o1 = o0\<lparr>ord_ID := i\<rparr> \<and> list_all2 (stored_item o1) items st \<and>
    non_negative (ord_Total o1) \<and> order_by_key (ord_TenantID o1) (ord_IdempotencyKey o1) (db w) = None \<and>
    db w' = (db w)\<lparr>orders := orders (db w) @ [order_row now o1], order_items := order_items (db w) @ st\<rparr>"
proof -
  obtain q w1 where new: "id_or_New E (ord_ID o0) w = (q, w1)" by fastforce
  then have w1: "db w1 = db w" using id_or_New_frame by blast
  from assms new obtain i w2 where o1: "o1 = o0\<lparr>ord_ID := i\<rparr>"
    and ins: "pg_stmt E (orders_INSERT o1) w1 = (Inr (), w2)"
    and rest: "(if items = [] then returnE o1
      else bindE (foldE (CreateWithItems_item E o1) items []) (\<lambda>batch.
        bindE (wrapE ''postgres: create order item: %w'' (pg_stmt E (order_items_INSERT_batch batch)))
          (\<lambda>_. returnE o1))) w2 = (Inr o1, w')"
    by (auto simp: OrderRepo_CreateWithItems_def Let_def comp_iffs conflictE_def split: if_splits)
  define now where "now = pg_now E w1"
  from ins have "orders_INSERT o1 now (db w) = Inr ((), db w2)"
    by (auto simp: pg_stmt_Inr_iff w1 now_def)
  then have w2: "db w2 = (db w)\<lparr>orders := orders (db w) @ [order_row now o1]\<rparr>"
    and pos: "non_negative (ord_Total o1)"
    and fresh: "order_by_key (ord_TenantID o1) (ord_IdempotencyKey o1) (db w) = None"
    by (simp_all add: orders_INSERT_def pg_insert_Inr_iff order_by_key_def find_None_iff list_all_iff)
  show ?thesis
  proof (cases "items = []")
    case True
    with rest w2 fresh pos o1 show ?thesis by (auto simp: run_simps intro!: exI [of _ now] exI [of _ i])
  next
    case False
    with rest obtain batch w3 where batch: "foldE (CreateWithItems_item E o1) items [] w2 = (Inr batch, w3)"
      and ins2: "pg_stmt E (order_items_INSERT_batch batch) w3 = (Inr (), w')"
      by (auto simp: comp_iffs)
    note b = CreateWithItems_batch [OF batch]
    from ins2 obtain now' where "db w' = (db w3)\<lparr>order_items := order_items (db w3)
        @ map (\<lambda>it. it\<lparr>oi_CreatedAt := now'\<rparr>) batch\<rparr>"
      by (auto simp: pg_stmt_Inr_iff dest: order_items_batch_Inr)
    moreover have "list_all2 (stored_item o1) items (map (\<lambda>it. it\<lparr>oi_CreatedAt := now'\<rparr>) batch)"
      using b by (auto simp: list_all2_conv_all_nth stored_item_def)
    ultimately show ?thesis using b w2 fresh pos o1
      by (auto intro!: exI [of _ now] exI [of _ i] exI [of _ "map (\<lambda>it. it\<lparr>oi_CreatedAt := now'\<rparr>) batch"])
  qed
qed

end
