(* ===== verification/CatalogRepo.thy ===== *)
theory CatalogRepo
  imports OrderRepo "HOL-Library.Product_Lexorder" "HOL-Library.List_Lexorder" "HOL-Library.Char_ord"
begin

text \<open>
  \<open>internal/repository/postgres\<close>: \<open>tenant.go\<close>, \<open>venue.go\<close>, \<open>seatcategory.go\<close> and \<open>event.go\<close> over the
  tables of migrations 000002, 000004 and 000005.  \<open>ORDER BY\<close> on text is read as byte order.  The
  seat map coordinates \<open>pos_x\<close>, \<open>pos_y\<close> of a seat are left out.
\<close>

section \<open>tenant.go\<close>

definition tenants_INSERT :: "Tenant \<Rightarrow> time \<Rightarrow> database \<Rightarrow> string + (unit \<times> database)" where
  "tenants_INSERT t now d =
    pg_insert True (list_all (\<lambda>x. t_ID x \<noteq> t_ID t \<and> t_Slug x \<noteq> t_Slug t) (tenants d)) True
      (d\<lparr>tenants := tenants d @ [t\<lparr>t_CreatedAt := now, t_UpdatedAt := now\<rparr>]\<rparr>)"

text \<open>An unset status is resolved by the caller; an unset sport is football.\<close>

definition TenantRepo_Create :: "env \<Rightarrow> Tenant \<Rightarrow> unit op" where
  "TenantRepo_Create E t =
    bindE (id_or_New E (t_ID t)) (\<lambda>i.
    let t' = t\<lparr>t_ID := i, t_Sport := if t_Sport t = '''' then ''football'' else t_Sport t\<rparr> in
    conflictE ''postgres.TenantRepo.Create'' ''postgres: create tenant: %w''
      (pg_stmt E (tenants_INSERT t')))"

text \<open>what \<open>scanTenant\<close> reads of a row\<close>

definition scanTenant :: "Tenant \<Rightarrow> Tenant" where
  "scanTenant t = t\<lparr>t_Branding := map (apsnd json_read) (t_Branding t)\<rparr>"

definition tenant_by_id :: "uuid \<Rightarrow> database \<Rightarrow> Tenant option" where
  "tenant_by_id i d = map_option scanTenant (find (\<lambda>t. t_ID t = i) (tenants d))"

definition TenantRepo_GetByID :: "env \<Rightarrow> uuid \<Rightarrow> Tenant op" where
  "TenantRepo_GetByID E i =
    QueryRow E ''postgres.TenantRepo.GetByID'' ''postgres: get tenant: %w'' (tenant_by_id i)"

definition tenant_by_slug :: "string \<Rightarrow> database \<Rightarrow> Tenant option" where
  "tenant_by_slug slug d = map_option scanTenant (find (\<lambda>t. t_Slug t = slug) (tenants d))"

definition TenantRepo_GetBySlug :: "env \<Rightarrow> string \<Rightarrow> Tenant op" where
  "TenantRepo_GetBySlug E slug =
    QueryRow E ''postgres.TenantRepo.GetBySlug'' ''postgres: get tenant by slug: %w'' (tenant_by_slug slug)"

definition tenants_UPDATE :: "Tenant \<Rightarrow> time \<Rightarrow> database \<Rightarrow> string + (nat \<times> database)" where
  "tenants_UPDATE t now d =
    Inr (sql_affected (\<lambda>x. t_ID x = t_ID t) (tenants d),
      d\<lparr>tenants := sql_update (\<lambda>x. t_ID x = t_ID t) (\<lambda>x. x\<lparr>t_Name := t_Name t, t_Sport := t_Sport t,
        t_Status := t_Status t, t_ContactEmail := t_ContactEmail t, t_Branding := t_Branding t,
        t_UpdatedAt := now\<rparr>) (tenants d)\<rparr>)"

definition TenantRepo_Update :: "env \<Rightarrow> Tenant \<Rightarrow> unit op" where
  "TenantRepo_Update E t =
    ExecUpdate E ''postgres.TenantRepo.Update'' ''postgres: update tenant: %w'' (tenants_UPDATE t)"

definition tenants_with_status :: "TenantStatus \<Rightarrow> int \<Rightarrow> int \<Rightarrow> database \<Rightarrow> Tenant list" where
  "tenants_with_status st limit off d =
    map scanTenant (sql_page limit off (sort_key t_Name (filter (\<lambda>t. t_Status t = st) (tenants d))))"

definition TenantRepo_List :: "env \<Rightarrow> TenantStatus \<Rightarrow> int \<Rightarrow> int \<Rightarrow> Tenant list op" where
  "TenantRepo_List E st limit off =
    wrapE ''postgres: list tenants: %w'' (pg_query E (tenants_with_status st limit off))"

section \<open>venue.go\<close>

definition venue_check :: "Venue \<Rightarrow> bool" where
  "venue_check v \<longleftrightarrow> (case v_Capacity v of None \<Rightarrow> True | Some c \<Rightarrow> 0 \<le> c)"

definition venues_INSERT :: "Venue \<Rightarrow> time \<Rightarrow> database \<Rightarrow> string + (unit \<times> database)" where
  "venues_INSERT v now d =
    pg_insert (venue_check v) (list_all (\<lambda>x. v_ID x \<noteq> v_ID v) (venues d))
      (list_ex (\<lambda>t. t_ID t = v_TenantID v) (tenants d))
      (d\<lparr>venues := venues d @ [v\<lparr>v_CreatedAt := now, v_UpdatedAt := now\<rparr>]\<rparr>)"

definition VenueRepo_CreateVenue :: "env \<Rightarrow> Venue \<Rightarrow> Venue op" where
  "VenueRepo_CreateVenue E v =
    bindE (id_or_New E (v_ID v)) (\<lambda>i.
    let v' = v\<lparr>v_ID := i, v_Timezone := if v_Timezone v = '''' then ''Africa/Nairobi'' else v_Timezone v\<rparr> in
    bindE (wrapE ''postgres: create venue: %w'' (pg_stmt E (venues_INSERT v'))) (\<lambda>_. returnE v'))"

definition venue_by_id :: "uuid \<Rightarrow> uuid \<Rightarrow> database \<Rightarrow> Venue option" where
  "venue_by_id tenantID i d = find (\<lambda>v. v_ID v = i \<and> v_TenantID v = tenantID) (venues d)"

definition VenueRepo_GetVenue :: "env \<Rightarrow> uuid \<Rightarrow> uuid \<Rightarrow> Venue op" where
  "VenueRepo_GetVenue E tenantID i =
    QueryRow E ''postgres.VenueRepo.GetVenue'' ''postgres: get venue: %w'' (venue_by_id tenantID i)"

definition venues_of_tenant :: "uuid \<Rightarrow> int \<Rightarrow> int \<Rightarrow> database \<Rightarrow> Venue list" where
  "venues_of_tenant tenantID limit off d =
    sql_page limit off (sort_key v_Name (filter (\<lambda>v. v_TenantID v = tenantID) (venues d)))"

definition VenueRepo_ListVenues :: "env \<Rightarrow> uuid \<Rightarrow> int \<Rightarrow> int \<Rightarrow> Venue list op" where
  "VenueRepo_ListVenues E tenantID limit off =
    wrapE ''postgres: list venues: %w'' (pg_query E (venues_of_tenant tenantID limit off))"

definition venues_UPDATE :: "Venue \<Rightarrow> time \<Rightarrow> database \<Rightarrow> string + (nat \<times> database)" where
  "venues_UPDATE v now d =
    (let c = (\<lambda>x. v_ID x = v_ID v \<and> v_TenantID x = v_TenantID v) in
     if list_ex c (venues d) \<and> \<not> venue_check v then Inl pgCodeCheckViolation
     else Inr (sql_affected c (venues d),
       d\<lparr>venues := sql_update c (\<lambda>x. x\<lparr>v_Name := v_Name v, v_Address := v_Address v,
         v_City := v_City v, v_Country := v_Country v, v_Timezone := v_Timezone v,
         v_Capacity := v_Capacity v, v_UpdatedAt := now\<rparr>) (venues d)\<rparr>))"

definition VenueRepo_UpdateVenue :: "env \<Rightarrow> Venue \<Rightarrow> unit op" where
  "VenueRepo_UpdateVenue E v =
    ExecUpdate E ''postgres.VenueRepo.UpdateVenue'' ''postgres: update venue: %w'' (venues_UPDATE v)"

definition venue_sections_INSERT :: "VenueSection \<Rightarrow> time \<Rightarrow> database \<Rightarrow> string + (unit \<times> database)" where
  "venue_sections_INSERT s now d =
    pg_insert (0 \<le> vs_Capacity s)
      (list_all (\<lambda>x. vs_ID x \<noteq> vs_ID s \<and> \<not> (vs_VenueID x = vs_VenueID s \<and> vs_Code x = vs_Code s))
        (venue_sections d))
      (list_ex (\<lambda>v. v_ID v = vs_VenueID s \<and> v_TenantID v = vs_TenantID s) (venues d))
      (d\<lparr>venue_sections := venue_sections d @ [s\<lparr>vs_CreatedAt := now, vs_UpdatedAt := now\<rparr>]\<rparr>)"

definition VenueRepo_CreateSection :: "env \<Rightarrow> VenueSection \<Rightarrow> VenueSection op" where
  "VenueRepo_CreateSection E s =
    bindE (id_or_New E (vs_ID s)) (\<lambda>i.
    let s' = s\<lparr>vs_ID := i\<rparr> in
    bindE (conflictE ''postgres.VenueRepo.CreateSection'' ''postgres: create section: %w''
      (pg_stmt E (venue_sections_INSERT s'))) (\<lambda>_. returnE s'))"

definition sections_of_venue :: "uuid \<Rightarrow> uuid \<Rightarrow> database \<Rightarrow> VenueSection list" where
  "sections_of_venue tenantID venueID d =
    sort_key vs_Name
      (filter (\<lambda>s. vs_TenantID s = tenantID \<and> vs_VenueID s = venueID) (venue_sections d))"

definition VenueRepo_ListSectionsByVenue :: "env \<Rightarrow> uuid \<Rightarrow> uuid \<Rightarrow> VenueSection list op" where
  "VenueRepo_ListSectionsByVenue E tenantID venueID =
    wrapE ''postgres: list sections: %w'' (pg_query E (sections_of_venue tenantID venueID))"

definition seats_INSERT :: "Seat \<Rightarrow> time \<Rightarrow> database \<Rightarrow> string + (unit \<times> database)" where
  "seats_INSERT s now d =
    pg_insert True
      (list_all (\<lambda>x. seat_ID x \<noteq> seat_ID s \<and>
        \<not> (seat_SectionID x = seat_SectionID s \<and> seat_RowLabel x = seat_RowLabel s
          \<and> seat_SeatNumber x = seat_SeatNumber s)) (seats d))
      (list_ex (\<lambda>x. vs_ID x = seat_SectionID s \<and> vs_TenantID x = seat_TenantID s) (venue_sections d))
      (d\<lparr>seats := seats d @ [s\<lparr>seat_CreatedAt := now\<rparr>]\<rparr>)"

primrec seats_INSERT_batch :: "Seat list \<Rightarrow> time \<Rightarrow> database \<Rightarrow> string + (unit \<times> database)" where
  "seats_INSERT_batch [] now d = Inr ((), d)"
| "seats_INSERT_batch (s # ss) now d =
    (case seats_INSERT s now d of
      Inl code \<Rightarrow> Inl code
    | Inr (_, d') \<Rightarrow> seats_INSERT_batch ss now d')"

definition VenueRepo_CreateSeatsBulk :: "env \<Rightarrow> Seat list \<Rightarrow> unit op" where
  "VenueRepo_CreateSeatsBulk E ss =
    (if ss = [] then returnE ()
     else bindE (foldE (\<lambda>s batch. bindE (id_or_New E (seat_ID s)) (\<lambda>i.
         returnE (batch @ [s\<lparr>seat_ID := i\<rparr>]))) ss []) (\<lambda>batch.
       wrapE ''postgres: bulk create seats: %w'' (pg_stmt E (seats_INSERT_batch batch))))"

definition seats_of_section :: "uuid \<Rightarrow> uuid \<Rightarrow> database \<Rightarrow> Seat list" where
  "seats_of_section tenantID sectionID d =
    sort_key (\<lambda>s. (seat_RowLabel s, seat_SeatNumber s))
      (filter (\<lambda>s. seat_TenantID s = tenantID \<and> seat_SectionID s = sectionID) (seats d))"

definition VenueRepo_ListSeatsBySection :: "env \<Rightarrow> uuid \<Rightarrow> uuid \<Rightarrow> Seat list op" where
  "VenueRepo_ListSeatsBySection E tenantID sectionID =
    wrapE ''postgres: list seats: %w'' (pg_query E (seats_of_section tenantID sectionID))"

section \<open>seatcategory.go\<close>

definition seat_categories_INSERT :: "SeatCategory \<Rightarrow> time \<Rightarrow> database \<Rightarrow> string + (unit \<times> database)" where
  "seat_categories_INSERT sc now d =
    pg_insert True
      (list_all (\<lambda>x. sc_ID x \<noteq> sc_ID sc \<and> \<not> (sc_TenantID x = sc_TenantID sc \<and> sc_Name x = sc_Name sc))
        (seat_categories d))
      (list_ex (\<lambda>t. t_ID t = sc_TenantID sc) (tenants d))
      (d\<lparr>seat_categories := seat_categories d @ [sc\<lparr>sc_CreatedAt := now, sc_UpdatedAt := now\<rparr>]\<rparr>)"

definition SeatCategoryRepo_Create :: "env \<Rightarrow> SeatCategory \<Rightarrow> SeatCategory op" where
  "SeatCategoryRepo_Create E sc =
    bindE (id_or_New E (sc_ID sc)) (\<lambda>i.
    let sc' = sc\<lparr>sc_ID := i\<rparr> in
    bindE (conflictE ''postgres.SeatCategoryRepo.Create'' ''postgres: create seat category: %w''
      (pg_stmt E (seat_categories_INSERT sc'))) (\<lambda>_. returnE sc'))"

definition categories_of_tenant :: "uuid \<Rightarrow> database \<Rightarrow> SeatCategory list" where
  "categories_of_tenant tenantID d =
    sort_key sc_Name (filter (\<lambda>sc. sc_TenantID sc = tenantID) (seat_categories d))"

definition SeatCategoryRepo_ListByTenant :: "env \<Rightarrow> uuid \<Rightarrow> SeatCategory list op" where
  "SeatCategoryRepo_ListByTenant E tenantID =
    wrapE ''postgres: list seat categories: %w'' (pg_query E (categories_of_tenant tenantID))"

section \<open>event.go\<close>

definition event_check :: "Event \<Rightarrow> bool" where
  "event_check e \<longleftrightarrow> ev_SalesStartAt e < ev_SalesEndAt e \<and> ev_SalesStartAt e \<le> ev_StartsAt e"

definition events_INSERT :: "Event \<Rightarrow> time \<Rightarrow> database \<Rightarrow> string + (unit \<times> database)" where
  "events_INSERT e now d =
    pg_insert (event_check e) (list_all (\<lambda>x. ev_ID x \<noteq> ev_ID e) (events d))
      (list_ex (\<lambda>v. v_ID v = ev_VenueID e \<and> v_TenantID v = ev_TenantID e) (venues d))
      (d\<lparr>events := events d @ [e\<lparr>ev_CreatedAt := now, ev_UpdatedAt := now\<rparr>]\<rparr>)"

definition EventRepo_Create :: "env \<Rightarrow> Event \<Rightarrow> Event op" where
  "EventRepo_Create E e =
    bindE (id_or_New E (ev_ID e)) (\<lambda>i.
    let e' = e\<lparr>ev_ID := i\<rparr> in
    bindE (wrapE ''postgres: create event: %w'' (pg_stmt E (events_INSERT e'))) (\<lambda>_. returnE e'))"

definition event_by_id :: "uuid \<Rightarrow> uuid \<Rightarrow> database \<Rightarrow> Event option" where
  "event_by_id tenantID i d = find (\<lambda>e. ev_ID e = i \<and> ev_TenantID e = tenantID) (events d)"

definition EventRepo_GetByID :: "env \<Rightarrow> uuid \<Rightarrow> uuid \<Rightarrow> Event op" where
  "EventRepo_GetByID E tenantID i =
    QueryRow E ''postgres.EventRepo.GetByID'' ''postgres: get event: %w'' (event_by_id tenantID i)"

definition events_UPDATE :: "Event \<Rightarrow> time \<Rightarrow> database \<Rightarrow> string + (nat \<times> database)" where
  "events_UPDATE e now d =
    (let c = (\<lambda>x. ev_ID x = ev_ID e \<and> ev_TenantID x = ev_TenantID e) in
     if list_ex c (events d) \<and> \<not> event_check e then Inl pgCodeCheckViolation
     else Inr (sql_affected c (events d),
       d\<lparr>events := sql_update c (\<lambda>x. x\<lparr>ev_Name := ev_Name e, ev_Competition := ev_Competition e,
         ev_HomeTeam := ev_HomeTeam e, ev_AwayTeam := ev_AwayTeam e, ev_StartsAt := ev_StartsAt e,
         ev_DoorsOpenAt := ev_DoorsOpenAt e, ev_SalesStartAt := ev_SalesStartAt e,
         ev_SalesEndAt := ev_SalesEndAt e, ev_Status := ev_Status e, ev_UpdatedAt := now\<rparr>) (events d)\<rparr>))"

definition EventRepo_Update :: "env \<Rightarrow> Event \<Rightarrow> unit op" where
  "EventRepo_Update E e =
    ExecUpdate E ''postgres.EventRepo.Update'' ''postgres: update event: %w'' (events_UPDATE e)"

text \<open>A filter field that is not set adds no condition.\<close>

definition event_matches :: "EventFilter \<Rightarrow> Event \<Rightarrow> bool" where
  "event_matches f e \<longleftrightarrow>
    ev_TenantID e = ef_TenantID f \<and>
    (case ef_Status f of None \<Rightarrow> True | Some st \<Rightarrow> ev_Status e = st) \<and>
    (case ef_VenueID f of None \<Rightarrow> True | Some v \<Rightarrow> ev_VenueID e = v) \<and>
    (case ef_From f of None \<Rightarrow> True | Some t \<Rightarrow> t \<le> ev_StartsAt e) \<and>
    (case ef_To f of None \<Rightarrow> True | Some t \<Rightarrow> ev_StartsAt e < t)"

definition events_matching :: "EventFilter \<Rightarrow> int \<Rightarrow> int \<Rightarrow> database \<Rightarrow> Event list" where
  "events_matching f limit off d =
    sql_page limit off (sort_key ev_StartsAt (filter (event_matches f) (events d)))"

definition EventRepo_List :: "env \<Rightarrow> EventFilter \<Rightarrow> int \<Rightarrow> int \<Rightarrow> Event list op" where
  "EventRepo_List E f limit off =
    wrapE ''postgres: list events: %w'' (pg_query E (events_matching f limit off))"

definition event_ticket_categories_INSERT ::
  "EventTicketCategory \<Rightarrow> time \<Rightarrow> database \<Rightarrow> string + (unit \<times> database)" where
  "event_ticket_categories_INSERT c now d =
    pg_insert (non_negative (etc_Price c) \<and> 0 < etc_MaxPerOrder c)
      (list_all (\<lambda>x. etc_ID x \<noteq> etc_ID c \<and>
        \<not> (etc_EventID x = etc_EventID c \<and> etc_SeatCategoryID x = etc_SeatCategoryID c))
        (event_ticket_categories d))
      (list_ex (\<lambda>e. ev_ID e = etc_EventID c \<and> ev_TenantID e = etc_TenantID c) (events d) \<and>
       list_ex (\<lambda>s. sc_ID s = etc_SeatCategoryID c \<and> sc_TenantID s = etc_TenantID c) (seat_categories d))
      (d\<lparr>event_ticket_categories := event_ticket_categories d
        @ [c\<lparr>etc_CreatedAt := now, etc_UpdatedAt := now\<rparr>]\<rparr>)"

definition EventRepo_CreateTicketCategory :: "env \<Rightarrow> EventTicketCategory \<Rightarrow> EventTicketCategory op" where
  "EventRepo_CreateTicketCategory E c =
    bindE (id_or_New E (etc_ID c)) (\<lambda>i.
    let c' = c\<lparr>etc_ID := i, etc_MaxPerOrder := if etc_MaxPerOrder c \<le> 0 then 6 else etc_MaxPerOrder c\<rparr> in
    bindE (conflictE ''postgres.EventRepo.CreateTicketCategory'' ''postgres: create event ticket category: %w''
      (pg_stmt E (event_ticket_categories_INSERT c'))) (\<lambda>_. returnE c'))"

definition categories_of_event :: "uuid \<Rightarrow> uuid \<Rightarrow> database \<Rightarrow> EventTicketCategory list" where
  "categories_of_event tenantID eventID d =
    filter (\<lambda>c. etc_TenantID c = tenantID \<and> etc_EventID c = eventID) (event_ticket_categories d)"

definition EventRepo_ListTicketCategories :: "env \<Rightarrow> uuid \<Rightarrow> uuid \<Rightarrow> EventTicketCategory list op" where
  "EventRepo_ListTicketCategories E tenantID eventID =
    wrapE ''postgres: list ticket categories: %w'' (pg_query E (categories_of_event tenantID eventID))"

section \<open>Effects\<close>

lemmas catalog_reads =
  TenantRepo_GetByID_def TenantRepo_GetBySlug_def TenantRepo_List_def VenueRepo_GetVenue_def
  VenueRepo_ListVenues_def VenueRepo_ListSectionsByVenue_def VenueRepo_ListSeatsBySection_def
  SeatCategoryRepo_ListByTenant_def EventRepo_GetByID_def EventRepo_List_def
  EventRepo_ListTicketCategories_def

lemma seats_batch_inventory:
  "seats_INSERT_batch ss now d = Inr (x, d') \<Longrightarrow> inventory_part d' = inventory_part d"
  by (induction ss arbitrary: d)
    (auto simp: seats_INSERT_def pg_insert_Inr_iff inventory_part_def split: sum.splits)

lemma catalog_reads_keep_inventory:
  "keeps_inventory (TenantRepo_GetByID E i)" "keeps_inventory (TenantRepo_GetBySlug E slug)"
  "keeps_inventory (TenantRepo_List E st l off)" "keeps_inventory (VenueRepo_GetVenue E t i)"
  "keeps_inventory (VenueRepo_ListVenues E t l off)"
  "keeps_inventory (VenueRepo_ListSectionsByVenue E t i)"
  "keeps_inventory (VenueRepo_ListSeatsBySection E t i)"
  "keeps_inventory (SeatCategoryRepo_ListByTenant E t)"
  "keeps_inventory (EventRepo_GetByID E t i)" "keeps_inventory (EventRepo_List E f l off)"
  "keeps_inventory (EventRepo_ListTicketCategories E t i)"
  unfolding catalog_reads by (intro same_inventory.frame.db_moves_intros)+

lemma catalog_writes_keep_inventory:
  "keeps_inventory (TenantRepo_Create E tn)" "keeps_inventory (TenantRepo_Update E tn)"
  "keeps_inventory (VenueRepo_CreateVenue E v)" "keeps_inventory (VenueRepo_UpdateVenue E v)"
  "keeps_inventory (VenueRepo_CreateSection E vs)" "keeps_inventory (VenueRepo_CreateSeatsBulk E ss)"
  "keeps_inventory (SeatCategoryRepo_Create E sc)" "keeps_inventory (EventRepo_Create E ev)"
  "keeps_inventory (EventRepo_Update E ev)" "keeps_inventory (EventRepo_CreateTicketCategory E tc)"
  unfolding TenantRepo_Create_def TenantRepo_Update_def VenueRepo_CreateVenue_def
    VenueRepo_UpdateVenue_def VenueRepo_CreateSection_def VenueRepo_CreateSeatsBulk_def
    SeatCategoryRepo_Create_def EventRepo_Create_def EventRepo_Update_def
    EventRepo_CreateTicketCategory_def
  by (intro same_inventory.frame.db_moves_intros same_inventory.frame.moves_stmt
      same_inventory.frame.moves_ExecUpdate;
    auto simp: tenants_INSERT_def tenants_UPDATE_def venues_INSERT_def venues_UPDATE_def
      venue_sections_INSERT_def seat_categories_INSERT_def events_INSERT_def events_UPDATE_def
      event_ticket_categories_INSERT_def pg_insert_Inr_iff inventory_part_def Let_def
      dest: seats_batch_inventory [unfolded inventory_part_def] split: if_splits)+

end
