(* ===== verification/AccountRepo.thy ===== *)
theory AccountRepo
  imports CatalogRepo
begin

text \<open>
  \<open>internal/repository/postgres/user.go\<close> over the tables of migrations 000003 and 000013: accounts and
  the refresh tokens of their sessions.  \<open>email\<close> is \<open>CITEXT\<close>: values are compared without case.
\<close>

section \<open>Users\<close>

text \<open>\<open>users_role_tenant_consistency\<close>: an admin belongs to a tenant, a fan to none.\<close>

definition user_check :: "User \<Rightarrow> bool" where
  "user_check u \<longleftrightarrow> (u_Role u = UserRoleAdmin \<and> u_TenantID u \<noteq> None) \<or>
    (u_Role u = UserRoleFan \<and> u_TenantID u = None)"

definition same_email :: "string \<Rightarrow> string \<Rightarrow> bool" where
  "same_email a b \<longleftrightarrow> strings_ToLower a = strings_ToLower b"

definition users_INSERT :: "User \<Rightarrow> time \<Rightarrow> database \<Rightarrow> string + (unit \<times> database)" where
  "users_INSERT u now d =
    pg_insert (user_check u)
      (list_all (\<lambda>x. u_ID x \<noteq> u_ID u \<and> \<not> same_email (u_Email x) (u_Email u)) (users d))
      (case u_TenantID u of None \<Rightarrow> True | Some t \<Rightarrow> list_ex (\<lambda>x. t_ID x = t) (tenants d))
      (d\<lparr>users := users d @ [u\<lparr>u_EmailVerifiedAt := None, u_CreatedAt := now, u_UpdatedAt := now\<rparr>]\<rparr>)"

text \<open>The user's id is set through the pointer: the user is returned with it.\<close>

definition UserRepo_Create :: "env \<Rightarrow> User \<Rightarrow> User op" where
  "UserRepo_Create E u =
    bindE (id_or_New E (u_ID u)) (\<lambda>i.
    let u' = u\<lparr>u_ID := i\<rparr> in
    bindE (conflictE ''postgres.UserRepo.Create'' ''postgres: create user: %w''
      (pg_stmt E (users_INSERT u'))) (\<lambda>_. returnE u'))"

definition user_by_id :: "uuid \<Rightarrow> database \<Rightarrow> User option" where
  "user_by_id i d = find (\<lambda>u. u_ID u = i) (users d)"

definition UserRepo_GetByID :: "env \<Rightarrow> uuid \<Rightarrow> User op" where
  "UserRepo_GetByID E i =
    QueryRow E ''postgres.UserRepo.GetByID'' ''postgres: get user: %w'' (user_by_id i)"

definition user_by_email :: "string \<Rightarrow> database \<Rightarrow> User option" where
  "user_by_email email d = find (\<lambda>u. same_email (u_Email u) email) (users d)"

definition UserRepo_GetByEmail :: "env \<Rightarrow> string \<Rightarrow> User op" where
  "UserRepo_GetByEmail E email =
    QueryRow E ''postgres.UserRepo.GetByEmail'' ''postgres: get user by email: %w'' (user_by_email email)"

text \<open>The UPDATE leaves role and tenant alone; the new email may not be another user's.\<close>

definition users_UPDATE :: "User \<Rightarrow> time \<Rightarrow> database \<Rightarrow> string + (nat \<times> database)" where
  "users_UPDATE u now d =
    (if list_ex (\<lambda>x. u_ID x = u_ID u) (users d) \<and>
        list_ex (\<lambda>x. u_ID x \<noteq> u_ID u \<and> same_email (u_Email x) (u_Email u)) (users d)
     then Inl pgCodeUniqueViolation
     else Inr (sql_affected (\<lambda>x. u_ID x = u_ID u) (users d),
       d\<lparr>users := sql_update (\<lambda>x. u_ID x = u_ID u) (\<lambda>x. x\<lparr>u_Email := u_Email u, u_Phone := u_Phone u,
         u_PasswordHash := u_PasswordHash u, u_FirstName := u_FirstName u, u_LastName := u_LastName u,
         u_Status := u_Status u, u_EmailVerifiedAt := u_EmailVerifiedAt u, u_UpdatedAt := now\<rparr>) (users d)\<rparr>))"

definition UserRepo_Update :: "env \<Rightarrow> User \<Rightarrow> unit op" where
  "UserRepo_Update E u =
    bindE (conflictE ''postgres.UserRepo.Update'' ''postgres: update user: %w'' (pg_stmt E (users_UPDATE u)))
      (\<lambda>n. if n = 0 then throwE (NewError ''postgres.UserRepo.Update'' ErrNotFound) else returnE ())"

section \<open>Refresh tokens\<close>

definition nullIfEmpty :: "string \<Rightarrow> string option" where
  "nullIfEmpty s = (if s = '''' then None else Some s)"

text \<open>\<open>invalid_text_representation\<close>, the SQLSTATE of a text that is no \<open>inet\<close>\<close>

definition pgCodeInvalidText :: string where
  "pgCodeInvalidText = ''22P02''"

text \<open>\<open>$5::inet\<close>, read back by \<open>COALESCE(host(ip_address), '')\<close>\<close>

definition inet_column :: "env \<Rightarrow> string option \<Rightarrow> string + string" where
  "inet_column E ip =
    (case ip of
      None \<Rightarrow> Inr ''''
    | Some s \<Rightarrow> (case e_inet E s of None \<Rightarrow> Inl pgCodeInvalidText | Some a \<Rightarrow> Inr a))"

definition refresh_tokens_INSERT ::
  "env \<Rightarrow> RefreshToken \<Rightarrow> time \<Rightarrow> database \<Rightarrow> string + (unit \<times> database)" where
  "refresh_tokens_INSERT E rt now d =
    (case inet_column E (nullIfEmpty (rt_IPAddress rt)) of
      Inl code \<Rightarrow> Inl code
    | Inr ip \<Rightarrow>
        pg_insert True
          (list_all (\<lambda>x. rt_ID x \<noteq> rt_ID rt \<and> rt_TokenHash x \<noteq> rt_TokenHash rt) (refresh_tokens d))
          (list_ex (\<lambda>u. u_ID u = rt_UserID rt) (users d))
          (d\<lparr>refresh_tokens := refresh_tokens d @
            [rt\<lparr>rt_IPAddress := ip, rt_RevokedAt := None, rt_CreatedAt := now\<rparr>]\<rparr>))"

definition RefreshTokenRepo_Create :: "env \<Rightarrow> RefreshToken \<Rightarrow> unit op" where
  "RefreshTokenRepo_Create E rt =
    bindE (id_or_New E (rt_ID rt)) (\<lambda>i.
    conflictE ''postgres.RefreshTokenRepo.Create'' ''postgres: create refresh token: %w''
      (pg_stmt E (refresh_tokens_INSERT E (rt\<lparr>rt_ID := i\<rparr>))))"

definition token_by_hash :: "string \<Rightarrow> database \<Rightarrow> RefreshToken option" where
  "token_by_hash h d = find (\<lambda>rt. rt_TokenHash rt = h) (refresh_tokens d)"

definition RefreshTokenRepo_GetByTokenHash :: "env \<Rightarrow> string \<Rightarrow> RefreshToken op" where
  "RefreshTokenRepo_GetByTokenHash E h =
    QueryRow E ''postgres.RefreshTokenRepo.GetByTokenHash'' ''postgres: get refresh token: %w'' (token_by_hash h)"

definition refresh_tokens_revoke ::
  "(RefreshToken \<Rightarrow> bool) \<Rightarrow> time \<Rightarrow> database \<Rightarrow> string + (nat \<times> database)" where
  "refresh_tokens_revoke c now d =
    (let live = (\<lambda>rt. c rt \<and> rt_RevokedAt rt = None)
     in Inr (sql_affected live (refresh_tokens d),
       d\<lparr>refresh_tokens := sql_update live (\<lambda>rt. rt\<lparr>rt_RevokedAt := Some now\<rparr>) (refresh_tokens d)\<rparr>))"

definition RefreshTokenRepo_Revoke :: "env \<Rightarrow> uuid \<Rightarrow> unit op" where
  "RefreshTokenRepo_Revoke E i =
    ExecUpdate E ''postgres.RefreshTokenRepo.Revoke'' ''postgres: revoke refresh token: %w''
      (refresh_tokens_revoke (\<lambda>rt. rt_ID rt = i))"

definition RefreshTokenRepo_RevokeAllForUser :: "env \<Rightarrow> uuid \<Rightarrow> unit op" where
  "RefreshTokenRepo_RevokeAllForUser E userID =
    bindE (wrapE ''postgres: revoke all refresh tokens for user: %w''
      (pg_stmt E (refresh_tokens_revoke (\<lambda>rt. rt_UserID rt = userID)))) (\<lambda>_. returnE ())"

section \<open>Effects\<close>

lemma account_reads_keep_inventory:
  "keeps_inventory (UserRepo_GetByID E i)" "keeps_inventory (UserRepo_GetByEmail E email)"
  "keeps_inventory (RefreshTokenRepo_GetByTokenHash E h)"
  unfolding UserRepo_GetByID_def UserRepo_GetByEmail_def RefreshTokenRepo_GetByTokenHash_def
  by (intro same_inventory.frame.db_moves_intros)+

lemma refresh_tokens_INSERT_Inr:
  "refresh_tokens_INSERT E rt now d = Inr (x, d') \<longleftrightarrow>
     (\<exists>ip. inet_column E (nullIfEmpty (rt_IPAddress rt)) = Inr ip \<and>
       list_all (\<lambda>x. rt_ID x \<noteq> rt_ID rt \<and> rt_TokenHash x \<noteq> rt_TokenHash rt) (refresh_tokens d) \<and>
       list_ex (\<lambda>u. u_ID u = rt_UserID rt) (users d) \<and>
       d' = d\<lparr>refresh_tokens := refresh_tokens d @
            [rt\<lparr>rt_IPAddress := ip, rt_RevokedAt := None, rt_CreatedAt := now\<rparr>]\<rparr>)"
  by (auto simp: refresh_tokens_INSERT_def pg_insert_Inr_iff split: sum.splits)

lemma account_writes_keep_inventory:
  "keeps_inventory (UserRepo_Create E u)" "keeps_inventory (UserRepo_Update E u)"
  "keeps_inventory (RefreshTokenRepo_Create E rt)" "keeps_inventory (RefreshTokenRepo_Revoke E i)"
  "keeps_inventory (RefreshTokenRepo_RevokeAllForUser E i)"
  unfolding UserRepo_Create_def UserRepo_Update_def RefreshTokenRepo_Create_def
    RefreshTokenRepo_Revoke_def RefreshTokenRepo_RevokeAllForUser_def
  by (intro same_inventory.frame.db_moves_intros same_inventory.frame.moves_stmt
      same_inventory.frame.moves_ExecUpdate;
    auto simp: users_INSERT_def users_UPDATE_def refresh_tokens_INSERT_Inr refresh_tokens_revoke_def
      pg_insert_Inr_iff inventory_part_def Let_def split: if_splits)+

end
