(* ===== verification/AuthService.thy ===== *)
theory AuthService
  imports AccountRepo
begin

text \<open>
  \<open>internal/service/auth\<close>: registration, login, refresh tokens that can be used once, and access tokens.
  bcrypt and JSON web tokens belong to other packages: hashing, checking, signing and parsing are
  functions of the environment, what the service relies on of them is stated where it is used.
\<close>

section \<open>Passwords and tokens\<close>

definition minPasswordLength :: nat where
  "minPasswordLength = 8"

record JWTConfig =
  jwt_Secret :: string
  jwt_RefreshSecret :: string
  jwt_AccessTTL :: duration
  jwt_RefreshTTL :: duration

record TokenPair =
  tp_AccessToken :: string
  tp_AccessTokenExpiresAt :: time
  tp_RefreshToken :: string
  tp_RefreshTokenExpiresAt :: time

text \<open>\<open>strings.TrimSpace\<close> on ASCII text\<close>

definition is_space :: "char \<Rightarrow> bool" where
  "is_space c \<longleftrightarrow> (let n = of_char c :: nat in n = 32 \<or> 9 \<le> n \<and> n \<le> 13)"

definition strings_TrimSpace :: "string \<Rightarrow> string" where
  "strings_TrimSpace s = rev (dropWhile is_space (rev (dropWhile is_space s)))"

definition normalizeEmail :: "string \<Rightarrow> string" where
  "normalizeEmail email = strings_ToLower (strings_TrimSpace email)"

definition hashPassword :: "env \<Rightarrow> string \<Rightarrow> string op" where
  "hashPassword E password = (\<lambda>w. (e_bcrypt_hash E (tick w) password, w\<lparr>tick := Suc (tick w)\<rparr>))"

definition generateRefreshToken :: "env \<Rightarrow> string op" where
  "generateRefreshToken E = (\<lambda>w.
    (case e_rand E (tick w) of Inl err \<Rightarrow> Inl err | Inr b \<Rightarrow> Inr (base64_RawURL b), w\<lparr>tick := Suc (tick w)\<rparr>))"

definition hashToken :: "string \<Rightarrow> string" where
  "hashToken raw = hex_EncodeToString (sha256_Sum256 raw)"

text \<open>\<open>string(user.Role)\<close>\<close>

fun UserRole_string :: "UserRole \<Rightarrow> string" where
  "UserRole_string UserRoleFan = ''fan''"
| "UserRole_string UserRoleAdmin = ''admin''"

section \<open>The service\<close>

definition new_user ::
  "uuid \<Rightarrow> string \<Rightarrow> string \<Rightarrow> string \<Rightarrow> string \<Rightarrow> UserRole \<Rightarrow> uuid option \<Rightarrow> User" where
  "new_user i email hash firstName lastName role tenantID =
    \<lparr>u_ID = i, u_Email = email, u_Phone = '''', u_PasswordHash = hash, u_FirstName = firstName,
     u_LastName = lastName, u_Status = UserStatusActive, u_Role = role, u_TenantID = tenantID,
     u_EmailVerifiedAt = None, u_CreatedAt = 0, u_UpdatedAt = 0\<rparr>"

definition Register :: "env \<Rightarrow> string \<Rightarrow> string \<Rightarrow> string \<Rightarrow> string \<Rightarrow> User op" where
  "Register E email password firstName lastName =
    (let email = normalizeEmail email in
     if length password < minPasswordLength then throwE ErrWeakPassword
     else bindE (wrapE ''auth: hash password: %w'' (hashPassword E password)) (\<lambda>hash.
       bindE (uuid_New E) (\<lambda>i.
       bindE (wrapE ''auth: create user: %w''
         (UserRepo_Create E (new_user i email hash firstName lastName UserRoleFan None))) (\<lambda>user.
       returnE (user\<lparr>u_PasswordHash := ''''\<rparr>)))))"

definition RegisterAdmin ::
  "env \<Rightarrow> uuid \<Rightarrow> string \<Rightarrow> string \<Rightarrow> string \<Rightarrow> string \<Rightarrow> User op" where
  "RegisterAdmin E tenantID email password firstName lastName =
    (let email = normalizeEmail email in
     if length password < minPasswordLength then throwE ErrWeakPassword
     else bindE (wrapE ''auth: hash password: %w'' (hashPassword E password)) (\<lambda>hash.
       bindE (uuid_New E) (\<lambda>i.
       bindE (wrapE ''auth: create admin user: %w''
         (UserRepo_Create E (new_user i email hash firstName lastName UserRoleAdmin (Some tenantID)))) (\<lambda>user.
       returnE (user\<lparr>u_PasswordHash := ''''\<rparr>)))))"

definition access_claims :: "env \<Rightarrow> JWTConfig \<Rightarrow> User \<Rightarrow> time \<Rightarrow> Claims" where
  "access_claims E cfg user now =
    \<lparr>cl_Subject = e_uuid_String E (u_ID user), cl_IssuedAt = now, cl_ExpiresAt = now + jwt_AccessTTL cfg,
     cl_Role = UserRole_string (u_Role user),
     cl_TenantID = (case u_TenantID user of None \<Rightarrow> '''' | Some t \<Rightarrow> e_uuid_String E t)\<rparr>"

definition issueTokenPair :: "env \<Rightarrow> JWTConfig \<Rightarrow> User \<Rightarrow> string \<Rightarrow> string \<Rightarrow> TokenPair op" where
  "issueTokenPair E cfg user userAgent ipAddress =
    bindE (time_Now E) (\<lambda>now.
    case e_jwt_sign E (jwt_Secret cfg) (access_claims E cfg user now) of
      Inl err \<Rightarrow> throwE (Wrap ''auth: sign access token: %w'' err)
    | Inr accessToken \<Rightarrow>
        bindE (wrapE ''auth: generate refresh token: %w'' (generateRefreshToken E)) (\<lambda>rawRefresh.
        bindE (uuid_New E) (\<lambda>i.
        bindE (wrapE ''auth: store refresh token: %w''
          (RefreshTokenRepo_Create E \<lparr>rt_ID = i, rt_UserID = u_ID user, rt_TokenHash = hashToken rawRefresh,
            rt_UserAgent = userAgent, rt_IPAddress = ipAddress, rt_ExpiresAt = now + jwt_RefreshTTL cfg,
            rt_RevokedAt = None, rt_CreatedAt = 0\<rparr>)) (\<lambda>_.
        returnE \<lparr>tp_AccessToken = accessToken, tp_AccessTokenExpiresAt = now + jwt_AccessTTL cfg,
          tp_RefreshToken = rawRefresh, tp_RefreshTokenExpiresAt = now + jwt_RefreshTTL cfg\<rparr>))))"

text \<open>For an unknown email bcrypt runs on \<open>dummyHashForTiming\<close>; its result is not used.\<close>

definition Login :: "env \<Rightarrow> JWTConfig \<Rightarrow> string \<Rightarrow> string \<Rightarrow> string \<Rightarrow> string \<Rightarrow> TokenPair op" where
  "Login E cfg email password userAgent ipAddress =
    bindE (attemptE (UserRepo_GetByEmail E (normalizeEmail email))) (\<lambda>r.
    case r of
      Inl err \<Rightarrow>
        if errors_Is err ErrNotFound then throwE ErrInvalidCredentials
        else throwE (Wrap ''auth: look up user: %w'' err)
    | Inr user \<Rightarrow>
        if u_Status user \<noteq> UserStatusActive then throwE ErrAccountInactive
        else if \<not> e_bcrypt_ok E (u_PasswordHash user) password then throwE ErrInvalidCredentials
        else issueTokenPair E cfg user userAgent ipAddress)"

definition RefreshAccessToken ::
  "env \<Rightarrow> JWTConfig \<Rightarrow> string \<Rightarrow> string \<Rightarrow> string \<Rightarrow> TokenPair op" where
  "RefreshAccessToken E cfg rawToken userAgent ipAddress =
    bindE (attemptE (RefreshTokenRepo_GetByTokenHash E (hashToken rawToken))) (\<lambda>r.
    case r of
      Inl err \<Rightarrow>
        if errors_Is err ErrNotFound then throwE ErrInvalidCredentials
        else throwE (Wrap ''auth: look up refresh token: %w'' err)
    | Inr stored \<Rightarrow>
        if rt_RevokedAt stored \<noteq> None then throwE ErrRefreshRevoked
        else bindE (time_Now E) (\<lambda>now.
          if rt_ExpiresAt stored < now then throwE ErrRefreshExpired
          else bindE (wrapE ''auth: look up user for refresh: %w'' (UserRepo_GetByID E (rt_UserID stored))) (\<lambda>user.
            if u_Status user \<noteq> UserStatusActive then throwE ErrAccountInactive
            else bindE (wrapE ''auth: revoke used refresh token: %w''
              (RefreshTokenRepo_Revoke E (rt_ID stored))) (\<lambda>_.
            issueTokenPair E cfg user userAgent ipAddress))))"

definition Logout :: "env \<Rightarrow> string \<Rightarrow> unit op" where
  "Logout E rawToken =
    bindE (attemptE (RefreshTokenRepo_GetByTokenHash E (hashToken rawToken))) (\<lambda>r.
    case r of
      Inl err \<Rightarrow>
        if errors_Is err ErrNotFound then returnE ()
        else throwE (Wrap ''auth: look up refresh token: %w'' err)
    | Inr stored \<Rightarrow>
        if rt_RevokedAt stored \<noteq> None then returnE ()
        else wrapE ''auth: revoke refresh token: %w'' (RefreshTokenRepo_Revoke E (rt_ID stored)))"

definition ParseAccessToken :: "env \<Rightarrow> JWTConfig \<Rightarrow> string \<Rightarrow> Claims op" where
  "ParseAccessToken E cfg tokenString =
    bindE (time_Now E) (\<lambda>now.
    case e_jwt_parse E (jwt_Secret cfg) now tokenString of
      Inl err \<Rightarrow> throwE (Wrap ''auth: parse access token: %w'' err)
    | Inr (claims, valid) \<Rightarrow>
        if \<not> valid then throwE (ErrText ''auth: invalid access token'') else returnE claims)"

text \<open>
  What the service relies on of the token package: a signed token is not empty, and until the expiry of
  its claims it is accepted under the same secret, with the same subject, role and tenant.
\<close>

definition jwt_roundtrip :: "env \<Rightarrow> string \<Rightarrow> bool" where
  "jwt_roundtrip E secret \<longleftrightarrow> (\<forall>c tok now. e_jwt_sign E secret c = Inr tok \<longrightarrow> tok \<noteq> '''' \<and>
    (now < cl_ExpiresAt c \<longrightarrow> (\<exists>c'. e_jwt_parse E secret now tok = Inr (c', True) \<and>
      cl_Subject c' = cl_Subject c \<and> cl_Role c' = cl_Role c \<and> cl_TenantID c' = cl_TenantID c)))"

section \<open>Sessions\<close>

text \<open>The calls of the service in a row, by any clients.\<close>

datatype auth_call =
    ARegister string string string string
  | ARegisterAdmin uuid string string string string
  | ALogin string string string string
  | ARefresh string string string
  | ALogout string

fun auth_step :: "env \<Rightarrow> JWTConfig \<Rightarrow> auth_call \<Rightarrow> bool op" where
  "auth_step E cfg (ARegister email pw f l) = succeeds (Register E email pw f l)"
| "auth_step E cfg (ARegisterAdmin t email pw f l) = succeeds (RegisterAdmin E t email pw f l)"
| "auth_step E cfg (ALogin email pw ua ip) = succeeds (Login E cfg email pw ua ip)"
| "auth_step E cfg (ARefresh raw ua ip) = succeeds (RefreshAccessToken E cfg raw ua ip)"
| "auth_step E cfg (ALogout raw) = succeeds (Logout E raw)"

fun refreshes :: "string \<Rightarrow> auth_call \<Rightarrow> bool" where
  "refreshes raw (ARefresh raw' ua ip) \<longleftrightarrow> raw' = raw"
| "refreshes raw _ \<longleftrightarrow> False"

text \<open>A refresh token that was revoked.\<close>

definition spent :: "string \<Rightarrow> database \<Rightarrow> bool" where
  "spent h d \<longleftrightarrow> (case token_by_hash h d of None \<Rightarrow> False | Some rt \<Rightarrow> rt_RevokedAt rt \<noteq> None)"

subsection \<open>Credentials that can be used once\<close>

text \<open>
  What single use rests on: a use spends the credential, a spent one is refused, and no call makes a
  spent one usable again.
\<close>

locale single_use =
  fixes step :: "'c \<Rightarrow> ('w, error, bool) comp"
    and uses :: "'k \<Rightarrow> 'c \<Rightarrow> bool"
    and used_up :: "'k \<Rightarrow> 'w \<Rightarrow> bool"
  assumes use_spends: "uses k c \<Longrightarrow> step c w = (Inr True, w') \<Longrightarrow> used_up k w'"
    and spent_refused: "uses k c \<Longrightarrow> used_up k w \<Longrightarrow> step c w = (r, w') \<Longrightarrow> r \<noteq> Inr True"
    and spent_stays: "used_up k w \<Longrightarrow> step c w = (r, w') \<Longrightarrow> used_up k w'"
begin

lemma spent_never_used:
  assumes "run_calls step cs w = (won, w')" and "used_up k w"
  shows "filter (uses k) won = []"
  using assms
proof (induction cs arbitrary: w won)
  case Nil
  then show ?case by simp
next
  case (Cons c cs)
  from Cons.prems(1) obtain r w1 won' where run: "step c w = (r, w1)"
    and rest: "run_calls step cs w1 = (won', w')" and won: "won = (if r = Inr True then c # won' else won')"
    by (rule run_calls_Cons)
  from Cons.IH [OF rest spent_stays [OF Cons.prems(2) run]] spent_refused [OF _ Cons.prems(2) run] won
  show ?case by auto
qed

lemma used_once:
  assumes "run_calls step cs w = (won, w')"
  shows "length (filter (uses k) won) \<le> 1"
  using assms
proof (induction cs arbitrary: w won)
  case Nil
  then show ?case by simp
next
  case (Cons c cs)
  from Cons.prems obtain r w1 won' where run: "step c w = (r, w1)"
    and rest: "run_calls step cs w1 = (won', w')" and won: "won = (if r = Inr True then c # won' else won')"
    by (rule run_calls_Cons)
  show ?case
  proof (cases "r = Inr True \<and> uses k c")
    case True
    with use_spends [of k c w w1] run have "used_up k w1" by simp
    from spent_never_used [OF rest this] won True show ?thesis by simp
  next
    case False
    with Cons.IH [OF rest] won show ?thesis by auto
  qed
qed

end

subsection \<open>Revocation is final\<close>

interpretation revoked: db_effect "\<lambda>d d'. \<forall>h. spent h d \<longrightarrow> spent h d'"
  by unfold_locales auto

lemma spent_INSERT: "refresh_tokens d' = refresh_tokens d @ ts \<Longrightarrow> spent h d \<Longrightarrow> spent h d'"
  by (auto simp: spent_def token_by_hash_def find_append_Some split: option.splits)

lemma spent_same: "refresh_tokens d' = refresh_tokens d \<Longrightarrow> spent h d \<Longrightarrow> spent h d'"
  by (simp add: spent_def token_by_hash_def)

lemma token_by_hash_revoke:
  assumes "refresh_tokens_revoke c now d = Inr (n, d')"
  shows "token_by_hash h d' = map_option (\<lambda>rt. if c rt \<and> rt_RevokedAt rt = None
    then rt\<lparr>rt_RevokedAt := Some now\<rparr> else rt) (token_by_hash h d)"
  using assms
  by (auto simp: refresh_tokens_revoke_def token_by_hash_def Let_def find_key_sql_update)

lemma spent_revoke: "refresh_tokens_revoke c now d = Inr (n, d') \<Longrightarrow> spent h d \<Longrightarrow> spent h d'"
  by (auto simp: spent_def token_by_hash_revoke split: option.splits)

lemma revoked_users:
  "moves (\<lambda>w w'. \<forall>h. spent h (db w) \<longrightarrow> spent h (db w')) (UserRepo_Create E u)"
  unfolding UserRepo_Create_def
  by (intro revoked.db_moves_intros revoked.moves_stmt)
    (auto simp: users_INSERT_def pg_insert_Inr_iff elim: spent_same [rotated])

lemma revoked_tokens:
  "moves (\<lambda>w w'. \<forall>h. spent h (db w) \<longrightarrow> spent h (db w')) (RefreshTokenRepo_Create E rt)"
  "moves (\<lambda>w w'. \<forall>h. spent h (db w) \<longrightarrow> spent h (db w')) (RefreshTokenRepo_Revoke E i)"
proof -
  show "moves (\<lambda>w w'. \<forall>h. spent h (db w) \<longrightarrow> spent h (db w')) (RefreshTokenRepo_Create E rt)"
    unfolding RefreshTokenRepo_Create_def
    by (intro revoked.db_moves_intros revoked.moves_stmt)
      (auto simp: refresh_tokens_INSERT_Inr elim!: spent_INSERT [rotated])
  show "moves (\<lambda>w w'. \<forall>h. spent h (db w) \<longrightarrow> spent h (db w')) (RefreshTokenRepo_Revoke E i)"
    unfolding RefreshTokenRepo_Revoke_def
    by (intro revoked.moves_ExecUpdate) (blast intro: spent_revoke)
qed

lemma revoked_local:
  "moves (\<lambda>w w'. \<forall>h. spent h (db w) \<longrightarrow> spent h (db w')) (hashPassword E pw)"
  "moves (\<lambda>w w'. \<forall>h. spent h (db w) \<longrightarrow> spent h (db w')) (generateRefreshToken E)"
  by (simp_all add: moves_def hashPassword_def generateRefreshToken_def)

lemma revoked_issue:
  "moves (\<lambda>w w'. \<forall>h. spent h (db w) \<longrightarrow> spent h (db w')) (issueTokenPair E cfg u ua ip)"
  unfolding issueTokenPair_def
  by (intro revoked.db_moves_intros revoked_local revoked_tokens)

lemmas auth_service_defs =
  Register_def RegisterAdmin_def Login_def RefreshAccessToken_def Logout_def succeeds_def
  UserRepo_GetByEmail_def UserRepo_GetByID_def RefreshTokenRepo_GetByTokenHash_def

lemma revoked_service:
  "moves (\<lambda>w w'. \<forall>h. spent h (db w) \<longrightarrow> spent h (db w')) (auth_step E cfg c)"
  by (cases c; simp only: auth_step.simps auth_service_defs;
      intro revoked.db_moves_intros revoked_local revoked_tokens revoked_users revoked_issue)

text \<open>What a successful refresh went through.\<close>

lemma RefreshAccessToken_Inr:
  assumes "RefreshAccessToken E cfg raw ua ip w = (Inr p, w')"
  obtains stored w1 w2 user where "db w1 = db w"
    "token_by_hash (hashToken raw) (db w) = Some stored" "rt_RevokedAt stored = None"
    "\<not> rt_ExpiresAt stored < e_now E (Suc (tick w))"
    "user_by_id (rt_UserID stored) (db w) = Some user" "u_Status user = UserStatusActive"
    "RefreshTokenRepo_Revoke E (rt_ID stored) w1 = (Inr (), w2)"
    "issueTokenPair E cfg user ua ip w2 = (Inr p, w')"
proof -
  obtain q w1 where q: "RefreshTokenRepo_GetByTokenHash E (hashToken raw) w = (q, w1)" by fastforce
  note run = assms [unfolded RefreshAccessToken_def bind_attemptE [where m = "RefreshTokenRepo_GetByTokenHash E (hashToken raw)", OF q]]
  obtain stored where stored: "q = Inr stored"
    using run by (cases q) (auto simp: run_throwE split: if_splits)
  from q stored have tok: "token_by_hash (hashToken raw) (db w) = Some stored" "w1 = w\<lparr>tick := Suc (tick w)\<rparr>"
    by (auto simp: RefreshTokenRepo_GetByTokenHash_def QueryRow_Inr_iff)
  let ?w1 = "w\<lparr>tick := Suc (Suc (Suc (tick w)))\<rparr>"
  from run stored tok(2) obtain user w2 where "rt_RevokedAt stored = None"
    "\<not> rt_ExpiresAt stored < e_now E (Suc (tick w))" "user_by_id (rt_UserID stored) (db w) = Some user"
    "u_Status user = UserStatusActive" "RefreshTokenRepo_Revoke E (rt_ID stored) ?w1 = (Inr (), w2)"
    "issueTokenPair E cfg user ua ip w2 = (Inr p, w')"
    by (auto simp: comp_iffs run_time_Now UserRepo_GetByID_def QueryRow_Inr_iff split: if_splits)
  with tok(1) show thesis by (intro that [of ?w1]) simp_all
qed

lemma RefreshAccessToken_spends:
  assumes "RefreshAccessToken E cfg raw ua ip w = (Inr p, w')"
  shows "spent (hashToken raw) (db w')"
proof -
  from assms obtain stored w1 w2 user where
    tok: "token_by_hash (hashToken raw) (db w1) = Some stored" and live: "rt_RevokedAt stored = None"
    and rev: "RefreshTokenRepo_Revoke E (rt_ID stored) w1 = (Inr (), w2)"
    and issue: "issueTokenPair E cfg user ua ip w2 = (Inr p, w')"
    by (rule RefreshAccessToken_Inr) (metis that)
  from rev obtain n now where "refresh_tokens_revoke (\<lambda>rt. rt_ID rt = rt_ID stored) now (db w1) = Inr (n, db w2)"
    by (auto simp: RefreshTokenRepo_Revoke_def ExecUpdate_def comp_iffs pg_stmt_Inr_iff split: if_splits)
  from token_by_hash_revoke [OF this] tok live have "spent (hashToken raw) (db w2)"
    by (simp add: spent_def)
  with moves_run [OF revoked_issue issue] show ?thesis by blast
qed

lemma Logout_spends:
  assumes "Logout E raw w = (Inr (), w')" and "token_by_hash (hashToken raw) (db w) \<noteq> None"
  shows "spent (hashToken raw) (db w')"
proof -
  from assms(2) obtain stored where tok: "token_by_hash (hashToken raw) (db w) = Some stored" by blast
  let ?w1 = "w\<lparr>tick := Suc (tick w)\<rparr>"
  obtain q w1 where q: "RefreshTokenRepo_GetByTokenHash E (hashToken raw) w = (q, w1)" by fastforce
  note run = assms(1) [unfolded Logout_def bind_attemptE [where m = "RefreshTokenRepo_GetByTokenHash E (hashToken raw)", OF q]]
  have "q = Inr stored \<and> w1 = ?w1 \<or> (\<exists>e. q = Inl e \<and> \<not> errors_Is e ErrNotFound)"
    using q tok by (cases q) (auto simp: RefreshTokenRepo_GetByTokenHash_def QueryRow_Inr_iff
        dest!: QueryRow_Inl split: if_splits)
  with run have "rt_RevokedAt stored \<noteq> None \<and> db w' = db w \<or>
      rt_RevokedAt stored = None \<and> RefreshTokenRepo_Revoke E (rt_ID stored) ?w1 = (Inr (), w')"
    by (auto simp: comp_iffs split: if_splits)
  then show ?thesis
  proof
    assume "rt_RevokedAt stored \<noteq> None \<and> db w' = db w"
    with tok show ?thesis by (simp add: spent_def)
  next
    assume "rt_RevokedAt stored = None \<and> RefreshTokenRepo_Revoke E (rt_ID stored) ?w1 = (Inr (), w')"
    then obtain n now where live: "rt_RevokedAt stored = None" and
      "refresh_tokens_revoke (\<lambda>rt. rt_ID rt = rt_ID stored) now (db w) = Inr (n, db w')"
      by (auto simp: RefreshTokenRepo_Revoke_def ExecUpdate_def comp_iffs pg_stmt_Inr_iff split: if_splits)
    from token_by_hash_revoke [OF this(2)] tok live show ?thesis by (simp add: spent_def)
  qed
qed

lemma RefreshAccessToken_spent:
  assumes "spent (hashToken raw) (db w)" and "RefreshAccessToken E cfg raw ua ip w = (r, w')"
  shows "\<exists>e. r = Inl e"
proof (cases r)
  case (Inr p)
  from assms(2) [unfolded Inr] assms(1) show ?thesis
    by (auto elim!: RefreshAccessToken_Inr simp: spent_def)
qed simp

interpretation refresh_token: single_use "auth_step E cfg" refreshes "\<lambda>raw w. spent (hashToken raw) (db w)"
proof
  fix k c w w'
  assume "refreshes k c" "auth_step E cfg c w = (Inr True, w')"
  then show "spent (hashToken k) (db w')"
    by (cases c) (auto simp: succeeds_def comp_iffs dest: RefreshAccessToken_spends)
next
  fix k c w r w'
  assume "refreshes k c" "spent (hashToken k) (db w)" "auth_step E cfg c w = (r, w')"
  then show "r \<noteq> Inr True"
    by (cases c) (auto simp: succeeds_def comp_iffs dest: RefreshAccessToken_spent)
next
  fix k w c r w'
  assume "spent (hashToken k) (db w)" "auth_step E cfg c w = (r, w')"
  with moves_run [OF revoked_service] show "spent (hashToken k) (db w')" by blast
qed


section \<open>Accounts\<close>

text \<open>Keys and CHECKs of the two tables: one account per email whatever its case, one row per token.\<close>

definition accounts_ok :: "database \<Rightarrow> bool" where
  "accounts_ok d \<longleftrightarrow>
    list_all user_check (users d) \<and> distinct (map u_ID (users d)) \<and>
    distinct (map (strings_ToLower \<circ> u_Email) (users d)) \<and>
    distinct (map rt_ID (refresh_tokens d)) \<and> distinct (map rt_TokenHash (refresh_tokens d))"

interpretation accounts: db_effect "\<lambda>d d'. accounts_ok d \<longrightarrow> accounts_ok d'"
  by unfold_locales auto

lemma accounts_INSERT_user: "users_INSERT u now d = Inr (x, d') \<Longrightarrow> accounts_ok d \<Longrightarrow> accounts_ok d'"
  by (auto simp: users_INSERT_def pg_insert_Inr_iff accounts_ok_def user_check_def same_email_def list_all_iff)

lemma distinct_sql_update_one:
  assumes "distinct (map g t)" and "distinct (map key t)" and "\<And>r. c r \<longleftrightarrow> key r = k"
    and "\<And>r. c r \<Longrightarrow> g (f r) = v" and "\<And>r. r \<in> set t \<Longrightarrow> \<not> c r \<Longrightarrow> g r \<noteq> v"
  shows "distinct (map g (sql_update c f t))"
  using assms(1,2,5)
proof (induction t)
  case Nil
  then show ?case by (simp add: sql_update_def)
next
  case (Cons r t)
  have same: "sql_update c f t = t" if "c r"
    using that Cons.prems(2) assms(3) by (intro sql_update_none) (auto simp: image_iff)
  show ?case
  proof (cases "c r")
    case True
    have "g r' \<noteq> v" if "r' \<in> set t" for r'
      using that True Cons.prems(2,3) assms(3) by (auto simp: image_iff) metis
    with True same Cons.prems assms(4) show ?thesis by (auto simp: sql_update_def)
  next
    case False
    have "g r \<noteq> g r'" if "r' \<in> set (sql_update c f t)" for r'
      using that False Cons.prems assms(4) by (auto simp: set_sql_update image_iff split: if_splits)
    then have "g r \<notin> g ` set (sql_update c f t)" by auto
    moreover have "sql_update c f (r # t) = r # sql_update c f t" using False by (simp add: sql_update_def)
    ultimately show ?thesis using Cons by simp
  qed
qed

lemma accounts_UPDATE_user:
  assumes "users_UPDATE u now d = Inr (n, d')" and "accounts_ok d"
  shows "accounts_ok d'"
proof -
  let ?c = "\<lambda>x. u_ID x = u_ID u"
  let ?f = "\<lambda>x. x\<lparr>u_Email := u_Email u, u_Phone := u_Phone u, u_PasswordHash := u_PasswordHash u,
    u_FirstName := u_FirstName u, u_LastName := u_LastName u, u_Status := u_Status u,
    u_EmailVerifiedAt := u_EmailVerifiedAt u, u_UpdatedAt := now\<rparr>"
  from assms(1) have d': "d' = d\<lparr>users := sql_update ?c ?f (users d)\<rparr>"
    and free: "\<not> (list_ex ?c (users d) \<and> list_ex (\<lambda>x. \<not> ?c x \<and> same_email (u_Email x) (u_Email u)) (users d))"
    by (auto simp: users_UPDATE_def split: if_splits)
  have "distinct (map (strings_ToLower \<circ> u_Email) (sql_update ?c ?f (users d)))"
  proof (cases "list_ex ?c (users d)")
    case True
    with free have "\<And>r. r \<in> set (users d) \<Longrightarrow> \<not> ?c r \<Longrightarrow>
        (strings_ToLower \<circ> u_Email) r \<noteq> strings_ToLower (u_Email u)"
      by (auto simp: list_ex_iff same_email_def)
    with assms(2) show ?thesis
      by (intro distinct_sql_update_one [where key = u_ID and v = "strings_ToLower (u_Email u)"])
        (auto simp: accounts_ok_def)
  next
    case False
    then have "sql_update ?c ?f (users d) = users d" by (intro sql_update_none) (auto simp: list_ex_iff)
    with assms(2) show ?thesis by (simp add: accounts_ok_def)
  qed
  moreover have "list_all user_check (sql_update ?c ?f (users d))"
  proof -
    have "user_check (if ?c r then ?f r else r) = user_check r" for r by (simp add: user_check_def)
    with assms(2) show ?thesis by (auto simp: accounts_ok_def list_all_iff set_sql_update)
  qed
  ultimately show ?thesis
    using assms(2) by (simp add: accounts_ok_def d' map_key_sql_update)
qed

lemma accounts_INSERT_token:
  "refresh_tokens_INSERT E rt now d = Inr (x, d') \<Longrightarrow> accounts_ok d \<Longrightarrow> accounts_ok d'"
  by (auto simp: refresh_tokens_INSERT_Inr accounts_ok_def list_all_iff) metis+

lemma accounts_revoke: "refresh_tokens_revoke c now d = Inr (n, d') \<Longrightarrow> accounts_ok d \<Longrightarrow> accounts_ok d'"
  by (auto simp: refresh_tokens_revoke_def accounts_ok_def Let_def map_key_sql_update)

lemma accounts_repo:
  "moves (\<lambda>w w'. accounts_ok (db w) \<longrightarrow> accounts_ok (db w')) (UserRepo_Create E u)"
  "moves (\<lambda>w w'. accounts_ok (db w) \<longrightarrow> accounts_ok (db w')) (UserRepo_Update E u)"
  "moves (\<lambda>w w'. accounts_ok (db w) \<longrightarrow> accounts_ok (db w')) (RefreshTokenRepo_Create E rt)"
  "moves (\<lambda>w w'. accounts_ok (db w) \<longrightarrow> accounts_ok (db w')) (RefreshTokenRepo_Revoke E i)"
  "moves (\<lambda>w w'. accounts_ok (db w) \<longrightarrow> accounts_ok (db w')) (RefreshTokenRepo_RevokeAllForUser E i)"
  unfolding UserRepo_Create_def UserRepo_Update_def RefreshTokenRepo_Create_def RefreshTokenRepo_Revoke_def
    RefreshTokenRepo_RevokeAllForUser_def
  by (intro accounts.db_moves_intros accounts.moves_stmt accounts.moves_ExecUpdate;
      blast intro: accounts_INSERT_user accounts_UPDATE_user accounts_INSERT_token accounts_revoke)+

lemma accounts_service: "moves (\<lambda>w w'. accounts_ok (db w) \<longrightarrow> accounts_ok (db w')) (auth_step E cfg c)"
proof -
  have loc: "moves (\<lambda>w w'. accounts_ok (db w) \<longrightarrow> accounts_ok (db w')) (hashPassword E pw)"
    "moves (\<lambda>w w'. accounts_ok (db w) \<longrightarrow> accounts_ok (db w')) (generateRefreshToken E)" for pw
    by (simp_all add: moves_def hashPassword_def generateRefreshToken_def)
  show ?thesis
    by (cases c; simp only: auth_step.simps auth_service_defs issueTokenPair_def;
        intro accounts.db_moves_intros accounts_repo loc)
qed

section \<open>Administrators\<close>

definition admins :: "database \<Rightarrow> User list" where
  "admins d = filter (\<lambda>u. u_Role u = UserRoleAdmin) (users d)"

fun makes_admin :: "auth_call \<Rightarrow> bool" where
  "makes_admin (ARegisterAdmin t email pw f l) \<longleftrightarrow> True"
| "makes_admin _ \<longleftrightarrow> False"

interpretation same_admins: db_frame admins .

lemma same_admins_repo:
  "u_Role u \<noteq> UserRoleAdmin \<Longrightarrow> moves (\<lambda>w w'. admins (db w') = admins (db w)) (UserRepo_Create E u)"
  "moves (\<lambda>w w'. admins (db w') = admins (db w)) (RefreshTokenRepo_Create E rt)"
  "moves (\<lambda>w w'. admins (db w') = admins (db w)) (RefreshTokenRepo_Revoke E i)"
  unfolding UserRepo_Create_def RefreshTokenRepo_Create_def RefreshTokenRepo_Revoke_def
  by (intro same_admins.frame.db_moves_intros same_admins.frame.moves_stmt same_admins.frame.moves_ExecUpdate;
      auto simp: admins_def users_INSERT_def pg_insert_Inr_iff refresh_tokens_INSERT_Inr
        refresh_tokens_revoke_def Let_def)+

lemma same_admins_service:
  "\<not> makes_admin c \<Longrightarrow> moves (\<lambda>w w'. admins (db w') = admins (db w)) (auth_step E cfg c)"
proof -
  have loc: "moves (\<lambda>w w'. admins (db w') = admins (db w)) (hashPassword E pw)"
    "moves (\<lambda>w w'. admins (db w') = admins (db w)) (generateRefreshToken E)" for pw
    by (simp_all add: moves_def hashPassword_def generateRefreshToken_def)
  show "\<not> makes_admin c \<Longrightarrow> ?thesis"
    by (cases c; simp only: auth_step.simps auth_service_defs issueTokenPair_def makes_admin.simps not_True_eq_False;
        (intro same_admins.frame.db_moves_intros same_admins_repo loc)?; (simp add: new_user_def)?)
qed

section \<open>Registering and logging in\<close>

lemma Register_Inr:
  assumes "Register E email password f l w = (Inr u, w')"
  obtains hash now where "minPasswordLength \<le> length password"
    "e_bcrypt_hash E (tick w) password = Inr hash"
    "user_by_email (normalizeEmail email) (db w) = None"
    "db w' = (db w)\<lparr>users := users (db w) @ [u\<lparr>u_PasswordHash := hash, u_CreatedAt := now, u_UpdatedAt := now\<rparr>]\<rparr>"
    "u_Email u = normalizeEmail email" "u_Role u = UserRoleFan" "u_TenantID u = None"
    "u_Status u = UserStatusActive" "u_PasswordHash u = ''''"
  using assms
  by (auto simp: Register_def Let_def comp_iffs hashPassword_def run_uuid_New UserRepo_Create_def
      id_or_New_def conflictE_def pg_stmt_Inr_iff users_INSERT_def pg_insert_Inr_iff new_user_def
      user_by_email_def find_None_iff list_all_iff not_less split: if_splits) (force+)?

text \<open>
  What issuing tokens needs besides the account, when it starts at call \<open>k\<close>: the signer and the random
  source answer, the address is one (or empty), and what is drawn is new.
\<close>

definition session_possible :: "env \<Rightarrow> JWTConfig \<Rightarrow> string \<Rightarrow> nat \<Rightarrow> bool" where
  "session_possible E cfg ip k \<longleftrightarrow>
    (\<forall>c. \<exists>tok. e_jwt_sign E (jwt_Secret cfg) c = Inr tok) \<and> (\<exists>a. inet_column E (nullIfEmpty ip) = Inr a) \<and>
    (\<exists>b. e_rand E (Suc k) = Inr b) \<and> e_uuid E (Suc (Suc k)) \<noteq> 0"

definition fresh_session :: "env \<Rightarrow> nat \<Rightarrow> database \<Rightarrow> bool" where
  "fresh_session E k d \<longleftrightarrow>
    (\<forall>b. e_rand E (Suc k) = Inr b \<longrightarrow> token_by_hash (hashToken (base64_RawURL b)) d = None) \<and>
    (\<forall>rt \<in> set (refresh_tokens d). rt_ID rt \<noteq> e_uuid E (Suc (Suc k)))"

lemma issueTokenPair_possible:
  assumes "pg_healthy E" and "session_possible E cfg ip (tick w)" and "fresh_session E (tick w) (db w)"
    and "u \<in> set (users (db w))"
  shows "\<exists>p w'. issueTokenPair E cfg u ua ip w = (Inr p, w')"
proof -
  obtain tok where tok: "e_jwt_sign E (jwt_Secret cfg) (access_claims E cfg u (e_now E (tick w))) = Inr tok"
    using assms(2) unfolding session_possible_def by blast
  obtain a where a: "inet_column E (nullIfEmpty ip) = Inr a"
    using assms(2) unfolding session_possible_def by blast
  obtain b where b: "e_rand E (Suc (tick w)) = Inr b"
    using assms(2) unfolding session_possible_def by blast
  have "list_all (\<lambda>x. rt_ID x \<noteq> e_uuid E (Suc (Suc (tick w))) \<and> rt_TokenHash x \<noteq> hashToken (base64_RawURL b))
      (refresh_tokens (db w))"
    using b assms(3) by (auto simp: fresh_session_def token_by_hash_def find_None_iff list_all_iff)
  moreover have "list_ex (\<lambda>x. u_ID x = u_ID u) (users (db w))" using assms(4) by (auto simp: list_ex_iff)
  moreover have "e_uuid E (Suc (Suc (tick w))) \<noteq> 0" using assms(2) by (simp add: session_possible_def)
  ultimately show ?thesis
    using assms(1) tok a b
    by (simp add: issueTokenPair_def run_simps generateRefreshToken_def RefreshTokenRepo_Create_def
        id_or_New_def conflictE_def pg_stmt_def pg_healthy_def refresh_tokens_INSERT_def pg_insert_def)
qed

lemma Login_Inr:
  assumes "Login E cfg email password ua ip w = (Inr p, w')"
  obtains user where "user_by_email (normalizeEmail email) (db w) = Some user"
    "u_Status user = UserStatusActive" "e_bcrypt_ok E (u_PasswordHash user) password"
    "issueTokenPair E cfg user ua ip (w\<lparr>tick := Suc (tick w)\<rparr>) = (Inr p, w')"
proof -
  obtain q w1 where q: "UserRepo_GetByEmail E (normalizeEmail email) w = (q, w1)" by fastforce
  note run = assms [unfolded Login_def bind_attemptE [where m = "UserRepo_GetByEmail E (normalizeEmail email)", OF q]]
  obtain user where user: "q = Inr user" using run by (cases q) (auto simp: run_throwE split: if_splits)
  with q have "user_by_email (normalizeEmail email) (db w) = Some user" "w1 = w\<lparr>tick := Suc (tick w)\<rparr>"
    by (auto simp: UserRepo_GetByEmail_def QueryRow_Inr_iff)
  with run user show thesis by (auto intro: that simp: run_throwE split: if_splits)
qed

lemma Login_known:
  assumes "pg_healthy E" and "user_by_email (normalizeEmail email) (db w) = Some user"
    and "u_Status user = UserStatusActive" and "e_bcrypt_ok E (u_PasswordHash user) password"
    and "session_possible E cfg ip (Suc (tick w))" and "fresh_session E (Suc (tick w)) (db w)"
  shows "\<exists>p w'. Login E cfg email password ua ip w = (Inr p, w')"
proof -
  have "user \<in> set (users (db w))"
    using assms(2) by (auto simp: user_by_email_def find_Some_iff)
  with issueTokenPair_possible [OF assms(1), of cfg ip "w\<lparr>tick := Suc (tick w)\<rparr>" user ua] assms show ?thesis
    by (simp add: Login_def run_simps UserRepo_GetByEmail_def)
qed

text \<open>A live token is honoured; only what was drawn for the new one can stand in the way.\<close>

lemma RefreshAccessToken_live:
  assumes "pg_healthy E" and tok: "token_by_hash (hashToken raw) (db w) = Some rt" and "rt_RevokedAt rt = None"
    and "\<not> rt_ExpiresAt rt < e_now E (Suc (tick w))"
    and "user_by_id (rt_UserID rt) (db w) = Some user" and "u_Status user = UserStatusActive"
    and "session_possible E cfg ip (tick w + 4)" and "fresh_session E (tick w + 4) (db w)"
  shows "\<exists>p w'. RefreshAccessToken E cfg raw ua ip w = (Inr p, w')"
proof -
  let ?w = "w\<lparr>tick := Suc (Suc (Suc (tick w)))\<rparr>"
  let ?c = "\<lambda>x. rt_ID x = rt_ID rt \<and> rt_RevokedAt x = None"
  have "rt \<in> set (refresh_tokens (db w))"
    using tok by (auto simp: token_by_hash_def find_Some_iff)
  with assms(3) have n: "sql_affected ?c (refresh_tokens (db w)) \<noteq> 0"
    by (auto simp: sql_affected_0_iff)
  define d where "d = (db w)\<lparr>refresh_tokens := sql_update ?c (\<lambda>x. x\<lparr>rt_RevokedAt := Some (pg_now E ?w)\<rparr>)
    (refresh_tokens (db w))\<rparr>"
  have rev: "RefreshTokenRepo_Revoke E (rt_ID rt) ?w = (Inr (), ?w\<lparr>tick := tick w + 4, db := d\<rparr>)"
    using n assms(1) by (simp add: RefreshTokenRepo_Revoke_def ExecUpdate_def run_simps pg_stmt_def
        pg_healthy_def refresh_tokens_revoke_def Let_def d_def)
  have "fresh_session E (tick w + 4) d"
  proof -
    have "token_by_hash h d = None \<longleftrightarrow> token_by_hash h (db w) = None" for h
      by (simp add: token_by_hash_def d_def find_key_sql_update)
    moreover have "rt_ID x \<noteq> i" if "x \<in> set (refresh_tokens d)"
        "\<forall>y \<in> set (refresh_tokens (db w)). rt_ID y \<noteq> i" for i x
    proof -
      from that(1) obtain y where "y \<in> set (refresh_tokens (db w))" "rt_ID x = rt_ID y"
        by (auto simp: d_def set_sql_update)
      with that(2) show ?thesis by metis
    qed
    ultimately show ?thesis using assms(8) unfolding fresh_session_def by blast
  qed
  moreover have "user \<in> set (users d)"
    using assms(5) by (auto simp: user_by_id_def find_Some_iff d_def)
  ultimately have "\<exists>p w'. issueTokenPair E cfg user ua ip (?w\<lparr>tick := tick w + 4, db := d\<rparr>) = (Inr p, w')"
    using assms(1,7) by (intro issueTokenPair_possible) simp_all
  with assms rev show ?thesis
    by (simp add: RefreshAccessToken_def run_simps RefreshTokenRepo_GetByTokenHash_def UserRepo_GetByID_def)
qed

text \<open>What a token pair is made of.\<close>

lemma issueTokenPair_Inr:
  assumes "issueTokenPair E cfg user ua ip w = (Inr p, w')"
  obtains rt where
    "e_jwt_sign E (jwt_Secret cfg) (access_claims E cfg user (e_now E (tick w))) = Inr (tp_AccessToken p)"
    "db w' = (db w)\<lparr>refresh_tokens := refresh_tokens (db w) @ [rt]\<rparr>"
    "token_by_hash (hashToken (tp_RefreshToken p)) (db w) = None"
    "rt_TokenHash rt = hashToken (tp_RefreshToken p)" "rt_UserID rt = u_ID user" "rt_RevokedAt rt = None"
    "rt_ExpiresAt rt = tp_RefreshTokenExpiresAt p"
    "tp_RefreshTokenExpiresAt p = e_now E (tick w) + jwt_RefreshTTL cfg"
    "tp_AccessTokenExpiresAt p = e_now E (tick w) + jwt_AccessTTL cfg"
    "\<exists>n b. e_rand E n = Inr b \<and> tp_RefreshToken p = base64_RawURL b"
  using assms
  by (auto simp: issueTokenPair_def comp_iffs run_time_Now run_uuid_New generateRefreshToken_def
      RefreshTokenRepo_Create_def id_or_New_def conflictE_def pg_stmt_Inr_iff refresh_tokens_INSERT_Inr
      token_by_hash_def find_None_iff list_all_iff split: sum.splits if_splits) (force+)

end
