(* ===== verification/HttpBase.thy ===== *)
theory HttpBase
  imports AuthService
begin

text \<open>
  What every HTTP handler shares: the response envelope of \<open>internal/pkg/response\<close>, requests and
  their context, the middleware of \<open>internal/handler/middleware\<close> and the body helpers of
  \<open>internal/handler/http\<close>.  A handler is a computation that always returns a response.  Decoding JSON
  into a request struct and the struct-tag validator are arguments.
\<close>

section \<open>Responses\<close>

text \<open>The JSON values handlers reply with; ids, times and statuses are kept as they are.\<close>

datatype json =
    JNull
  | JBool bool
  | JInt int
  | JString string
  | JUuid uuid
  | JTime time
  | JHttpTime time
  | JOrderStatus OrderStatus
  | JEventStatus EventStatus
  | JObject "(string \<times> json) list"
  | JArray "json list"
  | JErrorText error

text \<open>A message is a literal or what \<open>err.Error()\<close> renders.\<close>

datatype message = Literal string | ErrorOf error

datatype Envelope = Data json | Failure string message

record Response =
  rs_Status :: nat
  rs_Envelope :: Envelope

abbreviation StatusOK :: nat where "StatusOK \<equiv> 200"
abbreviation StatusCreated :: nat where "StatusCreated \<equiv> 201"
abbreviation StatusBadRequest :: nat where "StatusBadRequest \<equiv> 400"
abbreviation StatusUnauthorized :: nat where "StatusUnauthorized \<equiv> 401"
abbreviation StatusForbidden :: nat where "StatusForbidden \<equiv> 403"
abbreviation StatusNotFound :: nat where "StatusNotFound \<equiv> 404"
abbreviation StatusConflict :: nat where "StatusConflict \<equiv> 409"
abbreviation StatusTooManyRequests :: nat where "StatusTooManyRequests \<equiv> 429"
abbreviation StatusInternalServerError :: nat where "StatusInternalServerError \<equiv> 500"
abbreviation StatusServiceUnavailable :: nat where "StatusServiceUnavailable \<equiv> 503"

definition response_JSON :: "nat \<Rightarrow> json \<Rightarrow> Response" where
  "response_JSON status data = \<lparr>rs_Status = status, rs_Envelope = Data data\<rparr>"

definition response_Error :: "nat \<Rightarrow> string \<Rightarrow> message \<Rightarrow> Response" where
  "response_Error status code msg = \<lparr>rs_Status = status, rs_Envelope = Failure code msg\<rparr>"

text \<open>The UTF-8 bytes of the dash in two of the messages.\<close>

definition em_dash :: string where
  "em_dash = [CHR 0xE2, CHR 0x80, CHR 0x94]"

abbreviation replyE :: "nat \<Rightarrow> json \<Rightarrow> Response op" where
  "replyE status data \<equiv> returnE (response_JSON status data)"

abbreviation refuseE :: "nat \<Rightarrow> string \<Rightarrow> string \<Rightarrow> Response op" where
  "refuseE status code msg \<equiv> returnE (response_Error status code (Literal msg))"

section \<open>Requests\<close>

text \<open>
  \<open>rq_Header\<close> is \<open>r.Header.Get\<close>, \<open>rq_URLParam\<close> what the router extracted from the path.  A body that
  cannot be read is \<open>None\<close>.  The last two fields are the values the middleware puts into the context.
\<close>

record Request =
  rq_Method :: string
  rq_Path :: "string list"
  rq_Header :: "string \<Rightarrow> string"
  rq_URLParam :: "string \<Rightarrow> string"
  rq_RemoteAddr :: string
  rq_Body :: "string option"
  rq_claims :: "Claims option"
  rq_resolvedTenant :: "uuid option"

type_synonym handler = "Request \<Rightarrow> Response op"

definition UserAgent :: "Request \<Rightarrow> string" where
  "UserAgent r = rq_Header r ''User-Agent''"

section \<open>middleware/auth.go and middleware/tenant.go\<close>

definition strings_CutPrefix :: "string \<Rightarrow> string \<Rightarrow> string \<times> bool" where
  "strings_CutPrefix s p =
    (if take (length p) s = p then (drop (length p) s, True) else (s, False))"

definition RequireAuth :: "env \<Rightarrow> JWTConfig \<Rightarrow> handler \<Rightarrow> handler" where
  "RequireAuth E cfg next r =
    (case strings_CutPrefix (rq_Header r ''Authorization'') ''Bearer '' of
      (token, ok) \<Rightarrow>
        if \<not> ok \<or> token = '''' then
          refuseE StatusUnauthorized ''missing-token'' ''Authorization: Bearer <token> header is required''
        else bindE (attemptE (ParseAccessToken E cfg token)) (\<lambda>p.
          case p of
            Inl err \<Rightarrow> refuseE StatusUnauthorized ''invalid-token'' ''access token is invalid or expired''
          | Inr claims \<Rightarrow> next (r\<lparr>rq_claims := Some claims\<rparr>)))"

definition RoleFromContext :: "Request \<Rightarrow> string option" where
  "RoleFromContext r = map_option cl_Role (rq_claims r)"

definition RequireAdmin :: "handler \<Rightarrow> handler" where
  "RequireAdmin next r =
    (if RoleFromContext r \<noteq> Some ''admin'' then refuseE StatusForbidden ''forbidden'' ''admin role required''
     else next r)"

definition UserIDFromContext :: "env \<Rightarrow> Request \<Rightarrow> uuid option" where
  "UserIDFromContext E r = Option.bind (rq_claims r) (\<lambda>c. e_uuid_Parse E (cl_Subject c))"

definition TenantIDFromContext :: "env \<Rightarrow> Request \<Rightarrow> uuid option" where
  "TenantIDFromContext E r =
    Option.bind (rq_claims r) (\<lambda>c. if cl_TenantID c = '''' then None else e_uuid_Parse E (cl_TenantID c))"

definition RequireTenantHeader :: "env \<Rightarrow> handler \<Rightarrow> handler" where
  "RequireTenantHeader E next r =
    (let raw = rq_Header r ''X-Tenant-ID'' in
     if raw = '''' then refuseE StatusBadRequest ''missing-tenant'' ''X-Tenant-ID header is required''
     else case e_uuid_Parse E raw of
       None \<Rightarrow> refuseE StatusBadRequest ''invalid-tenant'' ''X-Tenant-ID must be a valid UUID''
     | Some tenantID \<Rightarrow> next (r\<lparr>rq_resolvedTenant := Some tenantID\<rparr>))"

section \<open>Helpers of the handlers\<close>

text \<open>A decoded value or the response that was written instead.\<close>

definition decodeJSONBody :: "(string \<Rightarrow> 'r option) \<Rightarrow> Request \<Rightarrow> Response + 'r" where
  "decodeJSONBody decode r =
    (case Option.bind (rq_Body r) decode of
      None \<Rightarrow> Inl (response_Error StatusBadRequest ''invalid-body'' (Literal ''could not parse request body''))
    | Some v \<Rightarrow> Inr v)"

definition decodeAndValidate ::
  "(string \<Rightarrow> 'r option) \<Rightarrow> ('r \<Rightarrow> error option) \<Rightarrow> Request \<Rightarrow> Response + 'r" where
  "decodeAndValidate decode validate r =
    (case Option.bind (rq_Body r) decode of
      None \<Rightarrow> Inl (response_Error StatusBadRequest ''invalid-body'' (Literal ''could not parse request body''))
    | Some v \<Rightarrow>
        (case validate v of
          Some err \<Rightarrow> Inl (response_Error StatusBadRequest ''validation-failed'' (ErrorOf err))
        | None \<Rightarrow> Inr v))"

text \<open>\<open>if !decode(...) { return }\<close>\<close>

definition withBody :: "(Response + 'r) \<Rightarrow> ('r \<Rightarrow> Response op) \<Rightarrow> Response op" where
  "withBody d k = (case d of Inl resp \<Rightarrow> returnE resp | Inr v \<Rightarrow> k v)"

text \<open>\<open>uuid.Parse\<close> or a 400\<close>

definition withUUID :: "env \<Rightarrow> string \<Rightarrow> string \<Rightarrow> string \<Rightarrow> (uuid \<Rightarrow> Response op) \<Rightarrow> Response op" where
  "withUUID E s code msg k =
    (case e_uuid_Parse E s of None \<Rightarrow> refuseE StatusBadRequest code msg | Some i \<Rightarrow> k i)"

text \<open>The guard most fan handlers start with, \<open>userAndTenant\<close>.\<close>

definition userAndTenant :: "env \<Rightarrow> Request \<Rightarrow> Response + (uuid \<times> uuid)" where
  "userAndTenant E r =
    (case UserIDFromContext E r of
      None \<Rightarrow> Inl (response_Error StatusUnauthorized ''missing-token'' (Literal ''not authenticated''))
    | Some userID \<Rightarrow>
        (case rq_resolvedTenant r of
          None \<Rightarrow> Inl (response_Error StatusBadRequest ''missing-tenant'' (Literal ''X-Tenant-ID header is required''))
        | Some tenantID \<Rightarrow> Inr (userID, tenantID)))"

text \<open>The guard of the admin handlers: the tenant of the token.\<close>

definition withAdminTenant :: "env \<Rightarrow> Request \<Rightarrow> (uuid \<Rightarrow> Response op) \<Rightarrow> Response op" where
  "withAdminTenant E r k =
    (case TenantIDFromContext E r of
      None \<Rightarrow> refuseE StatusForbidden ''no-tenant'' ''admin account has no associated tenant''
    | Some tenantID \<Rightarrow> k tenantID)"

text \<open>
  \<open>net.SplitHostPort\<close>, of which only the host is used: what is before the last colon, in brackets when
  it has colons itself.
\<close>

definition SplitHost :: "string \<Rightarrow> string option" where
  "SplitHost s =
    (if CHR '':'' \<notin> set s then None
     else let i = length s - Suc (length (takeWhile (\<lambda>c. c \<noteq> CHR '':'') (rev s))) in
       if hd s = CHR ''['' then
         (let host = takeWhile (\<lambda>c. c \<noteq> CHR '']'') (tl s); e = Suc (length host)
          in if CHR '']'' \<in> set s \<and> Suc e = i \<and> CHR ''['' \<notin> set (tl s) \<and> CHR '']'' \<notin> set (drop (Suc e) s)
             then Some host else None)
       else
         (let host = take i s
          in if CHR '':'' \<in> set host \<or> CHR ''['' \<in> set s \<or> CHR '']'' \<in> set s then None else Some host))"

definition clientIP :: "Request \<Rightarrow> string" where
  "clientIP r =
    (let fwd = rq_Header r ''X-Forwarded-For'' in
     if fwd \<noteq> '''' then strings_TrimSpace (takeWhile (\<lambda>c. c \<noteq> CHR '','') fwd)
     else case SplitHost (rq_RemoteAddr r) of None \<Rightarrow> '''' | Some host \<Rightarrow> host)"

end
