(* ===== verification/Redis.thy ===== *)
theory Redis
  imports World "HOL-Library.Product_Lexorder" "HOL-Library.List_Lexorder" "HOL-Library.Char_ord"
begin

text \<open>
  What the program relies on of the Redis server, which is not part of the repository.
  \<open>redis_server\<close> states the documented behaviour of the commands it sends: a reply comes with the
  effect the command's documentation gives it; when no reply arrives the command was executed or
  it was not.  The theorems on the lock, the rate limiter and the waiting room have it as a
  hypothesis; the theorems on the inventory never do.  \<open>reference_redis\<close> is a server that satisfies
  it, for evaluating the model on concrete inputs.
\<close>

section \<open>Documented behaviour of the commands\<close>

text \<open>A key whose TTL has run out does not exist.\<close>

definition live :: "time \<Rightarrow> keyspace \<Rightarrow> string \<Rightarrow> rval option" where
  "live now k key = (case k key of
    None \<Rightarrow> None
  | Some (v, None) \<Rightarrow> Some v
  | Some (v, Some t) \<Rightarrow> if now < t then Some v else None)"

definition ttl_of :: "time \<Rightarrow> keyspace \<Rightarrow> string \<Rightarrow> time option" where
  "ttl_of now k key = (case live now k key of
    None \<Rightarrow> None
  | Some _ \<Rightarrow> (case k key of None \<Rightarrow> None | Some (v, t) \<Rightarrow> t))"

definition wrongtype :: error where
  "wrongtype = DriverErr ''WRONGTYPE''"

definition sem_setnx :: "time \<Rightarrow> string \<Rightarrow> string \<Rightarrow> duration \<Rightarrow> keyspace \<Rightarrow> bool \<times> keyspace" where
  "sem_setnx now key v ttl k = (case live now k key of
    None \<Rightarrow> (True, k(key \<mapsto> (RStr v, if 0 < ttl then Some (now + ttl) else None)))
  | Some _ \<Rightarrow> (False, k))"

definition sem_incr :: "time \<Rightarrow> string \<Rightarrow> keyspace \<Rightarrow> (error + int) \<times> keyspace" where
  "sem_incr now key k = (case live now k key of
    None \<Rightarrow> (Inr 1, k(key \<mapsto> (RInt 1, None)))
  | Some (RInt n) \<Rightarrow>
      if n + 1 < 2 ^ 63 then (Inr (n + 1), k(key \<mapsto> (RInt (n + 1), ttl_of now k key)))
      else (Inl (DriverErr ''ERR increment or decrement would overflow''), k)
  | Some _ \<Rightarrow> (Inl wrongtype, k))"

definition sem_expire :: "time \<Rightarrow> string \<Rightarrow> duration \<Rightarrow> keyspace \<Rightarrow> keyspace" where
  "sem_expire now key ttl k = (case live now k key of
    None \<Rightarrow> k
  | Some v \<Rightarrow> if 0 < ttl then k(key \<mapsto> (v, Some (now + ttl))) else k(key := None))"

definition sem_exists :: "time \<Rightarrow> string \<Rightarrow> keyspace \<Rightarrow> int" where
  "sem_exists now key k = (if live now k key = None then 0 else 1)"

text \<open>A sorted set is kept in order of score, then of member.\<close>

definition zset_at :: "time \<Rightarrow> keyspace \<Rightarrow> string \<Rightarrow> (error + (string \<times> int) list)" where
  "zset_at now k key = (case live now k key of
    None \<Rightarrow> Inr [] | Some (RZSet zs) \<Rightarrow> Inr zs | Some _ \<Rightarrow> Inl wrongtype)"

definition put_zset :: "time \<Rightarrow> string \<Rightarrow> (string \<times> int) list \<Rightarrow> keyspace \<Rightarrow> keyspace" where
  "put_zset now key zs k =
    (if zs = [] then k(key := None) else k(key \<mapsto> (RZSet zs, ttl_of now k key)))"

definition zset_insert :: "int \<Rightarrow> string \<Rightarrow> (string \<times> int) list \<Rightarrow> (string \<times> int) list" where
  "zset_insert score m zs =
    (if m \<in> fst ` set zs then zs else insort_key (\<lambda>z. (snd z, fst z)) (m, score) zs)"

primrec zset_rank :: "string \<Rightarrow> (string \<times> int) list \<Rightarrow> int option" where
  "zset_rank m [] = None"
| "zset_rank m (z # zs) = (if fst z = m then Some 0 else map_option (\<lambda>n. n + 1) (zset_rank m zs))"

definition sem_zaddnx :: "time \<Rightarrow> string \<Rightarrow> int \<Rightarrow> string \<Rightarrow> keyspace \<Rightarrow> (error + unit) \<times> keyspace" where
  "sem_zaddnx now key score m k = (case zset_at now k key of
    Inl e \<Rightarrow> (Inl e, k) | Inr zs \<Rightarrow> (Inr (), put_zset now key (zset_insert score m zs) k))"

definition sem_zrank :: "time \<Rightarrow> string \<Rightarrow> string \<Rightarrow> keyspace \<Rightarrow> error + int option" where
  "sem_zrank now key m k = (case zset_at now k key of Inl e \<Rightarrow> Inl e | Inr zs \<Rightarrow> Inr (zset_rank m zs))"

definition sem_zcard :: "time \<Rightarrow> string \<Rightarrow> keyspace \<Rightarrow> error + int" where
  "sem_zcard now key k = (case zset_at now k key of Inl e \<Rightarrow> Inl e | Inr zs \<Rightarrow> Inr (int (length zs)))"

definition sem_zpopmin ::
  "time \<Rightarrow> string \<Rightarrow> int \<Rightarrow> keyspace \<Rightarrow> (error + (string \<times> int) list) \<times> keyspace" where
  "sem_zpopmin now key count k = (case zset_at now k key of
    Inl e \<Rightarrow> (Inl e, k)
  | Inr zs \<Rightarrow> (Inr (take (nat count) zs), put_zset now key (drop (nat count) zs) k))"

definition sem_GET :: "time \<Rightarrow> string \<Rightarrow> keyspace \<Rightarrow> string option" where
  "sem_GET now key k = (case live now k key of Some (RStr v) \<Rightarrow> Some v | _ \<Rightarrow> None)"

definition sem_DEL :: "time \<Rightarrow> string \<Rightarrow> keyspace \<Rightarrow> int \<times> keyspace" where
  "sem_DEL now key k = (if live now k key = None then 0 else 1, k(key := None))"

definition sem_sets :: "time \<Rightarrow> (string \<times> string \<times> duration) list \<Rightarrow> keyspace \<Rightarrow> keyspace" where
  "sem_sets now ss k = fold (\<lambda>(key, v, ttl) k.
    k(key \<mapsto> (RStr v, if 0 < ttl then Some (now + ttl) else None))) ss k"

text \<open>
  \<open>answers r k q\<close>: the reply and keyspace \<open>r\<close> of a command on \<open>k\<close>, against its documentation \<open>q\<close>.
\<close>

definition answers :: "(error + 'a) \<times> keyspace \<Rightarrow> keyspace \<Rightarrow> (error + 'a) \<times> keyspace \<Rightarrow> bool" where
  "answers r k q \<longleftrightarrow> (case fst r of Inr x \<Rightarrow> r = q | Inl e \<Rightarrow> snd r = k \<or> snd r = snd q)"

definition redis_server :: "redis_cmds \<Rightarrow> bool" where
  "redis_server R \<longleftrightarrow>
    (\<forall>m n. m \<le> n \<longrightarrow> r_now R m \<le> r_now R n) \<and>
    (\<forall>n key v ttl k. answers (r_setnx R n key v ttl k) k
      (apfst Inr (sem_setnx (r_now R n) key v ttl k))) \<and>
    (\<forall>n key k. answers (r_incr R n key k) k (sem_incr (r_now R n) key k)) \<and>
    (\<forall>n key ttl k. answers (r_expire R n key ttl k) k (Inr (), sem_expire (r_now R n) key ttl k)) \<and>
    (\<forall>n key k. answers (r_exists R n key k) k (Inr (sem_exists (r_now R n) key k), k)) \<and>
    (\<forall>n key score m k. answers (r_zaddnx R n key score m k) k (sem_zaddnx (r_now R n) key score m k)) \<and>
    (\<forall>n key m k. answers (r_zrank R n key m k) k (sem_zrank (r_now R n) key m k, k)) \<and>
    (\<forall>n key k. answers (r_zcard R n key k) k (sem_zcard (r_now R n) key k, k)) \<and>
    (\<forall>n key c k. answers (r_zpopmin R n key c k) k (sem_zpopmin (r_now R n) key c k)) \<and>
    (\<forall>n f k. answers (r_eval R n f k) k (apfst Inr (f k))) \<and>
    (\<forall>n key k. r_GET R n key k = sem_GET (r_now R n) key k) \<and>
    (\<forall>n key k. r_DEL R n key k = sem_DEL (r_now R n) key k) \<and>
    (\<forall>n ss k. case fst (r_pipeline_set R n ss k) of
        Inr x \<Rightarrow> snd (r_pipeline_set R n ss k) = sem_sets (r_now R n) ss k
      | Inl e \<Rightarrow> \<exists>ss'. set ss' \<subseteq> set ss \<and>
          snd (r_pipeline_set R n ss k) = sem_sets (r_now R n) ss' k)"

section \<open>A server that satisfies it\<close>

definition reference_redis :: "(nat \<Rightarrow> time) \<Rightarrow> redis_cmds" where
  "reference_redis clock =
    \<lparr>r_now = clock,
     r_setnx = (\<lambda>n key v ttl k. apfst Inr (sem_setnx (clock n) key v ttl k)),
     r_incr = (\<lambda>n. sem_incr (clock n)),
     r_expire = (\<lambda>n key ttl k. (Inr (), sem_expire (clock n) key ttl k)),
     r_exists = (\<lambda>n key k. (Inr (sem_exists (clock n) key k), k)),
     r_zaddnx = (\<lambda>n. sem_zaddnx (clock n)),
     r_zrank = (\<lambda>n key m k. (sem_zrank (clock n) key m k, k)),
     r_zcard = (\<lambda>n key k. (sem_zcard (clock n) key k, k)),
     r_zpopmin = (\<lambda>n. sem_zpopmin (clock n)),
     r_eval = (\<lambda>n f k. apfst Inr (f k)),
     r_GET = (\<lambda>n. sem_GET (clock n)),
     r_DEL = (\<lambda>n. sem_DEL (clock n)),
     r_pipeline_set = (\<lambda>n ss k. (Inr (), sem_sets (clock n) ss k))\<rparr>"

lemma answers_self: "answers r k r"
  by (simp add: answers_def split: sum.split)

lemma reference_redis_server:
  assumes "\<And>m n. m \<le> n \<Longrightarrow> clock m \<le> clock n"
  shows "redis_server (reference_redis clock)"
  using assms by (simp add: redis_server_def reference_redis_def answers_self)

section \<open>Facts\<close>

lemma answers_Inr: "answers r k q \<Longrightarrow> fst r = Inr x \<Longrightarrow> r = q"
  by (simp add: answers_def)

lemma redis_clock: "redis_server R \<Longrightarrow> m \<le> n \<Longrightarrow> r_now R m \<le> r_now R n"
  by (simp add: redis_server_def)

lemma redis_answers:
  assumes "redis_server R"
  shows "answers (r_setnx R n key v ttl k) k (apfst Inr (sem_setnx (r_now R n) key v ttl k))"
    and "answers (r_incr R n key k) k (sem_incr (r_now R n) key k)"
    and "answers (r_expire R n key ttl k) k (Inr (), sem_expire (r_now R n) key ttl k)"
    and "answers (r_exists R n key k) k (Inr (sem_exists (r_now R n) key k), k)"
    and "answers (r_zaddnx R n key score m k) k (sem_zaddnx (r_now R n) key score m k)"
    and "answers (r_zrank R n key m k) k (sem_zrank (r_now R n) key m k, k)"
    and "answers (r_zcard R n key k) k (sem_zcard (r_now R n) key k, k)"
    and "answers (r_zpopmin R n key c k) k (sem_zpopmin (r_now R n) key c k)"
    and "answers (r_eval R n f k) k (apfst Inr (f k))"
    and "r_GET R n key k = sem_GET (r_now R n) key k"
    and "r_DEL R n key k = sem_DEL (r_now R n) key k"
    and "case fst (r_pipeline_set R n ss k) of
        Inr x \<Rightarrow> snd (r_pipeline_set R n ss k) = sem_sets (r_now R n) ss k
      | Inl e \<Rightarrow> \<exists>ss'. set ss' \<subseteq> set ss \<and>
          snd (r_pipeline_set R n ss k) = sem_sets (r_now R n) ss' k"
  using assms by (simp_all add: redis_server_def)

end
