(* ===== verification/RedisRepo.thy ===== *)
theory RedisRepo
  imports Redis
begin

text \<open>
  \<open>internal/repository/redis\<close>: the per-row lock (\<open>lock.go\<close>), the fixed-window rate limiter
  (\<open>ratelimit.go\<close>) and the waiting room (\<open>waitingroom.go\<close>), and the contracts the inventory
  service sees of them through its interfaces \<open>locker\<close>, \<open>rateLimiter\<close> and \<open>waitingRoom\<close>.
\<close>

section \<open>lock.go\<close>

text \<open>the Lua script, on the keyspace it runs on\<close>

definition unlockScript :: "redis_cmds \<Rightarrow> nat \<Rightarrow> string \<Rightarrow> string \<Rightarrow> keyspace \<Rightarrow> int \<times> keyspace" where
  "unlockScript R n key arg k = (if r_GET R n key k = Some arg then r_DEL R n key k else (0, k))"

definition Locker_Acquire :: "env \<Rightarrow> string \<Rightarrow> duration \<Rightarrow> (string \<times> bool) op" where
  "Locker_Acquire E key ttl =
    bindE (uuid_New E) (\<lambda>u.
    let token = e_uuid_String E u in
    bindE (wrapE ''redis: acquire lock %q: %w'' (redis_call E (\<lambda>R n. r_setnx R n key token ttl)))
      (\<lambda>ok. returnE (token, ok)))"

definition Locker_Release :: "env \<Rightarrow> string \<Rightarrow> string \<Rightarrow> bool op" where
  "Locker_Release E key token =
    bindE (wrapE ''redis: release lock %q: %w''
        (redis_call E (\<lambda>R n. r_eval R n (unlockScript R n key token))))
      (\<lambda>res. returnE (res = 1))"

section \<open>ratelimit.go\<close>

definition RateLimiter_Allow :: "env \<Rightarrow> string \<Rightarrow> int \<Rightarrow> duration \<Rightarrow> bool op" where
  "RateLimiter_Allow E key limit window =
    bindE (wrapE ''redis: rate limit incr: %w'' (redis_call E (\<lambda>R n. r_incr R n key))) (\<lambda>count.
    bindE (if count = 1
           then wrapE ''redis: rate limit expire: %w'' (redis_call E (\<lambda>R n. r_expire R n key window))
           else returnE ()) (\<lambda>_.
    returnE (count \<le> limit)))"

section \<open>waitingroom.go\<close>

definition queueKey :: "env \<Rightarrow> uuid \<Rightarrow> string" where
  "queueKey E eventID = ''waitingroom:queue:'' @ e_uuid_String E eventID"

definition seqKey :: "env \<Rightarrow> uuid \<Rightarrow> string" where
  "seqKey E eventID = ''waitingroom:seq:'' @ e_uuid_String E eventID"

definition admittedKey :: "env \<Rightarrow> uuid \<Rightarrow> uuid \<Rightarrow> string" where
  "admittedKey E eventID userID =
    ''waitingroom:admitted:'' @ e_uuid_String E eventID @ '':'' @ e_uuid_String E userID"

definition WaitingRoom_Position :: "env \<Rightarrow> uuid \<Rightarrow> uuid \<Rightarrow> int op" where
  "WaitingRoom_Position E eventID userID =
    bindE (wrapE ''redis: waiting room position: %w''
        (redis_call E (\<lambda>R n. r_zrank R n (queueKey E eventID) (e_uuid_String E userID))))
      (\<lambda>rank. case rank of None \<Rightarrow> throwE ErrNotQueued | Some i \<Rightarrow> returnE (i + 1))"

definition WaitingRoom_Join :: "env \<Rightarrow> uuid \<Rightarrow> uuid \<Rightarrow> int op" where
  "WaitingRoom_Join E eventID userID =
    bindE (wrapE ''redis: waiting room join (seq): %w''
        (redis_call E (\<lambda>R n. r_incr R n (seqKey E eventID)))) (\<lambda>seq.
    bindE (wrapE ''redis: waiting room join (zadd): %w''
        (redis_call E (\<lambda>R n. r_zaddnx R n (queueKey E eventID) (float64 seq)
          (e_uuid_String E userID)))) (\<lambda>_.
    WaitingRoom_Position E eventID userID))"

definition WaitingRoom_QueueLength :: "env \<Rightarrow> uuid \<Rightarrow> int op" where
  "WaitingRoom_QueueLength E eventID =
    wrapE ''redis: waiting room length: %w'' (redis_call E (\<lambda>R n. r_zcard R n (queueKey E eventID)))"

definition WaitingRoom_Admit :: "env \<Rightarrow> uuid \<Rightarrow> int \<Rightarrow> duration \<Rightarrow> uuid list op" where
  "WaitingRoom_Admit E eventID count admissionTTL =
    (if count \<le> 0 then returnE []
     else bindE (wrapE ''redis: waiting room admit (pop): %w''
         (redis_call E (\<lambda>R n. r_zpopmin R n (queueKey E eventID) count))) (\<lambda>popped.
       if popped = [] then returnE []
       else let admitted = List.map_filter (\<lambda>z. e_uuid_Parse E (fst z)) popped in
         bindE (wrapE ''redis: waiting room admit (mark): %w''
           (redis_call E (\<lambda>R n. r_pipeline_set R n
             (map (\<lambda>i. (admittedKey E eventID i, ''1'', admissionTTL)) admitted)))) (\<lambda>_.
         returnE admitted)))"

definition WaitingRoom_IsAdmitted :: "env \<Rightarrow> uuid \<Rightarrow> uuid \<Rightarrow> bool op" where
  "WaitingRoom_IsAdmitted E eventID userID =
    bindE (wrapE ''redis: waiting room check admission: %w''
        (redis_call E (\<lambda>R n. r_exists R n (admittedKey E eventID userID))))
      (\<lambda>n. returnE (n = 1))"

lemmas redis_repo_defs =
  Locker_Acquire_def Locker_Release_def RateLimiter_Allow_def WaitingRoom_Position_def
  WaitingRoom_Join_def WaitingRoom_QueueLength_def WaitingRoom_Admit_def WaitingRoom_IsAdmitted_def

section \<open>Redis calls\<close>

lemma redis_call_iff:
  "redis_call E c w = (r, w') \<longleftrightarrow>
     (\<exists>k. c (e_redis E) (tick w) (ks w) = (r, k) \<and> w' = w\<lparr>tick := Suc (tick w), ks := k\<rparr>)"
  by (auto simp: redis_call_def split: prod.splits)

text \<open>the instant at which Redis would execute the next command\<close>

definition redis_time :: "env \<Rightarrow> world \<Rightarrow> time" where
  "redis_time E w = r_now (e_redis E) (tick w)"

definition redis_up :: "env \<Rightarrow> world \<Rightarrow> bool" where
  "redis_up E w \<longleftrightarrow> redis_server (e_redis E)"

lemma redis_time_Suc:
  "redis_up E w \<Longrightarrow> redis_time E w \<le> r_now (e_redis E) (Suc (tick w))"
  by (simp add: redis_up_def redis_time_def redis_clock)

lemma redis_time_le: "redis_up E w \<Longrightarrow> tick w \<le> n \<Longrightarrow> redis_time E w \<le> r_now (e_redis E) n"
  by (simp add: redis_up_def redis_time_def redis_clock)

section \<open>The lock's contract\<close>

text \<open>
  \<open>owner w key\<close> is the token that holds the lock and the end of its lease.  A lease is exclusive:
  until it ends, only the token that holds it can free the lock.
\<close>

datatype lock_call = LAcquire string duration | LRelease string string

fun lock_step ::
  "(string \<Rightarrow> duration \<Rightarrow> ('w, error, string \<times> bool) comp) \<Rightarrow>
   (string \<Rightarrow> string \<Rightarrow> ('w, error, bool) comp) \<Rightarrow> lock_call \<Rightarrow> ('w, error, bool) comp" where
  "lock_step A R (LAcquire key ttl) = bindE (A key ttl) (\<lambda>p. returnE (snd p))"
| "lock_step A R (LRelease key tok) = R key tok"

locale lease_lock =
  fixes Acquire :: "string \<Rightarrow> duration \<Rightarrow> ('w, error, string \<times> bool) comp"
    and Release :: "string \<Rightarrow> string \<Rightarrow> ('w, error, bool) comp"
    and owner :: "'w \<Rightarrow> string \<Rightarrow> (string \<times> time) option"
    and clock :: "'w \<Rightarrow> time"
    and ok :: "'w \<Rightarrow> bool"
  assumes acquire_ok: "ok w \<Longrightarrow> Acquire key ttl w = (r, w') \<Longrightarrow> ok w' \<and> clock w \<le> clock w'"
    and release_ok: "ok w \<Longrightarrow> Release key tok w = (q, w') \<Longrightarrow> ok w' \<and> clock w \<le> clock w'"
    and acquire_lease: "ok w \<Longrightarrow> 0 < ttl \<Longrightarrow> Acquire key ttl w = (Inr (tok, True), w') \<Longrightarrow>
      \<exists>x. owner w' key = Some (tok, x) \<and> clock w + ttl \<le> x \<and> x \<le> clock w' + ttl"
    and acquire_leased: "ok w \<Longrightarrow> owner w key = Some (tok, x) \<Longrightarrow> clock w' < x \<Longrightarrow>
      Acquire key' ttl w = (r, w') \<Longrightarrow>
      owner w' key = Some (tok, x) \<and> (key' = key \<longrightarrow> (\<forall>t. r \<noteq> Inr (t, True)))"
    and release_other: "ok w \<Longrightarrow> owner w key = Some (tok, x) \<Longrightarrow> clock w' < x \<Longrightarrow>
      Release key' tok' w = (q, w') \<Longrightarrow> (key', tok') \<noteq> (key, tok) \<Longrightarrow> owner w' key = Some (tok, x)"
    and release_own: "ok w \<Longrightarrow> owner w key = Some (tok, x) \<Longrightarrow> clock w' < x \<Longrightarrow>
      Release key tok w = (Inr b, w') \<Longrightarrow> b \<and> owner w' key = None"
begin

lemma lock_step_ok: "ok w \<Longrightarrow> lock_step Acquire Release c w = (r, w') \<Longrightarrow> ok w' \<and> clock w \<le> clock w'"
  by (cases c) (auto simp: run_simps split: prod.splits sum.splits dest: acquire_ok release_ok)

lemma lock_step_leased:
  assumes "ok w" and "owner w key = Some (tok, x)" and "clock w' < x"
    and "lock_step Acquire Release c w = (r, w')" and "c \<noteq> LRelease key tok"
  shows "owner w' key = Some (tok, x) \<and> (r = Inr True \<longrightarrow> (\<forall>ttl. c \<noteq> LAcquire key ttl))"
  using assms
  by (cases c)
    (auto simp: run_simps split: prod.splits sum.splits dest: acquire_leased release_other)

lemma run_calls_clock: "ok w \<Longrightarrow> run_calls (lock_step Acquire Release) cs w = (won, w') \<Longrightarrow> ok w' \<and> clock w \<le> clock w'"
proof (induction cs arbitrary: w won)
  case Nil
  then show ?case by simp
next
  case (Cons c cs)
  obtain r w1 where run: "lock_step Acquire Release c w = (r, w1)" by (cases "lock_step Acquire Release c w")
  from Cons.prems run obtain won' where "run_calls (lock_step Acquire Release) cs w1 = (won', w')"
    by (auto split: prod.splits sum.splits bool.splits)
  with Cons.IH lock_step_ok [OF Cons.prems(1) run] show ?case by fastforce
qed

text \<open>While a lease lasts no other attempt at the key succeeds, whoever makes the calls.\<close>

lemma lease_exclusive:
  assumes "run_calls (lock_step Acquire Release) cs w = (won, w')" and "ok w"
    and "owner w key = Some (tok, x)" and "clock w' < x" and "LRelease key tok \<notin> set cs"
  shows "owner w' key = Some (tok, x) \<and> (\<forall>ttl. LAcquire key ttl \<notin> set won)"
  using assms
proof (induction cs arbitrary: w won)
  case Nil
  then show ?case by simp
next
  case (Cons c cs)
  obtain r w1 where run: "lock_step Acquire Release c w = (r, w1)" by (cases "lock_step Acquire Release c w")
  from Cons.prems(1) run obtain won' where rest: "run_calls (lock_step Acquire Release) cs w1 = (won', w')"
    and won: "won = (if r = Inr True then c # won' else won')"
    by (auto split: prod.splits sum.splits bool.splits)
  have ok1: "ok w1" using lock_step_ok [OF Cons.prems(2) run] by simp
  have "clock w1 < x" using run_calls_clock [OF ok1 rest] Cons.prems(4) by simp
  with lock_step_leased [OF Cons.prems(2,3) _ run] Cons.prems(5)
  have "owner w1 key = Some (tok, x)" "r = Inr True \<longrightarrow> (\<forall>ttl. c \<noteq> LAcquire key ttl)" by auto
  with Cons.IH [OF rest ok1 _ Cons.prems(4)] Cons.prems(5) won show ?case by auto
qed

end

definition lock_owner :: "world \<Rightarrow> string \<Rightarrow> (string \<times> time) option" where
  "lock_owner w key = (case ks w key of Some (RStr tok, Some x) \<Rightarrow> Some (tok, x) | _ \<Rightarrow> None)"

lemma lock_owner_Some: "lock_owner w key = Some (tok, x) \<longleftrightarrow> ks w key = Some (RStr tok, Some x)"
  by (auto simp: lock_owner_def split: option.splits rval.splits prod.splits)

lemma lock_owner_absent: "ks w key = None \<Longrightarrow> lock_owner w key = None"
  by (simp add: lock_owner_def)

lemma Locker_Acquire_run:
  assumes "Locker_Acquire E key ttl w = (r, w')"
  shows "\<exists>q k. r_setnx (e_redis E) (Suc (tick w)) key (e_uuid_String E (e_uuid E (tick w))) ttl (ks w)
      = (q, k) \<and> w' = w\<lparr>tick := Suc (Suc (tick w)), ks := k\<rparr> \<and>
    r = (case q of Inl e \<Rightarrow> Inl (Wrap ''redis: acquire lock %q: %w'' e)
         | Inr b \<Rightarrow> Inr (e_uuid_String E (e_uuid E (tick w)), b))"
  using assms
  by (auto simp: Locker_Acquire_def run_simps redis_call_def Let_def split: prod.splits sum.splits)

lemma Locker_Release_run:
  assumes "Locker_Release E key tok w = (r, w')"
  shows "\<exists>q k. r_eval (e_redis E) (tick w) (unlockScript (e_redis E) (tick w) key tok) (ks w) = (q, k) \<and>
    w' = w\<lparr>tick := Suc (tick w), ks := k\<rparr> \<and>
    r = (case q of Inl e \<Rightarrow> Inl (Wrap ''redis: release lock %q: %w'' e) | Inr n \<Rightarrow> Inr (n = 1))"
  using assms
  by (auto simp: Locker_Release_def run_simps redis_call_def split: prod.splits sum.splits)

text \<open>The two commands the lock is made of, on a keyspace.\<close>

lemma setnx_live:
  assumes "redis_server R" and "k key = Some (v, Some x)" and "r_now R n < x"
    and "r_setnx R n key' tok ttl k = (q, k')"
  shows "k' key = Some (v, Some x) \<and> (key' = key \<longrightarrow> q \<noteq> Inr True)"
  using redis_answers(1) [OF assms(1), of n key' tok ttl k] assms(2-4)
  by (auto simp: answers_def sem_setnx_def live_def split: sum.splits option.splits prod.splits if_splits)

lemma setnx_True:
  assumes "redis_server R" and "r_setnx R n key tok ttl k = (Inr True, k')" and "0 < ttl"
  shows "k' = k(key \<mapsto> (RStr tok, Some (r_now R n + ttl)))"
  using redis_answers(1) [OF assms(1), of n key tok ttl k] assms(2,3)
  by (auto simp: answers_def sem_setnx_def split: option.splits)

lemma unlock_effect:
  assumes "redis_server R" and "r_eval R n (unlockScript R n key tok) k = (q, k')"
  shows "k' = k \<or> k' = k(key := None) \<and> sem_GET (r_now R n) key k = Some tok"
  using redis_answers(9) [OF assms(1), of n "unlockScript R n key tok" k] assms
  by (auto simp: answers_def unlockScript_def redis_answers sem_DEL_def split: sum.splits if_splits)

lemma unlock_own:
  assumes "redis_server R" and "r_eval R n (unlockScript R n key tok) k = (Inr i, k')"
    and "k key = Some (RStr tok, Some x)" and "r_now R n < x"
  shows "i = 1 \<and> k' = k(key := None)"
  using redis_answers(9) [OF assms(1), of n "unlockScript R n key tok" k] assms
  by (auto simp: answers_def unlockScript_def redis_answers sem_DEL_def sem_GET_def live_def)

text \<open>While a lease is live nobody else acquires the lock, and releasing it gives it back.\<close>

lemma Locker_Acquire_live:
  assumes "redis_up E w" and "lock_owner w key = Some (tok, x)" and "redis_time E w' < x"
    and "Locker_Acquire E key' ttl w = (r, w')"
  shows "lock_owner w' key = Some (tok, x) \<and> (key' = key \<longrightarrow> (\<forall>tok'. r \<noteq> Inr (tok', True)))"
proof -
  have R: "redis_server (e_redis E)" using assms(1) by (simp add: redis_up_def)
  from assms obtain q k where set: "r_setnx (e_redis E) (Suc (tick w)) key'
      (e_uuid_String E (e_uuid E (tick w))) ttl (ks w) = (q, k)"
    and w': "w' = w\<lparr>tick := Suc (Suc (tick w)), ks := k\<rparr>"
    and r: "r = (case q of Inl e \<Rightarrow> Inl (Wrap ''redis: acquire lock %q: %w'' e)
         | Inr b \<Rightarrow> Inr (e_uuid_String E (e_uuid E (tick w)), b))"
    by (blast dest: Locker_Acquire_run)
  have "r_now (e_redis E) (Suc (tick w)) < x"
    using assms(3) redis_clock [OF R, of "Suc (tick w)" "tick w'"] by (simp add: redis_time_def w')
  from setnx_live [OF R assms(2) [unfolded lock_owner_Some] this set] w' r show ?thesis
    by (auto simp: lock_owner_Some split: sum.splits)
qed

lemma Locker_Release_own:
  assumes "redis_up E w" and "lock_owner w key = Some (tok, x)" and "redis_time E w' < x"
    and "Locker_Release E key tok w = (Inr b, w')"
  shows "b \<and> lock_owner w' key = None"
proof -
  have R: "redis_server (e_redis E)" using assms(1) by (simp add: redis_up_def)
  from assms(4) obtain q k where run: "r_eval (e_redis E) (tick w) (unlockScript (e_redis E) (tick w) key tok) (ks w)
      = (q, k)" and w': "w' = w\<lparr>tick := Suc (tick w), ks := k\<rparr>"
    and b: "Inr b = (case q of Inl e \<Rightarrow> Inl (Wrap ''redis: release lock %q: %w'' e) | Inr n \<Rightarrow> Inr (n = 1))"
    by (blast dest: Locker_Release_run)
  have "r_now (e_redis E) (tick w) < x"
    using assms(3) redis_clock [OF R, of "tick w" "tick w'"] by (simp add: redis_time_def w')
  with unlock_own [OF R, of "tick w" key tok "ks w" _ k x] assms(2) run w' b show ?thesis
    by (auto simp: lock_owner_Some lock_owner_absent split: sum.splits)
qed

interpretation redis_lock: lease_lock "Locker_Acquire E" "Locker_Release E" lock_owner
  "redis_time E" "redis_up E"
proof (unfold_locales, goal_cases)
  case 1
  then show ?case
    by (auto dest!: Locker_Acquire_run simp: redis_up_def redis_time_def intro: redis_clock)
next
  case 2
  then show ?case
    by (auto dest!: Locker_Release_run simp: redis_up_def redis_time_def intro: redis_clock)
next
  case (3 w ttl key tok w')
  then obtain k where set: "r_setnx (e_redis E) (Suc (tick w)) key tok ttl (ks w) = (Inr True, k)"
    and w': "w' = w\<lparr>tick := Suc (Suc (tick w)), ks := k\<rparr>"
    by (auto dest!: Locker_Acquire_run split: sum.splits)
  from 3 have R: "redis_server (e_redis E)" by (simp add: redis_up_def)
  from setnx_True [OF R set 3(2)] w' show ?case
    by (simp add: lock_owner_Some redis_time_def redis_clock [OF R])
next
  case 4
  then show ?case by (rule Locker_Acquire_live)
next
  case (5 w key tok x w' key' tok' r)
  then have R: "redis_server (e_redis E)" by (simp add: redis_up_def)
  from 5(4) obtain q k where "r_eval (e_redis E) (tick w) (unlockScript (e_redis E) (tick w) key' tok') (ks w)
      = (q, k)" and w': "w' = w\<lparr>tick := Suc (tick w), ks := k\<rparr>"
    by (blast dest: Locker_Release_run)
  from unlock_effect [OF R this(1)] 5 w' show ?case
    by (auto simp: lock_owner_Some sem_GET_def live_def split: if_splits)
next
  case 6
  then show ?case by (rule Locker_Release_own)
qed

section \<open>The rate limiter's contract\<close>

text \<open>
  \<open>used w key\<close> is the number of attempts counted in the current window and its end.  Within a
  window the count never drops, and an attempt is allowed only by raising it to at most the limit.
\<close>

locale window_limiter =
  fixes Allow :: "string \<Rightarrow> int \<Rightarrow> duration \<Rightarrow> ('w, error, bool) comp"
    and used :: "'w \<Rightarrow> string \<Rightarrow> (int \<times> time option) option"
    and clock :: "'w \<Rightarrow> time"
    and ok :: "'w \<Rightarrow> bool"
  assumes allow_ok: "ok w \<Longrightarrow> Allow key limit window w = (r, w') \<Longrightarrow> ok w' \<and> clock w \<le> clock w'"
    and allow_first: "ok w \<Longrightarrow> 0 < window \<Longrightarrow>
      (\<forall>c x. used w key = Some (c, x) \<longrightarrow> (\<exists>t. x = Some t \<and> t \<le> clock w)) \<Longrightarrow>
      Allow key limit window w = (Inr b, w') \<Longrightarrow>
      b = (1 \<le> limit) \<and> (\<exists>x. used w' key = Some (1, Some x) \<and> clock w + window \<le> x)"
    and allow_within: "ok w \<Longrightarrow> used w key = Some (c, x) \<Longrightarrow> 1 \<le> c \<Longrightarrow>
      (\<forall>t. x = Some t \<longrightarrow> clock w' < t) \<Longrightarrow> Allow key' limit window w = (r, w') \<Longrightarrow>
      \<exists>c'. used w' key = Some (c', x) \<and> c \<le> c' \<and>
        (key' = key \<and> r = Inr True \<longrightarrow> c' = c + 1 \<and> c' \<le> limit)"
begin

lemma run_calls_clock:
  assumes "ok w" and "run_calls f cs w = (won, w')"
    and "\<And>c. c \<in> set cs \<Longrightarrow> \<exists>key limit window. f c = Allow key limit window"
  shows "ok w' \<and> clock w \<le> clock w'"
  using assms
proof (induction cs arbitrary: w won)
  case Nil
  then show ?case by simp
next
  case (Cons c cs)
  obtain r w1 where run: "f c w = (r, w1)" by (cases "f c w")
  from Cons.prems(2) run obtain won' where rest: "run_calls f cs w1 = (won', w')"
    by (auto split: prod.splits sum.splits bool.splits)
  have "ok w1 \<and> clock w \<le> clock w1"
    using Cons.prems(1,3) run allow_ok by (metis list.set_intros(1))
  with Cons.IH [OF _ rest] Cons.prems(3) show ?case by fastforce
qed

text \<open>Calls on any keys by any callers: those allowed on \<open>key\<close> within its window fit the limit.\<close>

lemma allowed_within:
  assumes "run_calls (\<lambda>(k, limit, window). Allow k limit window) cs w = (won, w')" and "ok w"
    and "used w key = Some (c, x)" and "1 \<le> c" and "\<forall>t. x = Some t \<longrightarrow> clock w' < t"
    and "\<forall>(k, l, window) \<in> set cs. k = key \<longrightarrow> l = limit"
  shows "int (length (filter (\<lambda>q. fst q = key) won)) \<le> max 0 (limit - c)"
  using assms
proof (induction cs arbitrary: w won c)
  case Nil
  then show ?case by simp
next
  case (Cons q cs)
  let ?f = "\<lambda>(k, limit, window). Allow k limit window"
  obtain key' l window where q: "q = (key', l, window)" by (metis surj_pair)
  obtain r w1 where run: "Allow key' l window w = (r, w1)" by (cases "Allow key' l window w")
  from Cons.prems(1) run q obtain won' where rest: "run_calls ?f cs w1 = (won', w')"
    and won: "won = (if r = Inr True then q # won' else won')"
    by (auto split: prod.splits sum.splits bool.splits)
  have ok1: "ok w1" using allow_ok [OF Cons.prems(2) run] by simp
  have "clock w1 \<le> clock w'"
    using run_calls_clock [OF ok1 rest] by (metis (no_types, lifting) case_prod_conv surj_pair)
  then have "\<forall>t. x = Some t \<longrightarrow> clock w1 < t" using Cons.prems(5) by auto
  from allow_within [OF Cons.prems(2-4) this run] obtain c' where c': "used w1 key = Some (c', x)"
    "c \<le> c'" "key' = key \<and> r = Inr True \<longrightarrow> c' = c + 1 \<and> c' \<le> l" by auto
  have "int (length (filter (\<lambda>q. fst q = key) won')) \<le> max 0 (limit - c')"
    using Cons.IH [OF rest ok1 c'(1)] c'(2) Cons.prems(4-6) by auto
  with c'(2,3) won q Cons.prems(6) show ?case by auto
qed

end

definition attempts_used :: "world \<Rightarrow> string \<Rightarrow> (int \<times> time option) option" where
  "attempts_used w key = (case ks w key of Some (RInt c, x) \<Rightarrow> Some (c, x) | _ \<Rightarrow> None)"

lemma attempts_used_Some: "attempts_used w key = Some (c, x) \<longleftrightarrow> ks w key = Some (RInt c, x)"
  by (auto simp: attempts_used_def split: option.splits rval.splits)

lemma RateLimiter_Allow_run:
  assumes "RateLimiter_Allow E key limit window w = (r, w')"
  obtains (failed) e k where "r_incr (e_redis E) (tick w) key (ks w) = (Inl e, k)"
      "w' = w\<lparr>tick := Suc (tick w), ks := k\<rparr>" "\<forall>b. r \<noteq> Inr b"
  | (counted) c k where "r_incr (e_redis E) (tick w) key (ks w) = (Inr c, k)" "c \<noteq> 1"
      "w' = w\<lparr>tick := Suc (tick w), ks := k\<rparr>" "r = Inr (c \<le> limit)"
  | (first) k k' q where "r_incr (e_redis E) (tick w) key (ks w) = (Inr 1, k)"
      "r_expire (e_redis E) (Suc (tick w)) key window k = (q, k')"
      "w' = w\<lparr>tick := Suc (Suc (tick w)), ks := k'\<rparr>"
      "r = (case q of Inl e \<Rightarrow> Inl (Wrap ''redis: rate limit expire: %w'' e) | Inr z \<Rightarrow> Inr (1 \<le> limit))"
proof -
  obtain p k where incr: "r_incr (e_redis E) (tick w) key (ks w) = (p, k)"
    by (cases "r_incr (e_redis E) (tick w) key (ks w)")
  obtain q k' where exp: "r_expire (e_redis E) (Suc (tick w)) key window k = (q, k')"
    by (cases "r_expire (e_redis E) (Suc (tick w)) key window k")
  show thesis
  proof (cases p)
    case (Inl e)
    with assms incr show ?thesis
      by (intro failed [of e k]) (auto simp: RateLimiter_Allow_def run_simps redis_call_def)
  next
    case (Inr c)
    show ?thesis
    proof (cases "c = 1")
      case True
      with assms incr exp Inr show ?thesis
        by (intro first [of k q k'])
          (auto simp: RateLimiter_Allow_def run_simps redis_call_def split: sum.splits)
    next
      case False
      with assms incr Inr show ?thesis
        by (intro counted [of c k]) (auto simp: RateLimiter_Allow_def run_simps redis_call_def)
    qed
  qed
qed

lemma incr_other:
  assumes "redis_server R" and "r_incr R n key' k = (q, k')" and "key' \<noteq> key"
  shows "k' key = k key"
  using redis_answers(2) [OF assms(1), of n key' k] assms(2,3)
  by (auto simp: answers_def sem_incr_def split: sum.splits option.splits rval.splits if_splits)

lemma expire_other:
  assumes "redis_server R" and "r_expire R n key' ttl k = (q, k')" and "key' \<noteq> key"
  shows "k' key = k key"
  using redis_answers(3) [OF assms(1), of n key' ttl k] assms(2,3)
  by (auto simp: answers_def sem_expire_def split: sum.splits option.splits if_splits)

lemma incr_live:
  assumes "redis_server R" and "r_incr R n key k = (q, k')"
    and "k key = Some (RInt c, x)" and "\<forall>t. x = Some t \<longrightarrow> r_now R n < t"
  shows "(\<exists>c'. k' key = Some (RInt c', x) \<and> c \<le> c' \<and> c' \<le> c + 1) \<and>
    (\<forall>m. q = Inr m \<longrightarrow> m = c + 1 \<and> k' key = Some (RInt (c + 1), x))"
  using redis_answers(2) [OF assms(1), of n key k] assms(2-4)
  by (cases x)
    (auto simp: answers_def sem_incr_def live_def ttl_of_def split: sum.splits if_splits)

lemma incr_absent:
  assumes "redis_server R" and "r_incr R n key k = (Inr m, k')" and "live (r_now R n) k key = None"
  shows "m = 1 \<and> k' = k(key \<mapsto> (RInt 1, None))"
  using redis_answers(2) [OF assms(1), of n key k] assms(2,3)
  by (auto simp: answers_def sem_incr_def)

lemma incr_Inr_type:
  assumes "redis_server R" and "r_incr R n key k = (Inr m, k')"
  shows "live (r_now R n) k key = None \<or> (\<exists>c. live (r_now R n) k key = Some (RInt c))"
  using redis_answers(2) [OF assms(1), of n key k] assms(2)
  by (auto simp: answers_def sem_incr_def split: option.splits rval.splits)

lemma expire_fresh:
  assumes "redis_server R" and "r_expire R n key ttl k = (Inr z, k')" and "0 < ttl"
    and "k key = Some (v, None)"
  shows "k' = k(key \<mapsto> (v, Some (r_now R n + ttl)))"
  using redis_answers(3) [OF assms(1), of n key ttl k] assms(2-4)
  by (auto simp: answers_def sem_expire_def live_def)

text \<open>The first attempt opens a window; until it ends attempts are counted in it.\<close>

lemma RateLimiter_Allow_first:
  assumes "redis_up E w" and "0 < window"
    and "\<forall>c x. attempts_used w key = Some (c, x) \<longrightarrow> (\<exists>t. x = Some t \<and> t \<le> redis_time E w)"
    and "RateLimiter_Allow E key limit window w = (Inr b, w')"
  shows "b = (1 \<le> limit) \<and> (\<exists>x. attempts_used w' key = Some (1, Some x) \<and> redis_time E w + window \<le> x)"
proof -
  have R: "redis_server (e_redis E)" using assms(1) by (simp add: redis_up_def)
  have absent: "live (r_now (e_redis E) (tick w)) (ks w) key = None"
    if "r_incr (e_redis E) (tick w) key (ks w) = (Inr m, k)" for m k
    using incr_Inr_type [OF R that] assms(3)
    by (auto simp: live_def attempts_used_Some redis_time_def split: option.splits if_splits)
  from assms(4) show ?thesis
  proof (cases rule: RateLimiter_Allow_run)
    case (failed e k)
    then show ?thesis by blast
  next
    case (counted c k)
    with incr_absent [OF R counted(1) absent [OF counted(1)]] show ?thesis by simp
  next
    case (first k k' q)
    then obtain z where q: "q = Inr z" and b: "b = (1 \<le> limit)" by (cases q) auto
    from incr_absent [OF R first(1) absent [OF first(1)]]
    have "k key = Some (RInt 1, None)" by simp
    from expire_fresh [OF R first(2) [unfolded q] assms(2) this] first(3) b show ?thesis
      by (auto simp: attempts_used_Some redis_time_def redis_clock [OF R])
  qed
qed

lemma RateLimiter_Allow_window:
  assumes "redis_up E w" and "attempts_used w key = Some (c, x)" and "1 \<le> c"
    and "\<forall>t. x = Some t \<longrightarrow> redis_time E w' < t" and "RateLimiter_Allow E key' limit window w = (r, w')"
  shows "\<exists>c'. attempts_used w' key = Some (c', x) \<and> c \<le> c' \<and>
    (key' = key \<and> r = Inr True \<longrightarrow> c' = c + 1 \<and> c' \<le> limit)"
proof -
  from assms have R: "redis_server (e_redis E)" and row: "ks w key = Some (RInt c, x)"
    by (simp_all add: redis_up_def attempts_used_Some)
  have later: "\<forall>t. x = Some t \<longrightarrow> r_now (e_redis E) (tick w) < t" if "tick w \<le> tick w'"
    using assms(4) redis_clock [OF R that] by (auto simp: redis_time_def)
  from assms(5) show ?thesis
  proof (cases rule: RateLimiter_Allow_run)
    case (failed e k)
    with later incr_live [OF R, of "tick w" key "ks w" _ k c x] incr_other [OF R failed(1), of key] row
    show ?thesis by (cases "key' = key") (auto simp: attempts_used_Some)
  next
    case (counted m k)
    with later incr_live [OF R, of "tick w" key "ks w" _ k c x] incr_other [OF R counted(1), of key] row
    show ?thesis by (cases "key' = key") (auto simp: attempts_used_Some)
  next
    case (first k k' q)
    then have "tick w \<le> tick w'" by simp
    with incr_live [OF R, of "tick w" key "ks w" "Inr 1" k c x] first(1) row assms(3) later
    have "key' \<noteq> key" by auto
    with incr_other [OF R first(1), of key] expire_other [OF R first(2), of key] row first
    show ?thesis by (auto simp: attempts_used_Some)
  qed
qed

interpretation redis_limiter: window_limiter "RateLimiter_Allow E" attempts_used
  "redis_time E" "redis_up E"
proof (unfold_locales, goal_cases)
  case 1
  then show ?case
    by (auto elim!: RateLimiter_Allow_run simp: redis_up_def redis_time_def intro: redis_clock)
next
  case 2
  then show ?case by (rule RateLimiter_Allow_first)
next
  case 3
  then show ?case by (rule RateLimiter_Allow_window)
qed

end
