(* ===== verification/WaitingRoom.thy ===== *)
theory WaitingRoom
  imports RedisRepo
begin

text \<open>
  The contract of the waiting room: a first-come-first-served line per event.  \<open>waiting_line\<close>
  states it over the interface \<open>waitingRoom\<close> of the inventory service and derives that a sequence of
  joins and admissions runs an abstract queue; \<open>redis_room\<close> discharges it for
  \<open>internal/repository/redis/waitingroom.go\<close> on a server that behaves as documented.
\<close>

section \<open>A line\<close>

datatype room_call = RJoin uuid uuid | RAdmit uuid int duration

abbreviation join_line :: "uuid \<Rightarrow> uuid list \<Rightarrow> uuid list" where
  "join_line u q \<equiv> (if u \<in> set q then q else q @ [u])"

text \<open>The fans admitted to event \<open>e\<close>, in order, and the line that is left.\<close>

fun line_run :: "uuid \<Rightarrow> room_call list \<Rightarrow> uuid list \<Rightarrow> uuid list \<times> uuid list" where
  "line_run e [] q = ([], q)"
| "line_run e (RJoin e' u # cs) q = line_run e cs (if e' = e then join_line u q else q)"
| "line_run e (RAdmit e' n ttl # cs) q =
    (if e' = e then apfst ((@) (take (nat n) q)) (line_run e cs (drop (nat n) q))
     else line_run e cs q)"

definition arrivals :: "uuid \<Rightarrow> room_call list \<Rightarrow> uuid list" where
  "arrivals e cs = List.map_filter (\<lambda>c. case c of
    RJoin e' u \<Rightarrow> if e' = e then Some u else None | RAdmit e' n ttl \<Rightarrow> None) cs"

lemma arrivals_simps [simp]:
  "arrivals e [] = []"
  "arrivals e (RJoin e' u # cs) = (if e' = e then u # arrivals e cs else arrivals e cs)"
  "arrivals e (RAdmit e' n ttl # cs) = arrivals e cs"
  by (simp_all add: arrivals_def map_filter_simps)

text \<open>First come, first served: fans leave the line in the order they joined it.\<close>

lemma line_run_fifo:
  assumes "line_run e cs q = (out, q')" and "distinct (q @ arrivals e cs)"
  shows "out @ q' = q @ arrivals e cs"
  using assms
proof (induction e cs q arbitrary: out rule: line_run.induct)
  case (3 e e' n ttl cs q)
  then show ?case
    by (cases "e' = e")
      (auto simp: apfst_def map_prod_def append_assoc [symmetric] simp del: append_assoc
        split: prod.splits dest: in_set_dropD, metis append_assoc append_take_drop_id distinct_append
        distinct_drop)
qed (auto split: if_splits)

section \<open>The interface\<close>

text \<open>The calls of a sequence in turn, with the fans admitted to \<open>e\<close> so far.\<close>

fun room_step ::
  "(uuid \<Rightarrow> uuid \<Rightarrow> ('w, error, int) comp) \<Rightarrow>
   (uuid \<Rightarrow> int \<Rightarrow> duration \<Rightarrow> ('w, error, uuid list) comp) \<Rightarrow>
   uuid \<Rightarrow> room_call \<Rightarrow> uuid list \<Rightarrow> ('w, error, uuid list) comp" where
  "room_step J A e (RJoin e' u) out = bindE (J e' u) (\<lambda>_. returnE out)"
| "room_step J A e (RAdmit e' n ttl) out =
    bindE (A e' n ttl) (\<lambda>us. returnE (if e' = e then out @ us else out))"

locale waiting_line =
  fixes Join :: "uuid \<Rightarrow> uuid \<Rightarrow> ('w, error, int) comp"
    and Admit :: "uuid \<Rightarrow> int \<Rightarrow> duration \<Rightarrow> ('w, error, uuid list) comp"
    and line :: "'w \<Rightarrow> uuid \<Rightarrow> uuid list"
    and ok :: "nat \<Rightarrow> 'w \<Rightarrow> bool"
  assumes ok_less: "ok (Suc n) w \<Longrightarrow> ok n w"
    and join_ok: "ok (Suc n) w \<Longrightarrow> Join e u w = (r, w') \<Longrightarrow> ok n w'"
    and admit_ok: "ok n w \<Longrightarrow> Admit e c ttl w = (us, w') \<Longrightarrow> ok n w'"
    and join_line: "ok (Suc n) w \<Longrightarrow> Join e u w = (Inr p, w') \<Longrightarrow>
      line w' = (line w)(e := join_line u (line w e)) \<and>
      1 \<le> p \<and> p \<le> int (length (line w' e)) \<and> line w' e ! nat (p - 1) = u"
    and join_failed: "ok (Suc n) w \<Longrightarrow> Join e u w = (Inl x, w') \<Longrightarrow>
      line w' = line w \<or> line w' = (line w)(e := join_line u (line w e))"
    and admit_line: "ok n w \<Longrightarrow> Admit e c ttl w = (Inr us', w') \<Longrightarrow>
      us' = take (nat c) (line w e) \<and> line w' = (line w)(e := drop (nat c) (line w e))"
    and admit_failed: "ok n w \<Longrightarrow> Admit e c ttl w = (Inl x, w') \<Longrightarrow>
      line w' = line w \<or> line w' = (line w)(e := drop (nat c) (line w e))"
begin

text \<open>Calls that all succeed run the abstract line.\<close>

lemma room_refines_line:
  assumes "foldE (room_step Join Admit e) cs acc w = (Inr out, w')" and "ok (length cs) w"
  shows "\<exists>adm. out = acc @ adm \<and> line_run e cs (line w e) = (adm, line w' e)"
  using assms
proof (induction e cs "line w e" arbitrary: acc w rule: line_run.induct)
  case (1 e)
  then show ?case by (simp add: run_simps)
next
  case (2 e e' u cs)
  then obtain p w1 where run: "Join e' u w = (Inr p, w1)"
    and rest: "foldE (room_step Join Admit e) cs acc w1 = (Inr out, w')" by (auto simp: comp_iffs)
  have ok: "ok (Suc (length cs)) w" using "2.prems"(2) by simp
  from join_line [OF ok run] "2.hyps" [of w1 acc] rest join_ok [OF ok run]
  show ?case by (cases "e' = e") auto
next
  case (3 e e' n ttl cs)
  then obtain us w1 where run: "Admit e' n ttl w = (Inr us, w1)"
    and rest: "foldE (room_step Join Admit e) cs (if e' = e then acc @ us else acc) w1 = (Inr out, w')"
    by (auto simp: comp_iffs)
  have ok: "ok (length cs) w" using "3.prems"(2) ok_less by simp
  from admit_line [OF ok run] have
    us: "us = take (nat n) (line w e')" and w1: "line w1 = (line w)(e' := drop (nat n) (line w e'))"
    by auto
  show ?case
  proof (cases "e' = e")
    case True
    with "3.hyps"(1) [of w1 "acc @ us"] rest admit_ok [OF ok run] us w1 show ?thesis by auto
  next
    case False
    with "3.hyps"(2) [of w1 acc] rest admit_ok [OF ok run] w1 show ?thesis by auto
  qed
qed

end

section \<open>The Redis waiting room\<close>

text \<open>
  Of \<open>google/uuid\<close>: \<open>Parse\<close> inverts \<open>String\<close>, and \<open>String\<close> has 36 characters.
\<close>

definition uuid_text :: "env \<Rightarrow> bool" where
  "uuid_text E \<longleftrightarrow>
    (\<forall>u. e_uuid_Parse E (e_uuid_String E u) = Some u \<and> length (e_uuid_String E u) = 36)"

lemma uuid_text_Parse: "uuid_text E \<Longrightarrow> e_uuid_Parse E (e_uuid_String E u) = Some u"
  by (simp add: uuid_text_def)

lemma uuid_text_length: "uuid_text E \<Longrightarrow> length (e_uuid_String E u) = 36"
  by (simp add: uuid_text_def)

lemma uuid_text_inj: "uuid_text E \<Longrightarrow> e_uuid_String E u = e_uuid_String E v \<longleftrightarrow> u = v"
  by (metis uuid_text_Parse option.inject)

lemma room_keys [simp]:
  "queueKey E e \<noteq> seqKey E e'" "queueKey E e \<noteq> admittedKey E e' u"
  "seqKey E e \<noteq> queueKey E e'" "seqKey E e \<noteq> admittedKey E e' u"
  "admittedKey E e u \<noteq> queueKey E e'" "admittedKey E e u \<noteq> seqKey E e'"
  by (simp_all add: queueKey_def seqKey_def admittedKey_def)

lemma room_key_inj:
  assumes "uuid_text E"
  shows "queueKey E e = queueKey E e' \<longleftrightarrow> e = e'" and "seqKey E e = seqKey E e' \<longleftrightarrow> e = e'"
    and "admittedKey E e u = admittedKey E e' u' \<longleftrightarrow> e = e' \<and> u = u'"
  using assms
  by (auto simp: queueKey_def seqKey_def admittedKey_def uuid_text_inj uuid_text_length)

definition queue_zs :: "env \<Rightarrow> keyspace \<Rightarrow> uuid \<Rightarrow> (string \<times> int) list" where
  "queue_zs E k e = (case k (queueKey E e) of Some (RZSet zs, None) \<Rightarrow> zs | _ \<Rightarrow> [])"

definition seq_at :: "env \<Rightarrow> keyspace \<Rightarrow> uuid \<Rightarrow> int" where
  "seq_at E k e = (case k (seqKey E e) of Some (RInt s, None) \<Rightarrow> s | _ \<Rightarrow> 0)"

definition queue_line :: "env \<Rightarrow> keyspace \<Rightarrow> uuid \<Rightarrow> uuid list" where
  "queue_line E k e = List.map_filter (\<lambda>z. e_uuid_Parse E (fst z)) (queue_zs E k e)"

text \<open>
  The invariant of an event's two keys, with room for \<open>n\<close> more joins: the counter stays below
  \<open>2 ^ 53\<close>, where \<open>float64\<close> is exact.
\<close>

definition event_room :: "env \<Rightarrow> nat \<Rightarrow> keyspace \<Rightarrow> uuid \<Rightarrow> bool" where
  "event_room E n k e \<longleftrightarrow>
    (k (queueKey E e) = None \<or> (\<exists>zs. k (queueKey E e) = Some (RZSet zs, None))) \<and>
    (k (seqKey E e) = None \<or> (\<exists>s. k (seqKey E e) = Some (RInt s, None))) \<and>
    sorted_wrt (<) (map snd (queue_zs E k e)) \<and> distinct (map fst (queue_zs E k e)) \<and>
    (\<forall>z \<in> set (queue_zs E k e). snd z \<le> seq_at E k e \<and> fst z \<in> range (e_uuid_String E)) \<and>
    0 \<le> seq_at E k e \<and> seq_at E k e + int n < 2 ^ 53"

definition room_ok :: "env \<Rightarrow> nat \<Rightarrow> world \<Rightarrow> bool" where
  "room_ok E n w \<longleftrightarrow> redis_up E w \<and> uuid_text E \<and> (\<forall>e. event_room E n (ks w) e)"

subsection \<open>Members and users\<close>

definition parse_all :: "env \<Rightarrow> (string \<times> int) list \<Rightarrow> uuid list" where
  "parse_all E zs = List.map_filter (\<lambda>z. e_uuid_Parse E (fst z)) zs"

lemma parse_all_Nil [simp]: "parse_all E [] = []"
  by (simp add: parse_all_def map_filter_simps)

lemma parse_all_append: "parse_all E (xs @ ys) = parse_all E xs @ parse_all E ys"
  by (simp add: parse_all_def map_filter_def)

lemma parse_all_String:
  assumes "uuid_text E" and "\<forall>z \<in> set zs. fst z \<in> range (e_uuid_String E)"
  shows "map (e_uuid_String E) (parse_all E zs) = map fst zs"
  using assms(2)
  by (induction zs) (auto simp: parse_all_def map_filter_simps uuid_text_Parse [OF assms(1)])

lemma parse_all_take_drop:
  assumes "uuid_text E" and "\<forall>z \<in> set zs. fst z \<in> range (e_uuid_String E)"
  shows "parse_all E (take n zs) = take n (parse_all E zs)"
    and "parse_all E (drop n zs) = drop n (parse_all E zs)"
proof -
  have inj: "inj (e_uuid_String E)" by (simp add: inj_def uuid_text_inj [OF assms(1)])
  have "map (e_uuid_String E) (parse_all E (take n zs)) = map fst (take n zs)"
    by (rule parse_all_String [OF assms(1)]) (use assms(2) in \<open>auto dest: in_set_takeD\<close>)
  also have "\<dots> = map (e_uuid_String E) (take n (parse_all E zs))"
    using parse_all_String [OF assms] by (metis take_map)
  finally have "map (e_uuid_String E) (parse_all E (take n zs)) =
    map (e_uuid_String E) (take n (parse_all E zs))" .
  then show "parse_all E (take n zs) = take n (parse_all E zs)"
    using inj by (simp add: inj_map_eq_map)
  have "map (e_uuid_String E) (parse_all E (drop n zs)) = map fst (drop n zs)"
    by (rule parse_all_String [OF assms(1)]) (use assms(2) in \<open>auto dest: in_set_dropD\<close>)
  also have "\<dots> = map (e_uuid_String E) (drop n (parse_all E zs))"
    using parse_all_String [OF assms] by (metis drop_map)
  finally have "map (e_uuid_String E) (parse_all E (drop n zs)) =
    map (e_uuid_String E) (drop n (parse_all E zs))" .
  then show "parse_all E (drop n zs) = drop n (parse_all E zs)"
    using inj by (simp add: inj_map_eq_map)
qed

lemma parse_all_member:
  assumes "uuid_text E" and "\<forall>z \<in> set zs. fst z \<in> range (e_uuid_String E)"
  shows "u \<in> set (parse_all E zs) \<longleftrightarrow> e_uuid_String E u \<in> fst ` set zs"
proof -
  have "fst ` set zs = e_uuid_String E ` set (parse_all E zs)"
    using parse_all_String [OF assms] by (metis image_set)
  then show ?thesis by (auto simp: image_iff uuid_text_inj [OF assms(1)])
qed

text \<open>The rank of a member is its place in the line.\<close>

lemma zset_rank_Some:
  "zset_rank m zs = Some i \<Longrightarrow> 0 \<le> i \<and> i < int (length zs) \<and> fst (zs ! nat i) = m"
proof (induction zs arbitrary: i)
  case Nil
  then show ?case by simp
next
  case (Cons z zs)
  show ?case
  proof (cases "fst z = m")
    case True
    with Cons.prems show ?thesis by auto
  next
    case False
    with Cons.prems obtain j where j: "zset_rank m zs = Some j" "i = j + 1" by auto
    with Cons.IH [OF j(1)] show ?thesis by (simp add: nat_add_distrib)
  qed
qed

lemma zset_rank_None: "zset_rank m zs = None \<longleftrightarrow> m \<notin> fst ` set zs"
  by (induction zs) auto

text \<open>A new member with the highest score goes to the end.\<close>

lemma insort_key_last:
  "\<forall>y \<in> set ys. f y < f x \<Longrightarrow> insort_key f x ys = ys @ [x]"
  by (induction ys) auto

lemma zset_insert_last:
  assumes "\<And>z. z \<in> set zs \<Longrightarrow> snd z < score"
  shows "zset_insert score m zs = (if m \<in> fst ` set zs then zs else zs @ [(m, score)])"
  using assms insort_key_last [of zs "\<lambda>z. (snd z, fst z)" "(m, score)"]
  by (auto simp: zset_insert_def less_prod_def)

subsection \<open>What each command does to the rooms\<close>

lemma queue_line_parse: "queue_line E k e = parse_all E (queue_zs E k e)"
  by (simp add: queue_line_def parse_all_def)

lemma event_room_cong:
  "k' (queueKey E e) = k (queueKey E e) \<Longrightarrow> k' (seqKey E e) = k (seqKey E e) \<Longrightarrow>
   event_room E n k' e = event_room E n k e \<and> queue_zs E k' e = queue_zs E k e \<and>
   queue_line E k' e = queue_line E k e \<and> seq_at E k' e = seq_at E k e"
  by (simp add: event_room_def queue_zs_def seq_at_def queue_line_def)

lemma event_room_zset: "event_room E n k e \<Longrightarrow> zset_at now k (queueKey E e) = Inr (queue_zs E k e)"
  by (auto simp: event_room_def zset_at_def live_def queue_zs_def split: option.splits)

lemma event_room_ttl: "event_room E n k e \<Longrightarrow> ttl_of now k (queueKey E e) = None"
  by (auto simp: event_room_def ttl_of_def live_def)

lemma event_room_incr:
  assumes "event_room E (Suc n) k e"
  shows "sem_incr now (seqKey E e) k =
    (Inr (seq_at E k e + 1), k(seqKey E e \<mapsto> (RInt (seq_at E k e + 1), None)))"
  using assms
  by (auto simp: event_room_def sem_incr_def live_def ttl_of_def seq_at_def split: option.splits)

lemma bump_room:
  assumes "uuid_text E" and "event_room E (Suc n) k e'"
  shows "event_room E n (k(seqKey E e \<mapsto> (RInt (seq_at E k e + 1), None))) e'"
proof (cases "e' = e")
  case True
  with assms(2) show ?thesis by (force simp: event_room_def queue_zs_def seq_at_def)
next
  case False
  with assms event_room_cong [of "k(seqKey E e \<mapsto> (RInt (seq_at E k e + 1), None))" E e' k n]
  have "event_room E n (k(seqKey E e \<mapsto> (RInt (seq_at E k e + 1), None))) e' = event_room E n k e'"
    by (simp add: room_key_inj)
  with assms(2) show ?thesis by (simp add: event_room_def)
qed

lemma event_room_put:
  "event_room E n k e \<Longrightarrow>
   put_zset now (queueKey E e) zs k =
     k(queueKey E e := if zs = [] then None else Some (RZSet zs, None))"
  by (simp add: put_zset_def event_room_ttl)

lemma put_room:
  assumes "uuid_text E" and "event_room E n k e" and "event_room E n k e'"
    and "sorted_wrt (<) (map snd zs)" and "distinct (map fst zs)"
    and "\<forall>z \<in> set zs. snd z \<le> seq_at E k e \<and> fst z \<in> range (e_uuid_String E)"
  shows "event_room E n (put_zset now (queueKey E e) zs k) e' \<and>
    queue_zs E (put_zset now (queueKey E e) zs k) e' = (if e' = e then zs else queue_zs E k e')"
proof (cases "e' = e")
  case True
  from assms(2-) show ?thesis
    unfolding event_room_put [OF assms(2)] True
    by (cases "zs = []") (auto simp: event_room_def queue_zs_def seq_at_def)
next
  case False
  then have "put_zset now (queueKey E e) zs k (queueKey E e') = k (queueKey E e')"
    "put_zset now (queueKey E e) zs k (seqKey E e') = k (seqKey E e')"
    using assms(1) by (auto simp: put_zset_def room_key_inj)
  from event_room_cong [OF this] assms(3) False show ?thesis by simp
qed

lemma sets_frame: "key \<notin> fst ` set ss \<Longrightarrow> sem_sets now ss k key = k key"
  by (induction ss arbitrary: k) (auto simp: sem_sets_def)

abbreviation rooms :: "env \<Rightarrow> nat \<Rightarrow> keyspace \<Rightarrow> bool" where
  "rooms E n k \<equiv> \<forall>e. event_room E n k e"

lemma event_room_less: "event_room E (Suc n) k e \<Longrightarrow> event_room E n k e"
  by (auto simp: event_room_def)

lemma incr_rooms:
  assumes "redis_server R" and "uuid_text E" and "rooms E (Suc n) k"
    and "r_incr R m (seqKey E e) k = (q, k')"
  shows "rooms E n k' \<and> queue_line E k' = queue_line E k \<and>
    (\<forall>s. q = Inr s \<longrightarrow> s = seq_at E k' e \<and> float64 s = s \<and> (\<forall>z \<in> set (queue_zs E k' e). snd z < s))"
proof -
  let ?b = "k(seqKey E e \<mapsto> (RInt (seq_at E k e + 1), None))"
  have room: "event_room E (Suc n) k e" using assms(3) by simp
  have zs: "queue_zs E ?b = queue_zs E k" by (simp add: queue_zs_def fun_eq_iff)
  have line: "queue_line E ?b = queue_line E k" by (simp add: queue_line_parse zs fun_eq_iff)
  have seq: "seq_at E ?b e = seq_at E k e + 1" by (simp add: seq_at_def)
  have low: "0 \<le> seq_at E k e" "seq_at E k e + 1 < 2 ^ 53"
    "\<forall>z \<in> set (queue_zs E k e). snd z \<le> seq_at E k e"
    using room by (auto simp: event_room_def)
  have exact: "float64 (seq_at E k e + 1) = seq_at E k e + 1"
    using low by (intro float64_exact) auto
  have new: "rooms E n ?b \<and> float64 (seq_at E k e + 1) = seq_at E k e + 1 \<and>
      (\<forall>z \<in> set (queue_zs E ?b e). snd z < seq_at E k e + 1)"
    using bump_room [OF assms(2)] assms(3) exact low(3) zs by fastforce
  have "k' = k \<and> (\<forall>s. q \<noteq> Inr s) \<or> k' = ?b \<and> (\<forall>s. q = Inr s \<longrightarrow> s = seq_at E k e + 1)"
    using redis_answers(2) [OF assms(1), of m "seqKey E e" k] assms(4)
    by (auto simp: answers_def event_room_incr [OF room] split: sum.splits)
  then show ?thesis
  proof
    assume "k' = k \<and> (\<forall>s. q \<noteq> Inr s)"
    with assms(3) show ?thesis by (auto intro: event_room_less)
  next
    assume "k' = ?b \<and> (\<forall>s. q = Inr s \<longrightarrow> s = seq_at E k e + 1)"
    with new seq line show ?thesis by metis
  qed
qed

lemma zadd_rooms:
  assumes "redis_server R" and "uuid_text E" and "rooms E n k"
    and "\<forall>z \<in> set (queue_zs E k e). snd z < seq_at E k e"
    and "r_zaddnx R m (queueKey E e) (seq_at E k e) (e_uuid_String E u) k = (q, k')"
  shows "rooms E n k' \<and>
    (queue_line E k' = (queue_line E k)(e := join_line u (queue_line E k e)) \<or>
     queue_line E k' = queue_line E k \<and> (\<forall>z. q \<noteq> Inr z))"
proof -
  let ?zs = "zset_insert (seq_at E k e) (e_uuid_String E u) (queue_zs E k e)"
  let ?k = "put_zset (r_now R m) (queueKey E e) ?zs k"
  have room: "event_room E n k e" using assms(3) by simp
  have mem: "\<forall>z \<in> set (queue_zs E k e). fst z \<in> range (e_uuid_String E)"
    using room by (simp add: event_room_def)
  have zs: "?zs = (if u \<in> set (queue_line E k e) then queue_zs E k e
      else queue_zs E k e @ [(e_uuid_String E u, seq_at E k e)])"
    using assms(4) by (subst zset_insert_last)
      (auto simp: queue_line_parse parse_all_member [OF assms(2) mem])
  have put: "event_room E n ?k e' \<and> queue_zs E ?k e' = (if e' = e then ?zs else queue_zs E k e')" for e'
  proof (rule put_room [OF assms(2) room])
    show "event_room E n k e'" using assms(3) by simp
    show "sorted_wrt (<) (map snd ?zs)" "distinct (map fst ?zs)"
      "\<forall>z \<in> set ?zs. snd z \<le> seq_at E k e \<and> fst z \<in> range (e_uuid_String E)"
      using room assms(4) mem
      by (auto simp: zs event_room_def sorted_wrt_append queue_line_parse parse_all_member [OF assms(2) mem])
  qed
  have "queue_line E ?k = (queue_line E k)(e := join_line u (queue_line E k e))"
    using put
    by (auto simp: fun_eq_iff queue_line_parse zs parse_all_append)
      (simp add: parse_all_def map_filter_simps uuid_text_Parse [OF assms(2)])
  moreover have "k' = k \<and> (\<forall>z. q \<noteq> Inr z) \<or> k' = ?k"
    using redis_answers(5) [OF assms(1), of m "queueKey E e" "seq_at E k e" "e_uuid_String E u" k] assms(5)
    by (auto simp: answers_def sem_zaddnx_def event_room_zset [OF room] split: sum.splits)
  ultimately show ?thesis using put assms(3) by auto
qed

lemma zrank_line:
  assumes "redis_server R" and "uuid_text E" and "event_room E n k e"
    and "r_zrank R m (queueKey E e) (e_uuid_String E u) k = (q, k')"
  shows "k' = k \<and>
    (q = Inr None \<longrightarrow> u \<notin> set (queue_line E k e)) \<and>
    (\<forall>i. q = Inr (Some i) \<longrightarrow> 0 \<le> i \<and> i < int (length (queue_line E k e)) \<and> queue_line E k e ! nat i = u)"
proof -
  let ?zs = "queue_zs E k e"
  have mem: "\<forall>z \<in> set ?zs. fst z \<in> range (e_uuid_String E)"
    using assms(3) by (simp add: event_room_def)
  have str: "map (e_uuid_String E) (queue_line E k e) = map fst ?zs"
    using parse_all_String [OF assms(2) mem] by (simp add: queue_line_parse)
  have ans: "k' = k" "\<And>r. q = Inr r \<Longrightarrow> r = zset_rank (e_uuid_String E u) ?zs"
    using redis_answers(6) [OF assms(1), of m "queueKey E e" "e_uuid_String E u" k] assms(4)
    by (auto simp: answers_def sem_zrank_def event_room_zset [OF assms(3)] split: sum.splits)
  have "0 \<le> i \<and> i < int (length (queue_line E k e)) \<and> queue_line E k e ! nat i = u"
    if "q = Inr (Some i)" for i
  proof -
    have r: "0 \<le> i" "i < int (length ?zs)" "fst (?zs ! nat i) = e_uuid_String E u"
      using zset_rank_Some ans(2) [OF that] by fastforce+
    have len: "length (queue_line E k e) = length ?zs" using str by (metis length_map)
    with r str have "e_uuid_String E (queue_line E k e ! nat i) = e_uuid_String E u"
      by (metis nat_less_iff nth_map)
    with r len show ?thesis by (simp add: uuid_text_inj [OF assms(2)])
  qed
  moreover have "u \<notin> set (queue_line E k e)" if "q = Inr None"
    using ans(2) [OF that] zset_rank_None [of "e_uuid_String E u" ?zs]
    by (simp add: queue_line_parse parse_all_member [OF assms(2) mem])
  ultimately show ?thesis using ans(1) by blast
qed

lemma zpop_rooms:
  assumes "redis_server R" and "uuid_text E" and "rooms E n k"
    and "r_zpopmin R m (queueKey E e) c k = (q, k')"
  shows "rooms E n k' \<and>
    (queue_line E k' = (queue_line E k)(e := drop (nat c) (queue_line E k e)) \<or>
     queue_line E k' = queue_line E k \<and> (\<forall>zs. q \<noteq> Inr zs)) \<and>
    (\<forall>zs. q = Inr zs \<longrightarrow> parse_all E zs = take (nat c) (queue_line E k e) \<and>
      (zs = [] \<longleftrightarrow> take (nat c) (queue_line E k e) = []))"
proof -
  let ?zs = "queue_zs E k e"
  let ?k = "put_zset (r_now R m) (queueKey E e) (drop (nat c) ?zs) k"
  have room: "event_room E n k e" using assms(3) by simp
  have mem: "\<forall>z \<in> set ?zs. fst z \<in> range (e_uuid_String E)"
    using room by (simp add: event_room_def)
  have put: "event_room E n ?k e' \<and>
      queue_zs E ?k e' = (if e' = e then drop (nat c) ?zs else queue_zs E k e')" for e'
  proof (rule put_room [OF assms(2) room])
    show "event_room E n k e'" using assms(3) by simp
    show "sorted_wrt (<) (map snd (drop (nat c) ?zs))" "distinct (map fst (drop (nat c) ?zs))"
      "\<forall>z \<in> set (drop (nat c) ?zs). snd z \<le> seq_at E k e \<and> fst z \<in> range (e_uuid_String E)"
      using room
      by (auto simp: event_room_def drop_map [symmetric] sorted_wrt_drop distinct_drop dest: in_set_dropD)
  qed
  have "queue_line E ?k = (queue_line E k)(e := drop (nat c) (queue_line E k e))"
    using put by (simp add: fun_eq_iff queue_line_parse parse_all_take_drop [OF assms(2) mem])
  moreover have "k' = k \<and> (\<forall>zs. q \<noteq> Inr zs) \<or> k' = ?k \<and> (\<forall>zs. q = Inr zs \<longrightarrow> zs = take (nat c) ?zs)"
    using redis_answers(8) [OF assms(1), of m "queueKey E e" c k] assms(4)
    by (auto simp: answers_def sem_zpopmin_def event_room_zset [OF room] split: sum.splits)
  moreover have "length (queue_line E k e) = length ?zs"
    using parse_all_String [OF assms(2) mem] by (metis length_map queue_line_parse)
  then have "take (nat c) ?zs = [] \<longleftrightarrow> take (nat c) (queue_line E k e) = []"
    by (metis length_0_conv take_eq_Nil)
  ultimately show ?thesis
    using put assms(3) by (auto simp: parse_all_take_drop [OF assms(2) mem] queue_line_parse)
qed

lemma pipe_rooms:
  assumes "redis_server R" and "rooms E n k"
    and "r_pipeline_set R m (map (\<lambda>i. (admittedKey E e i, v, ttl)) us) k = (q, k')"
  shows "rooms E n k' \<and> queue_line E k' = queue_line E k"
proof -
  let ?ss = "map (\<lambda>i. (admittedKey E e i, v, ttl)) us"
  have "\<exists>ss. set ss \<subseteq> set ?ss \<and> k' = sem_sets (r_now R m) ss k"
  proof (cases q)
    case (Inl x)
    with redis_answers(12) [OF assms(1), where n = m and ss = ?ss and k = k] assms(3)
    show ?thesis by simp
  next
    case (Inr x)
    with redis_answers(12) [OF assms(1), where n = m and ss = ?ss and k = k] assms(3)
    show ?thesis by (intro exI [of _ ?ss]) simp
  qed
  then obtain ss where ss: "set ss \<subseteq> set ?ss" and k': "k' = sem_sets (r_now R m) ss k" by blast
  have "queueKey E e' \<notin> fst ` set ss" "seqKey E e' \<notin> fst ` set ss" for e'
    using ss by (auto dest!: subsetD)
  then have "k' (queueKey E e') = k (queueKey E e')" "k' (seqKey E e') = k (seqKey E e')" for e'
    by (simp_all add: k' sets_frame)
  from event_room_cong [OF this] assms(2) show ?thesis by (simp add: fun_eq_iff)
qed

subsection \<open>The operations\<close>

lemma WaitingRoom_Join_room:
  assumes ok: "room_ok E (Suc n) w" and run: "WaitingRoom_Join E e u w = (r, w')"
  shows "room_ok E n w' \<and>
    (queue_line E (ks w') = (queue_line E (ks w))(e := join_line u (queue_line E (ks w) e)) \<or>
     queue_line E (ks w') = queue_line E (ks w) \<and> (\<forall>p. r \<noteq> Inr p)) \<and>
    (\<forall>p. r = Inr p \<longrightarrow> 1 \<le> p \<and> p \<le> int (length (queue_line E (ks w') e)) \<and>
      queue_line E (ks w') e ! nat (p - 1) = u)"
proof -
  let ?R = "e_redis E"
  from ok have R: "redis_server ?R" and T: "uuid_text E" and rooms: "rooms E (Suc n) (ks w)"
    by (auto simp: room_ok_def redis_up_def)
  obtain q1 k1 where incr: "r_incr ?R (tick w) (seqKey E e) (ks w) = (q1, k1)" by fastforce
  note i = incr_rooms [OF R T rooms incr]
  show ?thesis
  proof (cases q1)
    case (Inl x)
    with run incr i R T show ?thesis
      by (auto simp: WaitingRoom_Join_def run_simps redis_call_def room_ok_def redis_up_def)
  next
    case (Inr s)
    obtain q2 k2 where add: "r_zaddnx ?R (Suc (tick w)) (queueKey E e) (seq_at E k1 e)
        (e_uuid_String E u) k1 = (q2, k2)" by fastforce
    note a = zadd_rooms [OF R T i [THEN conjunct1] _ add]
    obtain q3 k3 where rank: "r_zrank ?R (Suc (Suc (tick w))) (queueKey E e) (e_uuid_String E u) k2
        = (q3, k3)" by fastforce
    have rooms2: "rooms E n k2" using a i Inr by auto
    note z = zrank_line [OF R T rooms2 [rule_format] rank]
    show ?thesis
    proof (cases q2)
      case (Inl x)
      with run incr Inr add i a R T show ?thesis
        by (auto simp: WaitingRoom_Join_def run_simps redis_call_def room_ok_def redis_up_def)
    next
      case Inr2: (Inr x)
      have "w' = w\<lparr>tick := tick w + 3, ks := k2\<rparr> \<and>
          (\<forall>p. r = Inr p \<longrightarrow> (\<exists>j. q3 = Inr (Some j) \<and> p = j + 1))"
        using run incr Inr Inr2 add rank i z
        by (auto simp: WaitingRoom_Join_def WaitingRoom_Position_def run_simps redis_call_def
            split: sum.splits option.splits)
      with rooms2 a i z Inr Inr2 R T show ?thesis
        by (auto simp: room_ok_def redis_up_def)
    qed
  qed
qed

lemma WaitingRoom_Admit_room:
  assumes ok: "room_ok E n w" and run: "WaitingRoom_Admit E e c ttl w = (r, w')"
  shows "room_ok E n w' \<and>
    (queue_line E (ks w') = (queue_line E (ks w))(e := drop (nat c) (queue_line E (ks w) e)) \<or>
     queue_line E (ks w') = queue_line E (ks w) \<and> (\<forall>us. r \<noteq> Inr us)) \<and>
    (\<forall>us. r = Inr us \<longrightarrow> us = take (nat c) (queue_line E (ks w) e))"
proof -
  let ?R = "e_redis E"
  from ok have R: "redis_server ?R" and T: "uuid_text E" and rooms: "rooms E n (ks w)"
    by (auto simp: room_ok_def redis_up_def)
  obtain q k where pop: "r_zpopmin ?R (tick w) (queueKey E e) c (ks w) = (q, k)" by fastforce
  note p = zpop_rooms [OF R T rooms pop]
  show ?thesis
  proof (cases "c \<le> 0")
    case True
    with run ok show ?thesis by (auto simp: WaitingRoom_Admit_def run_simps)
  next
    case pos: False
    show ?thesis
    proof (cases q)
      case (Inl x)
      with run pop pos p R T show ?thesis
        by (auto simp: WaitingRoom_Admit_def run_simps redis_call_def room_ok_def redis_up_def)
    next
      case (Inr zs)
      define us where "us = parse_all E zs"
      obtain q2 k2 where pipe: "r_pipeline_set ?R (Suc (tick w))
          (map (\<lambda>i. (admittedKey E e i, ''1'', ttl)) us) k = (q2, k2)" by fastforce
      note s = pipe_rooms [OF R p [THEN conjunct1] pipe]
      have "(zs = [] \<and> w' = w\<lparr>tick := Suc (tick w), ks := k\<rparr> \<and> r = Inr []) \<or>
          w' = w\<lparr>tick := Suc (Suc (tick w)), ks := k2\<rparr> \<and> (\<forall>vs. r = Inr vs \<longrightarrow> vs = us)"
        using run pop pos Inr pipe unfolding us_def parse_all_def
        by (cases "zs = []"; cases q2)
          (auto simp: WaitingRoom_Admit_def run_simps redis_call_def Let_def)
      with p s Inr R T us_def show ?thesis
        by (elim disjE) (auto simp: room_ok_def redis_up_def)
    qed
  qed
qed

interpretation redis_room: waiting_line "WaitingRoom_Join E" "WaitingRoom_Admit E"
  "\<lambda>w. queue_line E (ks w)" "room_ok E"
proof (unfold_locales, goal_cases)
  case 1
  then show ?case by (auto simp: room_ok_def redis_up_def intro: event_room_less)
next
  case 2
  then show ?case by (blast dest: WaitingRoom_Join_room)
next
  case 3
  then show ?case by (blast dest: WaitingRoom_Admit_room)
next
  case (4 n w e u p w')
  from WaitingRoom_Join_room [OF 4] show ?case by blast
next
  case (5 n w e u x w')
  from WaitingRoom_Join_room [OF 5] show ?case by blast
next
  case (6 n w e c ttl us w')
  from WaitingRoom_Admit_room [OF 6] show ?case by blast
next
  case (7 n w e c ttl x w')
  from WaitingRoom_Admit_room [OF 7] show ?case by blast
qed

subsection \<open>The length of the line\<close>

lemma zcard_line:
  assumes "redis_server R" and "uuid_text E" and "event_room E n k e"
    and "r_zcard R m (queueKey E e) k = (q, k')"
  shows "k' = k \<and> (\<forall>c. q = Inr c \<longrightarrow> c = int (length (queue_line E k e)))"
proof -
  let ?zs = "queue_zs E k e"
  have "length (queue_line E k e) = length ?zs"
    using assms(3) parse_all_String [OF assms(2), of ?zs]
    by (metis event_room_def length_map queue_line_parse)
  then show ?thesis
    using redis_answers(7) [OF assms(1), of m "queueKey E e" k] assms(4)
    by (auto simp: answers_def sem_zcard_def event_room_zset [OF assms(3)] split: sum.splits)
qed

lemma WaitingRoom_QueueLength_room:
  assumes "room_ok E n w" and "WaitingRoom_QueueLength E e w = (r, w')"
  shows "w' = w\<lparr>tick := Suc (tick w)\<rparr> \<and> (\<forall>c. r = Inr c \<longrightarrow> c = int (length (queue_line E (ks w) e)))"
proof -
  obtain q k where card: "r_zcard (e_redis E) (tick w) (queueKey E e) (ks w) = (q, k)" by fastforce
  have "k = ks w \<and> (\<forall>c. q = Inr c \<longrightarrow> c = int (length (queue_line E (ks w) e)))"
    using assms(1) by (intro zcard_line [OF _ _ _ card]) (auto simp: room_ok_def redis_up_def)
  with assms(2) card show ?thesis
    by (auto simp: WaitingRoom_QueueLength_def run_simps redis_call_def split: sum.splits)
qed

end
