(* ===== verification/InventoryService.thy ===== *)
theory InventoryService
  imports InventoryHistory WaitingRoom
begin

text \<open>
  \<open>internal/service/inventory\<close>: a hold passes the waiting room, the rate limiter and the lock
  before the compare-and-swap on the seat; the sweep frees expired holds.
\<close>

section \<open>config.go\<close>

abbreviation time_Second :: duration where
  "time_Second \<equiv> 1000000"

abbreviation time_Minute :: duration where
  "time_Minute \<equiv> 60 * time_Second"

record InventoryConfig =
  HoldDuration :: duration
  LockTTL :: duration
  AdmissionTTL :: duration
  HoldRateLimit :: int
  HoldRateLimitWindow :: duration

definition DefaultConfig :: InventoryConfig where
  "DefaultConfig = \<lparr>HoldDuration = 5 * time_Minute, LockTTL = 3 * time_Second,
    AdmissionTTL = 10 * time_Minute, HoldRateLimit = 10, HoldRateLimitWindow = time_Minute\<rparr>"

section \<open>service.go\<close>

record HoldResult =
  hr_HoldToken :: uuid
  hr_ExpiresAt :: time

definition lockKey :: "env \<Rightarrow> uuid \<Rightarrow> uuid \<Rightarrow> string" where
  "lockKey E tenantID inventoryID =
    ''lock:inventory:'' @ e_uuid_String E tenantID @ '':'' @ e_uuid_String E inventoryID"

definition rateLimitKey :: "env \<Rightarrow> uuid \<Rightarrow> uuid \<Rightarrow> uuid \<Rightarrow> string" where
  "rateLimitKey E tenantID eventID userID =
    ''ratelimit:hold:'' @ e_uuid_String E tenantID @ '':'' @ e_uuid_String E eventID @ '':''
      @ e_uuid_String E userID"

text \<open>the part of \<open>HoldSeat\<close> that runs while the lock is held\<close>

definition HoldSeat_locked ::
  "env \<Rightarrow> InventoryConfig \<Rightarrow> uuid \<Rightarrow> uuid \<Rightarrow> uuid \<Rightarrow> HoldResult op" where
  "HoldSeat_locked E cfg tenantID inventoryID userID =
    bindE (uuid_New E) (\<lambda>holdToken.
    bindE (time_Now E) (\<lambda>now.
    let expiresAt = now + HoldDuration cfg in
    bindE (wrapE ''inventory: hold: %w''
        (InventoryRepo_Hold E tenantID inventoryID holdToken userID expiresAt)) (\<lambda>ok.
    if \<not> ok then throwE (NewError ''inventory.HoldSeat'' ErrUnavailable)
    else returnE \<lparr>hr_HoldToken = holdToken, hr_ExpiresAt = expiresAt\<rparr>)))"

definition HoldSeat ::
  "env \<Rightarrow> InventoryConfig \<Rightarrow> uuid \<Rightarrow> uuid \<Rightarrow> uuid \<Rightarrow> uuid \<Rightarrow> HoldResult op" where
  "HoldSeat E cfg tenantID eventID inventoryID userID =
    bindE (wrapE ''inventory: check admission: %w'' (WaitingRoom_IsAdmitted E eventID userID)) (\<lambda>admitted.
    if \<not> admitted then throwE ErrNotAdmitted else
    bindE (wrapE ''inventory: check rate limit: %w''
        (RateLimiter_Allow E (rateLimitKey E tenantID eventID userID) (HoldRateLimit cfg)
          (HoldRateLimitWindow cfg))) (\<lambda>allowed.
    if \<not> allowed then throwE ErrRateLimited else
    let key = lockKey E tenantID inventoryID in
    bindE (wrapE ''inventory: acquire lock: %w'' (Locker_Acquire E key (LockTTL cfg)))
      (\<lambda>(lockToken, acquired).
    if \<not> acquired then throwE ErrLockContention
    else deferE (Locker_Release E key lockToken)
      (HoldSeat_locked E cfg tenantID inventoryID userID))))"

definition ReleaseHold :: "env \<Rightarrow> uuid \<Rightarrow> uuid \<Rightarrow> uuid \<Rightarrow> unit op" where
  "ReleaseHold E tenantID inventoryID holdToken =
    bindE (wrapE ''inventory: release: %w'' (InventoryRepo_Release E tenantID inventoryID holdToken))
      (\<lambda>ok. if \<not> ok then throwE (NewError ''inventory.ReleaseHold'' ErrExpired) else returnE ())"

definition ConfirmSale :: "env \<Rightarrow> uuid \<Rightarrow> uuid \<Rightarrow> uuid \<Rightarrow> unit op" where
  "ConfirmSale E tenantID inventoryID holdToken =
    bindE (wrapE ''inventory: confirm sale: %w''
        (InventoryRepo_ConfirmSale E tenantID inventoryID holdToken))
      (\<lambda>ok. if \<not> ok then throwE (NewError ''inventory.ConfirmSale'' ErrExpired) else returnE ())"

text \<open>\<open>SweepExpiredHolds\<close> returns the count so far along with an error.\<close>

primrec sweep_loop :: "env \<Rightarrow> EventSeatInventory list \<Rightarrow> int \<Rightarrow> (int \<times> error option) op" where
  "sweep_loop E [] released = returnE (released, None)"
| "sweep_loop E (row # rows) released =
    (case inv_HoldToken row of
      None \<Rightarrow> sweep_loop E rows released
    | Some holdToken \<Rightarrow>
        bindE (attemptE (InventoryRepo_Release E (inv_TenantID row) (inv_ID row) holdToken)) (\<lambda>r.
        case r of
          Inl err \<Rightarrow> returnE (released, Some (Wrap ''inventory: sweep release %s: %w'' err))
        | Inr ok \<Rightarrow> sweep_loop E rows (if ok then released + 1 else released)))"

definition SweepExpiredHolds :: "env \<Rightarrow> int \<Rightarrow> (int \<times> error option) op" where
  "SweepExpiredHolds E batchSize =
    bindE (time_Now E) (\<lambda>now.
    bindE (attemptE (InventoryRepo_ListExpiredHolds E now batchSize)) (\<lambda>r.
    case r of
      Inl err \<Rightarrow> returnE (0, Some (Wrap ''inventory: list expired holds: %w'' err))
    | Inr expired \<Rightarrow> sweep_loop E expired 0))"

definition JoinQueue :: "env \<Rightarrow> uuid \<Rightarrow> uuid \<Rightarrow> int op" where
  "JoinQueue E eventID userID = wrapE ''inventory: join queue: %w'' (WaitingRoom_Join E eventID userID)"

record QueueStatus =
  qs_Admitted :: bool
  qs_Position :: int

definition QueueStatus_of :: "env \<Rightarrow> uuid \<Rightarrow> uuid \<Rightarrow> QueueStatus op" where
  "QueueStatus_of E eventID userID =
    bindE (wrapE ''inventory: check admission: %w'' (WaitingRoom_IsAdmitted E eventID userID)) (\<lambda>admitted.
    if admitted then returnE \<lparr>qs_Admitted = True, qs_Position = 0\<rparr>
    else bindE (attemptE (WaitingRoom_Position E eventID userID)) (\<lambda>r.
      case r of
        Inl err \<Rightarrow> if errors_Is err ErrNotQueued then throwE ErrNotQueued
                   else throwE (Wrap ''inventory: queue status: %w'' err)
      | Inr pos \<Rightarrow> returnE \<lparr>qs_Admitted = False, qs_Position = pos\<rparr>))"

definition AdmitNext :: "env \<Rightarrow> InventoryConfig \<Rightarrow> uuid \<Rightarrow> int \<Rightarrow> uuid list op" where
  "AdmitNext E cfg eventID count =
    wrapE ''inventory: admit next: %w'' (WaitingRoom_Admit E eventID count (AdmissionTTL cfg))"

definition QueueLength :: "env \<Rightarrow> uuid \<Rightarrow> int op" where
  "QueueLength E eventID = wrapE ''inventory: queue length: %w'' (WaitingRoom_QueueLength E eventID)"

section \<open>Effects on the database\<close>

lemma redis_repo_history:
  "writes_history (WaitingRoom_IsAdmitted E e u)" "writes_history (WaitingRoom_Join E e u)"
  "writes_history (WaitingRoom_Position E e u)" "writes_history (WaitingRoom_Admit E e c ttl)"
  "writes_history (WaitingRoom_QueueLength E e)" "writes_history (RateLimiter_Allow E key l win)"
  "writes_history (Locker_Acquire E key ttl)" "writes_history (Locker_Release E key tok)"
  unfolding redis_repo_defs by (intro hist.db_moves_intros)+

lemma HoldSeat_locked_history: "writes_history (HoldSeat_locked E cfg t i u)"
  unfolding HoldSeat_locked_def by (intro hist.db_moves_intros InventoryRepo_Hold_history)

lemma HoldSeat_history: "writes_history (HoldSeat E cfg t e i u)"
  unfolding HoldSeat_def
  by (intro hist.db_moves_intros redis_repo_history HoldSeat_locked_history)

lemma ReleaseHold_history: "writes_history (ReleaseHold E t i tok)"
  unfolding ReleaseHold_def by (intro hist.db_moves_intros InventoryRepo_Release_history)

lemma ConfirmSale_history: "writes_history (ConfirmSale E t i tok)"
  unfolding ConfirmSale_def by (intro hist.db_moves_intros InventoryRepo_ConfirmSale_history)

lemma sweep_loop_history: "writes_history (sweep_loop E rows n)"
proof (induction rows arbitrary: n)
  case Nil
  show ?case by (simp add: hist.moves_return)
next
  case (Cons row rows)
  show ?case unfolding sweep_loop.simps
    by (intro hist.db_moves_intros InventoryRepo_Release_history Cons.IH)
qed

lemma SweepExpiredHolds_history: "writes_history (SweepExpiredHolds E n)"
  unfolding SweepExpiredHolds_def InventoryRepo_ListExpiredHolds_def
  by (intro hist.db_moves_intros sweep_loop_history)

lemma queue_history:
  "writes_history (JoinQueue E e u)" "writes_history (QueueStatus_of E e u)"
  "writes_history (AdmitNext E cfg e c)" "writes_history (QueueLength E e)"
  unfolding JoinQueue_def QueueStatus_of_def AdmitNext_def QueueLength_def
  by (intro hist.db_moves_intros redis_repo_history)+

section \<open>A hold attempt\<close>

text \<open>The gates before the compare-and-swap, and the unlock after it, leave the database alone.\<close>

interpretation same_db: db_frame "\<lambda>d. d" .

lemma redis_repo_db:
  "moves (\<lambda>w w'. db w' = db w) (WaitingRoom_IsAdmitted E e u)"
  "moves (\<lambda>w w'. db w' = db w) (RateLimiter_Allow E key l win)"
  "moves (\<lambda>w w'. db w' = db w) (Locker_Acquire E key ttl)"
  "moves (\<lambda>w w'. db w' = db w) (Locker_Release E key tok)"
  unfolding redis_repo_defs by (intro same_db.frame.db_moves_intros)+

lemmas redis_repo_db_run = redis_repo_db [THEN moves_run]

lemma HoldSeat_locked_Inr:
  assumes "HoldSeat_locked E cfg t i u w = (Inr res, w')" and "inventory_ok (db w)"
  shows "seat_view (db w) (t, i) = Some Free \<and>
    seat_view (db w') = (seat_view (db w))((t, i) \<mapsto>
      HeldBy (hr_HoldToken res) (Some u) (hr_ExpiresAt res)) \<and>
    hr_HoldToken res = e_uuid E (tick w) \<and>
    hr_ExpiresAt res = e_now E (Suc (tick w)) + HoldDuration cfg"
proof -
  let ?tok = "e_uuid E (tick w)" and ?x = "e_now E (Suc (tick w)) + HoldDuration cfg"
  let ?w = "w\<lparr>tick := Suc (Suc (tick w))\<rparr>"
  from assms(1) have run: "InventoryRepo_Hold E t i ?tok u ?x ?w = (Inr True, w')"
    and res: "res = \<lparr>hr_HoldToken = ?tok, hr_ExpiresAt = ?x\<rparr>"
    by (auto simp: HoldSeat_locked_def comp_iffs run_uuid_New run_time_Now Let_def split: if_splits)
  from inventory_repo.hold_obeys [OF _ run] assms(2)
  have "obeys (OpHold ?tok u ?x) (t, i) (seat_view (db w)) True (seat_view (db w'))" by simp
  then show ?thesis
    using res by (auto simp: obeys_def split: option.splits Option.bind_splits elim!: seat_step_SomeE)
qed

lemma HoldSeat_locked_Inl:
  assumes "HoldSeat_locked E cfg t i u w = (Inl err, w')" and "inventory_ok (db w)"
  shows "db w' = db w"
proof -
  let ?tok = "e_uuid E (tick w)" and ?x = "e_now E (Suc (tick w)) + HoldDuration cfg"
  let ?w = "w\<lparr>tick := Suc (Suc (tick w))\<rparr>"
  from assms(1) obtain r where run: "InventoryRepo_Hold E t i ?tok u ?x ?w = (r, w')"
    and r: "r \<noteq> Inr True"
    by (auto simp: HoldSeat_locked_def comp_iffs run_uuid_New run_time_Now Let_def split: if_splits)
  from InventoryRepo_Hold_run [OF run] show ?thesis
  proof (elim disjE exE conjE)
    fix n
    assume upd: "inventory_UPDATE (hold_where t i) (hold_set ?tok u ?x) (pg_now E ?w) (db ?w)
      = Inr (n, db w')" and "r = Inr (n = 1)"
    with r have "n \<noteq> 1" by auto
    moreover have "n \<le> 1" using hold_UPDATE(2) [OF upd] assms(2) by simp
    ultimately have "n = 0" by simp
    with upd void_UPDATE_none show ?thesis by fastforce
  qed simp
qed

text \<open>The successful path goes through every gate.\<close>

lemma HoldSeat_Inr:
  assumes "HoldSeat E cfg t e i u w = (Inr res, w')"
  obtains w1 w2 w3 w4 lockToken where
    "WaitingRoom_IsAdmitted E e u w = (Inr True, w1)"
    "RateLimiter_Allow E (rateLimitKey E t e u) (HoldRateLimit cfg) (HoldRateLimitWindow cfg) w1
      = (Inr True, w2)"
    "Locker_Acquire E (lockKey E t i) (LockTTL cfg) w2 = (Inr (lockToken, True), w3)"
    "HoldSeat_locked E cfg t i u w3 = (Inr res, w4)"
    "w' = snd (Locker_Release E (lockKey E t i) lockToken w4)"
  using assms by (auto simp: HoldSeat_def comp_iffs Let_def split: if_splits)

text \<open>An attempt stops at a gate or reaches the compare-and-swap.\<close>

lemma HoldSeat_cases:
  assumes "HoldSeat E cfg t e i u w = (r, w')"
  obtains (stopped) err where "r = Inl err" "db w' = db w"
  | (locked) w3 w4 where "db w3 = db w" "HoldSeat_locked E cfg t i u w3 = (r, w4)" "db w' = db w4"
proof -
  obtain q1 w1 where a: "WaitingRoom_IsAdmitted E e u w = (q1, w1)" by fastforce
  obtain q2 w2 where b: "RateLimiter_Allow E (rateLimitKey E t e u) (HoldRateLimit cfg)
      (HoldRateLimitWindow cfg) w1 = (q2, w2)" by fastforce
  obtain q3 w3 where c: "Locker_Acquire E (lockKey E t i) (LockTTL cfg) w2 = (q3, w3)" by fastforce
  obtain q4 w4 where l: "HoldSeat_locked E cfg t i u w3 = (q4, w4)" by fastforce
  have d: "db w1 = db w" "db w2 = db w1" "db w3 = db w2"
    by (fact redis_repo_db_run(1) [OF a], fact redis_repo_db_run(2) [OF b],
        fact redis_repo_db_run(3) [OF c])
  have un: "db (snd (Locker_Release E key tok w4)) = db w4" for key tok
    by (rule movesD [OF redis_repo_db(4)])
  show thesis
  proof (cases "q1 = Inr True \<and> q2 = Inr True \<and> (\<exists>tok. q3 = Inr (tok, True))")
    case True
    then obtain tok where q3: "q3 = Inr (tok, True)" by blast
    have "HoldSeat E cfg t e i u w = (q4, snd (Locker_Release E (lockKey E t i) tok w4))"
      using True q3 a b c l by (simp add: HoldSeat_def bindE_def mapErrE_def deferE_def Let_def)
    with assms un d l show ?thesis by (intro locked [of w3 w4]) auto
  next
    case False
    have "(\<exists>err. r = Inl err) \<and> (w' = w1 \<or> w' = w2 \<or> w' = w3)"
      using False a b c assms
      by (cases q1; cases q2; cases q3)
        (auto simp: HoldSeat_def bindE_def mapErrE_def throwE_def Let_def split: if_splits)
    with d show ?thesis by (auto intro: stopped)
  qed
qed

lemma HoldSeat_success:
  assumes run: "HoldSeat E cfg t e i u w = (Inr res, w')" and ok: "inventory_ok (db w)"
  shows "seat_view (db w) (t, i) = Some Free \<and>
    seat_view (db w') = (seat_view (db w))((t, i) \<mapsto>
      HeldBy (hr_HoldToken res) (Some u) (hr_ExpiresAt res))"
  using run
proof (cases rule: HoldSeat_cases)
  case (locked w3 w4)
  then show ?thesis using HoldSeat_locked_Inr [OF locked(2)] ok by simp
qed simp

lemma HoldSeat_failure:
  assumes run: "HoldSeat E cfg t e i u w = (Inl err, w')" and ok: "inventory_ok (db w)"
  shows "db w' = db w"
  using run
proof (cases rule: HoldSeat_cases)
  case (locked w3 w4)
  then show ?thesis using HoldSeat_locked_Inl [OF locked(2)] ok by simp
qed simp

text \<open>Fans who race for one seat: the first to reach the row wins, the others get an error.\<close>

lemma HoldSeat_keeps_ok: "HoldSeat E cfg t e i u w = (r, w') \<Longrightarrow> audited (db w) \<Longrightarrow> audited (db w')"
  using moves_run [OF HoldSeat_history] history_audited by blast

lemma HoldSeat_taken:
  assumes "run_calls (\<lambda>(cfg, e, u). succeeds (HoldSeat E cfg t e i u)) cs w = (won, w')"
    and "audited (db w)" and "seat_view (db w) (t, i) \<noteq> Some Free"
  shows "won = [] \<and> db w' = db w"
  using assms
proof (induction cs arbitrary: w won)
  case Nil
  then show ?case by simp
next
  case (Cons c cs)
  obtain cfg e u where c: "c = (cfg, e, u)" by (metis surj_pair)
  obtain r w1 where run: "HoldSeat E cfg t e i u w = (r, w1)" by (cases "HoldSeat E cfg t e i u w")
  have ok: "inventory_ok (db w)" using Cons.prems(2) by (rule audited_ok)
  show ?case
  proof (cases r)
    case (Inl err)
    with run ok have "db w1 = db w" by (simp add: HoldSeat_failure)
    with Cons run c Inl show ?thesis by (auto simp: run_simps)
  next
    case (Inr res)
    with HoldSeat_success [OF run [unfolded Inr] ok] Cons.prems(3) show ?thesis by simp
  qed
qed

lemma HoldSeat_one_winner:
  assumes "run_calls (\<lambda>(cfg, e, u). succeeds (HoldSeat E cfg t e i u)) cs w = (won, w')"
    and "audited (db w)"
  shows "length won \<le> 1"
  using assms
proof (induction cs arbitrary: w won)
  case Nil
  then show ?case by simp
next
  case (Cons c cs)
  from Cons.prems(1) obtain q w1 won'
    where step: "(\<lambda>(cfg, e, u). succeeds (HoldSeat E cfg t e i u)) c w = (q, w1)"
    and rest: "run_calls (\<lambda>(cfg, e, u). succeeds (HoldSeat E cfg t e i u)) cs w1 = (won', w')"
    and won: "won = (if q = Inr True then c # won' else won')"
    by (rule run_calls_Cons)
  obtain cfg e u r where c: "c = (cfg, e, u)" and run: "HoldSeat E cfg t e i u w = (r, w1)"
    and q: "q = (case r of Inl x \<Rightarrow> Inl x | Inr y \<Rightarrow> Inr True)"
    using step by (cases c) (auto simp: run_simps split: prod.splits sum.splits)
  have aud: "audited (db w1)" using run Cons.prems(2) by (rule HoldSeat_keeps_ok)
  show ?case
  proof (cases r)
    case (Inl err)
    with won q Cons.IH [OF rest aud] show ?thesis by simp
  next
    case (Inr res)
    have "seat_view (db w1) (t, i) \<noteq> Some Free"
      using HoldSeat_success [OF run [unfolded Inr] audited_ok [OF Cons.prems(2)]] by simp
    with HoldSeat_taken [OF rest aud] won show ?thesis by simp
  qed
qed

section \<open>The sweep\<close>

abbreviation row_key :: "EventSeatInventory \<Rightarrow> seat_key" where
  "row_key r \<equiv> (inv_TenantID r, inv_ID r)"

lemma InventoryRepo_Release_answers:
  assumes "pg_healthy E"
  shows "\<exists>b w'. InventoryRepo_Release E t i tok w = (Inr b, w')"
proof -
  obtain n d' where "inventory_UPDATE (token_where t i tok) (clear_hold InventoryStatusAvailable)
      (pg_now E w) (db w) = Inr (n, d')"
    using inventory_UPDATE_clear by blast
  with assms show ?thesis
    by (auto simp: InventoryRepo_Release_def run_simps pg_stmt_def pg_healthy_def)
qed

lemma release_held:
  assumes "InventoryRepo_Release E t i tok w = (Inr b, w')" and "inventory_ok (db w)"
    and "seat_view (db w) (t, i) = Some (HeldBy tok u x)"
  shows "b \<and> seat_view (db w') = (seat_view (db w))((t, i) \<mapsto> Free) \<and> inventory_ok (db w')"
  using inventory_repo.release_obeys [OF assms(2,1)] inventory_repo.release_ok [OF assms(2,1)] assms(3)
  by (simp add: obeys_def)

lemma sweep_loop_frees:
  assumes "pg_healthy E" and "inventory_ok (db w)" and "distinct (map row_key rows)"
    and "\<And>r. r \<in> set rows \<Longrightarrow> \<exists>tok u x. inv_HoldToken r = Some tok \<and>
      seat_view (db w) (row_key r) = Some (HeldBy tok u x)"
  shows "\<exists>w'. sweep_loop E rows n w = (Inr (n + int (length rows), None), w') \<and> inventory_ok (db w') \<and>
    seat_view (db w') = (\<lambda>k. if k \<in> row_key ` set rows then Some Free else seat_view (db w) k)"
  using assms
proof (induction rows arbitrary: n w)
  case Nil
  then show ?case by (simp add: run_simps)
next
  case (Cons r rows)
  obtain tok u x where tok: "inv_HoldToken r = Some tok"
    and held: "seat_view (db w) (row_key r) = Some (HeldBy tok u x)"
    using Cons.prems(4) [of r] by auto
  obtain b w1 where run: "InventoryRepo_Release E (inv_TenantID r) (inv_ID r) tok w = (Inr b, w1)"
    using InventoryRepo_Release_answers [OF Cons.prems(1)] by blast
  from release_held [OF run Cons.prems(2) held] have b: "b"
    and view: "seat_view (db w1) = (seat_view (db w))(row_key r \<mapsto> Free)" and ok: "inventory_ok (db w1)"
    by auto
  have "\<exists>tok u x. inv_HoldToken r' = Some tok \<and> seat_view (db w1) (row_key r') = Some (HeldBy tok u x)"
    if "r' \<in> set rows" for r'
  proof -
    have "row_key r' \<noteq> row_key r" using Cons.prems(3) that by (force simp: image_iff)
    with view Cons.prems(4) [of r'] that show ?thesis by auto
  qed
  with Cons.IH [of w1 "n + 1"] Cons.prems(1,3) ok obtain w' where
    rest: "sweep_loop E rows (n + 1) w1 = (Inr (n + 1 + int (length rows), None), w')"
    and ok': "inventory_ok (db w')"
    and view': "seat_view (db w') = (\<lambda>k. if k \<in> row_key ` set rows then Some Free else seat_view (db w1) k)"
    by auto
  have "sweep_loop E (r # rows) n w = (Inr (n + int (length (r # rows)), None), w')"
    using tok run b rest by (simp add: run_simps algebra_simps)
  with ok' view view' show ?case by (auto simp: fun_eq_iff)
qed

lemma set_sql_page: "r \<in> set (sql_page l off t) \<Longrightarrow> r \<in> set t"
  by (auto simp: sql_page_def dest: in_set_takeD in_set_dropD)

lemma expired_holds_props:
  assumes "inventory_ok d"
  shows "distinct (map row_key (expired_holds now n d))"
    and "\<And>r. r \<in> set (expired_holds now n d) \<Longrightarrow>
      r \<in> set (event_seat_inventory d) \<and> hold_expired now r"
proof -
  have "distinct (map inv_ID (expired_holds now n d))"
    using assms
    by (auto simp: expired_holds_def sql_page_def inventory_ok_def distinct_map
        intro!: distinct_take inj_on_subset [of inv_ID "set (event_seat_inventory d)"]
        dest: in_set_takeD)
  then show "distinct (map row_key (expired_holds now n d))"
    by (auto simp: distinct_map inj_on_def)
  show "r \<in> set (event_seat_inventory d) \<and> hold_expired now r" if "r \<in> set (expired_holds now n d)" for r
    using that by (auto simp: expired_holds_def dest: set_sql_page)
qed

lemma held_row_view:
  assumes "inventory_ok d" and "r \<in> set (event_seat_inventory d)" and "inv_Status r = InventoryStatusHeld"
  shows "\<exists>tok x. inv_HoldToken r = Some tok \<and> inv_HoldExpiresAt r = Some x \<and>
    seat_view d (row_key r) = Some (HeldBy tok (inv_HeldByUserID r) x)"
proof -
  have "esi_check r" using assms(1,2) by (auto simp: inventory_ok_def list_all_iff)
  moreover have "inventory_by_id (inv_TenantID r) (inv_ID r) d = Some r"
    using assms(1,2) by (simp add: inventory_by_id_Some_iff)
  ultimately show ?thesis
    using assms(3) by (auto simp: esi_check_def seat_view_def seat_of_def)
qed

lemma SweepExpiredHolds_frees:
  assumes "pg_healthy E" and "inventory_ok (db w)"
  shows "\<exists>w'. SweepExpiredHolds E n w =
      (Inr (int (length (expired_holds (e_now E (tick w)) n (db w))), None), w') \<and>
    inventory_ok (db w') \<and>
    seat_view (db w') = (\<lambda>k. if k \<in> row_key ` set (expired_holds (e_now E (tick w)) n (db w))
      then Some Free else seat_view (db w) k)"
proof -
  let ?rows = "expired_holds (e_now E (tick w)) n (db w)"
  let ?w = "w\<lparr>tick := Suc (Suc (tick w))\<rparr>"
  have held: "\<exists>tok u x. inv_HoldToken r = Some tok \<and> seat_view (db ?w) (row_key r) = Some (HeldBy tok u x)"
    if "r \<in> set ?rows" for r
    using held_row_view [of "db w" r] expired_holds_props(2) [OF assms(2) that] assms(2)
    by (auto simp: hold_expired_def)
  have "\<exists>w'. sweep_loop E ?rows 0 ?w = (Inr (0 + int (length ?rows), None), w') \<and>
      inventory_ok (db w') \<and>
      seat_view (db w') = (\<lambda>k. if k \<in> row_key ` set ?rows then Some Free else seat_view (db ?w) k)"
    by (rule sweep_loop_frees [OF assms(1) _ expired_holds_props(1) [OF assms(2)] held])
      (use assms(2) in simp_all)
  with assms(1) show ?thesis
    by (simp add: SweepExpiredHolds_def InventoryRepo_ListExpiredHolds_def run_simps cong: if_cong)
qed


text \<open>The seats whose hold has ended, and the rows the sweep is given.\<close>

definition hold_lapsed :: "time \<Rightarrow> database \<Rightarrow> seat_key \<Rightarrow> bool" where
  "hold_lapsed now d k \<longleftrightarrow> (case seat_view d k of Some (HeldBy tok u x) \<Rightarrow> x < now | _ \<Rightarrow> False)"

lemma expired_row_lapsed:
  assumes "inventory_ok d" and "r \<in> set (event_seat_inventory d)" and "hold_expired now r"
  shows "hold_lapsed now d (row_key r)"
  using held_row_view [OF assms(1,2)] assms(3) by (auto simp: hold_expired_def hold_lapsed_def)

lemma lapsed_row:
  assumes "hold_lapsed now d k"
  shows "\<exists>r \<in> set (event_seat_inventory d). hold_expired now r \<and> row_key r = k"
proof -
  from assms obtain r where r: "inventory_by_id (fst k) (snd k) d = Some r"
    and held: "case seat_of r of HeldBy tok u x \<Rightarrow> x < now | _ \<Rightarrow> False"
    by (auto simp: hold_lapsed_def seat_view_def split: option.splits seat.splits)
  from held have "hold_expired now r"
    by (auto simp: seat_of_def hold_expired_def split: InventoryStatus.splits option.splits)
  with r show ?thesis
    by (auto simp: inventory_by_id_def find_Some_iff intro!: bexI [of _ r])
qed

lemma set_expired_holds:
  assumes "int (length (filter (hold_expired now) (event_seat_inventory d))) \<le> n"
  shows "set (expired_holds now n d) = {r \<in> set (event_seat_inventory d). hold_expired now r}"
  using assms by (simp add: expired_holds_def sql_page_def nat_le_iff)

text \<open>With a limit that covers them the sweep frees the lapsed holds, all of them and nothing else.\<close>

lemma SweepExpiredHolds_all:
  assumes "pg_healthy E" and "inventory_ok (db w)"
    and "int (length (filter (hold_expired (e_now E (tick w))) (event_seat_inventory (db w)))) \<le> n"
  shows "\<exists>m w'. SweepExpiredHolds E n w = (Inr (m, None), w') \<and> inventory_ok (db w') \<and>
    seat_view (db w') = (\<lambda>k. if hold_lapsed (e_now E (tick w)) (db w) k then Some Free
      else seat_view (db w) k)"
proof -
  let ?now = "e_now E (tick w)"
  have "k \<in> row_key ` set (expired_holds ?now n (db w)) \<longleftrightarrow> hold_lapsed ?now (db w) k" for k
    unfolding set_expired_holds [OF assms(3)]
    using expired_row_lapsed [OF assms(2)] lapsed_row [of ?now "db w" k] by auto
  with SweepExpiredHolds_frees [OF assms(1,2), of n] show ?thesis by auto
qed

end
