(* ===== verification/PaymentGateway.thy ===== *)
theory PaymentGateway
  imports World
begin

text \<open>
  \<open>internal/platform/payment\<close>: the two implementations of \<open>domain.PaymentGateway\<close>, the in-memory
  \<open>MockGateway\<close> and \<open>StripeGateway\<close>, and the choice between them.  What Stripe answers
  comes from the environment.
\<close>

section \<open>stripe.go\<close>

definition parseStripeSignature_part :: "string \<Rightarrow> string \<times> string list \<Rightarrow> string \<times> string list" where
  "parseStripeSignature_part part acc =
    (case (strings_SplitN2 CHR ''='' part, acc) of
      ([k, v], (timestamp, signatures)) \<Rightarrow>
        if k = ''t'' then (v, signatures)
        else if k = ''v1'' then (timestamp, signatures @ [v])
        else acc
    | _ \<Rightarrow> acc)"

definition parseStripeSignatureHeader :: "string \<Rightarrow> error + (string \<times> string list)" where
  "parseStripeSignatureHeader header =
    (let (timestamp, signatures) = fold parseStripeSignature_part (strings_Split CHR '','' header) ('''', [])
     in if timestamp = '''' \<or> signatures = []
        then Inl (ErrText ''payment: malformed Stripe-Signature header'')
        else Inr (timestamp, signatures))"

definition Stripe_VerifyWebhookSignature :: "string \<Rightarrow> string \<Rightarrow> string \<Rightarrow> error + unit" where
  "Stripe_VerifyWebhookSignature webhookSecret payload header =
    (case parseStripeSignatureHeader header of
      Inl err \<Rightarrow> Inl err
    | Inr (timestamp, signatures) \<Rightarrow>
        (let expected = hex_EncodeToString (hmac_sha256 webhookSecret (timestamp @ ''.'' @ payload))
         in if list_ex (\<lambda>sig. sig = expected) signatures then Inr ()
            else Inl (ErrText ''payment: stripe webhook signature mismatch'')))"

text \<open>\<open>do\<close>: post, read, decode, then Stripe's own error and the status; the decoded reply.\<close>

definition Stripe_do ::
  "env \<Rightarrow> string \<Rightarrow> string \<Rightarrow> (string \<times> string) list \<Rightarrow> string \<Rightarrow> (string \<times> string) op" where
  "Stripe_do E secretKey path form idempotencyKey = (\<lambda>w.
    (case e_stripe E (tick w) \<lparr>sr_path = path, sr_form = form, sr_secretKey = secretKey,
        sr_IdempotencyKey = (if idempotencyKey = '''' then None else Some idempotencyKey)\<rparr> of
       StripeUnreachable \<Rightarrow> Inl (Wrap ''payment: stripe request: %w'' (DriverErr ''http''))
     | StripeBodyUnreadable \<Rightarrow> Inl (Wrap ''payment: read stripe response: %w'' (DriverErr ''http''))
     | StripeBadJSON \<Rightarrow> Inl (Wrap ''payment: parse stripe response: %w'' (DriverErr ''json''))
     | StripeReply status i clientSecret err \<Rightarrow>
         (case err of
            Some _ \<Rightarrow> Inl (ErrText ''payment: stripe error (%s): %s'')
          | None \<Rightarrow> if status \<noteq> 200 then Inl (ErrText ''payment: stripe returned status %d'')
                    else Inr (i, clientSecret)),
     w\<lparr>tick := Suc (tick w)\<rparr>))"

definition Stripe_CreateIntent ::
  "env \<Rightarrow> string \<Rightarrow> Money \<Rightarrow> string \<Rightarrow> (string \<times> string) list \<Rightarrow> (string \<times> string) op" where
  "Stripe_CreateIntent E secretKey amount idempotencyKey metadata =
    Stripe_do E secretKey ''/v1/payment_intents''
      ([(''amount'', fmt_d (sint (Cents amount))),
        (''currency'', strings_ToLower (Currency amount)),
        (''automatic_payment_methods[enabled]'', ''true'')]
       @ map (\<lambda>(k, v). (''metadata['' @ k @ '']'', v)) metadata)
      idempotencyKey"

definition Stripe_Refund :: "env \<Rightarrow> string \<Rightarrow> string \<Rightarrow> Money \<Rightarrow> string \<Rightarrow> string op" where
  "Stripe_Refund E secretKey providerPaymentID amount reason =
    bindE (Stripe_do E secretKey ''/v1/refunds''
      ([(''payment_intent'', providerPaymentID), (''amount'', fmt_d (sint (Cents amount)))]
       @ (if reason \<noteq> '''' then [(''metadata[reason]'', reason)] else []))
      '''') (\<lambda>(i, _). returnE i)"

section \<open>mock.go\<close>

definition uuid_NewString :: "env \<Rightarrow> string op" where
  "uuid_NewString E = bindE (uuid_New E) (\<lambda>u. returnE (e_uuid_String E u))"

definition Mock_CreateIntent :: "env \<Rightarrow> (string \<times> string) op" where
  "Mock_CreateIntent E =
    bindE (uuid_NewString E) (\<lambda>u.
    let i = ''pi_mock_'' @ u in
    bindE (\<lambda>w. (Inr (), w\<lparr>mock_intents := i # mock_intents w\<rparr>)) (\<lambda>_.
    bindE (uuid_NewString E) (\<lambda>v.
    returnE (i, i @ ''_secret_'' @ v))))"

definition Mock_Refund :: "env \<Rightarrow> string \<Rightarrow> string op" where
  "Mock_Refund E providerPaymentID =
    bindE (getsE mock_intents) (\<lambda>intents.
    if \<not> List.member intents providerPaymentID
    then throwE (ErrText ''payment: mock gateway: unknown payment intent %q'')
    else bindE (uuid_NewString E) (\<lambda>u. returnE (''re_mock_'' @ u)))"

definition Mock_VerifyWebhookSignature :: "string \<Rightarrow> string \<Rightarrow> string \<Rightarrow> error + unit" where
  "Mock_VerifyWebhookSignature secret payload header =
    (if hex_EncodeToString (hmac_sha256 secret payload) \<noteq> header
     then Inl (ErrText ''payment: mock gateway: invalid webhook signature'') else Inr ())"

section \<open>The interface\<close>

datatype gateway =
    StripeGateway (secretKey: string) (webhookSecret: string)
  | MockGateway (mock_secret: string)

definition note_call :: "gateway_call \<Rightarrow> unit op" where
  "note_call c = (\<lambda>w. (Inr (), w\<lparr>gateway_calls := gateway_calls w @ [c]\<rparr>))"

definition Gateway_CreateIntent ::
  "env \<Rightarrow> gateway \<Rightarrow> Money \<Rightarrow> string \<Rightarrow> (string \<times> string) list \<Rightarrow> (string \<times> string) op" where
  "Gateway_CreateIntent E g amount idempotencyKey metadata =
    bindE (note_call (IntentRequested amount idempotencyKey)) (\<lambda>_.
    case g of
      StripeGateway sk wh \<Rightarrow> Stripe_CreateIntent E sk amount idempotencyKey metadata
    | MockGateway secret \<Rightarrow> Mock_CreateIntent E)"

definition Gateway_Refund :: "env \<Rightarrow> gateway \<Rightarrow> string \<Rightarrow> Money \<Rightarrow> string \<Rightarrow> string op" where
  "Gateway_Refund E g providerPaymentID amount reason =
    bindE (note_call (RefundRequested providerPaymentID amount)) (\<lambda>_.
    case g of
      StripeGateway sk wh \<Rightarrow> Stripe_Refund E sk providerPaymentID amount reason
    | MockGateway secret \<Rightarrow> Mock_Refund E providerPaymentID)"

definition VerifyWebhookSignature :: "gateway \<Rightarrow> string \<Rightarrow> string \<Rightarrow> error + unit" where
  "VerifyWebhookSignature g payload header =
    (case g of
      StripeGateway sk wh \<Rightarrow> Stripe_VerifyWebhookSignature wh payload header
    | MockGateway secret \<Rightarrow> Mock_VerifyWebhookSignature secret payload header)"

section \<open>Facts\<close>

lemma gateway_keeps_db:
  "db (snd (Gateway_CreateIntent E g amount key md w)) = db w"
  "db (snd (Gateway_Refund E g ppid amount reason w)) = db w"
  by (cases g; auto simp: Gateway_CreateIntent_def Gateway_Refund_def note_call_def
      Stripe_CreateIntent_def Stripe_Refund_def Mock_CreateIntent_def Mock_Refund_def Stripe_do_def
      uuid_NewString_def run_simps Let_def split: sum.splits prod.splits)+

lemma gateway_calls_made:
  "gateway_calls (snd (Gateway_CreateIntent E g amount key md w)) =
     gateway_calls w @ [IntentRequested amount key]"
  "gateway_calls (snd (Gateway_Refund E g ppid amount reason w)) =
     gateway_calls w @ [RefundRequested ppid amount]"
  by (cases g; auto simp: Gateway_CreateIntent_def Gateway_Refund_def note_call_def
      Stripe_CreateIntent_def Stripe_Refund_def Mock_CreateIntent_def Mock_Refund_def Stripe_do_def
      uuid_NewString_def run_simps Let_def split: sum.splits prod.splits)+

end
