(* ===== verification/OrderService.thy ===== *)
theory OrderService
  imports InventoryService CatalogRepo PaymentGateway
begin

text \<open>
  \<open>internal/service/order\<close>: from holds to an order, from an order to a payment intent, and from a
  captured payment to sold seats or to a refund.
\<close>

section \<open>CreateOrder\<close>

record HeldItem =
  hi_InventoryID :: uuid
  hi_HoldToken :: uuid

text \<open>The variables of the loop over the items.\<close>

record order_acc =
  oa_cache :: "uuid \<Rightarrow> EventTicketCategory list option"
  oa_count :: "uuid \<Rightarrow> int"
  oa_subtotal :: Money
  oa_expiry :: "time option"
  oa_items :: "OrderItem list"

definition empty_acc :: order_acc where
  "empty_acc = \<lparr>oa_cache = (\<lambda>_. None), oa_count = (\<lambda>_. 0), oa_subtotal = \<lparr>Cents = 0, Currency = ''''\<rparr>,
    oa_expiry = None, oa_items = []\<rparr>"

definition tighten :: "time option \<Rightarrow> time option \<Rightarrow> time option" where
  "tighten tightest x =
    (case tightest of
      None \<Rightarrow> x
    | Some t \<Rightarrow> (case x of Some t' \<Rightarrow> if t' < t then Some t' else Some t | None \<Rightarrow> Some t))"

text \<open>\<open>row.HoldExpiresAt != nil && row.HoldExpiresAt.Before(time.Now())\<close>\<close>

definition hold_over :: "env \<Rightarrow> EventSeatInventory \<Rightarrow> bool op" where
  "hold_over E row =
    (case inv_HoldExpiresAt row of
      None \<Rightarrow> returnE False
    | Some x \<Rightarrow> bindE (time_Now E) (\<lambda>now. returnE (x < now)))"

definition cached_categories :: "env \<Rightarrow> uuid \<Rightarrow> uuid \<Rightarrow> order_acc \<Rightarrow> EventTicketCategory list op" where
  "cached_categories E tenantID eventID acc =
    (case oa_cache acc eventID of
      Some cs \<Rightarrow> returnE cs
    | None \<Rightarrow> wrapE ''order: load ticket categories for event %s: %w''
        (EventRepo_ListTicketCategories E tenantID eventID))"

definition price_item ::
  "env \<Rightarrow> uuid \<Rightarrow> nat \<Rightarrow> HeldItem \<Rightarrow> EventSeatInventory \<Rightarrow> EventTicketCategory list \<Rightarrow> order_acc \<Rightarrow>
   order_acc op" where
  "price_item E tenantID i item row categories acc =
    (case find (\<lambda>c. etc_ID c = inv_CategoryID row) categories of
      None \<Rightarrow> throwE (ErrText ''order: no ticket category %s found for event %s'')
    | Some c \<Rightarrow>
        let n = oa_count acc (inv_CategoryID row) + 1 in
        if etc_MaxPerOrder c < n
        then throwE (NewError ''order.CreateOrder''
          (Wrap ''%w: exceeds max %d per order for this ticket category'' ErrInvalidInput))
        else (case (if i = 0 then Inr (etc_Price c) else Money_Add (oa_subtotal acc) (etc_Price c)) of
          Inl err \<Rightarrow> throwE (Wrap ''order: sum prices: %w'' err)
        | Inr subtotal \<Rightarrow>
            bindE (uuid_New E) (\<lambda>itemID.
            returnE (acc\<lparr>oa_cache := (oa_cache acc)(inv_EventID row \<mapsto> categories),
              oa_count := (oa_count acc)(inv_CategoryID row := n),
              oa_subtotal := subtotal,
              oa_expiry := tighten (oa_expiry acc) (inv_HoldExpiresAt row),
              oa_items := oa_items acc @ [\<lparr>oi_ID = itemID, oi_TenantID = tenantID, oi_OrderID = 0,
                oi_InventoryID = inv_ID row, oi_HoldToken = hi_HoldToken item,
                oi_UnitPrice = etc_Price c, oi_CreatedAt = 0\<rparr>]\<rparr>))))"

definition CreateOrder_item :: "env \<Rightarrow> uuid \<Rightarrow> nat \<times> HeldItem \<Rightarrow> order_acc \<Rightarrow> order_acc op" where
  "CreateOrder_item E tenantID ii acc = (case ii of (i, item) \<Rightarrow>
    bindE (wrapE ''order: load held item %s: %w''
        (InventoryRepo_GetByID E tenantID (hi_InventoryID item))) (\<lambda>row.
    if inv_Status row \<noteq> InventoryStatusHeld \<or> inv_HoldToken row \<noteq> Some (hi_HoldToken item)
    then throwE (NewError ''order.CreateOrder''
      (Wrap ''%w: item %s is not held by the supplied token'' ErrExpired))
    else bindE (hold_over E row) (\<lambda>over.
    if over then throwE (NewError ''order.CreateOrder''
      (Wrap ''%w: item %s's hold has expired'' ErrExpired))
    else bindE (cached_categories E tenantID (inv_EventID row) acc) (\<lambda>categories.
    price_item E tenantID i item row categories acc))))"

definition CreateOrder_tx :: "env \<Rightarrow> uuid \<Rightarrow> uuid \<Rightarrow> string \<Rightarrow> HeldItem list \<Rightarrow> Order op" where
  "CreateOrder_tx E tenantID userID idempotencyKey items =
    bindE (foldE (CreateOrder_item E tenantID) (enumerate 0 items) empty_acc) (\<lambda>acc.
    let fees = \<lparr>Cents = 0, Currency = Currency (oa_subtotal acc)\<rparr> in
    case Money_Add (oa_subtotal acc) fees of
      Inl err \<Rightarrow> throwE (Wrap ''order: compute total: %w'' err)
    | Inr tot \<Rightarrow>
        bindE (uuid_New E) (\<lambda>orderID.
        let order = \<lparr>ord_ID = orderID, ord_TenantID = tenantID, ord_UserID = userID,
              ord_Status = OrderStatusPending, ord_IdempotencyKey = idempotencyKey,
              ord_Subtotal = oa_subtotal acc, ord_Fees = fees, ord_Total = tot,
              ord_ExpiresAt = oa_expiry acc, ord_CreatedAt = 0, ord_UpdatedAt = 0\<rparr> in
        wrapE ''order: create with items: %w''
          (OrderRepo_CreateWithItems E order (map (\<lambda>it. it\<lparr>oi_OrderID := orderID\<rparr>) (oa_items acc)))))"

definition CreateOrder :: "env \<Rightarrow> uuid \<Rightarrow> uuid \<Rightarrow> string \<Rightarrow> HeldItem list \<Rightarrow> Order op" where
  "CreateOrder E tenantID userID idempotencyKey items =
    (if items = []
     then throwE (NewError ''order.CreateOrder'' (Wrap ''%w: at least one item is required'' ErrInvalidInput))
     else bindE (attemptE (OrderRepo_GetByIdempotencyKey E tenantID idempotencyKey)) (\<lambda>r.
       case r of
         Inr existing \<Rightarrow> returnE existing
       | Inl err \<Rightarrow>
           if \<not> errors_Is err ErrNotFound then throwE (Wrap ''order: check idempotency: %w'' err)
           else WithTx E (CreateOrder_tx E tenantID userID idempotencyKey items)))"

section \<open>AuthorizePayment\<close>

definition AuthorizePayment :: "env \<Rightarrow> gateway \<Rightarrow> uuid \<Rightarrow> uuid \<Rightarrow> string op" where
  "AuthorizePayment E g tenantID orderID =
    bindE (wrapE ''order: get order: %w'' (OrderRepo_GetByID E tenantID orderID)) (\<lambda>order.
    if ord_Status order \<noteq> OrderStatusPending
    then throwE (NewError ''order.AuthorizePayment'' (Wrap ''%w: order is %q, not pending'' ErrInvalidInput))
    else bindE (wrapE ''order: create payment intent: %w''
      (Gateway_CreateIntent E g (ord_Total order) (ord_IdempotencyKey order)
        [(''order_id'', e_uuid_String E (ord_ID order)),
         (''tenant_id'', e_uuid_String E (ord_TenantID order))])) (\<lambda>(providerPaymentID, clientSecret).
    bindE (uuid_New E) (\<lambda>paymentID.
    bindE (wrapE ''order: record payment: %w''
      (PaymentRepo_Create E \<lparr>pay_ID = paymentID, pay_TenantID = tenantID, pay_OrderID = ord_ID order,
        pay_Provider = PaymentProviderStripe, pay_ProviderPaymentID = providerPaymentID,
        pay_Status = PaymentStatusPending, pay_Amount = ord_Total order,
        pay_IdempotencyKey = ord_IdempotencyKey order, pay_RawResponse = None, pay_CreatedAt = 0,
        pay_UpdatedAt = 0\<rparr>)) (\<lambda>_.
    bindE (wrapE ''order: update order status: %w''
      (OrderRepo_UpdateStatus E tenantID (ord_ID order) OrderStatusAwaitingPayment)) (\<lambda>_.
    returnE clientSecret)))))"

section \<open>ConfirmPayment\<close>

text \<open>
  The reads before the transaction; \<open>None\<close> when the order is already paid and nothing remains to be
  done.
\<close>

definition ConfirmPayment_load ::
  "env \<Rightarrow> uuid \<Rightarrow> uuid \<Rightarrow> uuid \<Rightarrow> (Order \<times> Payment \<times> OrderItem list) option op" where
  "ConfirmPayment_load E tenantID orderID paymentID =
    bindE (wrapE ''order: get order: %w'' (OrderRepo_GetByID E tenantID orderID)) (\<lambda>order.
    if ord_Status order = OrderStatusPaid then returnE None
    else bindE (wrapE ''order: get payment: %w'' (PaymentRepo_GetByID E tenantID paymentID)) (\<lambda>payment.
    if pay_OrderID payment \<noteq> ord_ID order
    then throwE (NewError ''order.ConfirmPayment''
      (Wrap ''%w: payment does not belong to order'' ErrInvalidInput))
    else bindE (wrapE ''order: list order items: %w''
      (OrderRepo_ListItems E tenantID (ord_ID order))) (\<lambda>items.
    returnE (Some (order, payment, items)))))"

definition confirm_item :: "env \<Rightarrow> uuid \<Rightarrow> OrderItem \<Rightarrow> unit \<Rightarrow> unit op" where
  "confirm_item E tenantID item _ =
    bindE (wrapE ''order: confirm sale for item %s: %w''
      (InventoryRepo_ConfirmSale E tenantID (oi_InventoryID item) (oi_HoldToken item))) (\<lambda>ok.
    if \<not> ok then throwE (NewError ''order.ConfirmPayment''
      (Wrap ''%w: item %s's hold is no longer valid'' ErrExpired))
    else returnE ())"

definition confirmation :: "env \<Rightarrow> uuid \<Rightarrow> Order \<Rightarrow> OrderItem list \<Rightarrow> Notification" where
  "confirmation E tenantID order items =
    \<lparr>n_ID = 0, n_TenantID = tenantID, n_UserID = ord_UserID order,
     n_Type = NotificationTypeOrderConfirmation,
     n_Payload = [(''order_id'', AnyString (e_uuid_String E (ord_ID order))),
       (''item_count'', AnyInt (int (length items))),
       (''total_cents'', AnyInt (sint (Cents (ord_Total order)))),
       (''currency'', AnyString (Currency (ord_Total order)))],
     n_Status = NotificationStatusPending, n_Attempts = 0, n_LastError = None, n_CreatedAt = 0,
     n_SentAt = None\<rparr>"

definition ConfirmPayment_tx :: "env \<Rightarrow> uuid \<Rightarrow> Order \<Rightarrow> OrderItem list \<Rightarrow> unit op" where
  "ConfirmPayment_tx E tenantID order items =
    bindE (foldE (confirm_item E tenantID) items ()) (\<lambda>_.
    bindE (wrapE ''order: mark order paid: %w''
      (OrderRepo_UpdateStatus E tenantID (ord_ID order) OrderStatusPaid)) (\<lambda>_.
    wrapE ''order: enqueue confirmation notification: %w''
      (NotificationRepo_Create E (confirmation E tenantID order items))))"

definition refundAndFail :: "env \<Rightarrow> gateway \<Rightarrow> uuid \<Rightarrow> Order \<Rightarrow> Payment \<Rightarrow> unit op" where
  "refundAndFail E g tenantID order payment =
    bindE (wrapE ''gateway refund: %w''
      (Gateway_Refund E g (pay_ProviderPaymentID payment) (pay_Amount payment)
        ''inventory hold expired before fulfillment could be confirmed'')) (\<lambda>refundID.
    bindE (wrapE ''mark payment refunded: %w''
      (PaymentRepo_UpdateStatus E tenantID (pay_ID payment) PaymentStatusRefunded ''''
        (Some (''{'' @ fmt_q ''refund_id'' @ '':'' @ fmt_q refundID @ ''}'')))) (\<lambda>_.
    wrapE ''mark order expired: %w''
      (OrderRepo_UpdateStatus E tenantID (ord_ID order) OrderStatusExpired)))"

text \<open>The transaction and what follows it, on what was read.\<close>

definition ConfirmPayment_settle ::
  "env \<Rightarrow> gateway \<Rightarrow> uuid \<Rightarrow> Order \<Rightarrow> Payment \<Rightarrow> OrderItem list \<Rightarrow> unit op" where
  "ConfirmPayment_settle E g tenantID order payment items =
    bindE (attemptE (WithTx E (ConfirmPayment_tx E tenantID order items))) (\<lambda>r.
    case r of
      Inl txErr \<Rightarrow>
        if errors_Is txErr ErrExpired
        then bindE (attemptE (refundAndFail E g tenantID order payment)) (\<lambda>q.
          case q of
            Inl refundErr \<Rightarrow> throwE (Wrap ''order: confirm failed AND refund failed (needs manual intervention): confirm=%v refund=%w'' refundErr)
          | Inr _ \<Rightarrow> throwE (Wrap ''order: could not confirm sale, payment refunded: %w'' txErr))
        else throwE txErr
    | Inr _ \<Rightarrow>
        wrapE ''order: mark payment captured: %w''
          (PaymentRepo_UpdateStatus E tenantID (pay_ID payment) PaymentStatusCaptured '''' None))"

definition ConfirmPayment :: "env \<Rightarrow> gateway \<Rightarrow> uuid \<Rightarrow> uuid \<Rightarrow> uuid \<Rightarrow> unit op" where
  "ConfirmPayment E g tenantID orderID paymentID =
    bindE (ConfirmPayment_load E tenantID orderID paymentID) (\<lambda>loaded.
    case loaded of
      None \<Rightarrow> returnE ()
    | Some (order, payment, items) \<Rightarrow> ConfirmPayment_settle E g tenantID order payment items)"

section \<open>Effects on the inventory\<close>

lemma InventoryRepo_GetByID_keeps: "keeps_inventory (InventoryRepo_GetByID E t i)"
  unfolding InventoryRepo_GetByID_def by (intro same_inventory.frame.db_moves_intros)

lemma gateway_keeps_inventory:
  "keeps_inventory (Gateway_CreateIntent E g amount key md)"
  "keeps_inventory (Gateway_Refund E g ppid amount reason)"
  by (simp_all add: moves_def gateway_keeps_db)

lemma CreateOrder_item_keeps: "keeps_inventory (CreateOrder_item E t ii acc)"
  unfolding CreateOrder_item_def hold_over_def cached_categories_def price_item_def
  by (intro same_inventory.frame.db_moves_intros InventoryRepo_GetByID_keeps
      catalog_reads_keep_inventory)

lemma CreateOrder_keeps_inventory: "keeps_inventory (CreateOrder E t u key items)"
  unfolding CreateOrder_def CreateOrder_tx_def
  by (intro same_inventory.frame.db_moves_intros CreateOrder_item_keeps order_repo_keeps_inventory)

lemma AuthorizePayment_keeps_inventory: "keeps_inventory (AuthorizePayment E g t i)"
  unfolding AuthorizePayment_def
  by (intro same_inventory.frame.db_moves_intros gateway_keeps_inventory order_repo_keeps_inventory)

lemma refundAndFail_keeps_inventory: "keeps_inventory (refundAndFail E g t o1 p)"
  unfolding refundAndFail_def
  by (intro same_inventory.frame.db_moves_intros gateway_keeps_inventory order_repo_keeps_inventory)

lemma ConfirmPayment_load_keeps_inventory: "keeps_inventory (ConfirmPayment_load E t oid pid)"
  unfolding ConfirmPayment_load_def
  by (intro same_inventory.frame.db_moves_intros order_repo_keeps_inventory)

lemma ConfirmPayment_tx_history: "writes_history (ConfirmPayment_tx E t o1 items)"
  unfolding ConfirmPayment_tx_def confirm_item_def
  by (intro hist.db_moves_intros InventoryRepo_ConfirmSale_history
      order_repo_keeps_inventory [THEN keeps_inventory_history])

lemma ConfirmPayment_settle_history: "writes_history (ConfirmPayment_settle E g t o1 p items)"
  unfolding ConfirmPayment_settle_def
  by (intro hist.db_moves_intros ConfirmPayment_tx_history
      refundAndFail_keeps_inventory [THEN keeps_inventory_history]
      order_repo_keeps_inventory [THEN keeps_inventory_history])

lemma ConfirmPayment_history: "writes_history (ConfirmPayment E g t oid pid)"
  unfolding ConfirmPayment_def
  by (intro hist.db_moves_intros ConfirmPayment_settle_history
      ConfirmPayment_load_keeps_inventory [THEN keeps_inventory_history])

section \<open>What CreateOrder checks and computes\<close>

abbreviation item_row :: "database \<Rightarrow> uuid \<Rightarrow> HeldItem \<Rightarrow> EventSeatInventory option" where
  "item_row d t item \<equiv> inventory_by_id t (hi_InventoryID item) d"

definition row_category :: "database \<Rightarrow> uuid \<Rightarrow> EventSeatInventory \<Rightarrow> EventTicketCategory option" where
  "row_category d t r = find (\<lambda>c. etc_ID c = inv_CategoryID r) (categories_of_event t (inv_EventID r) d)"

text \<open>An item as \<open>CreateOrder\<close> accepts it: held under the token given, priced by a live category.\<close>

definition item_accepted :: "env \<Rightarrow> database \<Rightarrow> uuid \<Rightarrow> HeldItem \<Rightarrow> OrderItem \<Rightarrow> bool" where
  "item_accepted E d t item oi \<longleftrightarrow>
    (\<exists>r c. item_row d t item = Some r \<and> inv_Status r = InventoryStatusHeld \<and>
      inv_HoldToken r = Some (hi_HoldToken item) \<and>
      (\<forall>x. inv_HoldExpiresAt r = Some x \<longrightarrow> (\<exists>n. e_now E n \<le> x)) \<and>
      row_category d t r = Some c \<and>
      oi_InventoryID oi = inv_ID r \<and> oi_HoldToken oi = hi_HoldToken item \<and> oi_UnitPrice oi = etc_Price c)"

definition item_category :: "database \<Rightarrow> uuid \<Rightarrow> HeldItem \<Rightarrow> uuid option" where
  "item_category d t item = map_option inv_CategoryID (item_row d t item)"

definition item_expiry :: "database \<Rightarrow> uuid \<Rightarrow> HeldItem \<Rightarrow> time option" where
  "item_expiry d t item = Option.bind (item_row d t item) inv_HoldExpiresAt"

text \<open>The loop's invariant after the items \<open>ys\<close>.\<close>

definition acc_ok :: "env \<Rightarrow> database \<Rightarrow> uuid \<Rightarrow> HeldItem list \<Rightarrow> order_acc \<Rightarrow> bool" where
  "acc_ok E d t ys acc \<longleftrightarrow>
    list_all2 (item_accepted E d t) ys (oa_items acc) \<and>
    (\<forall>e cs. oa_cache acc e = Some cs \<longrightarrow> cs = categories_of_event t e d) \<and>
    (\<forall>c. oa_count acc c = int (length (filter (\<lambda>y. item_category d t y = Some c) ys))) \<and>
    (\<forall>y \<in> set ys. \<forall>r c. item_row d t y = Some r \<longrightarrow> row_category d t r = Some c \<longrightarrow>
      oa_count acc (inv_CategoryID r) \<le> etc_MaxPerOrder c) \<and>
    Cents (oa_subtotal acc) = sum_list (map (Cents \<circ> oi_UnitPrice) (oa_items acc)) \<and>
    (\<forall>oi \<in> set (oa_items acc). Currency (oi_UnitPrice oi) = Currency (oa_subtotal acc)) \<and>
    oa_expiry acc = fold (\<lambda>y x. tighten x (item_expiry d t y)) ys None"

lemma CreateOrder_item_Inr:
  assumes "CreateOrder_item E t (i, item) acc w = (Inr acc', w')"
  obtains row categories c sub where
    "item_row (db w) t item = Some row" "inv_Status row = InventoryStatusHeld"
    "inv_HoldToken row = Some (hi_HoldToken item)"
    "\<forall>x. inv_HoldExpiresAt row = Some x \<longrightarrow> (\<exists>n. e_now E n \<le> x)"
    "oa_cache acc (inv_EventID row) = Some categories \<or>
      categories = categories_of_event t (inv_EventID row) (db w)"
    "find (\<lambda>c. etc_ID c = inv_CategoryID row) categories = Some c"
    "oa_count acc (inv_CategoryID row) + 1 \<le> etc_MaxPerOrder c"
    "(if i = 0 then Inr (etc_Price c) else Money_Add (oa_subtotal acc) (etc_Price c)) = Inr sub"
    "\<exists>itemID. acc' = acc\<lparr>oa_cache := (oa_cache acc)(inv_EventID row \<mapsto> categories),
      oa_count := (oa_count acc)(inv_CategoryID row := oa_count acc (inv_CategoryID row) + 1),
      oa_subtotal := sub, oa_expiry := tighten (oa_expiry acc) (inv_HoldExpiresAt row),
      oa_items := oa_items acc @ [\<lparr>oi_ID = itemID, oi_TenantID = t, oi_OrderID = 0,
        oi_InventoryID = inv_ID row, oi_HoldToken = hi_HoldToken item, oi_UnitPrice = etc_Price c,
        oi_CreatedAt = 0\<rparr>]\<rparr>"
    "db w' = db w"
proof -
  let ?w1 = "w\<lparr>tick := Suc (tick w)\<rparr>"
  from assms obtain row w2 categories w3 where
    row: "item_row (db w) t item = Some row"
    and held: "inv_Status row = InventoryStatusHeld" "inv_HoldToken row = Some (hi_HoldToken item)"
    and over: "hold_over E row ?w1 = (Inr False, w2)"
    and cat: "cached_categories E t (inv_EventID row) acc w2 = (Inr categories, w3)"
    and price: "price_item E t i item row categories acc w3 = (Inr acc', w')"
    by (auto simp: CreateOrder_item_def InventoryRepo_GetByID_def comp_iffs QueryRow_Inr_iff split: if_splits)
  from over have d2: "db w2 = db w"
    and live: "\<forall>x. inv_HoldExpiresAt row = Some x \<longrightarrow> (\<exists>n. e_now E n \<le> x)"
    by (auto simp: hold_over_def comp_iffs run_time_Now not_less split: option.splits)
  from cat have d3: "db w3 = db w2" and cs: "oa_cache acc (inv_EventID row) = Some categories \<or>
      categories = categories_of_event t (inv_EventID row) (db w2)"
    by (auto simp: cached_categories_def EventRepo_ListTicketCategories_def comp_iffs pg_query_Inr_iff
        split: option.splits)
  from price obtain c sub where
    c: "find (\<lambda>c. etc_ID c = inv_CategoryID row) categories = Some c"
      "oa_count acc (inv_CategoryID row) + 1 \<le> etc_MaxPerOrder c"
      "(if i = 0 then Inr (etc_Price c) else Money_Add (oa_subtotal acc) (etc_Price c)) = Inr sub"
    and acc': "acc' = acc\<lparr>oa_cache := (oa_cache acc)(inv_EventID row \<mapsto> categories),
      oa_count := (oa_count acc)(inv_CategoryID row := oa_count acc (inv_CategoryID row) + 1),
      oa_subtotal := sub, oa_expiry := tighten (oa_expiry acc) (inv_HoldExpiresAt row),
      oa_items := oa_items acc @ [\<lparr>oi_ID = e_uuid E (tick w3), oi_TenantID = t, oi_OrderID = 0,
        oi_InventoryID = inv_ID row, oi_HoldToken = hi_HoldToken item, oi_UnitPrice = etc_Price c,
        oi_CreatedAt = 0\<rparr>]\<rparr>" and "db w' = db w3"
    by (auto simp: price_item_def Let_def comp_iffs run_uuid_New split: option.splits if_splits sum.splits)
  with d2 d3 have "db w' = db w" by simp
  show ?thesis
    by (rule that [OF row held live cs [unfolded d2] c]) (use acc' \<open>db w' = db w\<close> in blast)+
qed

lemma Money_Add_Inr:
  "Money_Add m n = Inr s \<longleftrightarrow>
     Currency m = Currency n \<and> s = \<lparr>Cents = Cents m + Cents n, Currency = Currency m\<rparr>"
  by (auto simp: Money_Add_def)

text \<open>\<open>event_ticket_categories.id\<close> is a primary key.\<close>

definition categories_ok :: "database \<Rightarrow> bool" where
  "categories_ok d \<longleftrightarrow> distinct (map etc_ID (event_ticket_categories d))"

lemma row_category_unique:
  assumes "categories_ok d" and "row_category d t r = Some c" and "row_category d t r' = Some c'"
    and "inv_CategoryID r = inv_CategoryID r'"
  shows "c = c'"
proof -
  have "c \<in> set (event_ticket_categories d)" "c' \<in> set (event_ticket_categories d)"
    "etc_ID c = inv_CategoryID r" "etc_ID c' = inv_CategoryID r'"
    using assms(2,3) by (auto simp: row_category_def categories_of_event_def find_Some_iff
        dest!: nth_mem)
  with assms(1,4) show ?thesis by (auto simp: categories_ok_def distinct_map inj_on_def)
qed

lemma acc_ok_step:
  assumes run: "CreateOrder_item E t (i, item) acc w = (Inr acc', w')"
    and acc: "acc_ok E (db w) t ys acc" and i: "i = 0 \<longleftrightarrow> ys = []"
    and cats_ok: "categories_ok (db w)"
  shows "acc_ok E (db w') t (ys @ [item]) acc'"
  using run
proof (cases rule: CreateOrder_item_Inr)
  case (1 row categories c sub)
  then obtain itemID where acc': "acc' = acc\<lparr>oa_cache := (oa_cache acc)(inv_EventID row \<mapsto> categories),
      oa_count := (oa_count acc)(inv_CategoryID row := oa_count acc (inv_CategoryID row) + 1),
      oa_subtotal := sub, oa_expiry := tighten (oa_expiry acc) (inv_HoldExpiresAt row),
      oa_items := oa_items acc @ [\<lparr>oi_ID = itemID, oi_TenantID = t, oi_OrderID = 0,
        oi_InventoryID = inv_ID row, oi_HoldToken = hi_HoldToken item, oi_UnitPrice = etc_Price c,
        oi_CreatedAt = 0\<rparr>]\<rparr>" by blast
  have cats: "categories = categories_of_event t (inv_EventID row) (db w)"
    using 1(5) acc by (auto simp: acc_ok_def)
  then have cat: "row_category (db w) t row = Some c"
    using 1(6) by (simp add: row_category_def)
  have new: "item_accepted E (db w) t item \<lparr>oi_ID = itemID, oi_TenantID = t, oi_OrderID = 0,
      oi_InventoryID = inv_ID row, oi_HoldToken = hi_HoldToken item, oi_UnitPrice = etc_Price c,
      oi_CreatedAt = 0\<rparr>"
    using 1 cat by (auto simp: item_accepted_def)
  have max: "oa_count acc' (inv_CategoryID r) \<le> etc_MaxPerOrder c'"
    if "y \<in> set (ys @ [item])" "item_row (db w) t y = Some r" "row_category (db w) t r = Some c'" for y r c'
  proof (cases "inv_CategoryID r = inv_CategoryID row")
    case True
    with row_category_unique [OF cats_ok that(3) cat] 1(7) acc' show ?thesis by simp
  next
    case False
    with that 1(1) have "y \<in> set ys" by auto
    with False that acc acc' show ?thesis by (auto simp: acc_ok_def)
  qed
  have len: "length ys = length (oa_items acc)"
    using acc by (auto simp: acc_ok_def dest: list_all2_lengthD)
  have sub: "Cents sub = sum_list (map (Cents \<circ> oi_UnitPrice) (oa_items acc)) + Cents (etc_Price c) \<and>
      Currency sub = Currency (etc_Price c) \<and> (oa_items acc = [] \<or> Currency (oa_subtotal acc) = Currency sub)"
    using 1(8) acc i len by (cases "ys = []") (auto simp: acc_ok_def Money_Add_Inr)
  show ?thesis
    using acc new max sub cats 1(1,10) acc'
    by (auto simp: acc_ok_def item_category_def item_expiry_def list_all2_appendI)
qed

lemma acc_ok_empty: "acc_ok E d t [] empty_acc"
  by (simp add: acc_ok_def empty_acc_def)

lemma CreateOrder_loop:
  assumes "foldE (CreateOrder_item E t) (enumerate 0 items) empty_acc w = (Inr acc, w')"
    and "categories_ok (db w)"
  shows "acc_ok E (db w) t items acc \<and> db w' = db w"
proof -
  let ?P = "\<lambda>ys a v. acc_ok E (db w) t (map snd ys) a \<and> db v = db w"
  have "?P (enumerate 0 items) acc w'"
  proof (rule foldE_prefix [OF assms(1), where P = ?P])
    show "?P [] empty_acc w" by (simp add: acc_ok_empty)
    fix ys x zs a s b s'
    assume split: "enumerate 0 items = ys @ x # zs" and run: "CreateOrder_item E t x a s = (Inr b, s')"
      and P: "?P ys a s"
    obtain i item where x: "x = (i, item)" by (cases x)
    have "i = length ys"
      using arg_cong [OF split, of "\<lambda>l. l ! length ys"] arg_cong [OF split, of length] x
      by (simp add: nth_append nth_enumerate_eq)
    then have "i = 0 \<longleftrightarrow> map snd ys = []" by simp
    from acc_ok_step [OF run [unfolded x] _ this] P assms(2)
    have "acc_ok E (db s') t (map snd ys @ [item]) b" by simp
    moreover from run x have "db s' = db s" by (auto elim: CreateOrder_item_Inr)
    ultimately show "?P (ys @ [x]) b s'" using P x by simp
  qed
  then show ?thesis by simp
qed

text \<open>What a new order is made of.\<close>

lemma CreateOrder_tx_Inr:
  assumes run: "CreateOrder_tx E t u key items w = (Inr o1, w')" and "categories_ok (db w)"
  obtains acc st now where "acc_ok E (db w) t items acc"
    "ord_TenantID o1 = t" "ord_UserID o1 = u" "ord_IdempotencyKey o1 = key"
    "ord_Status o1 = OrderStatusPending" "ord_ExpiresAt o1 = oa_expiry acc"
    "ord_Total o1 = oa_subtotal acc" "non_negative (ord_Total o1)"
    "list_all2 (stored_item o1) (oa_items acc) st"
    "order_by_key t key (db w) = None"
    "db w' = (db w)\<lparr>orders := orders (db w) @ [order_row now o1], order_items := order_items (db w) @ st\<rparr>"
proof -
  from run obtain acc w1 where
    loop: "foldE (CreateOrder_item E t) (enumerate 0 items) empty_acc w = (Inr acc, w1)"
    by (auto simp: CreateOrder_tx_def comp_iffs)
  from CreateOrder_loop [OF this assms(2)] have acc: "acc_ok E (db w) t items acc" and d1: "db w1 = db w"
    by auto
  define o0 where "o0 = \<lparr>ord_ID = e_uuid E (tick w1), ord_TenantID = t, ord_UserID = u,
      ord_Status = OrderStatusPending, ord_IdempotencyKey = key, ord_Subtotal = oa_subtotal acc,
      ord_Fees = \<lparr>Cents = 0, Currency = Currency (oa_subtotal acc)\<rparr>, ord_Total = oa_subtotal acc,
      ord_ExpiresAt = oa_expiry acc, ord_CreatedAt = 0, ord_UpdatedAt = 0\<rparr>"
  define v where "v = w1\<lparr>tick := Suc (tick w1)\<rparr>"
  have dv: "db v = db w" by (simp add: v_def d1)
  have create: "OrderRepo_CreateWithItems E o0
      (map (\<lambda>it. it\<lparr>oi_OrderID := e_uuid E (tick w1)\<rparr>) (oa_items acc))
      v = (Inr o1, w')"
    using run loop
    by (auto simp: CreateOrder_tx_def comp_iffs Let_def Money_Add_def run_uuid_New o0_def v_def)
  from CreateWithItems_Inr [OF create] obtain i now st where
    o1: "o1 = o0\<lparr>ord_ID := i\<rparr>"
    and st: "list_all2 (stored_item o1) (map (\<lambda>it. it\<lparr>oi_OrderID := e_uuid E (tick w1)\<rparr>) (oa_items acc)) st"
    and more: "non_negative (ord_Total o1)"
      "order_by_key (ord_TenantID o1) (ord_IdempotencyKey o1) (db v) = None"
      "db w' = (db v)\<lparr>orders := orders (db v) @ [order_row now o1],
        order_items := order_items (db v) @ st\<rparr>"
    by blast
  have st': "list_all2 (stored_item o1) (oa_items acc) st"
    using st by (auto simp: list_all2_conv_all_nth stored_item_def)
  show thesis
    by (rule that [OF acc _ _ _ _ _ _ more(1) st', of now])
      (use o1 more(2,3) dv in \<open>simp_all add: o0_def\<close>)
qed

lemma CreateOrder_lookup:
  assumes "OrderRepo_GetByIdempotencyKey E t key w = (q, w1)" and "items \<noteq> []"
  shows "CreateOrder E t u key items w =
    (case q of
      Inr existing \<Rightarrow> (Inr existing, w1)
    | Inl err \<Rightarrow>
        if \<not> errors_Is err ErrNotFound then (Inl (Wrap ''order: check idempotency: %w'' err), w1)
        else WithTx E (CreateOrder_tx E t u key items) w1)"
  using assms by (simp add: CreateOrder_def run_simps split: sum.split)

lemma CreateOrder_nonempty: "CreateOrder E t u key items w = (Inr o1, w') \<Longrightarrow> items \<noteq> []"
  by (auto simp: CreateOrder_def run_simps)

lemma CreateOrder_new:
  assumes "CreateOrder E t u key items w = (Inr o1, w')" and "order_by_key t key (db w) = None"
  obtains w1 w2 where "db w1 = db w" "CreateOrder_tx E t u key items w1 = (Inr o1, w2)" "db w' = db w2"
    "items \<noteq> []"
proof -
  obtain q w1 where q: "OrderRepo_GetByIdempotencyKey E t key w = (q, w1)" by fastforce
  have items: "items \<noteq> []" using assms(1) by (rule CreateOrder_nonempty)
  have "\<exists>err. q = Inl err" and d1: "db w1 = db w"
    using q assms(2) by (cases q; auto simp: OrderRepo_GetByIdempotencyKey_def QueryRow_Inr_iff
        dest: QueryRow_Inl)+
  then have tx: "WithTx E (CreateOrder_tx E t u key items) w1 = (Inr o1, w')"
    using assms(1) CreateOrder_lookup [OF q items, of u] by (auto split: if_splits)
  from WithTx_Inr [OF tx] obtain w2 where
    run: "CreateOrder_tx E t u key items
      (w1\<lparr>tick := Suc (tick w1), tx_now := Some (e_pg_now E (tick w1))\<rparr>) = (Inr o1, w2)"
    and "db w' = db w2" by auto
  with d1 items show thesis by (intro that [OF _ run]) simp_all
qed

text \<open>A known key returns the stored order and does nothing else.\<close>

lemma CreateOrder_known:
  assumes "order_by_key t key (db w) = Some o1" and "items \<noteq> []" and "\<not> e_pg_fault E (tick w)"
  shows "CreateOrder E t u key items w = (Inr o1, w\<lparr>tick := Suc (tick w)\<rparr>)"
proof -
  have "OrderRepo_GetByIdempotencyKey E t key w = (Inr o1, w\<lparr>tick := Suc (tick w)\<rparr>)"
    using assms by (simp add: OrderRepo_GetByIdempotencyKey_def QueryRow_Inr_iff)
  with assms(2) show ?thesis by (simp add: CreateOrder_def run_simps)
qed

lemma CreateOrder_Inl_db:
  assumes "CreateOrder E t u key items w = (Inl e, w')" and "\<And>n. e_commit E n \<noteq> CommitReplyLost"
  shows "db w' = db w"
proof (cases "items = []")
  case True
  with assms(1) show ?thesis by (simp add: CreateOrder_def run_simps)
next
  case False
  obtain q w1 where q: "OrderRepo_GetByIdempotencyKey E t key w = (q, w1)" by fastforce
  then have d1: "db w1 = db w"
    by (cases q) (auto simp: OrderRepo_GetByIdempotencyKey_def QueryRow_Inr_iff dest: QueryRow_Inl)
  show ?thesis
  proof (cases q)
    case (Inl err)
    with assms(1) CreateOrder_lookup [OF q False, of u] d1 show ?thesis
      by (auto split: if_splits dest: WithTx_Inl_db [OF _ assms(2)])
  next
    case (Inr x)
    with assms(1) CreateOrder_lookup [OF q False, of u] show ?thesis by simp
  qed
qed


lemma CreateOrder_new_acc:
  assumes "CreateOrder E t u key items w = (Inr o1, w')" and "order_by_key t key (db w) = None"
    and "categories_ok (db w)"
  obtains acc st now where "acc_ok E (db w) t items acc"
    "ord_TenantID o1 = t" "ord_UserID o1 = u" "ord_IdempotencyKey o1 = key"
    "ord_Status o1 = OrderStatusPending" "ord_ExpiresAt o1 = oa_expiry acc"
    "ord_Total o1 = oa_subtotal acc" "list_all2 (stored_item o1) (oa_items acc) st"
    "map oi_UnitPrice st = map oi_UnitPrice (oa_items acc)"
    "db w' = (db w)\<lparr>orders := orders (db w) @ [order_row now o1], order_items := order_items (db w) @ st\<rparr>"
proof -
  from CreateOrder_new [OF assms(1,2)] obtain w1 w2 where
    tx: "CreateOrder_tx E t u key items w1 = (Inr o1, w2)" and d: "db w1 = db w" "db w' = db w2" by blast
  show thesis
  proof (rule CreateOrder_tx_Inr [OF tx])
    show "categories_ok (db w1)" using assms(3) d by simp
    fix acc :: order_acc and st now
    assume st: "list_all2 (stored_item o1) (oa_items acc) st"
    have "map oi_UnitPrice st = map oi_UnitPrice (oa_items acc)"
      using st by (auto simp: list_all2_conv_all_nth stored_item_def intro!: nth_equalityI)
    moreover assume "acc_ok E (db w1) t items acc"
      "ord_TenantID o1 = t" "ord_UserID o1 = u" "ord_IdempotencyKey o1 = key"
      "ord_Status o1 = OrderStatusPending" "ord_ExpiresAt o1 = oa_expiry acc"
      "ord_Total o1 = oa_subtotal acc"
      "db w2 = (db w1)\<lparr>orders := orders (db w1) @ [order_row now o1],
        order_items := order_items (db w1) @ st\<rparr>"
    ultimately show thesis using st by (intro that) (simp_all add: d)
  qed
qed

text \<open>The tightest expiry is the least one.\<close>

lemma fold_tighten_Some:
  "(\<And>y. y \<in> set ys \<Longrightarrow> f y \<noteq> None) \<Longrightarrow>
   fold (\<lambda>y x. tighten x (f y)) ys (Some m) = Some (Min (insert m (the ` f ` set ys)))"
proof (induction ys arbitrary: m)
  case Nil
  then show ?case by simp
next
  case (Cons y ys)
  then obtain x where "f y = Some x" by fastforce
  with Cons show ?case
    by (cases "ys = []") (auto simp: tighten_def insert_commute min_def)
qed

lemma fold_tighten:
  assumes "\<And>y. y \<in> set ys \<Longrightarrow> f y \<noteq> None" and "ys \<noteq> []"
  shows "fold (\<lambda>y x. tighten x (f y)) ys None = Some (Min (the ` f ` set ys))"
proof (cases ys)
  case (Cons y ys')
  with assms(1) obtain x where "f y = Some x" by fastforce
  with Cons fold_tighten_Some [of ys' f x] assms(1) show ?thesis by (simp add: tighten_def)
qed (simp add: assms(2))

text \<open>A key that an order was made under leads to that order.\<close>

lemma CreateOrder_stored:
  assumes run: "CreateOrder E t u key items w = (Inr o1, w')" and cats: "categories_ok (db w)"
  shows "\<exists>o2. order_by_key t key (db w') = Some o2 \<and> ord_ID o2 = ord_ID o1 \<and>
    ord_UserID o2 = ord_UserID o1 \<and> ord_Total o2 = ord_Total o1 \<and> ord_Status o2 = ord_Status o1"
proof (cases "order_by_key t key (db w)")
  case None
  show ?thesis
    by (rule CreateOrder_new_acc [OF run None cats])
      (use None in \<open>auto simp: order_by_key_def find_append_None order_row_def Let_def\<close>)
next
  case (Some o2)
  obtain q w1 where q: "OrderRepo_GetByIdempotencyKey E t key w = (q, w1)" by fastforce
  with run CreateOrder_lookup [OF q CreateOrder_nonempty [OF run], of u] Some show ?thesis
    by (cases q) (auto simp: OrderRepo_GetByIdempotencyKey_def QueryRow_Inr_iff
        dest!: QueryRow_Inl split: if_splits)
qed

end
