(* ===== verification/PaymentFlow.thy ===== *)
theory PaymentFlow
  imports OrderService
begin

text \<open>
  What \<open>ConfirmPayment\<close> (\<open>internal/service/order/service.go\<close>) does to the seats, the order, the
  outbox and the payment provider, in each of its outcomes.
\<close>

section \<open>Frames\<close>

text \<open>The database without the inventory.\<close>

definition rest_of_db :: "database \<Rightarrow> database" where
  "rest_of_db d = d\<lparr>event_seat_inventory := [], inventory_audit_log := []\<rparr>"

interpretation same_rest: db_frame rest_of_db .

lemma rest_of_db_eq:
  assumes "rest_of_db d' = rest_of_db d"
  shows "orders d' = orders d" "notifications d' = notifications d" "payments d' = payments d"
    "order_items d' = order_items d" "users d' = users d" "tenants d' = tenants d"
proof -
  have "f (rest_of_db d') = f (rest_of_db d)" for f :: "database \<Rightarrow> 'x" using assms by simp
  from this [of orders] this [of notifications] this [of payments] this [of order_items]
    this [of users] this [of tenants]
  show "orders d' = orders d" "notifications d' = notifications d" "payments d' = payments d"
    "order_items d' = order_items d" "users d' = users d" "tenants d' = tenants d"
    by (simp_all add: rest_of_db_def)
qed

lemma inventory_UPDATE_rest: "inventory_UPDATE c f now d = Inr (n, d') \<Longrightarrow> rest_of_db d' = rest_of_db d"
  by (auto simp: inventory_UPDATE_Inr_iff rest_of_db_def)

lemma confirm_item_rest: "moves (\<lambda>w w'. rest_of_db (db w') = rest_of_db (db w)) (confirm_item E t it z)"
  unfolding confirm_item_def InventoryRepo_ConfirmSale_def
  by (intro same_rest.frame.db_moves_intros same_rest.frame.moves_stmt) (rule inventory_UPDATE_rest)

lemma seat_view_inventory: "inventory_part d' = inventory_part d \<Longrightarrow> seat_view d' = seat_view d"
  by (simp add: inventory_part_def seat_view_def inventory_by_id_def fun_eq_iff)

lemma inventory_ok_part: "inventory_part d' = inventory_part d \<Longrightarrow> inventory_ok d' = inventory_ok d"
  by (simp add: inventory_part_def inventory_ok_def)

section \<open>Selling the seats of an order\<close>

abbreviation item_key :: "uuid \<Rightarrow> OrderItem \<Rightarrow> seat_key" where
  "item_key t it \<equiv> (t, oi_InventoryID it)"

definition held_for :: "uuid \<Rightarrow> database \<Rightarrow> OrderItem \<Rightarrow> bool" where
  "held_for t d it \<longleftrightarrow> (\<exists>u x. seat_view d (item_key t it) = Some (HeldBy (oi_HoldToken it) u x))"

lemma confirm_item_Inr:
  assumes "confirm_item E t it z w = (Inr z', w')" and "inventory_ok (db w)"
  shows "held_for t (db w) it \<and> seat_view (db w') = (seat_view (db w))(item_key t it \<mapsto> Taken) \<and>
    inventory_ok (db w')"
proof -
  from assms(1) have run: "InventoryRepo_ConfirmSale E t (oi_InventoryID it) (oi_HoldToken it) w = (Inr True, w')"
    by (auto simp: confirm_item_def comp_iffs split: if_splits)
  from inventory_repo.confirm_obeys [OF assms(2) run] inventory_repo.confirm_ok [OF assms(2) run]
  show ?thesis
    by (auto simp: obeys_def held_for_def split: option.splits Option.bind_splits if_splits
        elim!: seat_step_SomeE)
qed

text \<open>The loop of the transaction sells every item, and no seat twice.\<close>

lemma confirm_items_Inr:
  assumes "foldE (confirm_item E t) items () w = (Inr z, w')" and "inventory_ok (db w)"
  shows "inventory_ok (db w') \<and> list_all (held_for t (db w)) items \<and>
    distinct (map oi_InventoryID items) \<and>
    seat_view (db w') = (\<lambda>k. if k \<in> item_key t ` set items then Some Taken else seat_view (db w) k)"
proof -
  let ?P = "\<lambda>ys z v. inventory_ok (db v) \<and> list_all (held_for t (db w)) ys \<and>
    distinct (map oi_InventoryID ys) \<and>
    seat_view (db v) = (\<lambda>k. if k \<in> item_key t ` set ys then Some Taken else seat_view (db w) k)"
  show ?thesis
  proof (rule foldE_prefix [OF assms(1), where P = ?P])
    show "?P [] () w" using assms(2) by simp
    fix ys it zs a v b v'
    assume run: "confirm_item E t it a v = (Inr b, v')" and P: "?P ys a v"
    have step: "held_for t (db v) it" "seat_view (db v') = (seat_view (db v))(item_key t it \<mapsto> Taken)"
      "inventory_ok (db v')"
      using confirm_item_Inr [OF run] P by auto
    have fresh: "item_key t it \<notin> item_key t ` set ys"
    proof
      assume "item_key t it \<in> item_key t ` set ys"
      with P have "seat_view (db v) (item_key t it) = Some Taken" by simp
      with step(1) show False by (simp add: held_for_def)
    qed
    with P have "seat_view (db v) (item_key t it) = seat_view (db w) (item_key t it)" by simp
    with step(1) have "held_for t (db w) it" by (simp add: held_for_def)
    with step(2,3) fresh P show "?P (ys @ [it]) b v'" by (auto simp: fun_eq_iff image_iff)
  qed
qed

lemma confirm_items_rest:
  "foldE (confirm_item E t) items () w = (r, w') \<Longrightarrow> rest_of_db (db w') = rest_of_db (db w)"
  by (rule moves_run [OF same_rest.frame.moves_fold]) (rule confirm_item_rest)

section \<open>The transaction\<close>

text \<open>From \<open>d\<close> to \<open>d'\<close> the order was confirmed: every item sold, the order paid, the fan's
  confirmation in the outbox, the payments as they were.\<close>

definition confirmed :: "env \<Rightarrow> uuid \<Rightarrow> Order \<Rightarrow> OrderItem list \<Rightarrow> database \<Rightarrow> database \<Rightarrow> bool" where
  "confirmed E t o1 items d d' \<longleftrightarrow>
    list_all (held_for t d) items \<and> distinct (map oi_InventoryID items) \<and>
    seat_view d' = (\<lambda>k. if k \<in> item_key t ` set items then Some Taken else seat_view d k) \<and>
    (\<exists>now. orders d' = sql_update (order_where t (ord_ID o1))
      (\<lambda>x. x\<lparr>ord_Status := OrderStatusPaid, ord_UpdatedAt := now\<rparr>) (orders d)) \<and>
    list_ex (order_where t (ord_ID o1)) (orders d) \<and>
    (\<exists>n. notifications d' = notifications d @ [n] \<and> n_Status n = NotificationStatusPending \<and>
      n_TenantID n = t \<and> n_UserID n = ord_UserID o1 \<and>
      n_Payload n = n_Payload (confirmation E t o1 items)) \<and>
    payments d' = payments d \<and> order_items d' = order_items d"

lemma ConfirmPayment_tx_Inr:
  assumes "ConfirmPayment_tx E t o1 items w = (Inr z, w')" and ok: "inventory_ok (db w)"
  shows "confirmed E t o1 items (db w) (db w') \<and> inventory_ok (db w')"
proof -
  from assms(1) obtain w1 w2 where
    loop: "foldE (confirm_item E t) items () w = (Inr (), w1)"
    and upd: "OrderRepo_UpdateStatus E t (ord_ID o1) OrderStatusPaid w1 = (Inr (), w2)"
    and outbox: "NotificationRepo_Create E (confirmation E t o1 items) w2 = (Inr z, w')"
    by (auto simp: ConfirmPayment_tx_def comp_iffs)
  have d2: "db w2 = (db w1)\<lparr>orders := sql_update (order_where t (ord_ID o1))
      (\<lambda>x. x\<lparr>ord_Status := OrderStatusPaid, ord_UpdatedAt := pg_now E w1\<rparr>) (orders (db w1))\<rparr>"
    and hit: "list_ex (order_where t (ord_ID o1)) (orders (db w1))"
    using upd
    by (auto simp: OrderRepo_UpdateStatus_def ExecUpdate_def comp_iffs pg_stmt_Inr_iff
        orders_SET_status_def sql_affected_0_iff list_ex_iff split: if_splits)
  obtain q w3 where new: "id_or_New E (n_ID (confirmation E t o1 items)) w2 = (q, w3)" by fastforce
  then have d3: "db w3 = db w2" using id_or_New_frame by blast
  from outbox new obtain i where
    "pg_stmt E (notifications_INSERT ((confirmation E t o1 items)\<lparr>n_ID := i\<rparr>)) w3 = (Inr z, w')"
    by (auto simp: NotificationRepo_Create_def comp_iffs)
  then have d4: "db w' = (db w2)\<lparr>notifications := notifications (db w2) @
      [(confirmation E t o1 items)\<lparr>n_ID := i, n_Attempts := 0, n_LastError := None,
        n_CreatedAt := pg_now E w3, n_SentAt := None\<rparr>]\<rparr>"
    by (auto simp: pg_stmt_Inr_iff notifications_INSERT_def pg_insert_Inr_iff d3)
  note rest = rest_of_db_eq [OF confirm_items_rest [OF loop]]
  have inv: "inventory_part (db w') = inventory_part (db w1)"
    by (simp add: d4 d2 inventory_part_def)
  from confirm_items_Inr [OF loop ok] show ?thesis
    using seat_view_inventory [OF inv] inventory_ok_part [OF inv] hit
    by (auto simp: confirmed_def d4 d2 rest confirmation_def)
qed

text \<open>The only error of the transaction that is \<open>ErrExpired\<close> is a hold that is not valid any more.\<close>

lemma confirm_item_Inl:
  assumes "confirm_item E t it z w = (Inl e, w')" and "errors_Is e ErrExpired" and "inventory_ok (db w)"
  shows "\<not> held_for t (db w) it \<and> seat_view (db w') = seat_view (db w)"
proof -
  have run: "InventoryRepo_ConfirmSale E t (oi_InventoryID it) (oi_HoldToken it) w = (Inr False, w')"
    using assms(1,2)
    by (auto simp: confirm_item_def InventoryRepo_ConfirmSale_def comp_iffs split: if_splits
        dest!: pg_stmt_Inl)
  from inventory_repo.confirm_obeys [OF assms(3) run] show ?thesis
    by (auto simp: obeys_def held_for_def split: option.splits)
qed

lemma confirm_items_expired:
  assumes "foldE (confirm_item E t) items () w = (Inl e, w')" and "errors_Is e ErrExpired"
    and "inventory_ok (db w)"
  shows "\<not> (list_all (held_for t (db w)) items \<and> distinct (map oi_InventoryID items))"
  using assms
proof (induction items arbitrary: w)
  case Nil
  then show ?case by (simp add: run_simps)
next
  case (Cons it items)
  from Cons.prems(1) consider "confirm_item E t it () w = (Inl e, w')"
    | w1 where "confirm_item E t it () w = (Inr (), w1)" "foldE (confirm_item E t) items () w1 = (Inl e, w')"
    by (auto simp: comp_iffs)
  then show ?case
  proof cases
    case 1
    with confirm_item_Inl [OF 1 Cons.prems(2,3)] show ?thesis by simp
  next
    case (2 w1)
    note step = confirm_item_Inr [OF 2(1) Cons.prems(3)]
    have "held_for t (db w1) it'" if "held_for t (db w) it'" "oi_InventoryID it' \<noteq> oi_InventoryID it" for it'
      using that step by (simp add: held_for_def)
    then have "list_all (held_for t (db w1)) items"
      if "list_all (held_for t (db w)) items" "oi_InventoryID it \<notin> oi_InventoryID ` set items"
      using that by (auto simp: list_all_iff image_iff)
    with Cons.IH [OF 2(2) Cons.prems(2)] step show ?thesis by auto
  qed
qed

lemma ConfirmPayment_tx_expired:
  assumes "ConfirmPayment_tx E t o1 items w = (Inl e, w')" and "errors_Is e ErrExpired"
    and "inventory_ok (db w)"
  shows "\<not> (list_all (held_for t (db w)) items \<and> distinct (map oi_InventoryID items))"
proof -
  have "foldE (confirm_item E t) items () w = (Inl e, w')"
    using assms(1,2)
    by (auto simp: ConfirmPayment_tx_def OrderRepo_UpdateStatus_def ExecUpdate_def
        NotificationRepo_Create_def id_or_New_def run_uuid_New comp_iffs split: if_splits dest!: pg_stmt_Inl)
  then show ?thesis using assms(2,3) by (rule confirm_items_expired)
qed

section \<open>Outcomes\<close>

text \<open>What the statements after the transaction leave alone.\<close>

interpretation same_but_payments: db_frame "\<lambda>d. d\<lparr>payments := []\<rparr>" .
interpretation same_but_order: db_frame "\<lambda>d. d\<lparr>payments := [], orders := []\<rparr>" .

lemma PaymentRepo_UpdateStatus_frame:
  "moves (\<lambda>w w'. (db w')\<lparr>payments := []\<rparr> = (db w)\<lparr>payments := []\<rparr>) (PaymentRepo_UpdateStatus E t i st ppid raw)"
  unfolding PaymentRepo_UpdateStatus_def
  by (rule same_but_payments.frame.moves_ExecUpdate) (auto simp: payments_SET_status_def split: if_splits)

lemma refundAndFail_frame:
  "moves (\<lambda>w w'. (db w')\<lparr>payments := [], orders := []\<rparr> = (db w)\<lparr>payments := [], orders := []\<rparr>)
    (refundAndFail E g t o1 p)"
  unfolding refundAndFail_def PaymentRepo_UpdateStatus_def OrderRepo_UpdateStatus_def
  by (intro same_but_order.frame.db_moves_intros same_but_order.frame.moves_ExecUpdate)
    (auto simp: moves_def gateway_keeps_db payments_SET_status_def orders_SET_status_def split: if_splits)

lemma but_payments_eq:
  assumes "d'\<lparr>payments := []\<rparr> = d\<lparr>payments := []\<rparr>"
  shows "orders d' = orders d" "notifications d' = notifications d" "inventory_part d' = inventory_part d"
proof -
  have "f (d'\<lparr>payments := []\<rparr>) = f (d\<lparr>payments := []\<rparr>)" for f :: "database \<Rightarrow> 'x" using assms by simp
  from this [of orders] this [of notifications] this [of inventory_part]
  show "orders d' = orders d" "notifications d' = notifications d" "inventory_part d' = inventory_part d"
    by (simp_all add: inventory_part_def)
qed

lemma but_order_eq:
  assumes "d'\<lparr>payments := [], orders := []\<rparr> = d\<lparr>payments := [], orders := []\<rparr>"
  shows "notifications d' = notifications d" "inventory_part d' = inventory_part d"
proof -
  have "f (d'\<lparr>payments := [], orders := []\<rparr>) = f (d\<lparr>payments := [], orders := []\<rparr>)"
    for f :: "database \<Rightarrow> 'x" using assms by simp
  from this [of notifications] this [of inventory_part]
  show "notifications d' = notifications d" "inventory_part d' = inventory_part d"
    by (simp_all add: inventory_part_def)
qed

lemma ConfirmPayment_tx_no_gateway:
  "moves (\<lambda>w w'. gateway_calls w' = gateway_calls w) (ConfirmPayment_tx E t o1 items)"
  unfolding ConfirmPayment_tx_def confirm_item_def InventoryRepo_ConfirmSale_def
    OrderRepo_UpdateStatus_def NotificationRepo_Create_def
  by (intro no_gateway.outside_intros)

lemma PaymentRepo_UpdateStatus_no_gateway:
  "moves (\<lambda>w w'. gateway_calls w' = gateway_calls w) (PaymentRepo_UpdateStatus E t i st ppid raw)"
  unfolding PaymentRepo_UpdateStatus_def by (intro no_gateway.outside_intros)

lemma refundAndFail_gateway:
  "gateway_calls (snd (refundAndFail E g t o1 p w)) =
     gateway_calls w @ [RefundRequested (pay_ProviderPaymentID p) (pay_Amount p)]"
proof -
  let ?m = "\<lambda>refundID. bindE (wrapE ''mark payment refunded: %w''
      (PaymentRepo_UpdateStatus E t (pay_ID p) PaymentStatusRefunded ''''
        (Some (''{'' @ fmt_q ''refund_id'' @ '':'' @ fmt_q refundID @ ''}'')))) (\<lambda>_.
    wrapE ''mark order expired: %w'' (OrderRepo_UpdateStatus E t (ord_ID o1) OrderStatusExpired))"
  have after: "gateway_calls (snd (?m refundID v)) = gateway_calls v" for refundID v
    unfolding PaymentRepo_UpdateStatus_def OrderRepo_UpdateStatus_def
    by (rule movesD) (intro no_gateway.outside_intros)
  obtain q v where refund: "Gateway_Refund E g (pay_ProviderPaymentID p) (pay_Amount p)
      ''inventory hold expired before fulfillment could be confirmed'' w = (q, v)" by fastforce
  from gateway_calls_made(2) [of E g "pay_ProviderPaymentID p" "pay_Amount p" _ w] refund
  have v: "gateway_calls v = gateway_calls w @ [RefundRequested (pay_ProviderPaymentID p) (pay_Amount p)]"
    by (metis snd_conv)
  show ?thesis
  proof (cases q)
    case (Inl e)
    with refund v show ?thesis by (simp add: refundAndFail_def bindE_def mapErrE_def)
  next
    case (Inr refundID)
    then have "refundAndFail E g t o1 p w = ?m refundID v"
      using refund by (simp add: refundAndFail_def bindE_def mapErrE_def)
    with after v show ?thesis by simp
  qed
qed


text \<open>
  The three ways a settlement ends: the order is confirmed and no money moves back; nothing of it is
  done, to be tried again; its holds are gone and exactly one refund of the payment is requested.
\<close>

lemma ConfirmPayment_settle_cases:
  assumes run: "ConfirmPayment_settle E g t o1 p items w = (r, w')" and ok: "inventory_ok (db w)"
  obtains (sold) d where "confirmed E t o1 items (db w) d" "(db w')\<lparr>payments := []\<rparr> = d\<lparr>payments := []\<rparr>"
      "gateway_calls w' = gateway_calls w"
  | (kept) e where "r = Inl e" "db w' = db w" "gateway_calls w' = gateway_calls w"
  | (refunded) e where "r = Inl e"
      "\<not> (list_all (held_for t (db w)) items \<and> distinct (map oi_InventoryID items))"
      "(db w')\<lparr>payments := [], orders := []\<rparr> = (db w)\<lparr>payments := [], orders := []\<rparr>"
      "gateway_calls w' = gateway_calls w @ [RefundRequested (pay_ProviderPaymentID p) (pay_Amount p)]"
proof -
  obtain q w1 where tx: "WithTx E (ConfirmPayment_tx E t o1 items) w = (q, w1)" by fastforce
  have g1: "gateway_calls w1 = gateway_calls w"
    by (rule moves_run [OF no_gateway.outside_tx [OF ConfirmPayment_tx_no_gateway] tx])
  show thesis
  proof (cases "\<exists>e. q = Inl e \<and> errors_Is e ErrExpired")
    case True
    then obtain e where e: "q = Inl e" "errors_Is e ErrExpired" by blast
    with WithTx_Inl_body [OF tx [unfolded e(1)]] obtain v where
      body: "ConfirmPayment_tx E t o1 items
        (w\<lparr>tick := Suc (tick w), tx_now := Some (e_pg_now E (tick w))\<rparr>) = (Inl e, v)" "db w1 = db w"
      by auto
    have gone: "\<not> (list_all (held_for t (db w)) items \<and> distinct (map oi_InventoryID items))"
      using ConfirmPayment_tx_expired [OF body(1) e(2)] ok by simp
    obtain q2 w2 where refund: "refundAndFail E g t o1 p w1 = (q2, w2)" by fastforce
    have "w' = w2" and "\<exists>e. r = Inl e"
      using run tx e refund by (auto simp: ConfirmPayment_settle_def run_simps split: sum.splits)
    with moves_run [OF refundAndFail_frame refund] refundAndFail_gateway [of E g t o1 p w1] refund
      gone body(2) g1 show thesis by (auto intro: refunded)
  next
    case False
    then have rest: "(\<exists>e. q = Inl e \<and> r = Inl e \<and> w' = w1) \<or>
        (\<exists>z. q = Inr z \<and> w' = snd (PaymentRepo_UpdateStatus E t (pay_ID p) PaymentStatusCaptured '''' None w1))"
      using run tx by (auto simp: ConfirmPayment_settle_def run_simps split: sum.splits prod.splits)
    have after: "(db w')\<lparr>payments := []\<rparr> = (db w1)\<lparr>payments := []\<rparr> \<and> gateway_calls w' = gateway_calls w"
      using rest g1 movesD [OF PaymentRepo_UpdateStatus_frame] movesD [OF PaymentRepo_UpdateStatus_no_gateway]
      by auto
    from tx show thesis
    proof (cases rule: WithTx_cases)
      case (undone e)
      with rest g1 show thesis by (auto intro: kept)
    next
      case (applied z v)
      with ConfirmPayment_tx_Inr [OF applied(1)] ok after show thesis by (auto intro: sold)
    qed
  qed
qed

text \<open>The reads before the settlement leave the database and the provider alone.\<close>

lemma ConfirmPayment_load_frame:
  "moves (\<lambda>w w'. db w' = db w) (ConfirmPayment_load E t oid pid)"
  "moves (\<lambda>w w'. gateway_calls w' = gateway_calls w) (ConfirmPayment_load E t oid pid)"
  unfolding ConfirmPayment_load_def OrderRepo_GetByID_def PaymentRepo_GetByID_def OrderRepo_ListItems_def
  by (intro same_db.frame.db_moves_intros, intro no_gateway.outside_intros)

lemma ConfirmPayment_load_Inr:
  assumes "ConfirmPayment_load E t oid pid w = (Inr loaded, w')"
  shows "\<exists>o1. order_by_id t oid (db w) = Some o1 \<and>
    (if ord_Status o1 = OrderStatusPaid then loaded = None
     else \<exists>p. payment_by_id t pid (db w) = Some p \<and> pay_OrderID p = ord_ID o1 \<and>
       loaded = Some (o1, p, items_of_order t (ord_ID o1) (db w)))"
  using assms
  by (auto simp: ConfirmPayment_load_def OrderRepo_GetByID_def PaymentRepo_GetByID_def
      OrderRepo_ListItems_def comp_iffs QueryRow_Inr_iff pg_query_Inr_iff split: if_splits)


section \<open>When Postgres answers\<close>

lemma InventoryRepo_ConfirmSale_answers:
  assumes "pg_healthy E"
  shows "\<exists>b w'. InventoryRepo_ConfirmSale E t i tok w = (Inr b, w')"
proof -
  obtain n d' where "inventory_UPDATE (token_where t i tok) (clear_hold InventoryStatusSold)
      (pg_now E w) (db w) = Inr (n, d')"
    using inventory_UPDATE_clear by blast
  with assms show ?thesis
    by (auto simp: InventoryRepo_ConfirmSale_def run_simps pg_stmt_def pg_healthy_def)
qed

lemma confirm_item_answers:
  assumes "pg_healthy E" and "inventory_ok (db w)"
  shows "if held_for t (db w) it then \<exists>w'. confirm_item E t it () w = (Inr (), w')
    else \<exists>e w'. confirm_item E t it () w = (Inl e, w') \<and> errors_Is e ErrExpired"
proof -
  obtain b w' where run: "InventoryRepo_ConfirmSale E t (oi_InventoryID it) (oi_HoldToken it) w = (Inr b, w')"
    using InventoryRepo_ConfirmSale_answers [OF assms(1)] by blast
  have "b \<longleftrightarrow> held_for t (db w) it"
    using inventory_repo.confirm_obeys [OF assms(2) run]
    by (auto simp: obeys_def held_for_def split: option.splits Option.bind_splits if_splits
        elim!: seat_step_SomeE)
  with run show ?thesis by (simp add: confirm_item_def run_simps)
qed

lemma confirm_items_answers:
  assumes "pg_healthy E" and "inventory_ok (db w)"
  shows "if list_all (held_for t (db w)) items \<and> distinct (map oi_InventoryID items)
    then \<exists>w'. foldE (confirm_item E t) items () w = (Inr (), w')
    else \<exists>e w'. foldE (confirm_item E t) items () w = (Inl e, w') \<and> errors_Is e ErrExpired"
  using assms(2)
proof (induction items arbitrary: w)
  case Nil
  then show ?case by (simp add: run_simps)
next
  case (Cons it items)
  show ?case
  proof (cases "held_for t (db w) it")
    case False
    with confirm_item_answers [OF assms(1) Cons.prems, of t it] show ?thesis
      by (auto simp: bindE_def)
  next
    case True
    with confirm_item_answers [OF assms(1) Cons.prems, of t it] obtain w1 where
      run: "confirm_item E t it () w = (Inr (), w1)" by auto
    note step = confirm_item_Inr [OF run Cons.prems]
    have same: "held_for t (db w1) it' \<longleftrightarrow> held_for t (db w) it'"
      if "oi_InventoryID it' \<noteq> oi_InventoryID it" for it'
      using that step by (simp add: held_for_def)
    have gone: "\<not> held_for t (db w1) it'" if "oi_InventoryID it' = oi_InventoryID it" for it'
      using that step by (simp add: held_for_def)
    have "list_all (held_for t (db w1)) items \<longleftrightarrow>
        list_all (held_for t (db w)) items \<and> oi_InventoryID it \<notin> oi_InventoryID ` set items"
    proof
      assume all: "list_all (held_for t (db w1)) items"
      then have "oi_InventoryID it' \<noteq> oi_InventoryID it" if "it' \<in> set items" for it'
        using that gone by (auto simp: list_all_iff)
      with all same show "list_all (held_for t (db w)) items \<and> oi_InventoryID it \<notin> oi_InventoryID ` set items"
        by (auto simp: list_all_iff) metis
    next
      assume "list_all (held_for t (db w)) items \<and> oi_InventoryID it \<notin> oi_InventoryID ` set items"
      with same show "list_all (held_for t (db w1)) items" by (auto simp: list_all_iff image_iff)
    qed
    with Cons.IH [of w1] step run True show ?thesis
      by (auto simp: bindE_def split: if_splits)
  qed
qed

lemma ConfirmPayment_settle_gone:
  assumes "pg_healthy E" and "inventory_ok (db w)"
    and "\<not> (list_all (held_for t (db w)) items \<and> distinct (map oi_InventoryID items))"
  shows "\<exists>e w'. ConfirmPayment_settle E g t o1 p items w = (Inl e, w') \<and>
    gateway_calls w' = gateway_calls w @ [RefundRequested (pay_ProviderPaymentID p) (pay_Amount p)]"
proof -
  let ?w = "w\<lparr>tick := Suc (tick w), tx_now := Some (e_pg_now E (tick w))\<rparr>"
  have ok: "inventory_ok (db ?w)" using assms(2) by simp
  from assms(3) confirm_items_answers [OF assms(1) ok, of t items] obtain e v where
    "foldE (confirm_item E t) items () ?w = (Inl e, v)" and e: "errors_Is e ErrExpired"
    by auto
  then have "ConfirmPayment_tx E t o1 items ?w = (Inl e, v)" by (simp add: ConfirmPayment_tx_def bindE_def)
  then have tx: "WithTx E (ConfirmPayment_tx E t o1 items) w = (Inl e, v\<lparr>db := db w, tx_now := tx_now w\<rparr>)"
    using assms(1) by (simp add: WithTx_body_error pg_healthy_def)
  have g: "gateway_calls (v\<lparr>db := db w, tx_now := tx_now w\<rparr>) = gateway_calls w"
    by (rule moves_run [OF no_gateway.outside_tx [OF ConfirmPayment_tx_no_gateway] tx])
  obtain q w2 where refund: "refundAndFail E g t o1 p (v\<lparr>db := db w, tx_now := tx_now w\<rparr>) = (q, w2)"
    by fastforce
  with refundAndFail_gateway [of E g t o1 p "v\<lparr>db := db w, tx_now := tx_now w\<rparr>"] g
  have "gateway_calls w2 = gateway_calls w @ [RefundRequested (pay_ProviderPaymentID p) (pay_Amount p)]"
    by simp
  moreover have "\<exists>e. ConfirmPayment_settle E g t o1 p items w = (Inl e, w2)"
    using tx refund e by (simp add: ConfirmPayment_settle_def run_simps split: sum.split)
  ultimately show ?thesis by blast
qed


text \<open>What the rows an order refers to must be for its confirmation to go through.\<close>

definition confirmable :: "env \<Rightarrow> uuid \<Rightarrow> Order \<Rightarrow> Payment \<Rightarrow> database \<Rightarrow> bool" where
  "confirmable E t o1 p d \<longleftrightarrow>
    list_ex (order_where t (ord_ID o1)) (orders d) \<and> list_ex (payment_where t (pay_ID p)) (payments d) \<and>
    list_ex (\<lambda>x. t_ID x = t) (tenants d) \<and> list_ex (\<lambda>u. u_ID u = ord_UserID o1) (users d) \<and>
    (\<forall>n. \<forall>x \<in> set (notifications d). n_ID x \<noteq> e_uuid E n)"

lemma ConfirmPayment_tx_answers:
  assumes E: "pg_healthy E" and ok: "inventory_ok (db w)" and rows: "confirmable E t o1 p (db w)"
    and items: "list_all (held_for t (db w)) items" "distinct (map oi_InventoryID items)"
  shows "\<exists>w'. ConfirmPayment_tx E t o1 items w = (Inr (), w')"
proof -
  obtain w1 where loop: "foldE (confirm_item E t) items () w = (Inr (), w1)"
    using confirm_items_answers [OF E ok, of t items] items by auto
  note rest = rest_of_db_eq [OF confirm_items_rest [OF loop]]
  have hit: "sql_affected (order_where t (ord_ID o1)) (orders (db w1)) \<noteq> 0"
    using rows by (simp add: confirmable_def rest sql_affected_0_iff list_ex_iff)
  obtain w2 where upd: "OrderRepo_UpdateStatus E t (ord_ID o1) OrderStatusPaid w1 = (Inr (), w2)"
    and d2: "notifications (db w2) = notifications (db w1)" "tenants (db w2) = tenants (db w1)"
      "users (db w2) = users (db w1)"
    using E hit by (simp add: OrderRepo_UpdateStatus_def ExecUpdate_def orders_SET_status_def pg_stmt_def
        pg_healthy_def run_simps)
  obtain w3 where "NotificationRepo_Create E (confirmation E t o1 items) w2 = (Inr (), w3)"
    using E rows d2 rest
    by (auto simp: NotificationRepo_Create_def id_or_New_def run_simps pg_stmt_def pg_healthy_def
        notifications_INSERT_def pg_insert_def confirmation_def confirmable_def list_all_iff)
  with loop upd show ?thesis by (simp add: ConfirmPayment_tx_def run_simps)
qed

lemma ConfirmPayment_settle_sells:
  assumes E: "pg_healthy E" and ok: "inventory_ok (db w)" and rows: "confirmable E t o1 p (db w)"
    and items: "list_all (held_for t (db w)) items" "distinct (map oi_InventoryID items)"
  shows "\<exists>w'. ConfirmPayment_settle E g t o1 p items w = (Inr (), w')"
proof -
  let ?w = "w\<lparr>tick := Suc (tick w), tx_now := Some (e_pg_now E (tick w))\<rparr>"
  obtain w1 where body: "ConfirmPayment_tx E t o1 items ?w = (Inr (), w1)"
    using ConfirmPayment_tx_answers [OF E, of ?w t o1 p items] ok rows items by auto
  have "payments (db w1) = payments (db w)"
    using ConfirmPayment_tx_Inr [OF body] ok by (simp add: confirmed_def)
  then have "sql_affected (payment_where t (pay_ID p)) (payments (db w1)) \<noteq> 0"
    using rows by (simp add: confirmable_def sql_affected_0_iff list_ex_iff)
  then show ?thesis
    using E WithTx_healthy [of E "ConfirmPayment_tx E t o1 items", OF E body]
    by (simp add: ConfirmPayment_settle_def run_simps PaymentRepo_UpdateStatus_def ExecUpdate_def
        payments_SET_status_def pg_stmt_def pg_healthy_def)
qed

section \<open>Repeated webhooks\<close>

text \<open>A webhook repeated after the order was confirmed finds it paid and does nothing.\<close>

lemma ConfirmPayment_paid:
  assumes "order_by_id t oid (db w) = Some o1" and "ord_Status o1 = OrderStatusPaid"
    and "\<not> e_pg_fault E (tick w)"
  shows "ConfirmPayment E g t oid pid w = (Inr (), w\<lparr>tick := Suc (tick w)\<rparr>)"
proof -
  have "OrderRepo_GetByID E t oid w = (Inr o1, w\<lparr>tick := Suc (tick w)\<rparr>)"
    using assms by (simp add: OrderRepo_GetByID_def QueryRow_Inr_iff)
  with assms(2) show ?thesis by (simp add: ConfirmPayment_def ConfirmPayment_load_def run_simps)
qed

text \<open>
  The status is read before the transaction.  Of two webhooks that both read it before either has
  settled, the second finds the seats sold and takes that for an expired hold.
\<close>

lemma ConfirmPayment_settle_twice:
  assumes E: "pg_healthy E" and ok: "inventory_ok (db w)" and items: "items \<noteq> []"
    and first: "ConfirmPayment_settle E g t o1 p items w = (Inr (), w1)"
  shows "\<exists>e w2. ConfirmPayment_settle E g t o1 p items w1 = (Inl e, w2) \<and>
    gateway_calls w2 = gateway_calls w @ [RefundRequested (pay_ProviderPaymentID p) (pay_Amount p)]"
  using first ok
proof (cases rule: ConfirmPayment_settle_cases)
  case (sold d)
  note inv = but_payments_eq(3) [OF sold(2)]
  obtain it where it: "it \<in> set items" using items by (cases items) auto
  then have "seat_view (db w1) (item_key t it) = Some Taken"
    using sold(1) seat_view_inventory [OF inv] by (simp add: confirmed_def)
  then have gone: "\<not> (list_all (held_for t (db w1)) items \<and> distinct (map oi_InventoryID items))"
    using it by (fastforce simp: list_all_iff held_for_def)
  have ok1: "inventory_ok (db w1)"
    using moves_run [OF ConfirmPayment_settle_history first] ok by (rule history_ok)
  from ConfirmPayment_settle_gone [OF E ok1 gone, of g o1 p] sold(3) show ?thesis by simp
qed auto


section \<open>Refunds and authorizations\<close>

lemma order_by_id_SET:
  assumes "order_by_id t i d = Some o1"
    and "orders d' = sql_update (order_where t i) (\<lambda>x. x\<lparr>ord_Status := st, ord_UpdatedAt := now\<rparr>) (orders d)"
  shows "order_by_id t i d' = Some (o1\<lparr>ord_Status := st, ord_UpdatedAt := now\<rparr>)"
proof -
  have "find (\<lambda>x. (ord_ID x, ord_TenantID x) = (i, t)) (orders d) = Some o1"
    using assms(1) by (simp add: order_by_id_def)
  then show ?thesis
    unfolding order_by_id_def assms(2)
    using find_key_sql_update [of "\<lambda>x. (ord_ID x, ord_TenantID x)"
        "\<lambda>x. x\<lparr>ord_Status := st, ord_UpdatedAt := now\<rparr>" "(i, t)" "order_where t i" "orders d"]
    by (auto simp: order_where_def find_Some_iff)
qed

lemma payment_by_id_SET:
  assumes "payment_by_id t i d = Some p"
    and "payments d' = sql_update (payment_where t i) (payment_set st ppid raw now) (payments d)"
  shows "payment_by_id t i d' = Some (payment_set st ppid raw now p)"
proof -
  have "find (\<lambda>x. (pay_ID x, pay_TenantID x) = (i, t)) (payments d) = Some p"
    using assms(1) by (simp add: payment_by_id_def)
  then show ?thesis
    unfolding payment_by_id_def assms(2)
    using find_key_sql_update [of "\<lambda>x. (pay_ID x, pay_TenantID x)"
        "payment_set st ppid raw now" "(i, t)" "payment_where t i" "payments d"]
    by (auto simp: payment_where_def payment_set_def find_Some_iff)
qed

text \<open>A refund that goes through marks the payment refunded, with the refund's id kept and the charge's
  id untouched, and the order expired.\<close>

lemma refundAndFail_Inr:
  assumes run: "refundAndFail E g t o1 p w = (Inr z, w')"
    and "order_by_id t (ord_ID o1) (db w) = Some o0" and "payment_by_id t (pay_ID p) (db w) = Some p0"
  shows "\<exists>o2 p2. order_by_id t (ord_ID o1) (db w') = Some o2 \<and> ord_Status o2 = OrderStatusExpired \<and>
    payment_by_id t (pay_ID p) (db w') = Some p2 \<and> pay_Status p2 = PaymentStatusRefunded \<and>
    pay_ProviderPaymentID p2 = pay_ProviderPaymentID p0 \<and> pay_Amount p2 = pay_Amount p0 \<and>
    pay_RawResponse p2 \<noteq> None"
proof -
  from run obtain rid w1 w2 where
    g: "Gateway_Refund E g (pay_ProviderPaymentID p) (pay_Amount p)
      ''inventory hold expired before fulfillment could be confirmed'' w = (Inr rid, w1)"
    and pay: "PaymentRepo_UpdateStatus E t (pay_ID p) PaymentStatusRefunded ''''
      (Some (''{'' @ fmt_q ''refund_id'' @ '':'' @ fmt_q rid @ ''}'')) w1 = (Inr (), w2)"
    and ord: "OrderRepo_UpdateStatus E t (ord_ID o1) OrderStatusExpired w2 = (Inr z, w')"
    by (auto simp: refundAndFail_def comp_iffs)
  have d1: "db w1 = db w" using gateway_keeps_db(2) [of E g "pay_ProviderPaymentID p" "pay_Amount p" _ w] g
    by (metis snd_conv)
  from pay obtain now raw where d2: "db w2 = (db w1)\<lparr>payments := sql_update (payment_where t (pay_ID p))
      (payment_set PaymentStatusRefunded '''' (Some raw) now) (payments (db w1))\<rparr>"
    by (auto simp: PaymentRepo_UpdateStatus_def ExecUpdate_def comp_iffs pg_stmt_Inr_iff
        payments_SET_status_def split: if_splits)
  from ord obtain now' where d3: "db w' = (db w2)\<lparr>orders := sql_update (order_where t (ord_ID o1))
      (\<lambda>x. x\<lparr>ord_Status := OrderStatusExpired, ord_UpdatedAt := now'\<rparr>) (orders (db w2))\<rparr>"
    by (auto simp: OrderRepo_UpdateStatus_def ExecUpdate_def comp_iffs pg_stmt_Inr_iff
        orders_SET_status_def split: if_splits)
  have "order_by_id t (ord_ID o1) (db w') =
      Some (o0\<lparr>ord_Status := OrderStatusExpired, ord_UpdatedAt := now'\<rparr>)"
    by (rule order_by_id_SET [OF assms(2)]) (simp add: d3 d2 d1)
  moreover have "payment_by_id t (pay_ID p) (db w') =
      Some (payment_set PaymentStatusRefunded '''' (Some raw) now p0)"
    by (rule payment_by_id_SET [OF assms(3)]) (simp add: d3 d2 d1)
  ultimately show ?thesis by (simp add: payment_set_def)
qed

lemma PaymentRepo_Create_no_gateway:
  "moves (\<lambda>w w'. gateway_calls w' = gateway_calls w) (PaymentRepo_Create E p)"
  unfolding PaymentRepo_Create_def by (intro no_gateway.outside_intros)

lemma OrderRepo_UpdateStatus_no_gateway:
  "moves (\<lambda>w w'. gateway_calls w' = gateway_calls w) (OrderRepo_UpdateStatus E t i st)"
  unfolding OrderRepo_UpdateStatus_def by (intro no_gateway.outside_intros)

lemma PaymentRepo_Create_Inr:
  assumes "PaymentRepo_Create E p w = (Inr (), w')"
  shows "\<exists>q. db w' = (db w)\<lparr>payments := payments (db w) @ [q]\<rparr> \<and> pay_OrderID q = pay_OrderID p \<and>
    pay_Amount q = pay_Amount p \<and> pay_Status q = pay_Status p \<and> pay_IdempotencyKey q = pay_IdempotencyKey p"
  using assms
  by (auto simp: PaymentRepo_Create_def comp_iffs id_or_New_def run_uuid_New conflictE_def pg_stmt_Inr_iff
      payments_INSERT_def pg_insert_Inr_iff split: if_splits)

lemma OrderRepo_UpdateStatus_Inr:
  assumes "OrderRepo_UpdateStatus E t i st w = (Inr (), w')"
  shows "\<exists>now. db w' = (db w)\<lparr>orders := sql_update (order_where t i)
    (\<lambda>x. x\<lparr>ord_Status := st, ord_UpdatedAt := now\<rparr>) (orders (db w))\<rparr>"
  using assms
  by (auto simp: OrderRepo_UpdateStatus_def ExecUpdate_def comp_iffs pg_stmt_Inr_iff
      orders_SET_status_def split: if_splits)

lemma AuthorizePayment_Inr:
  assumes run: "AuthorizePayment E g t oid w = (Inr secret, w')"
    and "order_by_id t oid (db w) = Some o1"
  shows "ord_Status o1 = OrderStatusPending \<and>
    gateway_calls w' = gateway_calls w @ [IntentRequested (ord_Total o1) (ord_IdempotencyKey o1)] \<and>
    (\<exists>p. payments (db w') = payments (db w) @ [p] \<and> pay_OrderID p = oid \<and> pay_Amount p = ord_Total o1 \<and>
      pay_Status p = PaymentStatusPending \<and> pay_IdempotencyKey p = ord_IdempotencyKey o1) \<and>
    (\<exists>o2. order_by_id t oid (db w') = Some o2 \<and> ord_Status o2 = OrderStatusAwaitingPayment \<and>
      ord_Total o2 = ord_Total o1)"
proof -
  have id: "ord_ID o1 = oid" using assms(2) by (auto simp: order_by_id_def find_Some_iff)
  let ?w0 = "w\<lparr>tick := Suc (tick w)\<rparr>"
  from run assms(2) obtain ppid w1 pid w2 w3 where
    pend: "ord_Status o1 = OrderStatusPending"
    and g: "Gateway_CreateIntent E g (ord_Total o1) (ord_IdempotencyKey o1)
      [(''order_id'', e_uuid_String E (ord_ID o1)), (''tenant_id'', e_uuid_String E (ord_TenantID o1))]
      ?w0 = (Inr (ppid, secret), w1)"
    and w2: "w2 = w1\<lparr>tick := Suc (tick w1)\<rparr>"
    and pay: "PaymentRepo_Create E \<lparr>pay_ID = pid, pay_TenantID = t, pay_OrderID = ord_ID o1,
        pay_Provider = PaymentProviderStripe, pay_ProviderPaymentID = ppid,
        pay_Status = PaymentStatusPending, pay_Amount = ord_Total o1,
        pay_IdempotencyKey = ord_IdempotencyKey o1, pay_RawResponse = None, pay_CreatedAt = 0,
        pay_UpdatedAt = 0\<rparr> w2 = (Inr (), w3)"
    and ord: "OrderRepo_UpdateStatus E t oid OrderStatusAwaitingPayment w3 = (Inr (), w')"
    by (auto simp: AuthorizePayment_def comp_iffs OrderRepo_GetByID_def QueryRow_Inr_iff run_uuid_New id
        split: if_splits prod.splits)
  have calls: "gateway_calls w1 = gateway_calls w @ [IntentRequested (ord_Total o1) (ord_IdempotencyKey o1)]"
    using gateway_calls_made(1) [of E g "ord_Total o1" "ord_IdempotencyKey o1" _ ?w0] g
    by (metis snd_conv no_gateway.part_tick)
  have "db w1 = db ?w0"
    using gateway_keeps_db(1) [of E g "ord_Total o1" "ord_IdempotencyKey o1" _ ?w0] g by (metis snd_conv)
  then have d2: "db w2 = db w" using w2 by simp
  from PaymentRepo_Create_Inr [OF pay] obtain p where d3: "db w3 = (db w)\<lparr>payments := payments (db w) @ [p]\<rparr>"
    and p: "pay_OrderID p = ord_ID o1" "pay_Amount p = ord_Total o1" "pay_Status p = PaymentStatusPending"
      "pay_IdempotencyKey p = ord_IdempotencyKey o1"
    by (auto simp: d2)
  from OrderRepo_UpdateStatus_Inr [OF ord] obtain now' where d4: "db w' = (db w3)\<lparr>orders :=
      sql_update (order_where t oid) (\<lambda>x. x\<lparr>ord_Status := OrderStatusAwaitingPayment, ord_UpdatedAt := now'\<rparr>)
        (orders (db w3))\<rparr>"
    by blast
  have "order_by_id t oid (db w') =
      Some (o1\<lparr>ord_Status := OrderStatusAwaitingPayment, ord_UpdatedAt := now'\<rparr>)"
    by (rule order_by_id_SET [OF assms(2)]) (simp add: d4 d3)
  moreover have "gateway_calls w3 = gateway_calls w2"
    using pay by (rule moves_run [OF PaymentRepo_Create_no_gateway])
  moreover have "gateway_calls w' = gateway_calls w3"
    using ord by (rule moves_run [OF OrderRepo_UpdateStatus_no_gateway])
  ultimately show ?thesis using pend calls w2 p by (simp add: d4 d3 id)
qed

text \<open>A payment intent is asked for only for an order that is pending.\<close>

lemma AuthorizePayment_not_pending:
  assumes "order_by_id t oid (db w) = Some o1" and "ord_Status o1 \<noteq> OrderStatusPending"
    and "AuthorizePayment E g t oid w = (r, w')"
  shows "(\<exists>e. r = Inl e) \<and> db w' = db w \<and> gateway_calls w' = gateway_calls w"
proof -
  obtain q w1 where q: "OrderRepo_GetByID E t oid w = (q, w1)" by fastforce
  have "w1 = w\<lparr>tick := Suc (tick w)\<rparr>" and "q = Inr o1 \<or> (\<exists>e. q = Inl e)"
    using q assms(1) by (cases q; auto simp: OrderRepo_GetByID_def QueryRow_Inr_iff dest: QueryRow_Inl)+
  with q assms(2,3) show ?thesis
    by (auto simp: AuthorizePayment_def bindE_def mapErrE_def throwE_def)
qed

end
