(* ===== verification/HttpHandlers.thy ===== *)
theory HttpHandlers
  imports HttpBase PaymentFlow
begin

text \<open>
  The handlers of \<open>internal/handler/http\<close>.  What is logged is not modelled; \<open>r.Context()\<close> carries
  nothing but the values of \<open>Request\<close>.  Messages are ASCII: a dash in one is written as a hyphen.
\<close>

section \<open>Request bodies\<close>

record registerRequest =
  reg_Email :: string
  reg_Password :: string
  reg_FirstName :: string
  reg_LastName :: string

record loginRequest =
  lg_Email :: string
  lg_Password :: string

record refreshRequest =
  rf_RefreshToken :: string

record bootstrapAdminRequest =
  ba_TenantID :: string
  ba_Email :: string
  ba_Password :: string
  ba_FirstName :: string
  ba_LastName :: string

record holdSeatRequest =
  hs_EventID :: string

record releaseHoldRequest =
  rh_HoldToken :: string

record createOrderItemRequest =
  coi_InventoryID :: string
  coi_HoldToken :: string

record createOrderRequest =
  co_IdempotencyKey :: string
  co_Items :: "createOrderItemRequest list"

record createSeatCategoryRequest =
  csc_Name :: string
  csc_Color :: string

record createEventRequest =
  ce_VenueID :: string
  ce_Name :: string
  ce_Competition :: string
  ce_HomeTeam :: string
  ce_AwayTeam :: string
  ce_StartsAt :: time
  ce_DoorsOpenAt :: "time option"
  ce_SalesStartAt :: time
  ce_SalesEndAt :: time

record createTicketCategoryRequest =
  ctc_SeatCategoryID :: string
  ctc_PriceCents :: int64
  ctc_Currency :: string
  ctc_MaxPerOrder :: int

record publishEventRequest =
  pe_EventTicketCategoryID :: string
  pe_Quantity :: int

record createVenueRequest =
  cv_Name :: string
  cv_Address :: string
  cv_City :: string
  cv_Country :: string
  cv_Timezone :: string
  cv_Capacity :: "int option"

record stripeWebhookEvent =
  evt_Type :: string
  evt_ID :: string
  evt_Metadata :: "(string \<times> string) list"

text \<open>What \<open>encoding/json\<close> makes of a body, and what the struct tags of a decoded struct object to.\<close>

record codec =
  dec_register :: "string \<Rightarrow> registerRequest option"
  dec_login :: "string \<Rightarrow> loginRequest option"
  dec_refresh :: "string \<Rightarrow> refreshRequest option"
  dec_bootstrap :: "string \<Rightarrow> bootstrapAdminRequest option"
  dec_hold :: "string \<Rightarrow> holdSeatRequest option"
  dec_release :: "string \<Rightarrow> releaseHoldRequest option"
  dec_order :: "string \<Rightarrow> createOrderRequest option"
  dec_seatCategory :: "string \<Rightarrow> createSeatCategoryRequest option"
  dec_event :: "string \<Rightarrow> createEventRequest option"
  dec_ticketCategory :: "string \<Rightarrow> createTicketCategoryRequest option"
  dec_publish :: "string \<Rightarrow> publishEventRequest option"
  dec_venue :: "string \<Rightarrow> createVenueRequest option"
  dec_stripe :: "string \<Rightarrow> stripeWebhookEvent option"
  val_register :: "registerRequest \<Rightarrow> error option"
  val_login :: "loginRequest \<Rightarrow> error option"
  val_refresh :: "refreshRequest \<Rightarrow> error option"
  val_bootstrap :: "bootstrapAdminRequest \<Rightarrow> error option"
  val_seatCategory :: "createSeatCategoryRequest \<Rightarrow> error option"
  val_event :: "createEventRequest \<Rightarrow> error option"
  val_ticketCategory :: "createTicketCategoryRequest \<Rightarrow> error option"
  val_publish :: "publishEventRequest \<Rightarrow> error option"
  val_venue :: "createVenueRequest \<Rightarrow> error option"

text \<open>
  The dependencies the handlers are built with in \<open>cmd/api\<close>, \<open>BootstrapConfig\<close> among them, and what the
  router package contributes: the address \<open>RealIP\<close> settles on and its answer to unknown routes.
\<close>

record RouterDeps =
  dp_codec :: codec
  dp_jwt :: JWTConfig
  dp_gateway :: gateway
  dp_bootstrapSecret :: string
  dp_inventory :: InventoryConfig
  dp_RealIP :: "Request \<Rightarrow> string"
  dp_NotFound :: "Request \<Rightarrow> Response"

section \<open>auth.go\<close>

definition toUserResponse :: "env \<Rightarrow> User \<Rightarrow> json" where
  "toUserResponse E u = JObject (
    [(''id'', JString (e_uuid_String E (u_ID u))), (''email'', JString (u_Email u)),
     (''role'', JString (UserRole_string (u_Role u)))] @
    (case u_TenantID u of None \<Rightarrow> [] | Some t \<Rightarrow> [(''tenant_id'', JString (e_uuid_String E t))]))"

definition toTokenPairResponse :: "TokenPair \<Rightarrow> json" where
  "toTokenPairResponse p = JObject
    [(''access_token'', JString (tp_AccessToken p)), (''refresh_token'', JString (tp_RefreshToken p)),
     (''expires_at'', JHttpTime (tp_AccessTokenExpiresAt p))]"

definition AuthHandler_Register :: "env \<Rightarrow> RouterDeps \<Rightarrow> handler" where
  "AuthHandler_Register E h r =
    withBody (decodeAndValidate (dec_register (dp_codec h)) (val_register (dp_codec h)) r) (\<lambda>req.
    bindE (attemptE (Register E (reg_Email req) (reg_Password req) (reg_FirstName req) (reg_LastName req))) (\<lambda>res.
    case res of
      Inl err \<Rightarrow>
        if errors_Is err ErrWeakPassword then returnE (response_Error StatusBadRequest ''weak-password'' (ErrorOf err))
        else if errors_Is err ErrConflict then
          refuseE StatusConflict ''email-taken'' ''an account with this email already exists''
        else refuseE StatusInternalServerError ''internal-error'' ''could not register''
    | Inr user \<Rightarrow> replyE StatusCreated (toUserResponse E user)))"

definition AuthHandler_Login :: "env \<Rightarrow> RouterDeps \<Rightarrow> handler" where
  "AuthHandler_Login E h r =
    withBody (decodeAndValidate (dec_login (dp_codec h)) (val_login (dp_codec h)) r) (\<lambda>req.
    bindE (attemptE (Login E (dp_jwt h) (lg_Email req) (lg_Password req) (UserAgent r) (clientIP r))) (\<lambda>res.
    case res of
      Inl err \<Rightarrow>
        if errors_Is err ErrInvalidCredentials \<or> errors_Is err ErrAccountInactive then
          refuseE StatusUnauthorized ''invalid-credentials'' ''invalid email or password''
        else refuseE StatusInternalServerError ''internal-error'' ''could not log in''
    | Inr p \<Rightarrow> replyE StatusOK (toTokenPairResponse p)))"

definition AuthHandler_Refresh :: "env \<Rightarrow> RouterDeps \<Rightarrow> handler" where
  "AuthHandler_Refresh E h r =
    withBody (decodeAndValidate (dec_refresh (dp_codec h)) (val_refresh (dp_codec h)) r) (\<lambda>req.
    bindE (attemptE (RefreshAccessToken E (dp_jwt h) (rf_RefreshToken req) (UserAgent r) (clientIP r))) (\<lambda>res.
    case res of
      Inl err \<Rightarrow>
        if errors_Is err ErrInvalidCredentials \<or> errors_Is err ErrRefreshExpired \<or> errors_Is err ErrRefreshRevoked
        then refuseE StatusUnauthorized ''invalid-refresh-token'' ''refresh token is invalid, expired, or revoked''
        else if errors_Is err ErrAccountInactive then
          refuseE StatusForbidden ''account-inactive'' ''account is not active''
        else refuseE StatusInternalServerError ''internal-error'' ''could not refresh session''
    | Inr p \<Rightarrow> replyE StatusOK (toTokenPairResponse p)))"

definition AuthHandler_Logout :: "env \<Rightarrow> RouterDeps \<Rightarrow> handler" where
  "AuthHandler_Logout E h r =
    withBody (decodeAndValidate (dec_refresh (dp_codec h)) (val_refresh (dp_codec h)) r) (\<lambda>req.
    bindE (attemptE (Logout E (rf_RefreshToken req))) (\<lambda>res.
    case res of
      Inl err \<Rightarrow> refuseE StatusInternalServerError ''internal-error'' ''could not log out''
    | Inr _ \<Rightarrow> replyE StatusOK (JObject [(''status'', JString ''logged_out'')])))"

definition AuthHandler_Me :: "env \<Rightarrow> handler" where
  "AuthHandler_Me E r =
    (case UserIDFromContext E r of
      None \<Rightarrow> refuseE StatusUnauthorized ''missing-token'' ''not authenticated''
    | Some userID \<Rightarrow>
        replyE StatusOK (JObject (
          [(''id'', JString (e_uuid_String E userID)),
           (''role'', JString (case RoleFromContext r of None \<Rightarrow> '''' | Some role \<Rightarrow> role))] @
          (case TenantIDFromContext E r of None \<Rightarrow> [] | Some t \<Rightarrow> [(''tenant_id'', JString (e_uuid_String E t))]))))"

definition AuthHandler_BootstrapAdmin :: "env \<Rightarrow> RouterDeps \<Rightarrow> handler" where
  "AuthHandler_BootstrapAdmin E h r =
    (if dp_bootstrapSecret h = '''' then refuseE StatusNotFound ''not-found'' ''not found''
     else if rq_Header r ''X-Bootstrap-Secret'' \<noteq> dp_bootstrapSecret h then
       refuseE StatusUnauthorized ''invalid-secret'' ''invalid bootstrap secret''
     else withBody (decodeAndValidate (dec_bootstrap (dp_codec h)) (val_bootstrap (dp_codec h)) r) (\<lambda>req.
       withUUID E (ba_TenantID req) ''invalid-tenant-id'' ''tenant_id must be a valid UUID'' (\<lambda>tenantID.
       bindE (attemptE (RegisterAdmin E tenantID (ba_Email req) (ba_Password req) (ba_FirstName req)
         (ba_LastName req))) (\<lambda>res.
       case res of
         Inl err \<Rightarrow>
           if errors_Is err ErrWeakPassword then
             returnE (response_Error StatusBadRequest ''weak-password'' (ErrorOf err))
           else if errors_Is err ErrConflict then
             refuseE StatusConflict ''email-taken'' ''an account with this email already exists''
           else refuseE StatusInternalServerError ''internal-error'' ''could not create admin''
       | Inr user \<Rightarrow> replyE StatusCreated (toUserResponse E user)))))"

section \<open>inventory.go\<close>

definition InventoryHandler_JoinQueue :: "env \<Rightarrow> handler" where
  "InventoryHandler_JoinQueue E r =
    (case UserIDFromContext E r of
      None \<Rightarrow> refuseE StatusUnauthorized ''missing-token'' ''not authenticated''
    | Some userID \<Rightarrow>
        withUUID E (rq_URLParam r ''eventID'') ''invalid-event-id'' ''event id must be a valid UUID'' (\<lambda>eventID.
        bindE (attemptE (JoinQueue E eventID userID)) (\<lambda>res.
        case res of
          Inl err \<Rightarrow> refuseE StatusInternalServerError ''internal-error'' ''could not join queue''
        | Inr position \<Rightarrow> replyE StatusOK (JObject [(''position'', JInt position)]))))"

definition InventoryHandler_QueueStatus :: "env \<Rightarrow> handler" where
  "InventoryHandler_QueueStatus E r =
    (case UserIDFromContext E r of
      None \<Rightarrow> refuseE StatusUnauthorized ''missing-token'' ''not authenticated''
    | Some userID \<Rightarrow>
        withUUID E (rq_URLParam r ''eventID'') ''invalid-event-id'' ''event id must be a valid UUID'' (\<lambda>eventID.
        bindE (attemptE (QueueStatus_of E eventID userID)) (\<lambda>res.
        case res of
          Inl err \<Rightarrow>
            if errors_Is err ErrNotQueued then
              refuseE StatusNotFound ''not-queued'' ''you have not joined the queue for this event''
            else refuseE StatusInternalServerError ''internal-error'' ''could not check queue status''
        | Inr status \<Rightarrow> replyE StatusOK (JObject
            [(''admitted'', JBool (qs_Admitted status)), (''position'', JInt (qs_Position status))]))))"

definition InventoryHandler_Hold :: "env \<Rightarrow> RouterDeps \<Rightarrow> handler" where
  "InventoryHandler_Hold E h r =
    withBody (userAndTenant E r) (\<lambda>(userID, tenantID).
    withUUID E (rq_URLParam r ''id'') ''invalid-inventory-id'' ''inventory id must be a valid UUID'' (\<lambda>inventoryID.
    withBody (decodeJSONBody (dec_hold (dp_codec h)) r) (\<lambda>req.
    withUUID E (hs_EventID req) ''invalid-event-id'' ''event_id must be a valid UUID'' (\<lambda>eventID.
    bindE (attemptE (HoldSeat E (dp_inventory h) tenantID eventID inventoryID userID)) (\<lambda>res.
    case res of
      Inl err \<Rightarrow>
        if errors_Is err ErrNotAdmitted then
          refuseE StatusForbidden ''not-admitted'' ''join the waiting room and wait to be admitted before holding a seat''
        else if errors_Is err ErrRateLimited then
          refuseE StatusTooManyRequests ''rate-limited'' ''too many hold attempts, slow down''
        else if errors_Is err ErrLockContention \<or> errors_Is err ErrUnavailable then
          refuseE StatusConflict ''unavailable'' (''this seat is no longer available '' @ em_dash @ '' try another'')
        else refuseE StatusInternalServerError ''internal-error'' ''could not hold seat''
    | Inr result \<Rightarrow> replyE StatusOK (JObject
        [(''hold_token'', JUuid (hr_HoldToken result)), (''expires_at'', JTime (hr_ExpiresAt result))]))))))"

definition InventoryHandler_Release :: "env \<Rightarrow> RouterDeps \<Rightarrow> handler" where
  "InventoryHandler_Release E h r =
    withBody (userAndTenant E r) (\<lambda>(_, tenantID).
    withUUID E (rq_URLParam r ''id'') ''invalid-inventory-id'' ''inventory id must be a valid UUID'' (\<lambda>inventoryID.
    withBody (decodeJSONBody (dec_release (dp_codec h)) r) (\<lambda>req.
    withUUID E (rh_HoldToken req) ''invalid-hold-token'' ''hold_token must be a valid UUID'' (\<lambda>holdToken.
    bindE (attemptE (ReleaseHold E tenantID inventoryID holdToken)) (\<lambda>res.
    case res of
      Inl err \<Rightarrow>
        if errors_Is err ErrExpired then
          refuseE StatusConflict ''already-expired'' ''this hold has already expired or was already released''
        else refuseE StatusInternalServerError ''internal-error'' ''could not release hold''
    | Inr _ \<Rightarrow> replyE StatusOK (JObject [(''status'', JString ''released'')]))))))"

section \<open>order.go\<close>

definition orderResponse :: "Order \<Rightarrow> json" where
  "orderResponse ord = JObject
    [(''id'', JUuid (ord_ID ord)), (''status'', JOrderStatus (ord_Status ord)),
     (''subtotal_cents'', JInt (sint (Cents (ord_Subtotal ord)))), (''fees_cents'', JInt (sint (Cents (ord_Fees ord)))),
     (''total_cents'', JInt (sint (Cents (ord_Total ord)))), (''currency'', JString (Currency (ord_Total ord))),
     (''expires_at'', case ord_ExpiresAt ord of None \<Rightarrow> JNull | Some t \<Rightarrow> JTime t),
     (''created_at'', JTime (ord_CreatedAt ord))]"

text \<open>The loop that parses the items; it stops at the first one that is not well-formed.\<close>

fun parse_items :: "env \<Rightarrow> createOrderItemRequest list \<Rightarrow> Response + HeldItem list" where
  "parse_items E [] = Inr []"
| "parse_items E (it # its) =
    (case e_uuid_Parse E (coi_InventoryID it) of
      None \<Rightarrow> Inl (response_Error StatusBadRequest ''invalid-inventory-id''
        (Literal ''each item's inventory_id must be a valid UUID''))
    | Some invID \<Rightarrow>
        (case e_uuid_Parse E (coi_HoldToken it) of
          None \<Rightarrow> Inl (response_Error StatusBadRequest ''invalid-hold-token''
            (Literal ''each item's hold_token must be a valid UUID''))
        | Some holdToken \<Rightarrow>
            (case parse_items E its of
              Inl resp \<Rightarrow> Inl resp
            | Inr items \<Rightarrow> Inr (\<lparr>hi_InventoryID = invID, hi_HoldToken = holdToken\<rparr> # items))))"

definition OrderHandler_Create :: "env \<Rightarrow> RouterDeps \<Rightarrow> handler" where
  "OrderHandler_Create E h r =
    withBody (userAndTenant E r) (\<lambda>(userID, tenantID).
    withBody (decodeJSONBody (dec_order (dp_codec h)) r) (\<lambda>req.
    if co_IdempotencyKey req = '''' \<or> co_Items req = [] then
      refuseE StatusBadRequest ''invalid-request'' ''idempotency_key and at least one item are required''
    else withBody (parse_items E (co_Items req)) (\<lambda>items.
      bindE (attemptE (CreateOrder E tenantID userID (co_IdempotencyKey req) items)) (\<lambda>res.
      case res of
        Inl err \<Rightarrow>
          if errors_Is err ErrExpired then
            refuseE StatusConflict ''hold-invalid'' (''one or more holds are no longer valid '' @ em_dash @ '' they may have expired'')
          else if errors_Is err ErrInvalidInput then
            returnE (response_Error StatusBadRequest ''invalid-order'' (ErrorOf err))
          else refuseE StatusInternalServerError ''internal-error'' ''could not create order''
      | Inr order \<Rightarrow> replyE StatusCreated (orderResponse order)))))"

definition OrderHandler_Authorize :: "env \<Rightarrow> RouterDeps \<Rightarrow> handler" where
  "OrderHandler_Authorize E h r =
    withBody (userAndTenant E r) (\<lambda>(_, tenantID).
    withUUID E (rq_URLParam r ''id'') ''invalid-order-id'' ''order id must be a valid UUID'' (\<lambda>orderID.
    bindE (attemptE (AuthorizePayment E (dp_gateway h) tenantID orderID)) (\<lambda>res.
    case res of
      Inl err \<Rightarrow>
        if errors_Is err ErrInvalidInput then
          refuseE StatusConflict ''wrong-order-status'' ''order is not in a payable state''
        else refuseE StatusInternalServerError ''internal-error'' ''could not authorize payment''
    | Inr clientSecret \<Rightarrow> replyE StatusOK (JObject [(''client_secret'', JString clientSecret)]))))"

definition OrderHandler_List :: "env \<Rightarrow> handler" where
  "OrderHandler_List E r =
    withBody (userAndTenant E r) (\<lambda>(userID, tenantID).
    bindE (attemptE (OrderRepo_ListByUser E tenantID userID 50 0)) (\<lambda>res.
    case res of
      Inl err \<Rightarrow> refuseE StatusInternalServerError ''internal-error'' ''could not list orders''
    | Inr os \<Rightarrow> replyE StatusOK (JArray (map orderResponse os))))"

definition OrderHandler_Get :: "env \<Rightarrow> handler" where
  "OrderHandler_Get E r =
    withBody (userAndTenant E r) (\<lambda>(_, tenantID).
    withUUID E (rq_URLParam r ''id'') ''invalid-order-id'' ''order id must be a valid UUID'' (\<lambda>orderID.
    bindE (attemptE (OrderRepo_GetByID E tenantID orderID)) (\<lambda>res.
    case res of
      Inl err \<Rightarrow> refuseE StatusNotFound ''order-not-found'' ''order not found''
    | Inr order \<Rightarrow> replyE StatusOK (orderResponse order))))"

section \<open>webhook.go\<close>

definition maxWebhookBodyBytes :: nat where
  "maxWebhookBodyBytes = 2 ^ 20"

text \<open>\<open>m[k]\<close> of a map of strings\<close>

definition metadata_at :: "(string \<times> string) list \<Rightarrow> string \<Rightarrow> string" where
  "metadata_at m k = (case map_of m k of None \<Rightarrow> '''' | Some v \<Rightarrow> v)"

text \<open>From the lookup of the order on, in the branch for a successful capture.\<close>

definition WebhookHandler_succeeded :: "env \<Rightarrow> RouterDeps \<Rightarrow> uuid \<Rightarrow> uuid \<Rightarrow> Response op" where
  "WebhookHandler_succeeded E h tenantID orderID =
    bindE (attemptE (OrderRepo_GetByID E tenantID orderID)) (\<lambda>ro.
    case ro of
      Inl err \<Rightarrow>
        if errors_Is err ErrNotFound then
          refuseE StatusConflict ''order-not-found-yet'' ''order not found, please retry''
        else refuseE StatusInternalServerError ''internal-error'' ''failed to look up order''
    | Inr order \<Rightarrow>
        bindE (attemptE (PaymentRepo_GetByIdempotencyKey E tenantID (ord_IdempotencyKey order))) (\<lambda>rp.
        case rp of
          Inl err \<Rightarrow> refuseE StatusInternalServerError ''internal-error'' ''failed to look up payment''
        | Inr payment \<Rightarrow>
            bindE (attemptE (ConfirmPayment E (dp_gateway h) tenantID orderID (pay_ID payment))) (\<lambda>rc.
            case rc of
              Inl err \<Rightarrow>
                if errors_Is err ErrExpired then replyE StatusOK (JObject [(''status'', JString ''refunded'')])
                else refuseE StatusInternalServerError ''internal-error'' ''failed to confirm payment''
            | Inr _ \<Rightarrow> replyE StatusOK (JObject [(''status'', JString ''confirmed'')]))))"

definition WebhookHandler_Stripe :: "env \<Rightarrow> RouterDeps \<Rightarrow> handler" where
  "WebhookHandler_Stripe E h r =
    (case map_option (take maxWebhookBodyBytes) (rq_Body r) of
      None \<Rightarrow> refuseE StatusBadRequest ''invalid-body'' ''could not read request body''
    | Some body \<Rightarrow>
        (case VerifyWebhookSignature (dp_gateway h) body (rq_Header r ''Stripe-Signature'') of
          Inl err \<Rightarrow> refuseE StatusBadRequest ''invalid-signature'' ''webhook signature verification failed''
        | Inr _ \<Rightarrow>
            (case dec_stripe (dp_codec h) body of
              None \<Rightarrow> refuseE StatusBadRequest ''invalid-payload'' ''could not parse webhook payload''
            | Some evt \<Rightarrow>
                if evt_Type evt \<noteq> ''payment_intent.succeeded'' then
                  replyE StatusOK (JObject [(''status'', JString ''ignored'')])
                else withUUID E (metadata_at (evt_Metadata evt) ''tenant_id'') ''invalid-metadata''
                  ''missing or invalid tenant_id in payment intent metadata'' (\<lambda>tenantID.
                withUUID E (metadata_at (evt_Metadata evt) ''order_id'') ''invalid-metadata''
                  ''missing or invalid order_id in payment intent metadata'' (\<lambda>orderID.
                WebhookHandler_succeeded E h tenantID orderID)))))"

section \<open>event.go\<close>

definition event_fields :: "Event \<Rightarrow> (string \<times> json) list" where
  "event_fields e =
    [(''id'', JUuid (ev_ID e)), (''venue_id'', JUuid (ev_VenueID e)), (''name'', JString (ev_Name e)),
     (''competition'', JString (ev_Competition e)), (''home_team'', JString (ev_HomeTeam e)),
     (''away_team'', JString (ev_AwayTeam e)), (''starts_at'', JTime (ev_StartsAt e)),
     (''sales_start_at'', JTime (ev_SalesStartAt e)), (''sales_end_at'', JTime (ev_SalesEndAt e)),
     (''status'', JEventStatus (ev_Status e))]"

definition eventResponse :: "Event \<Rightarrow> json" where
  "eventResponse e = JObject (event_fields e)"

definition EventHandler_List :: "env \<Rightarrow> handler" where
  "EventHandler_List E r =
    (case rq_resolvedTenant r of
      None \<Rightarrow> refuseE StatusBadRequest ''missing-tenant'' ''X-Tenant-ID header is required''
    | Some tenantID \<Rightarrow>
        bindE (attemptE (EventRepo_List E \<lparr>ef_TenantID = tenantID, ef_Status = Some EventStatusOnSale,
          ef_VenueID = None, ef_From = None, ef_To = None\<rparr> 50 0)) (\<lambda>res.
        case res of
          Inl err \<Rightarrow> refuseE StatusInternalServerError ''internal-error'' ''could not list events''
        | Inr es \<Rightarrow> replyE StatusOK (JArray (map eventResponse es))))"

definition categoryResponse :: "(uuid \<times> InventoryCounts) list \<Rightarrow> EventTicketCategory \<Rightarrow> json" where
  "categoryResponse counts c = JObject
    [(''id'', JUuid (etc_ID c)), (''seat_category_id'', JUuid (etc_SeatCategoryID c)),
     (''price_cents'', JInt (sint (Cents (etc_Price c)))), (''currency'', JString (Currency (etc_Price c))),
     (''max_per_order'', JInt (etc_MaxPerOrder c)),
     (''available'', JInt (case map_of counts (etc_ID c) of None \<Rightarrow> 0 | Some n \<Rightarrow> Available n))]"

definition EventHandler_Get :: "env \<Rightarrow> handler" where
  "EventHandler_Get E r =
    (case rq_resolvedTenant r of
      None \<Rightarrow> refuseE StatusBadRequest ''missing-tenant'' ''X-Tenant-ID header is required''
    | Some tenantID \<Rightarrow>
        withUUID E (rq_URLParam r ''id'') ''invalid-event-id'' ''event id must be a valid UUID'' (\<lambda>eventID.
        bindE (attemptE (EventRepo_GetByID E tenantID eventID)) (\<lambda>re.
        case re of
          Inl err \<Rightarrow> refuseE StatusNotFound ''event-not-found'' ''event not found''
        | Inr event \<Rightarrow>
            bindE (attemptE (EventRepo_ListTicketCategories E tenantID eventID)) (\<lambda>rc.
            case rc of
              Inl err \<Rightarrow> refuseE StatusInternalServerError ''internal-error'' ''could not load ticket categories''
            | Inr categories \<Rightarrow>
                bindE (attemptE (InventoryRepo_CountByStatus E tenantID eventID)) (\<lambda>rn.
                case rn of
                  Inl err \<Rightarrow> refuseE StatusInternalServerError ''internal-error'' ''could not load availability''
                | Inr counts \<Rightarrow> replyE StatusOK (JObject (event_fields event @
                    [(''ticket_categories'', JArray (map (categoryResponse counts) categories))])))))))"

section \<open>admin_venue.go\<close>

definition venueResponse :: "Venue \<Rightarrow> json" where
  "venueResponse v = JObject
    [(''id'', JUuid (v_ID v)), (''name'', JString (v_Name v)), (''address'', JString (v_Address v)),
     (''city'', JString (v_City v)), (''country'', JString (v_Country v)), (''timezone'', JString (v_Timezone v)),
     (''capacity'', case v_Capacity v of None \<Rightarrow> JNull | Some c \<Rightarrow> JInt c)]"

definition AdminVenueHandler_Create :: "env \<Rightarrow> RouterDeps \<Rightarrow> handler" where
  "AdminVenueHandler_Create E h r =
    withAdminTenant E r (\<lambda>tenantID.
    withBody (decodeAndValidate (dec_venue (dp_codec h)) (val_venue (dp_codec h)) r) (\<lambda>req.
    bindE (attemptE (VenueRepo_CreateVenue E
      \<lparr>v_ID = 0, v_TenantID = tenantID, v_Name = cv_Name req, v_Address = cv_Address req, v_City = cv_City req,
       v_Country = cv_Country req, v_Timezone = cv_Timezone req, v_Capacity = cv_Capacity req,
       v_CreatedAt = 0, v_UpdatedAt = 0\<rparr>)) (\<lambda>res.
    case res of
      Inl err \<Rightarrow> refuseE StatusInternalServerError ''internal-error'' ''could not create venue''
    | Inr venue \<Rightarrow> replyE StatusCreated (venueResponse venue))))"

definition AdminVenueHandler_List :: "env \<Rightarrow> handler" where
  "AdminVenueHandler_List E r =
    withAdminTenant E r (\<lambda>tenantID.
    bindE (attemptE (VenueRepo_ListVenues E tenantID 50 0)) (\<lambda>res.
    case res of
      Inl err \<Rightarrow> refuseE StatusInternalServerError ''internal-error'' ''could not list venues''
    | Inr vs \<Rightarrow> replyE StatusOK (JArray (map venueResponse vs))))"

section \<open>admin_event.go\<close>

definition AdminEventHandler_CreateSeatCategory :: "env \<Rightarrow> RouterDeps \<Rightarrow> handler" where
  "AdminEventHandler_CreateSeatCategory E h r =
    withAdminTenant E r (\<lambda>tenantID.
    withBody (decodeAndValidate (dec_seatCategory (dp_codec h)) (val_seatCategory (dp_codec h)) r) (\<lambda>req.
    bindE (attemptE (SeatCategoryRepo_Create E
      \<lparr>sc_ID = 0, sc_TenantID = tenantID, sc_Name = csc_Name req, sc_Color = csc_Color req, sc_CreatedAt = 0,
       sc_UpdatedAt = 0\<rparr>)) (\<lambda>res.
    case res of
      Inl err \<Rightarrow>
        if errors_Is err ErrConflict then
          refuseE StatusConflict ''name-taken'' ''a seat category with this name already exists''
        else refuseE StatusInternalServerError ''internal-error'' ''could not create seat category''
    | Inr sc \<Rightarrow> replyE StatusCreated (JObject
        [(''id'', JUuid (sc_ID sc)), (''name'', JString (sc_Name sc)), (''color'', JString (sc_Color sc))]))))"

definition AdminEventHandler_CreateEvent :: "env \<Rightarrow> RouterDeps \<Rightarrow> handler" where
  "AdminEventHandler_CreateEvent E h r =
    withAdminTenant E r (\<lambda>tenantID.
    withBody (decodeAndValidate (dec_event (dp_codec h)) (val_event (dp_codec h)) r) (\<lambda>req.
    withUUID E (ce_VenueID req) ''invalid-venue-id'' ''venue_id must be a valid UUID'' (\<lambda>venueID.
    bindE (attemptE (EventRepo_Create E
      \<lparr>ev_ID = 0, ev_TenantID = tenantID, ev_VenueID = venueID, ev_Name = ce_Name req,
       ev_Competition = ce_Competition req, ev_HomeTeam = ce_HomeTeam req, ev_AwayTeam = ce_AwayTeam req,
       ev_StartsAt = ce_StartsAt req, ev_DoorsOpenAt = ce_DoorsOpenAt req, ev_SalesStartAt = ce_SalesStartAt req,
       ev_SalesEndAt = ce_SalesEndAt req, ev_Status = EventStatusDraft, ev_CreatedAt = 0, ev_UpdatedAt = 0\<rparr>)) (\<lambda>res.
    case res of
      Inl err \<Rightarrow> refuseE StatusInternalServerError ''internal-error'' ''could not create event''
    | Inr event \<Rightarrow> replyE StatusCreated (eventResponse event)))))"

definition AdminEventHandler_CreateTicketCategory :: "env \<Rightarrow> RouterDeps \<Rightarrow> handler" where
  "AdminEventHandler_CreateTicketCategory E h r =
    withAdminTenant E r (\<lambda>tenantID.
    withUUID E (rq_URLParam r ''eventID'') ''invalid-event-id'' ''event id must be a valid UUID'' (\<lambda>eventID.
    withBody (decodeAndValidate (dec_ticketCategory (dp_codec h)) (val_ticketCategory (dp_codec h)) r) (\<lambda>req.
    withUUID E (ctc_SeatCategoryID req) ''invalid-seat-category-id'' ''seat_category_id must be a valid UUID''
      (\<lambda>seatCategoryID.
    case NewMoney (ctc_PriceCents req) (ctc_Currency req) of
      Inl err \<Rightarrow> returnE (response_Error StatusBadRequest ''invalid-price'' (ErrorOf err))
    | Inr price \<Rightarrow>
        bindE (attemptE (EventRepo_CreateTicketCategory E
          \<lparr>etc_ID = 0, etc_TenantID = tenantID, etc_EventID = eventID, etc_SeatCategoryID = seatCategoryID,
           etc_Price = price, etc_MaxPerOrder = ctc_MaxPerOrder req, etc_CreatedAt = 0, etc_UpdatedAt = 0\<rparr>)) (\<lambda>res.
        case res of
          Inl err \<Rightarrow> refuseE StatusInternalServerError ''internal-error'' ''could not create ticket category''
        | Inr c \<Rightarrow> replyE StatusCreated (JObject
            [(''id'', JUuid (etc_ID c)), (''event_id'', JUuid (etc_EventID c)),
             (''seat_category_id'', JUuid (etc_SeatCategoryID c)), (''price_cents'', JInt (sint (Cents (etc_Price c)))),
             (''currency'', JString (Currency (etc_Price c))), (''max_per_order'', JInt (etc_MaxPerOrder c))]))))))"

text \<open>The loop of \<open>PublishEvent\<close> that makes the rows, an id for each.\<close>

definition publish_row ::
  "env \<Rightarrow> uuid \<Rightarrow> uuid \<Rightarrow> uuid \<Rightarrow> nat \<Rightarrow> EventSeatInventory list \<Rightarrow> EventSeatInventory list op" where
  "publish_row E tenantID eventID etcID i rows =
    bindE (uuid_New E) (\<lambda>u.
    returnE (rows @ [\<lparr>inv_ID = u, inv_TenantID = tenantID, inv_EventID = eventID, inv_CategoryID = etcID,
      inv_SeatID = None, inv_Status = InventoryStatusAvailable, inv_HoldToken = None, inv_HeldByUserID = None,
      inv_HoldExpiresAt = None, inv_CreatedAt = 0, inv_UpdatedAt = 0\<rparr>]))"

definition AdminEventHandler_PublishEvent :: "env \<Rightarrow> RouterDeps \<Rightarrow> handler" where
  "AdminEventHandler_PublishEvent E h r =
    withAdminTenant E r (\<lambda>tenantID.
    withUUID E (rq_URLParam r ''eventID'') ''invalid-event-id'' ''event id must be a valid UUID'' (\<lambda>eventID.
    withBody (decodeAndValidate (dec_publish (dp_codec h)) (val_publish (dp_codec h)) r) (\<lambda>req.
    withUUID E (pe_EventTicketCategoryID req) ''invalid-ticket-category-id''
      ''event_ticket_category_id must be a valid UUID'' (\<lambda>etcID.
    bindE (attemptE (EventRepo_GetByID E tenantID eventID)) (\<lambda>re.
    case re of
      Inl err \<Rightarrow> refuseE StatusNotFound ''event-not-found'' ''event not found''
    | Inr event \<Rightarrow>
        bindE (foldE (publish_row E tenantID eventID etcID) [0..<nat (pe_Quantity req)] []) (\<lambda>rows.
        bindE (attemptE (InventoryRepo_BulkCreate E rows)) (\<lambda>rb.
        case rb of
          Inl err \<Rightarrow> refuseE StatusInternalServerError ''internal-error'' ''could not generate inventory''
        | Inr _ \<Rightarrow>
            if ev_Status event = EventStatusDraft \<or> ev_Status event = EventStatusScheduled then
              bindE (attemptE (EventRepo_Update E (event\<lparr>ev_Status := EventStatusOnSale\<rparr>))) (\<lambda>ru.
              case ru of
                Inl err \<Rightarrow> refuseE StatusInternalServerError ''internal-error''
                  ''inventory created but event status update failed''
              | Inr _ \<Rightarrow> replyE StatusCreated (JObject
                  [(''generated'', JInt (int (length rows))), (''event_status'', JEventStatus EventStatusOnSale)]))
            else replyE StatusCreated (JObject
              [(''generated'', JInt (int (length rows))), (''event_status'', JEventStatus (ev_Status event))]))))))))"

section \<open>health.go\<close>

definition HealthHandler_Live :: handler where
  "HealthHandler_Live r = replyE StatusOK (JObject [(''status'', JString ''ok'')])"

definition pg_Ping :: "env \<Rightarrow> unit op" where
  "pg_Ping E = pg_query E (\<lambda>_. ())"

definition redis_Ping :: "env \<Rightarrow> unit op" where
  "redis_Ping E = (\<lambda>w.
    (if e_redis_ping E (tick w) then Inr () else Inl (DriverErr ''redis''), w\<lparr>tick := Suc (tick w)\<rparr>))"

definition ping_result :: "error + unit \<Rightarrow> json" where
  "ping_result r = (case r of Inl err \<Rightarrow> JErrorText err | Inr _ \<Rightarrow> JString ''ok'')"

definition HealthHandler_Ready :: "env \<Rightarrow> handler" where
  "HealthHandler_Ready E r =
    bindE (attemptE (pg_Ping E)) (\<lambda>pg.
    bindE (attemptE (redis_Ping E)) (\<lambda>rd.
    replyE (if pg = Inr () \<and> rd = Inr () then StatusOK else StatusServiceUnavailable)
      (JObject [(''postgres'', ping_result pg), (''redis'', ping_result rd)])))"

end
