(* ===== verification/Workers.thy ===== *)
theory Workers
  imports AccountRepo InventoryService
begin

text \<open>
  The background work of \<open>cmd/worker\<close>: letting fans out of the waiting rooms
  (\<open>internal/service/admission\<close>), sending the queued notifications (\<open>internal/service/notification\<close>
  over the two senders of \<open>internal/platform/email\<close>), and one tick of each of the three loops.  What is
  logged is not modelled.
\<close>

section \<open>Admission\<close>

definition min64 :: "int list \<Rightarrow> int" where
  "min64 vals = fold (\<lambda>v m. if v < m then v else m) (tl vals) (hd vals)"

definition admitForEvent :: "env \<Rightarrow> InventoryConfig \<Rightarrow> int \<Rightarrow> uuid \<Rightarrow> uuid \<Rightarrow> int op" where
  "admitForEvent E cfg maxAdmitPerTick tenantID eventID =
    bindE (wrapE ''queue length: %w'' (QueueLength E eventID)) (\<lambda>queueLen.
    if queueLen = 0 then returnE 0
    else bindE (wrapE ''count by status: %w'' (InventoryRepo_CountByStatus E tenantID eventID)) (\<lambda>counts.
      let totalAvailable = sum_list (map (\<lambda>c. Available (snd c)) counts) in
      if totalAvailable = 0 then returnE 0
      else let admitCount = min64 [queueLen, totalAvailable, maxAdmitPerTick] in
        if admitCount \<le> 0 then returnE 0
        else bindE (wrapE ''admit next: %w'' (AdmitNext E cfg eventID admitCount)) (\<lambda>admitted.
          returnE (int (length admitted)))))"

text \<open>A failure is logged and the loops go on.\<close>

definition RunOnce_event :: "env \<Rightarrow> InventoryConfig \<Rightarrow> int \<Rightarrow> uuid \<Rightarrow> Event \<Rightarrow> int \<Rightarrow> int op" where
  "RunOnce_event E cfg maxAdmitPerTick tenantID event admittedTotal =
    bindE (attemptE (admitForEvent E cfg maxAdmitPerTick tenantID (ev_ID event))) (\<lambda>r.
    case r of Inl err \<Rightarrow> returnE admittedTotal | Inr admitted \<Rightarrow> returnE (admittedTotal + admitted))"

definition RunOnce_tenant :: "env \<Rightarrow> InventoryConfig \<Rightarrow> int \<Rightarrow> Tenant \<Rightarrow> int \<Rightarrow> int op" where
  "RunOnce_tenant E cfg maxAdmitPerTick tenant admittedTotal =
    bindE (attemptE (EventRepo_List E
      \<lparr>ef_TenantID = t_ID tenant, ef_Status = Some EventStatusOnSale, ef_VenueID = None, ef_From = None, ef_To = None\<rparr>
      1000 0)) (\<lambda>r.
    case r of
      Inl err \<Rightarrow> returnE admittedTotal
    | Inr evs \<Rightarrow> foldE (RunOnce_event E cfg maxAdmitPerTick (t_ID tenant)) evs admittedTotal)"

definition RunOnce :: "env \<Rightarrow> InventoryConfig \<Rightarrow> int \<Rightarrow> int op" where
  "RunOnce E cfg maxAdmitPerTick =
    bindE (wrapE ''admission: list tenants: %w'' (TenantRepo_List E TenantStatusActive 1000 0)) (\<lambda>ts.
    foldE (RunOnce_tenant E cfg maxAdmitPerTick) ts 0)"

section \<open>Email\<close>

datatype EmailSender =
    ConsoleSender
  | SMTPSender (smtp_host: string) (smtp_port: string) (smtp_username: string) (smtp_password: string)
      (smtp_fromAddress: string)

definition ConsoleSender_Send :: "EmailMessage \<Rightarrow> unit op" where
  "ConsoleSender_Send msg = (\<lambda>w. (Inr (), w\<lparr>console_sent := console_sent w @ [msg]\<rparr>))"

definition CRLF :: string where
  "CRLF = [CHR 0x0D, CHR 0x0A]"

definition smtp_message :: "string \<Rightarrow> EmailMessage \<Rightarrow> string" where
  "smtp_message fromAddress msg =
    ''From: '' @ fromAddress @ CRLF @
    ''To: '' @ em_To msg @ CRLF @
    ''Subject: '' @ em_Subject msg @ CRLF @
    ''MIME-Version: 1.0'' @ CRLF @
    ''Content-Type: text/plain; charset='' @ fmt_q ''UTF-8'' @ CRLF @
    CRLF @
    em_Body msg"

definition SMTPSender_Send :: "env \<Rightarrow> string \<Rightarrow> string \<Rightarrow> string \<Rightarrow> string \<Rightarrow> string \<Rightarrow> EmailMessage \<Rightarrow> unit op" where
  "SMTPSender_Send E host port username password fromAddress msg = (\<lambda>w.
    (case e_smtp E (tick w)
        \<lparr>sm_addr = host @ '':'' @ port, sm_username = username, sm_password = password,
         sm_from = fromAddress, sm_to = [em_To msg], sm_msg = smtp_message fromAddress msg\<rparr> of
      None \<Rightarrow> Inr ()
    | Some err \<Rightarrow> Inl (Wrap ''email: smtp send: %w'' err),
     w\<lparr>tick := Suc (tick w)\<rparr>))"

fun Send :: "env \<Rightarrow> EmailSender \<Rightarrow> EmailMessage \<Rightarrow> unit op" where
  "Send E ConsoleSender msg = ConsoleSender_Send msg"
| "Send E (SMTPSender host port username password fromAddress) msg =
    SMTPSender_Send E host port username password fromAddress msg"

section \<open>Notifications\<close>

subsection \<open>\<open>%.2f\<close> of an amount in hundredths\<close>

text \<open>Division rounded to nearest, ties to even.\<close>

definition div_half_even :: "nat \<Rightarrow> nat \<Rightarrow> nat" where
  "div_half_even a b =
    (let q = a div b; r = a mod b in if b < 2 * r \<or> (2 * r = b \<and> odd q) then q + 1 else q)"

text \<open>
  \<open>x := float64(n) / 100\<close> for an integer \<open>n\<close> that is a \<open>float64\<close>, printed with two decimals: \<open>x\<close> is
  \<open>n / 100\<close> rounded to 53 significant bits, \<open>q / 2 ^ e\<close> or \<open>q * 2 ^ k\<close>, and what is printed is \<open>x\<close>
  rounded to hundredths.
\<close>

definition hundredths :: "nat \<Rightarrow> nat" where
  "hundredths n =
    (if n = 0 then 0
     else let b = bit_length (128 * n div 100) in
       if b \<le> 60 then
         (let e = 60 - b; q = div_half_even (n * 2 ^ e) 100 in div_half_even (100 * q) (2 ^ e))
       else (let k = b - 60 in 100 * (div_half_even n (100 * 2 ^ k) * 2 ^ k)))"

definition fmt_2f_div100 :: "int \<Rightarrow> string" where
  "fmt_2f_div100 n =
    (let h = hundredths (nat \<bar>n\<bar>)
     in (if n < 0 then ''-'' else '''') @ nat_dec (h div 100) @ ''.'' @ fmt_02d (int (h mod 100)))"

subsection \<open>The service\<close>

definition payload_string :: "string \<Rightarrow> (string \<times> any) list \<Rightarrow> string" where
  "payload_string k p = (case map_of p k of Some (AnyString s) \<Rightarrow> s | _ \<Rightarrow> '''')"

definition payload_float :: "string \<Rightarrow> (string \<times> any) list \<Rightarrow> int" where
  "payload_float k p = (case map_of p k of Some (AnyFloat x) \<Rightarrow> x | _ \<Rightarrow> 0)"

definition LF :: string where
  "LF = [CHR 0x0A]"

fun render :: "Notification \<Rightarrow> string \<Rightarrow> error + EmailMessage" where
  "render n recipientEmail =
    (case n_Type n of
      NotificationTypeOrderConfirmation \<Rightarrow>
        (let orderID = payload_string ''order_id'' (n_Payload n);
             totalCents = payload_float ''total_cents'' (n_Payload n);
             currency = payload_string ''currency'' (n_Payload n);
             body = ''Thanks for your order!'' @ LF @ LF @ ''Order: '' @ orderID @ LF @
               ''Total: '' @ fmt_2f_div100 totalCents @ '' '' @ currency @ LF @ LF @ ''See you at the match.''
         in Inr \<lparr>em_To = recipientEmail, em_Subject = ''Your order is confirmed'', em_Body = body\<rparr>))"

definition processOne :: "env \<Rightarrow> EmailSender \<Rightarrow> Notification \<Rightarrow> unit op" where
  "processOne E sender n =
    bindE (wrapE ''look up recipient: %w'' (UserRepo_GetByID E (n_UserID n))) (\<lambda>user.
    case render n (u_Email user) of
      Inl err \<Rightarrow> throwE (Wrap ''render: %w'' err)
    | Inr msg \<Rightarrow> wrapE ''send: %w'' (Send E sender msg))"

definition ProcessPending_one :: "env \<Rightarrow> EmailSender \<Rightarrow> Notification \<Rightarrow> int \<Rightarrow> int op" where
  "ProcessPending_one E sender n sent =
    bindE (attemptE (processOne E sender n)) (\<lambda>r.
    case r of
      Inl err \<Rightarrow> bindE (attemptE (NotificationRepo_MarkFailed E (n_ID n) err)) (\<lambda>_. returnE sent)
    | Inr _ \<Rightarrow>
        bindE (attemptE (NotificationRepo_MarkSent E (n_ID n))) (\<lambda>m.
        case m of Inl err \<Rightarrow> returnE sent | Inr _ \<Rightarrow> returnE (sent + 1)))"

definition ProcessPending :: "env \<Rightarrow> EmailSender \<Rightarrow> int \<Rightarrow> int op" where
  "ProcessPending E sender batchSize =
    bindE (wrapE ''notification: list pending: %w'' (NotificationRepo_ListPending E batchSize)) (\<lambda>pending.
    foldE (ProcessPending_one E sender) pending 0)"

section \<open>The loops of \<open>cmd/worker\<close>\<close>

record WorkerConfig =
  wc_SweepInterval :: duration
  wc_SweepBatchSize :: int
  wc_AdmissionInterval :: duration
  wc_AdmissionMaxPerTick :: int
  wc_NotificationInterval :: duration
  wc_NotificationBatchSize :: int

text \<open>What one tick of each loop does; a failed tick is logged and the loop waits for the next one.\<close>

definition runSweepLoop_tick :: "env \<Rightarrow> WorkerConfig \<Rightarrow> unit op" where
  "runSweepLoop_tick E wc =
    bindE (attemptE (SweepExpiredHolds E (wc_SweepBatchSize wc))) (\<lambda>_. returnE ())"

definition runAdmissionLoop_tick :: "env \<Rightarrow> WorkerConfig \<Rightarrow> unit op" where
  "runAdmissionLoop_tick E wc =
    bindE (attemptE (RunOnce E DefaultConfig (wc_AdmissionMaxPerTick wc))) (\<lambda>_. returnE ())"

definition runNotificationLoop_tick :: "env \<Rightarrow> WorkerConfig \<Rightarrow> EmailSender \<Rightarrow> unit op" where
  "runNotificationLoop_tick E wc sender =
    bindE (attemptE (ProcessPending E sender (wc_NotificationBatchSize wc))) (\<lambda>_. returnE ())"

text \<open>
  The loops themselves: \<open>select\<close> receives a tick or the end of the context, which ends the loop.  The
  signals a loop receives are an argument; when they run out it is waiting.
\<close>

datatype signal = CtxDone | TickerC

primrec ticker_loop :: "unit op \<Rightarrow> signal list \<Rightarrow> unit op" where
  "ticker_loop body [] = returnE ()"
| "ticker_loop body (s # ss) = (case s of CtxDone \<Rightarrow> returnE () | TickerC \<Rightarrow> bindE body (\<lambda>_. ticker_loop body ss))"

definition runSweepLoop :: "env \<Rightarrow> WorkerConfig \<Rightarrow> signal list \<Rightarrow> unit op" where
  "runSweepLoop E wc = ticker_loop (runSweepLoop_tick E wc)"

definition runAdmissionLoop :: "env \<Rightarrow> WorkerConfig \<Rightarrow> signal list \<Rightarrow> unit op" where
  "runAdmissionLoop E wc = ticker_loop (runAdmissionLoop_tick E wc)"

definition runNotificationLoop :: "env \<Rightarrow> WorkerConfig \<Rightarrow> EmailSender \<Rightarrow> signal list \<Rightarrow> unit op" where
  "runNotificationLoop E wc sender = ticker_loop (runNotificationLoop_tick E wc sender)"

text \<open>\<open>EmailConfig\<close> and the choice of the sender in \<open>run\<close>\<close>

record EmailConfig =
  ec_Host :: string
  ec_Port :: string
  ec_Username :: string
  ec_Password :: string
  ec_From :: string

definition worker_sender :: "EmailConfig \<Rightarrow> EmailSender" where
  "worker_sender cfg =
    (if ec_Host cfg \<noteq> '''' then SMTPSender (ec_Host cfg) (ec_Port cfg) (ec_Username cfg) (ec_Password cfg) (ec_From cfg)
     else ConsoleSender)"

section \<open>How many fans are admitted\<close>

lemma min64_3: "min64 [a, b, c] = min a (min b c)"
  by (simp add: min64_def min_def)

definition available_seats :: "uuid \<Rightarrow> uuid \<Rightarrow> database \<Rightarrow> nat" where
  "available_seats tenantID eventID d =
    length (filter (\<lambda>r. inv_TenantID r = tenantID \<and> inv_EventID r = eventID \<and>
      inv_Status r = InventoryStatusAvailable) (event_seat_inventory d))"

lemma room_ok_tick: "room_ok E n (w\<lparr>tick := k\<rparr>) = room_ok E n w"
  by (simp add: room_ok_def redis_up_def)

lemma WaitingRoom_Admit_db: "WaitingRoom_Admit E e c ttl w = (r, w') \<Longrightarrow> db w' = db w"
  unfolding WaitingRoom_Admit_def by (erule moves_run [rotated]) (intro same_db.frame.db_moves_intros)

text \<open>The two reads before the decision.\<close>

lemma admitForEvent_reads:
  assumes ok: "room_ok E n w" and run: "admitForEvent E cfg m t e w = (Inr a, w')"
    and busy: "queue_line E (ks w) e \<noteq> []"
  shows "(let c = min (int (length (queue_line E (ks w) e))) (min (int (available_seats t e (db w))) m)
    in (available_seats t e (db w) = 0 \<or> c \<le> 0) \<and> a = 0 \<and> w' = w\<lparr>tick := Suc (Suc (tick w))\<rparr> \<or>
       0 < c \<and> (\<exists>us. WaitingRoom_Admit E e c (AdmissionTTL cfg) (w\<lparr>tick := Suc (Suc (tick w))\<rparr>) = (Inr us, w') \<and>
         a = int (length us)))"
proof -
  obtain q w1 where q: "WaitingRoom_QueueLength E e w = (q, w1)" by fastforce
  from WaitingRoom_QueueLength_room [OF ok q]
  have w1: "w1 = w\<lparr>tick := Suc (tick w)\<rparr>" and len: "\<And>c. q = Inr c \<Longrightarrow> c = int (length (queue_line E (ks w) e))"
    by simp_all
  from run q have "q = Inr (int (length (queue_line E (ks w) e)))"
    using len by (cases q) (auto simp: admitForEvent_def QueueLength_def comp_iffs)
  with run q w1 busy show ?thesis
    unfolding admitForEvent_def QueueLength_def InventoryRepo_CountByStatus_def AdmitNext_def
    by (auto simp: comp_iffs pg_query_Inr_iff counts_by_status_available min64_3 available_seats_def Let_def
        split: if_splits)
qed

lemma admitForEvent_exact:
  assumes ok: "room_ok E n w" and run: "admitForEvent E cfg m t e w = (Inr a, w')"
  shows "a = max 0 (min (int (length (queue_line E (ks w) e))) (min (int (available_seats t e (db w))) m)) \<and>
    queue_line E (ks w') = (queue_line E (ks w))(e := drop (nat a) (queue_line E (ks w) e)) \<and>
    db w' = db w \<and> room_ok E n w'"
proof (cases "queue_line E (ks w) e = []")
  case True
  obtain q w1 where q: "WaitingRoom_QueueLength E e w = (q, w1)" by fastforce
  from WaitingRoom_QueueLength_room [OF ok q] True run q ok show ?thesis
    by (cases q) (auto simp: admitForEvent_def QueueLength_def comp_iffs room_ok_tick fun_upd_idem)
next
  case False
  let ?c = "min (int (length (queue_line E (ks w) e))) (min (int (available_seats t e (db w))) m)"
  let ?w = "w\<lparr>tick := Suc (Suc (tick w))\<rparr>"
  consider "available_seats t e (db w) = 0 \<or> ?c \<le> 0" "a = 0" "w' = ?w"
    | us where "0 < ?c" "WaitingRoom_Admit E e ?c (AdmissionTTL cfg) ?w = (Inr us, w')" "a = int (length us)"
    using admitForEvent_reads [OF assms False] unfolding Let_def by blast
  then show ?thesis
  proof cases
    case 1
    then show ?thesis using ok by (auto simp: room_ok_tick fun_upd_idem)
  next
    case 2
    have "room_ok E n ?w" using ok by (simp add: room_ok_tick)
    note admit = WaitingRoom_Admit_room [OF this 2(2)] WaitingRoom_Admit_db [OF 2(2)]
    then have us: "us = take (nat ?c) (queue_line E (ks w) e)" by simp
    have "int (length us) = ?c" using 2(1) by (simp add: us)
    with 2 admit show ?thesis by (simp add: max_def)
  qed
qed

section \<open>What a batch of notifications comes to\<close>

text \<open>The messages of those whose recipient exists.\<close>

definition messages_for :: "database \<Rightarrow> Notification list \<Rightarrow> EmailMessage list" where
  "messages_for d ns = List.map_filter (\<lambda>n.
    map_option (\<lambda>u. projr (render n (u_Email u))) (user_by_id (n_UserID n) d)) ns"

lemma messages_for_Nil [simp]: "messages_for d [] = []"
  by (simp add: messages_for_def map_filter_simps)

lemma messages_for_Cons: "messages_for d (n # ns) = messages_for d [n] @ messages_for d ns"
  by (simp add: messages_for_def map_filter_simps split: option.split)

lemma messages_for_users: "users d' = users d \<Longrightarrow> messages_for d' ns = messages_for d ns"
  by (simp add: messages_for_def user_by_id_def)

abbreviation settled_by :: "(Notification \<Rightarrow> Notification) \<Rightarrow> bool" where
  "settled_by f \<equiv> \<forall>x. n_ID (f x) = n_ID x \<and> n_Status (f x) \<noteq> NotificationStatusPending"

lemma mark_healthy:
  assumes "pg_healthy E" and "i \<in> n_ID ` set (notifications (db w))"
  shows "NotificationRepo_MarkSent E i w = (Inr (), w\<lparr>tick := Suc (tick w),
      db := (db w)\<lparr>notifications := sql_update (\<lambda>x. n_ID x = i) (sent_set (pg_now E w)) (notifications (db w))\<rparr>\<rparr>)"
    and "NotificationRepo_MarkFailed E i err w = (Inr (), w\<lparr>tick := Suc (tick w),
      db := (db w)\<lparr>notifications := sql_update (\<lambda>x. n_ID x = i) (failed_set err (pg_now E w)) (notifications (db w))\<rparr>\<rparr>)"
proof -
  have "sql_affected (\<lambda>x. n_ID x = i) (notifications (db w)) \<noteq> 0"
    using assms(2) by (auto simp: sql_affected_0_iff)
  with assms(1) show "NotificationRepo_MarkSent E i w = (Inr (), w\<lparr>tick := Suc (tick w),
      db := (db w)\<lparr>notifications := sql_update (\<lambda>x. n_ID x = i) (sent_set (pg_now E w)) (notifications (db w))\<rparr>\<rparr>)"
    "NotificationRepo_MarkFailed E i err w = (Inr (), w\<lparr>tick := Suc (tick w),
      db := (db w)\<lparr>notifications := sql_update (\<lambda>x. n_ID x = i) (failed_set err (pg_now E w)) (notifications (db w))\<rparr>\<rparr>)"
    by (simp_all add: NotificationRepo_MarkSent_def NotificationRepo_MarkFailed_def ExecUpdate_def run_simps
        pg_stmt_def pg_healthy_def notifications_UPDATE_def)
qed

lemma processOne_frame:
  assumes "pg_healthy E" and "processOne E sender n w = (r, w')"
  shows "db w' = db w" and "sender = ConsoleSender \<Longrightarrow>
    console_sent w' = console_sent w @ messages_for (db w) [n] \<and> (messages_for (db w) [n] = [] \<longleftrightarrow> (\<exists>e. r = Inl e))"
proof -
  have "moves (\<lambda>w w'. db w' = db w) (Send E sender msg)" for msg
    by (cases sender) (simp_all add: moves_def ConsoleSender_Send_def SMTPSender_Send_def)
  then have "moves (\<lambda>w w'. db w' = db w) (processOne E sender n)"
    unfolding processOne_def UserRepo_GetByID_def by (intro same_db.frame.db_moves_intros)
  from moves_run [OF this assms(2)] show "db w' = db w" .
  assume "sender = ConsoleSender"
  with assms show "console_sent w' = console_sent w @ messages_for (db w) [n] \<and>
      (messages_for (db w) [n] = [] \<longleftrightarrow> (\<exists>e. r = Inl e))"
    by (cases "n_Type n")
      (auto simp: processOne_def UserRepo_GetByID_def run_simps ConsoleSender_Send_def messages_for_def
        map_filter_simps Let_def split: option.splits)
qed

lemma ProcessPending_one_settles:
  assumes E: "pg_healthy E" and i: "n_ID n \<in> n_ID ` set (notifications (db w))"
  shows "\<exists>b f w'. ProcessPending_one E sender n s w = (Inr (if b then s + 1 else s), w') \<and>
    db w' = (db w)\<lparr>notifications := sql_update (\<lambda>x. n_ID x = n_ID n) f (notifications (db w))\<rparr> \<and> settled_by f \<and>
    (sender = ConsoleSender \<longrightarrow> console_sent w' = console_sent w @ messages_for (db w) [n] \<and>
      (b \<longleftrightarrow> messages_for (db w) [n] \<noteq> []))"
proof -
  obtain r w1 where one: "processOne E sender n w = (r, w1)" by fastforce
  note frame = processOne_frame [OF E one]
  have step: "ProcessPending_one E sender n s w =
      (case r of
        Inl err \<Rightarrow> bindE (attemptE (NotificationRepo_MarkFailed E (n_ID n) err)) (\<lambda>_. returnE s)
      | Inr _ \<Rightarrow> bindE (attemptE (NotificationRepo_MarkSent E (n_ID n))) (\<lambda>m.
          case m of Inl err \<Rightarrow> returnE s | Inr _ \<Rightarrow> returnE (s + 1))) w1"
    unfolding ProcessPending_one_def bind_attemptE [where m = "processOne E sender n", OF one] by simp
  have i1: "n_ID n \<in> n_ID ` set (notifications (db w1))" using i frame(1) by simp
  note mark = mark_healthy [OF E i1]
  show ?thesis
  proof (cases r)
    case (Inl err)
    have "settled_by (failed_set err (pg_now E w1))" by (simp add: failed_set_def)
    with Inl step mark(2) [of err] frame show ?thesis
      by (intro exI [of _ False] exI [of _ "failed_set err (pg_now E w1)"]) (auto simp: run_simps)
  next
    case (Inr u)
    have "settled_by (sent_set (pg_now E w1))" by (simp add: sent_set_def)
    with Inr step mark(1) frame show ?thesis
      by (intro exI [of _ True] exI [of _ "sent_set (pg_now E w1)"]) (auto simp: run_simps)
  qed
qed

lemma filter_pending_settled:
  assumes "settled_by f"
  shows "filter (\<lambda>x. n_Status x = NotificationStatusPending \<and> n_ID x \<notin> I) (sql_update (\<lambda>x. n_ID x = i) f t) =
    filter (\<lambda>x. n_Status x = NotificationStatusPending \<and> n_ID x \<notin> insert i I) t"
  using assms by (induction t) (auto simp: sql_update_def)

lemma settled_ids:
  assumes "settled_by f"
  shows "n_ID ` set (sql_update c f t) = n_ID ` set t"
proof -
  have "map n_ID (sql_update c f t) = map n_ID t" using assms by (simp add: map_key_sql_update)
  then show ?thesis by (metis set_map)
qed

lemma ProcessPending_fold:
  assumes "pg_healthy E" and "n_ID ` set ns \<subseteq> n_ID ` set (notifications (db w))"
  shows "\<exists>k w'. foldE (ProcessPending_one E sender) ns s w = (Inr k, w') \<and>
    db w' = (db w)\<lparr>notifications := notifications (db w')\<rparr> \<and>
    filter (\<lambda>x. n_Status x = NotificationStatusPending \<and> n_ID x \<notin> I) (notifications (db w')) =
    filter (\<lambda>x. n_Status x = NotificationStatusPending \<and> n_ID x \<notin> n_ID ` set ns \<union> I) (notifications (db w)) \<and>
    s \<le> k \<and> k \<le> s + int (length ns) \<and>
    (sender = ConsoleSender \<longrightarrow> console_sent w' = console_sent w @ messages_for (db w) ns \<and>
      k = s + int (length (messages_for (db w) ns)))"
  using assms(2)
proof (induction ns arbitrary: s w I)
  case Nil
  then show ?case by (simp add: run_simps)
next
  case (Cons n ns)
  from Cons.prems have "n_ID n \<in> n_ID ` set (notifications (db w))" by simp
  from ProcessPending_one_settles [OF assms(1) this, of sender s] obtain b f w1 where
    one: "ProcessPending_one E sender n s w = (Inr (if b then s + 1 else s), w1)"
    and d: "db w1 = (db w)\<lparr>notifications := sql_update (\<lambda>x. n_ID x = n_ID n) f (notifications (db w))\<rparr>"
    and f: "settled_by f"
    and sent: "sender = ConsoleSender \<longrightarrow> console_sent w1 = console_sent w @ messages_for (db w) [n] \<and>
      (b \<longleftrightarrow> messages_for (db w) [n] \<noteq> [])" by blast
  have one_message: "length (messages_for (db w) [n]) \<le> 1"
    by (simp add: messages_for_def map_filter_simps split: option.split)
  have "n_ID ` set ns \<subseteq> n_ID ` set (notifications (db w1))"
    using Cons.prems by (simp add: d settled_ids [OF f])
  from Cons.IH [OF this, of "if b then s + 1 else s" I] obtain k w' where
    rest: "foldE (ProcessPending_one E sender) ns (if b then s + 1 else s) w1 = (Inr k, w')"
    and le: "(if b then s + 1 else s) \<le> k" "k \<le> (if b then s + 1 else s) + int (length ns)"
    and frame: "db w' = (db w1)\<lparr>notifications := notifications (db w')\<rparr>"
    and pend: "filter (\<lambda>x. n_Status x = NotificationStatusPending \<and> n_ID x \<notin> I) (notifications (db w')) =
      filter (\<lambda>x. n_Status x = NotificationStatusPending \<and> n_ID x \<notin> n_ID ` set ns \<union> I) (notifications (db w1))"
    and sent': "sender = ConsoleSender \<longrightarrow> console_sent w' = console_sent w1 @ messages_for (db w1) ns \<and>
      k = (if b then s + 1 else s) + int (length (messages_for (db w1) ns))" by blast
  have same: "messages_for (db w1) ns = messages_for (db w) ns" by (rule messages_for_users) (simp add: d)
  have "sender = ConsoleSender \<longrightarrow> console_sent w' = console_sent w @ messages_for (db w) (n # ns) \<and>
      k = s + int (length (messages_for (db w) (n # ns)))"
    unfolding messages_for_Cons [of _ n ns] using sent sent' one_message
    by (cases "messages_for (db w) [n]") (auto simp: same)
  moreover have "filter (\<lambda>x. n_Status x = NotificationStatusPending \<and> n_ID x \<notin> I) (notifications (db w')) =
      filter (\<lambda>x. n_Status x = NotificationStatusPending \<and> n_ID x \<notin> n_ID ` set (n # ns) \<union> I) (notifications (db w))"
    unfolding pend d using filter_pending_settled [OF f, of "n_ID ` set ns \<union> I" "n_ID n"] by simp
  moreover have "db w' = (db w)\<lparr>notifications := notifications (db w')\<rparr>"
    by (subst frame) (simp add: d)
  moreover have "foldE (ProcessPending_one E sender) (n # ns) s w = (Inr k, w')"
    using one rest by (simp add: run_simps)
  ultimately show ?case using le by (intro exI conjI) (auto split: if_splits)
qed

section \<open>Amounts are printed exactly\<close>

lemma div_half_even_near:
  assumes "0 < b"
  shows "2 * (b * div_half_even a b) \<le> 2 * a + b" and "2 * a \<le> 2 * (b * div_half_even a b) + b"
proof -
  define q r where "q = a div b" and "r = a mod b"
  have a: "a = b * q + r" by (simp add: q_def r_def)
  have "r < b" using assms by (simp add: r_def)
  moreover have "div_half_even a b = (if b < 2 * r \<or> (2 * r = b \<and> odd q) then q + 1 else q)"
    by (simp add: div_half_even_def q_def r_def Let_def)
  ultimately show "2 * (b * div_half_even a b) \<le> 2 * a + b" "2 * a \<le> 2 * (b * div_half_even a b) + b"
    unfolding a by (auto simp: algebra_simps)
qed

lemma div_half_even_exact:
  assumes "2 * a < 2 * (b * n) + b" and "2 * (b * n) < 2 * a + b"
  shows "div_half_even a b = n"
proof -
  have b: "0 < b" using assms by (cases "b = 0") auto
  note near = div_half_even_near [OF b, of a]
  from near assms have "b * div_half_even a b < b * (n + 1)" "b * n < b * (div_half_even a b + 1)"
    by (simp_all add: algebra_simps)
  then have "div_half_even a b < n + 1" "n < div_half_even a b + 1" unfolding mult_less_cancel1 by blast+
  then show ?thesis by simp
qed

text \<open>Two roundings, to 53 bits and to hundredths, lose nothing up to seventy trillion.\<close>

lemma hundredths_exact:
  assumes "n < 100 * 2 ^ 46"
  shows "hundredths n = n"
proof (cases "n = 0")
  case False
  define b where "b = bit_length (128 * n div 100)"
  define e where "e = 60 - b"
  have "128 * n div 100 < 2 ^ 53" using assms by (simp add: div_less_iff_less_mult)
  then have "b \<le> 53" unfolding b_def by (rule bit_length_le)
  then have "7 \<le> e" by (simp add: e_def)
  then have big: "(2 :: nat) ^ 7 \<le> 2 ^ e" by (intro power_increasing) simp_all
  let ?q = "div_half_even (n * 2 ^ e) 100"
  have "2 * (100 * ?q) \<le> 2 * (n * 2 ^ e) + 100" "2 * (n * 2 ^ e) \<le> 2 * (100 * ?q) + 100"
    using div_half_even_near [of 100 "n * 2 ^ e"] by simp_all
  with big have "2 * (100 * ?q) < 2 * (2 ^ e * n) + 2 ^ e" "2 * (2 ^ e * n) < 2 * (100 * ?q) + 2 ^ e"
    by (simp_all add: mult.commute)
  then have "div_half_even (100 * ?q) (2 ^ e) = n" by (rule div_half_even_exact)
  with False \<open>b \<le> 53\<close> show ?thesis unfolding hundredths_def Let_def b_def [symmetric] e_def [symmetric] by simp
qed (simp add: hundredths_def)

end
