(* ===== verification/HttpApi.thy ===== *)
theory HttpApi
  imports HttpHandlers Workers
begin

text \<open>
  The routes of \<open>internal/handler/http/router.go\<close>, and the two processes of the system as one step
  function: a request to \<open>cmd/api\<close> or a tick of one of the loops of \<open>cmd/worker\<close>.
\<close>

section \<open>router.go\<close>

text \<open>A route with parameters of the path, as \<open>chi.URLParam\<close> sees them.\<close>

definition with_param :: "string \<Rightarrow> string \<Rightarrow> handler \<Rightarrow> handler" where
  "with_param name v next r = next (r\<lparr>rq_URLParam := (rq_URLParam r)(name := v)\<rparr>)"

text \<open>Middleware groups: \<open>protected\<close> under \<open>/admin\<close>, \<open>fan\<close> and \<open>purchase\<close>.\<close>

definition admin_group :: "env \<Rightarrow> RouterDeps \<Rightarrow> handler \<Rightarrow> handler" where
  "admin_group E deps next = RequireAuth E (dp_jwt deps) (RequireAdmin next)"

definition purchase_group :: "env \<Rightarrow> RouterDeps \<Rightarrow> handler \<Rightarrow> handler" where
  "purchase_group E deps next = RequireAuth E (dp_jwt deps) (RequireTenantHeader E next)"

text \<open>
  The mux: \<open>None\<close> when no route matches, which is left to the router package.  A segment of the path in
  braces is a variable here.
\<close>

definition api_routes :: "env \<Rightarrow> RouterDeps \<Rightarrow> string \<Rightarrow> string list \<Rightarrow> handler option" where
  "api_routes E deps method path =
    (if method = ''POST'' then
      (case path of
        [a, b] \<Rightarrow>
          if a = ''auth'' \<and> b = ''register'' then Some (AuthHandler_Register E deps)
          else if a = ''auth'' \<and> b = ''login'' then Some (AuthHandler_Login E deps)
          else if a = ''auth'' \<and> b = ''refresh'' then Some (AuthHandler_Refresh E deps)
          else if a = ''auth'' \<and> b = ''logout'' then Some (AuthHandler_Logout E deps)
          else if a = ''admin'' \<and> b = ''bootstrap'' then Some (AuthHandler_BootstrapAdmin E deps)
          else if a = ''admin'' \<and> b = ''venues'' then Some (admin_group E deps (AdminVenueHandler_Create E deps))
          else if a = ''admin'' \<and> b = ''seat-categories'' then
            Some (admin_group E deps (AdminEventHandler_CreateSeatCategory E deps))
          else if a = ''admin'' \<and> b = ''events'' then
            Some (admin_group E deps (AdminEventHandler_CreateEvent E deps))
          else None
      | [a, b, c, d] \<Rightarrow>
          if a = ''admin'' \<and> b = ''events'' \<and> d = ''ticket-categories'' then
            Some (admin_group E deps (with_param ''eventID'' c (AdminEventHandler_CreateTicketCategory E deps)))
          else if a = ''admin'' \<and> b = ''events'' \<and> d = ''publish'' then
            Some (admin_group E deps (with_param ''eventID'' c (AdminEventHandler_PublishEvent E deps)))
          else None
      | [a, b, c] \<Rightarrow>
          if a = ''events'' \<and> c = ''queue'' then
            Some (purchase_group E deps (with_param ''eventID'' b (InventoryHandler_JoinQueue E)))
          else if a = ''inventory'' \<and> c = ''hold'' then
            Some (purchase_group E deps (with_param ''id'' b (InventoryHandler_Hold E deps)))
          else if a = ''inventory'' \<and> c = ''release'' then
            Some (purchase_group E deps (with_param ''id'' b (InventoryHandler_Release E deps)))
          else if a = ''orders'' \<and> c = ''authorize'' then
            Some (purchase_group E deps (with_param ''id'' b (OrderHandler_Authorize E deps)))
          else None
      | [a] \<Rightarrow> if a = ''orders'' then Some (purchase_group E deps (OrderHandler_Create E deps)) else None
      | _ \<Rightarrow> None)
    else if method = ''GET'' then
      (case path of
        [] \<Rightarrow> Some (\<lambda>r. replyE StatusOK (JObject
          [(''service'', JString ''ticketing-backend''), (''status'', JString ''scaffold'')]))
      | [a] \<Rightarrow>
          if a = ''me'' then Some (RequireAuth E (dp_jwt deps) (AuthHandler_Me E))
          else if a = ''events'' then Some (RequireTenantHeader E (EventHandler_List E))
          else if a = ''orders'' then Some (purchase_group E deps (OrderHandler_List E))
          else None
      | [a, b] \<Rightarrow>
          if a = ''admin'' \<and> b = ''venues'' then Some (admin_group E deps (AdminVenueHandler_List E))
          else if a = ''events'' then Some (RequireTenantHeader E (with_param ''id'' b (EventHandler_Get E)))
          else if a = ''orders'' then Some (purchase_group E deps (with_param ''id'' b (OrderHandler_Get E)))
          else None
      | [a, b, c] \<Rightarrow>
          if a = ''events'' \<and> c = ''queue'' then
            Some (purchase_group E deps (with_param ''eventID'' b (InventoryHandler_QueueStatus E)))
          else None
      | _ \<Rightarrow> None)
    else None)"

definition routes :: "env \<Rightarrow> RouterDeps \<Rightarrow> string \<Rightarrow> string list \<Rightarrow> handler option" where
  "routes E deps method path =
    (if method = ''GET'' \<and> path = [''healthz''] then Some HealthHandler_Live
     else if method = ''GET'' \<and> path = [''readyz''] then Some (HealthHandler_Ready E)
     else if method = ''POST'' \<and> path = [''webhooks'', ''stripe''] then Some (WebhookHandler_Stripe E deps)
     else case path of
       a # b # rest \<Rightarrow> if a = ''api'' \<and> b = ''v1'' then api_routes E deps method rest else None
     | _ \<Rightarrow> None)"

text \<open>
  The router behind its global middleware: the request id (an incoming one is kept, otherwise one is
  drawn, which is an external call), then \<open>RealIP\<close>, which resets \<open>RemoteAddr\<close>.  The context of a new
  request is empty.
\<close>

definition RequestID :: "env \<Rightarrow> (string \<Rightarrow> handler) \<Rightarrow> handler" where
  "RequestID E next r =
    (let i = rq_Header r ''X-Request-ID'' in
     if i = '''' then bindE (uuid_New E) (\<lambda>u. next (e_uuid_String E u) r) else next i r)"

definition NewRouter :: "env \<Rightarrow> RouterDeps \<Rightarrow> handler" where
  "NewRouter E deps =
    RequestID E (\<lambda>_ r.
      case routes E deps (rq_Method r) (rq_Path r) of
        None \<Rightarrow> returnE (dp_NotFound deps r)
      | Some handle \<Rightarrow> handle (r\<lparr>rq_RemoteAddr := dp_RealIP deps r, rq_claims := None, rq_resolvedTenant := None\<rparr>))"

section \<open>The system\<close>

record system =
  sy_deps :: RouterDeps
  sy_worker :: WorkerConfig
  sy_email :: EmailConfig

datatype system_input = Http Request | SweepTick | AdmissionTick | NotificationTick

fun system_step :: "env \<Rightarrow> system \<Rightarrow> system_input \<Rightarrow> unit \<Rightarrow> unit op" where
  "system_step E sy (Http r) u = bindE (NewRouter E (sy_deps sy) r) (\<lambda>_. returnE ())"
| "system_step E sy SweepTick u = runSweepLoop_tick E (sy_worker sy)"
| "system_step E sy AdmissionTick u = runAdmissionLoop_tick E (sy_worker sy)"
| "system_step E sy NotificationTick u = runNotificationLoop_tick E (sy_worker sy) (worker_sender (sy_email sy))"

section \<open>Every input moves the inventory along its history\<close>

context db_effect
begin

lemma moves_withBody: "(\<And>v. moves (\<lambda>w w'. Q (db w) (db w')) (k v)) \<Longrightarrow> moves (\<lambda>w w'. Q (db w) (db w')) (withBody d k)"
  unfolding withBody_def by (intro moves_intros)

lemma moves_withUUID: "(\<And>i. moves (\<lambda>w w'. Q (db w) (db w')) (k i)) \<Longrightarrow> moves (\<lambda>w w'. Q (db w) (db w')) (withUUID E s code msg k)"
  unfolding withUUID_def by (intro moves_intros)

lemma moves_withAdminTenant:
  "(\<And>i. TenantIDFromContext E r = Some i \<Longrightarrow> moves (\<lambda>w w'. Q (db w) (db w')) (k i)) \<Longrightarrow> moves (\<lambda>w w'. Q (db w) (db w')) (withAdminTenant E r k)"
  unfolding withAdminTenant_def by (auto intro: moves_return split: option.split)

lemma moves_with_param: "(\<And>q. moves (\<lambda>w w'. Q (db w) (db w')) (next q)) \<Longrightarrow> moves (\<lambda>w w'. Q (db w) (db w')) (with_param name v next r)"
  by (simp add: with_param_def)

lemma moves_RequireTenantHeader: "(\<And>q. moves (\<lambda>w w'. Q (db w) (db w')) (next q)) \<Longrightarrow> moves (\<lambda>w w'. Q (db w) (db w')) (RequireTenantHeader E next r)"
  unfolding RequireTenantHeader_def by (intro moves_intros)

lemma moves_RequireAdmin: "(\<And>q. moves (\<lambda>w w'. Q (db w) (db w')) (next q)) \<Longrightarrow> moves (\<lambda>w w'. Q (db w) (db w')) (RequireAdmin next r)"
  unfolding RequireAdmin_def by (intro moves_intros)

lemmas http_moves_intros =
  moves_withBody moves_withUUID moves_withAdminTenant moves_with_param moves_RequireTenantHeader moves_RequireAdmin

lemma moves_RequireAuth:
  "(\<And>q. moves (\<lambda>w w'. Q (db w) (db w')) (next q)) \<Longrightarrow> moves (\<lambda>w w'. Q (db w) (db w')) (RequireAuth E cfg next r)"
  unfolding RequireAuth_def ParseAccessToken_def by (intro db_moves_intros)

lemma moves_RequestID:
  "(\<And>i. moves (\<lambda>w w'. Q (db w) (db w')) (next i r)) \<Longrightarrow> moves (\<lambda>w w'. Q (db w) (db w')) (RequestID E next r)"
  unfolding RequestID_def by (intro db_moves_intros)

lemma moves_pings:
  "moves (\<lambda>w w'. Q (db w) (db w')) (pg_Ping E)" "moves (\<lambda>w w'. Q (db w) (db w')) (redis_Ping E)"
  unfolding pg_Ping_def by (rule moves_query) (simp add: moves_def redis_Ping_def db_refl)

lemmas api_moves_intros = db_moves_intros http_moves_intros moves_RequireAuth moves_RequestID moves_pings

end

lemmas account_history =
  account_reads_keep_inventory [THEN keeps_inventory_history]
  account_writes_keep_inventory [THEN keeps_inventory_history]

lemma auth_local_history: "writes_history (hashPassword E pw)" "writes_history (generateRefreshToken E)"
  by (simp_all add: moves_def hashPassword_def generateRefreshToken_def hist.db_refl)

lemma auth_history:
  "writes_history (Register E email pw f l)" "writes_history (RegisterAdmin E t email pw f l)"
  "writes_history (Login E cfg email pw ua ip)" "writes_history (RefreshAccessToken E cfg raw ua ip)"
  "writes_history (Logout E raw)"
  unfolding Register_def RegisterAdmin_def Login_def RefreshAccessToken_def Logout_def issueTokenPair_def
  by (intro hist.db_moves_intros auth_local_history account_history)+

lemmas service_history =
  auth_history HoldSeat_history ReleaseHold_history queue_history SweepExpiredHolds_history ConfirmPayment_history
  InventoryRepo_BulkCreate_history
  CreateOrder_keeps_inventory [THEN keeps_inventory_history]
  AuthorizePayment_keeps_inventory [THEN keeps_inventory_history]
  order_repo_keeps_inventory [THEN keeps_inventory_history]
  catalog_reads_keep_inventory [THEN keeps_inventory_history]
  catalog_writes_keep_inventory [THEN keeps_inventory_history]

lemma CountByStatus_history: "writes_history (InventoryRepo_CountByStatus E t e)"
  unfolding InventoryRepo_CountByStatus_def by (intro hist.db_moves_intros)

lemma publish_row_history: "writes_history (publish_row E t e c i rows)"
  unfolding publish_row_def by (intro hist.db_moves_intros)

lemmas handler_history_intros = hist.api_moves_intros service_history CountByStatus_history publish_row_history

lemma fan_history:
  "writes_history (AuthHandler_Register E h r)" "writes_history (AuthHandler_Login E h r)"
  "writes_history (AuthHandler_Refresh E h r)" "writes_history (AuthHandler_Logout E h r)"
  "writes_history (AuthHandler_Me E r)" "writes_history (AuthHandler_BootstrapAdmin E h r)"
  "writes_history (InventoryHandler_JoinQueue E r)" "writes_history (InventoryHandler_QueueStatus E r)"
  "writes_history (InventoryHandler_Hold E h r)" "writes_history (InventoryHandler_Release E h r)"
  unfolding AuthHandler_Register_def AuthHandler_Login_def AuthHandler_Refresh_def AuthHandler_Logout_def
    AuthHandler_Me_def AuthHandler_BootstrapAdmin_def InventoryHandler_JoinQueue_def
    InventoryHandler_QueueStatus_def InventoryHandler_Hold_def InventoryHandler_Release_def
  by (intro handler_history_intros)+

lemma order_history:
  "writes_history (OrderHandler_Create E h r)" "writes_history (OrderHandler_Authorize E h r)"
  "writes_history (OrderHandler_List E r)" "writes_history (OrderHandler_Get E r)"
  "writes_history (WebhookHandler_Stripe E h r)" "writes_history (EventHandler_List E r)"
  "writes_history (EventHandler_Get E r)" "writes_history (HealthHandler_Live r)"
  "writes_history (HealthHandler_Ready E r)"
  unfolding OrderHandler_Create_def OrderHandler_Authorize_def OrderHandler_List_def OrderHandler_Get_def
    WebhookHandler_Stripe_def WebhookHandler_succeeded_def EventHandler_List_def EventHandler_Get_def
    HealthHandler_Live_def HealthHandler_Ready_def
  by (intro handler_history_intros)+

lemma admin_history:
  "writes_history (AdminVenueHandler_Create E h r)" "writes_history (AdminVenueHandler_List E r)"
  "writes_history (AdminEventHandler_CreateSeatCategory E h r)" "writes_history (AdminEventHandler_CreateEvent E h r)"
  "writes_history (AdminEventHandler_CreateTicketCategory E h r)"
  "writes_history (AdminEventHandler_PublishEvent E h r)"
  unfolding AdminVenueHandler_Create_def AdminVenueHandler_List_def AdminEventHandler_CreateSeatCategory_def
    AdminEventHandler_CreateEvent_def AdminEventHandler_CreateTicketCategory_def AdminEventHandler_PublishEvent_def
  by (intro handler_history_intros)+

lemma api_routes_history: "api_routes E deps m p = Some handle \<Longrightarrow> writes_history (handle r)"
  unfolding api_routes_def admin_group_def purchase_group_def
  by (auto split: if_splits list.splits
      intro!: hist.moves_RequireAuth hist.http_moves_intros fan_history order_history admin_history hist.moves_return)

lemma routes_history: "routes E deps m p = Some handle \<Longrightarrow> writes_history (handle r)"
  unfolding routes_def
  by (auto split: if_splits list.splits intro: order_history api_routes_history)

lemma NewRouter_history: "writes_history (NewRouter E deps r)"
  unfolding NewRouter_def
proof (rule hist.moves_RequestID)
  show "writes_history (case routes E deps (rq_Method r) (rq_Path r) of
        None \<Rightarrow> returnE (dp_NotFound deps r)
      | Some handle \<Rightarrow> handle (r\<lparr>rq_RemoteAddr := dp_RealIP deps r, rq_claims := None, rq_resolvedTenant := None\<rparr>))"
    by (cases "routes E deps (rq_Method r) (rq_Path r)")
      (auto intro: hist.moves_return routes_history)
qed

lemma worker_history:
  "writes_history (runSweepLoop_tick E wc)" "writes_history (runAdmissionLoop_tick E wc)"
  "writes_history (runNotificationLoop_tick E wc sender)"
proof -
  have send: "writes_history (Send E sender msg)" for msg
    by (cases sender) (simp_all add: moves_def ConsoleSender_Send_def SMTPSender_Send_def hist.db_refl)
  show "writes_history (runSweepLoop_tick E wc)" "writes_history (runAdmissionLoop_tick E wc)"
    "writes_history (runNotificationLoop_tick E wc sender)"
    unfolding runSweepLoop_tick_def runAdmissionLoop_tick_def runNotificationLoop_tick_def RunOnce_def
      RunOnce_tenant_def RunOnce_event_def admitForEvent_def ProcessPending_def ProcessPending_one_def processOne_def
    by (intro handler_history_intros account_history send)+
qed

lemma system_history: "writes_history (system_step E sy inp u)"
  by (cases inp) (auto intro: hist.moves_bind hist.moves_return NewRouter_history worker_history)

end
