(* ===== verification/Startup.thy ===== *)
theory Startup
  imports HttpApi
begin

text \<open>
  How the processes come up: \<open>internal/config\<close>, \<open>internal/pkg/logger\<close>, the connections of
  \<open>internal/platform/database\<close> and \<open>internal/platform/redis\<close>, and the \<open>run\<close> functions of \<open>cmd/api\<close>,
  \<open>cmd/worker\<close> and \<open>cmd/migrate\<close>.  What the packages for the environment, struct tags, logging, pgx,
  Redis and migrations answer is a record of functions; logged lines are not modelled.
\<close>

section \<open>config.go\<close>

record AppConfig =
  app_Env :: string
  app_Name :: string
  app_LogLevel :: string

definition IsProduction :: "AppConfig \<Rightarrow> bool" where
  "IsProduction a \<longleftrightarrow> app_Env a = ''production''"

record HTTPConfig =
  http_Port :: int
  http_ReadTimeout :: duration
  http_WriteTimeout :: duration
  http_IdleTimeout :: duration
  http_ShutdownTimeout :: duration

record PostgresConfig =
  pg_DSN :: string
  pg_MaxOpenConns :: int
  pg_MaxIdleConns :: int
  pg_ConnMaxLifetime :: duration

record RedisConfig =
  rc_Addr :: string
  rc_Password :: string
  rc_DB :: int
  rc_PoolSize :: int

record KafkaConfig =
  kc_Brokers :: "string list"
  kc_ConsumerGroup :: string

record StripeConfig =
  stripe_SecretKey :: string
  stripe_WebhookSecret :: string

record AdyenConfig =
  adyen_APIKey :: string
  adyen_MerchantAccount :: string

record BootstrapConfig =
  bootstrap_Secret :: string

record Config =
  cfg_App :: AppConfig
  cfg_HTTP :: HTTPConfig
  cfg_Postgres :: PostgresConfig
  cfg_Redis :: RedisConfig
  cfg_Kafka :: KafkaConfig
  cfg_JWT :: JWTConfig
  cfg_Stripe :: StripeConfig
  cfg_Adyen :: AdyenConfig
  cfg_Bootstrap :: BootstrapConfig
  cfg_Worker :: WorkerConfig
  cfg_Email :: EmailConfig

text \<open>
  What the \<open>validate\<close> tags of these structs demand.  \<open>min=16\<close> counts the runes of a string, of which
  there are at most as many as bytes.
\<close>

definition config_tags :: "Config \<Rightarrow> bool" where
  "config_tags c \<longleftrightarrow>
    app_Env (cfg_App c) \<in> set [''development'', ''staging'', ''production''] \<and>
    app_LogLevel (cfg_App c) \<in> set [''debug'', ''info'', ''warn'', ''error''] \<and>
    1 \<le> http_Port (cfg_HTTP c) \<and> http_Port (cfg_HTTP c) \<le> 65535 \<and>
    pg_DSN (cfg_Postgres c) \<noteq> '''' \<and> 1 \<le> pg_MaxOpenConns (cfg_Postgres c) \<and> 0 \<le> pg_MaxIdleConns (cfg_Postgres c) \<and>
    rc_Addr (cfg_Redis c) \<noteq> '''' \<and> 1 \<le> rc_PoolSize (cfg_Redis c) \<and>
    16 \<le> length (jwt_Secret (cfg_JWT c)) \<and> 16 \<le> length (jwt_RefreshSecret (cfg_JWT c)) \<and>
    1 \<le> wc_SweepBatchSize (cfg_Worker c) \<and> 1 \<le> wc_AdmissionMaxPerTick (cfg_Worker c) \<and>
    1 \<le> wc_NotificationBatchSize (cfg_Worker c)"

section \<open>The packages a process starts with\<close>

datatype zap_preset = NewProductionConfig | NewDevelopmentConfig

text \<open>A preset of the logging package and what \<open>logger.New\<close> overrides in it.\<close>

record zap_config =
  zc_preset :: zap_preset
  zc_TimeKey :: "string option"
  zc_EncodeTime :: "string option"
  zc_EncodeLevel :: "string option"
  zc_Level :: int

record pool_config =
  pc_ConnConfig :: string
  pc_MaxConns :: int
  pc_MinConns :: int
  pc_MaxConnLifetime :: duration
  pc_MaxConnIdleTime :: duration
  pc_HealthCheckPeriod :: duration

record redis_options =
  ro_Addr :: string
  ro_Password :: string
  ro_DB :: int
  ro_PoolSize :: int
  ro_DialTimeout :: duration
  ro_ReadTimeout :: duration
  ro_WriteTimeout :: duration

record start_env =
  se_env_Parse :: "error + Config"
  se_validate :: "Config \<Rightarrow> error option"
  se_ParseLevel :: "string \<Rightarrow> error + int"
  se_zap_Build :: "zap_config \<Rightarrow> error option"
  se_pgx_ParseConfig :: "string \<Rightarrow> error + pool_config"
  se_pgx_NewWithConfig :: "pool_config \<Rightarrow> error option"
  se_pgx_Ping :: "pool_config \<Rightarrow> error option"
  se_redis_Ping :: "redis_options \<Rightarrow> error option"

text \<open>
  The state of a process: the connection pools and Redis clients it has open, what its HTTP server was
  started with, and what its loops were started with.
\<close>

record process =
  open_pools :: nat
  open_clients :: nat
  served :: "RouterDeps list"
  looping :: "(WorkerConfig \<times> EmailSender) list"

type_synonym 'a proc = "(process, error, 'a) comp"

text \<open>A call whose answer is given.\<close>

definition answerE :: "error + 'a \<Rightarrow> 'a proc" where
  "answerE r = (\<lambda>s. (r, s))"

definition pool_Close :: "unit proc" where
  "pool_Close = (\<lambda>s. (Inr (), s\<lparr>open_pools := open_pools s - 1\<rparr>))"

definition client_Close :: "unit proc" where
  "client_Close = (\<lambda>s. (Inr (), s\<lparr>open_clients := open_clients s - 1\<rparr>))"

definition pool_open :: "start_env \<Rightarrow> pool_config \<Rightarrow> unit proc" where
  "pool_open S p = (\<lambda>s. case se_pgx_NewWithConfig S p of
    Some err \<Rightarrow> (Inl err, s) | None \<Rightarrow> (Inr (), s\<lparr>open_pools := open_pools s + 1\<rparr>))"

definition client_open :: "unit proc" where
  "client_open = (\<lambda>s. (Inr (), s\<lparr>open_clients := open_clients s + 1\<rparr>))"

section \<open>Configuration, logger and connections\<close>

definition Load :: "start_env \<Rightarrow> error + Config" where
  "Load S =
    (case se_env_Parse S of
      Inl err \<Rightarrow> Inl (Wrap ''config: parse env: %w'' err)
    | Inr cfg \<Rightarrow>
        (case se_validate S cfg of
          Some err \<Rightarrow> Inl (Wrap ''config: validate: %w'' err)
        | None \<Rightarrow> Inr cfg))"

definition logger_New :: "start_env \<Rightarrow> string \<Rightarrow> string \<Rightarrow> error + zap_config" where
  "logger_New S appEnv level =
    (case se_ParseLevel S level of
      Inl err \<Rightarrow> Inl (Wrap ''logger: invalid log level %q: %w'' err)
    | Inr lvl \<Rightarrow>
        let cfg = (if appEnv = ''production'' \<or> appEnv = ''staging'' then
              \<lparr>zc_preset = NewProductionConfig, zc_TimeKey = Some ''timestamp'',
               zc_EncodeTime = Some ''ISO8601TimeEncoder'', zc_EncodeLevel = None, zc_Level = lvl\<rparr>
            else
              \<lparr>zc_preset = NewDevelopmentConfig, zc_TimeKey = None, zc_EncodeTime = None,
               zc_EncodeLevel = Some ''CapitalColorLevelEncoder'', zc_Level = lvl\<rparr>)
        in case se_zap_Build S cfg of
          Some err \<Rightarrow> Inl (Wrap ''logger: build: %w'' err)
        | None \<Rightarrow> Inr cfg)"

definition seconds :: "int \<Rightarrow> duration" where
  "seconds n = n * 10 ^ 6"

definition NewPool :: "start_env \<Rightarrow> PostgresConfig \<Rightarrow> pool_config proc" where
  "NewPool S cfg =
    bindE (wrapE ''database: parse dsn: %w'' (answerE (se_pgx_ParseConfig S (pg_DSN cfg)))) (\<lambda>parsed.
    let poolCfg = parsed\<lparr>pc_MaxConns := pg_MaxOpenConns cfg, pc_MinConns := pg_MaxIdleConns cfg,
          pc_MaxConnLifetime := pg_ConnMaxLifetime cfg, pc_MaxConnIdleTime := seconds (5 * 60),
          pc_HealthCheckPeriod := seconds 30\<rparr>
    in bindE (wrapE ''database: create pool: %w'' (pool_open S poolCfg)) (\<lambda>_.
       case se_pgx_Ping S poolCfg of
         Some err \<Rightarrow> bindE pool_Close (\<lambda>_. throwE (Wrap ''database: ping: %w'' err))
       | None \<Rightarrow> returnE poolCfg))"

definition NewClient :: "start_env \<Rightarrow> RedisConfig \<Rightarrow> redis_options proc" where
  "NewClient S cfg =
    (let opts = \<lparr>ro_Addr = rc_Addr cfg, ro_Password = rc_Password cfg, ro_DB = rc_DB cfg,
          ro_PoolSize = rc_PoolSize cfg, ro_DialTimeout = seconds 5, ro_ReadTimeout = seconds 2,
          ro_WriteTimeout = seconds 2\<rparr>
     in bindE client_open (\<lambda>_.
        case se_redis_Ping S opts of
          Some err \<Rightarrow> bindE client_Close (\<lambda>_. throwE (Wrap ''redis: ping: %w'' err))
        | None \<Rightarrow> returnE opts))"

section \<open>cmd/api\<close>

definition api_gateway :: "StripeConfig \<Rightarrow> gateway" where
  "api_gateway c =
    (if stripe_SecretKey c \<noteq> '''' then StripeGateway (stripe_SecretKey c) (stripe_WebhookSecret c)
     else MockGateway (stripe_WebhookSecret c))"

text \<open>The handlers' dependencies; codec, \<open>RealIP\<close> and the answer to unknown routes come from packages.\<close>

definition api_deps ::
  "codec \<Rightarrow> (Request \<Rightarrow> string) \<Rightarrow> (Request \<Rightarrow> Response) \<Rightarrow> Config \<Rightarrow> RouterDeps" where
  "api_deps cd realIP notFound cfg =
    \<lparr>dp_codec = cd, dp_jwt = cfg_JWT cfg, dp_gateway = api_gateway (cfg_Stripe cfg),
     dp_bootstrapSecret = bootstrap_Secret (cfg_Bootstrap cfg), dp_inventory = DefaultConfig,
     dp_RealIP = realIP, dp_NotFound = notFound\<rparr>"

text \<open>How serving ends: \<open>ListenAndServe\<close> returns, or a signal arrives and \<open>Shutdown\<close> returns.\<close>

datatype serve_end = ServeFailed error | ServerClosed | Signalled "error option"

definition api_serve :: "RouterDeps \<Rightarrow> serve_end \<Rightarrow> unit proc" where
  "api_serve deps fin = (\<lambda>s.
    (case fin of
      ServeFailed err \<Rightarrow> Inl (Wrap ''http server: %w'' err)
    | ServerClosed \<Rightarrow> Inr ()
    | Signalled (Some err) \<Rightarrow> Inl (Wrap ''graceful shutdown: %w'' err)
    | Signalled None \<Rightarrow> Inr (),
     s\<lparr>served := served s @ [deps]\<rparr>))"

text \<open>What the two servers have in common: configuration, logger, Postgres and Redis.\<close>

definition with_connections :: "start_env \<Rightarrow> (Config \<Rightarrow> 'a proc) \<Rightarrow> 'a proc" where
  "with_connections S body =
    bindE (wrapE ''load config: %w'' (answerE (Load S))) (\<lambda>cfg.
    bindE (wrapE ''build logger: %w'' (answerE (logger_New S (app_Env (cfg_App cfg)) (app_LogLevel (cfg_App cfg))))) (\<lambda>log.
    bindE (wrapE ''connect postgres: %w'' (NewPool S (cfg_Postgres cfg))) (\<lambda>dbPool.
    deferE pool_Close (
      bindE (wrapE ''connect redis: %w'' (NewClient S (cfg_Redis cfg))) (\<lambda>redisClient.
      deferE client_Close (body cfg))))))"

definition api_run ::
  "start_env \<Rightarrow> (Config \<Rightarrow> RouterDeps) \<Rightarrow> serve_end \<Rightarrow> unit proc" where
  "api_run S deps fin = with_connections S (\<lambda>cfg. api_serve (deps cfg) fin)"

section \<open>cmd/worker\<close>

text \<open>
  The worker's goroutines start their tickers first, and \<open>time.NewTicker\<close> panics unless its interval is
  positive.  That ends the process at once, and the operating system closes what was open.  Otherwise the
  worker runs until a signal arrives and its loops have returned.
\<close>

datatype worker_end = Stopped | Panicked

definition tickers_start :: "WorkerConfig \<Rightarrow> bool" where
  "tickers_start wc \<longleftrightarrow> 0 < wc_SweepInterval wc \<and> 0 < wc_AdmissionInterval wc \<and> 0 < wc_NotificationInterval wc"

definition worker_loops :: "Config \<Rightarrow> worker_end proc" where
  "worker_loops cfg = (\<lambda>s.
    if tickers_start (cfg_Worker cfg) then
      (Inr Stopped, s\<lparr>looping := looping s @ [(cfg_Worker cfg, worker_sender (cfg_Email cfg))]\<rparr>)
    else (Inr Panicked, s))"

definition worker_run :: "start_env \<Rightarrow> worker_end proc" where
  "worker_run S = with_connections S worker_loops"

section \<open>cmd/migrate\<close>

text \<open>
  The commands of the migration package, in the order they are issued; \<open>ErrNoChange\<close> is a sentinel of
  that package.  The result tells whether there was nothing to do.
\<close>

datatype migration = MigrateUp | MigrateDown | MigrateSteps int | MigrateForce int

record migrate_flags =
  mf_direction :: string
  mf_steps :: int
  mf_version :: int
  mf_path :: string

record migrate_pkg =
  mp_New :: "string \<Rightarrow> string \<Rightarrow> error option"
  mp_do :: "migration \<Rightarrow> error option"
  mp_NoChange :: "error \<Rightarrow> bool"

definition migrate_issue :: "migrate_pkg \<Rightarrow> migration \<Rightarrow> (migration list, error, error option) comp" where
  "migrate_issue m c = (\<lambda>log. (Inr (mp_do m c), log @ [c]))"

definition migrate_run ::
  "start_env \<Rightarrow> migrate_pkg \<Rightarrow> migrate_flags \<Rightarrow> (migration list, error, bool) comp" where
  "migrate_run S m fl =
    (case Load S of
      Inl err \<Rightarrow> throwE (Wrap ''load config: %w'' err)
    | Inr cfg \<Rightarrow>
        (case mp_New m (''file://'' @ mf_path fl) (pg_DSN (cfg_Postgres cfg)) of
          Some err \<Rightarrow> throwE (Wrap ''init migrator: %w'' err)
        | None \<Rightarrow>
            bindE (if mf_direction fl = ''up'' then migrate_issue m MigrateUp
              else if mf_direction fl = ''down'' then
                (if 0 < mf_steps fl then migrate_issue m (MigrateSteps (- mf_steps fl)) else migrate_issue m MigrateDown)
              else if mf_direction fl = ''force'' then migrate_issue m (MigrateForce (mf_version fl))
              else throwE (ErrText (''unknown -direction '' @ fmt_q (mf_direction fl) @ '' (want up|down|force)''))) (\<lambda>r.
            case r of
              None \<Rightarrow> returnE False
            | Some err \<Rightarrow>
                if mp_NoChange m err then returnE True else throwE (Wrap ''run migration (%s): %w'' err))))"

section \<open>Readiness and clean exits\<close>

text \<open>Whatever the body does to the rest of the process, the connections are balanced.\<close>

lemma NewPool_cases:
  assumes "NewPool S cfg s = (r, s')"
  obtains e where "r = Inl e" "s' = s"
  | p where "r = Inr p" "s' = s\<lparr>open_pools := open_pools s + 1\<rparr>" "se_pgx_Ping S p = None"
      "pc_MaxConns p = pg_MaxOpenConns cfg"
  using assms
  by (auto simp: NewPool_def answerE_def pool_open_def pool_Close_def Let_def bindE_def mapErrE_def returnE_def
      throwE_def split: sum.splits option.splits prod.splits)

lemma NewClient_cases:
  assumes "NewClient S cfg s = (r, s')"
  obtains e where "r = Inl e" "s' = s"
  | p where "r = Inr p" "s' = s\<lparr>open_clients := open_clients s + 1\<rparr>" "se_redis_Ping S p = None" "ro_Addr p = rc_Addr cfg"
  using assms
  by (auto simp: NewClient_def client_open_def client_Close_def Let_def bindE_def returnE_def
      throwE_def split: sum.splits option.splits prod.splits)

lemma with_connections_cases:
  assumes "with_connections S body s = (r, s')"
  obtains e where "r = Inl e" "s' = s"
  | cfg p q s1 where "Load S = Inr cfg" "se_pgx_Ping S p = None" "pc_MaxConns p = pg_MaxOpenConns (cfg_Postgres cfg)"
      "se_redis_Ping S q = None" "ro_Addr q = rc_Addr (cfg_Redis cfg)"
      "body cfg (s\<lparr>open_pools := open_pools s + 1, open_clients := open_clients s + 1\<rparr>) = (r, s1)"
      "s' = s1\<lparr>open_clients := open_clients s1 - 1, open_pools := open_pools s1 - 1\<rparr>"
proof -
  show thesis
  proof (cases "\<exists>cfg log. Load S = Inr cfg \<and> logger_New S (app_Env (cfg_App cfg)) (app_LogLevel (cfg_App cfg)) = Inr log")
    case False
    with assms show thesis
      by (auto intro: that(1) simp: with_connections_def answerE_def bindE_def mapErrE_def split: sum.splits prod.splits)
  next
    case True
    then obtain cfg log where load: "Load S = Inr cfg"
      "logger_New S (app_Env (cfg_App cfg)) (app_LogLevel (cfg_App cfg)) = Inr log" by blast
    obtain rp s1 where pool: "NewPool S (cfg_Postgres cfg) s = (rp, s1)" by fastforce
    obtain rq s2 where client: "NewClient S (cfg_Redis cfg) s1 = (rq, s2)" by fastforce
    obtain rb s3 where body: "body cfg s2 = (rb, s3)" by fastforce
    have run: "(r, s') = (case rp of
        Inl e \<Rightarrow> (Inl (Wrap ''connect postgres: %w'' e), s1)
      | Inr p \<Rightarrow> (case rq of
          Inl e \<Rightarrow> (Inl (Wrap ''connect redis: %w'' e), snd (pool_Close s2))
        | Inr q \<Rightarrow> (rb, snd (pool_Close (snd (client_Close s3))))))"
      using assms load pool client body
      by (auto simp: with_connections_def answerE_def bindE_def mapErrE_def deferE_def split: sum.splits prod.splits)
    from pool show thesis
    proof (cases rule: NewPool_cases)
      case (1 e)
      with run show thesis by (intro that(1)) auto
    next
      case p: (2 p)
      from client show thesis
      proof (cases rule: NewClient_cases)
        case (1 e)
        with run p show thesis by (intro that(1)) (auto simp: pool_Close_def)
      next
        case (2 q)
        with run p load body show thesis
          by (intro that(2) [of cfg p q s3]) (auto simp: pool_Close_def client_Close_def)
      qed
    qed
  qed
qed

lemma with_connections_balanced:
  assumes "\<And>cfg t. open_pools (snd (body cfg t)) = open_pools t \<and> open_clients (snd (body cfg t)) = open_clients t"
  shows "open_pools (snd (with_connections S body s)) = open_pools s \<and>
    open_clients (snd (with_connections S body s)) = open_clients s"
proof (cases rule: with_connections_cases [OF prod.collapse [symmetric], of S body s])
  case (2 cfg p q s1)
  with assms [of cfg "s\<lparr>open_pools := open_pools s + 1, open_clients := open_clients s + 1\<rparr>"] show ?thesis by simp
qed simp

lemma Load_Inr_iff: "Load S = Inr cfg \<longleftrightarrow> se_env_Parse S = Inr cfg \<and> se_validate S cfg = None"
  by (auto simp: Load_def split: sum.splits option.splits)

text \<open>A migration run issues one command at most, and undoes migrations only when told to.\<close>

lemma migrate_run_commands:
  assumes "migrate_run S m fl log = (r, log')"
  shows "log' = log \<or> (\<exists>c. log' = log @ [c] \<and>
    (case c of MigrateUp \<Rightarrow> mf_direction fl = ''up''
     | MigrateSteps n \<Rightarrow> mf_direction fl = ''down'' \<and> n = - mf_steps fl \<and> n < 0
     | MigrateDown \<Rightarrow> mf_direction fl = ''down'' \<and> mf_steps fl \<le> 0
     | MigrateForce v \<Rightarrow> mf_direction fl = ''force'' \<and> v = mf_version fl))"
  using assms
  by (auto simp: migrate_run_def migrate_issue_def bindE_def returnE_def throwE_def split: sum.splits option.splits if_splits)

end
