(* ===== verification/AccessControl.thy ===== *)
theory AccessControl
  imports HttpApi
begin

text \<open>
  Who can change what through the API: what an accepted bearer token is, that administrators reach
  the rows of their tenant only, that without a token nothing changes outside the public routes,
  and that administrators come from the bootstrap route only.
\<close>

section \<open>Bearer tokens\<close>

text \<open>The claims of an access token of the request that the token package accepts at some call.\<close>

definition bearer :: "env \<Rightarrow> JWTConfig \<Rightarrow> Request \<Rightarrow> Claims \<Rightarrow> bool" where
  "bearer E cfg r c \<longleftrightarrow> (\<exists>tok n. strings_CutPrefix (rq_Header r ''Authorization'') ''Bearer '' = (tok, True) \<and>
    e_jwt_parse E (jwt_Secret cfg) (e_now E n) tok = Inr (c, True))"

lemma ParseAccessToken_Inr:
  "ParseAccessToken E cfg tok w = (Inr c, w') \<longleftrightarrow>
     e_jwt_parse E (jwt_Secret cfg) (e_now E (tick w)) tok = Inr (c, True) \<and> w' = w\<lparr>tick := Suc (tick w)\<rparr>"
  by (auto simp: ParseAccessToken_def run_simps split: sum.splits)

lemma ParseAccessToken_tick: "ParseAccessToken E cfg tok w = (r, w') \<Longrightarrow> w' = w\<lparr>tick := Suc (tick w)\<rparr>"
  by (auto simp: ParseAccessToken_def run_simps split: sum.splits prod.splits if_splits)

text \<open>Past \<open>RequireAuth\<close> the claims in the context are those of the bearer token.\<close>

lemma RequireAuth_cases:
  assumes "RequireAuth E cfg next r w = (q, w')"
  obtains resp where "q = Inr resp" "db w' = db w" "rs_Status resp = StatusUnauthorized"
  | c w1 where "bearer E cfg r c" "db w1 = db w" "next (r\<lparr>rq_claims := Some c\<rparr>) w1 = (q, w')"
proof -
  obtain tok ok where cut: "strings_CutPrefix (rq_Header r ''Authorization'') ''Bearer '' = (tok, ok)" by fastforce
  show thesis
  proof (cases "\<not> ok \<or> tok = ''''")
    case True
    with assms cut show thesis
      by (intro that(1)) (auto simp: RequireAuth_def run_simps response_Error_def)
  next
    case False
    obtain p w1 where p: "ParseAccessToken E cfg tok w = (p, w1)" by fastforce
    have w1: "db w1 = db w" using ParseAccessToken_tick [OF p] by simp
    have run: "(case p of
        Inl err \<Rightarrow> refuseE StatusUnauthorized ''invalid-token'' ''access token is invalid or expired''
      | Inr claims \<Rightarrow> next (r\<lparr>rq_claims := Some claims\<rparr>)) w1 = (q, w')"
      using assms False cut unfolding RequireAuth_def
      by (simp add: bind_attemptE [where m = "ParseAccessToken E cfg tok", OF p])
    show thesis
    proof (cases p)
      case (Inl e)
      with run w1 show thesis by (intro that(1)) (auto simp: run_simps response_Error_def)
    next
      case (Inr c)
      with p have "bearer E cfg r c"
        using cut False by (auto simp: bearer_def ParseAccessToken_Inr)
      with run Inr w1 show thesis by (intro that(2)) auto
    qed
  qed
qed

section \<open>Tenants are isolated\<close>

text \<open>The database without the rows of a tenant that an administrator manages.\<close>

definition outside_tenant :: "uuid \<Rightarrow> database \<Rightarrow> database" where
  "outside_tenant t d = d\<lparr>
    venues := filter (\<lambda>v. v_TenantID v \<noteq> t) (venues d),
    seat_categories := filter (\<lambda>c. sc_TenantID c \<noteq> t) (seat_categories d),
    events := filter (\<lambda>e. ev_TenantID e \<noteq> t) (events d),
    event_ticket_categories := filter (\<lambda>c. etc_TenantID c \<noteq> t) (event_ticket_categories d),
    event_seat_inventory := filter (\<lambda>r. inv_TenantID r \<noteq> t) (event_seat_inventory d),
    inventory_audit_log := filter (\<lambda>a. al_TenantID a \<noteq> t) (inventory_audit_log d)\<rparr>"

interpretation tenant: db_frame "outside_tenant t" for t .

abbreviation within_tenant :: "uuid \<Rightarrow> 'a op \<Rightarrow> bool" where
  "within_tenant t \<equiv> moves (\<lambda>w w'. outside_tenant t (db w') = outside_tenant t (db w))"

lemma filter_sql_update_other:
  assumes "\<And>x. c x \<Longrightarrow> \<not> p x" and "\<And>x. c x \<Longrightarrow> \<not> p (f x)"
  shows "filter p (sql_update c f xs) = filter p xs"
  using assms by (induction xs) (auto simp: sql_update_def)

lemma events_UPDATE_within_tenant:
  assumes "events_UPDATE ev now d = Inr (n, d')" and "ev_TenantID ev = t"
  shows "outside_tenant t d' = outside_tenant t d"
proof -
  let ?c = "\<lambda>x. ev_ID x = ev_ID ev \<and> ev_TenantID x = ev_TenantID ev"
  from assms(1) obtain f where d': "d' = d\<lparr>events := sql_update ?c f (events d)\<rparr>"
    and keeps: "\<And>x. ev_TenantID (f x) = ev_TenantID x"
    by (auto simp: events_UPDATE_def Let_def split: if_splits)
  have "filter (\<lambda>e. ev_TenantID e \<noteq> t) (sql_update ?c f (events d)) = filter (\<lambda>e. ev_TenantID e \<noteq> t) (events d)"
    by (rule filter_sql_update_other) (simp_all add: keeps assms(2))
  then show ?thesis by (simp add: d' outside_tenant_def)
qed

lemma catalog_within_tenant:
  "v_TenantID v = t \<Longrightarrow> within_tenant t (VenueRepo_CreateVenue E v)"
  "sc_TenantID sc = t \<Longrightarrow> within_tenant t (SeatCategoryRepo_Create E sc)"
  "ev_TenantID ev = t \<Longrightarrow> within_tenant t (EventRepo_Create E ev)"
  "ev_TenantID ev = t \<Longrightarrow> within_tenant t (EventRepo_Update E ev)"
  "etc_TenantID tc = t \<Longrightarrow> within_tenant t (EventRepo_CreateTicketCategory E tc)"
  unfolding VenueRepo_CreateVenue_def SeatCategoryRepo_Create_def EventRepo_Create_def EventRepo_Update_def
    EventRepo_CreateTicketCategory_def
  by (intro tenant.frame.db_moves_intros tenant.frame.moves_stmt tenant.frame.moves_ExecUpdate;
      auto simp: venues_INSERT_def seat_categories_INSERT_def events_INSERT_def
        event_ticket_categories_INSERT_def pg_insert_Inr_iff outside_tenant_def Let_def
      dest: events_UPDATE_within_tenant [unfolded outside_tenant_def])+

lemma inventory_batch_within_tenant:
  "inventory_INSERT_batch rs now d = Inr (x, d') \<Longrightarrow> \<forall>r \<in> set rs. inv_TenantID r = t \<Longrightarrow>
   outside_tenant t d' = outside_tenant t d"
proof (induction rs arbitrary: d)
  case Nil
  then show ?case by simp
next
  case (Cons r rs)
  then obtain d1 where "inventory_INSERT r now d = Inr d1" "inventory_INSERT_batch rs now d1 = Inr (x, d')"
    by (auto split: sum.splits)
  with Cons show ?case
    by (auto simp: inventory_INSERT_def outside_tenant_def log_insert_def split: if_splits)
qed

lemma BulkCreate_within_tenant:
  assumes "\<forall>r \<in> set rows. inv_TenantID r = t"
  shows "within_tenant t (InventoryRepo_BulkCreate E rows)"
  unfolding InventoryRepo_BulkCreate_def
proof (intro tenant.frame.moves_if tenant.frame.moves_return tenant.frame.moves_bind_run)
  show "within_tenant t (foldE (BulkCreate_row E) rows [])"
    unfolding BulkCreate_row_def by (intro tenant.frame.db_moves_intros)
next
  fix w batch w'
  assume "foldE (BulkCreate_row E) rows [] w = (Inr batch, w')"
  then have "\<forall>r \<in> set batch. inv_TenantID r = t"
    by (rule foldE_invariant [where P = "\<lambda>b _. \<forall>r \<in> set b. inv_TenantID r = t"])
      (use assms in \<open>auto simp: BulkCreate_row_def comp_iffs\<close>)
  then show "within_tenant t (wrapE ''postgres: bulk create inventory: %w'' (pg_stmt E (\<lambda>now.
      inventory_INSERT_batch (map (\<lambda>r. r\<lparr>inv_CreatedAt := now, inv_UpdatedAt := now\<rparr>) batch) now)))"
    by (intro tenant.frame.db_moves_intros tenant.frame.moves_stmt) (auto elim!: inventory_batch_within_tenant)
qed

text \<open>A handler that keeps to the tenant of the token, and does nothing without one.\<close>

definition tenant_bound :: "env \<Rightarrow> handler \<Rightarrow> bool" where
  "tenant_bound E next \<longleftrightarrow> (\<forall>q. case TenantIDFromContext E q of
    None \<Rightarrow> moves (\<lambda>w w'. db w' = db w) (next q) | Some t \<Rightarrow> within_tenant t (next q))"

lemma tenant_boundI:
  assumes "\<And>q t. TenantIDFromContext E q = Some t \<Longrightarrow> within_tenant t (k q t)"
  shows "tenant_bound E (\<lambda>q. withAdminTenant E q (k q))"
  unfolding tenant_bound_def withAdminTenant_def
  by (auto intro: assms same_db.frame.moves_return split: option.split)

lemma tenant_bound_param:
  assumes "tenant_bound E next"
  shows "tenant_bound E (with_param name v next)"
  unfolding tenant_bound_def
proof
  fix q :: Request
  let ?q = "q\<lparr>rq_URLParam := (rq_URLParam q)(name := v)\<rparr>"
  have "TenantIDFromContext E ?q = TenantIDFromContext E q" by (simp add: TenantIDFromContext_def)
  with assms [unfolded tenant_bound_def, THEN spec, of ?q]
  show "case TenantIDFromContext E q of None \<Rightarrow> moves (\<lambda>w w'. db w' = db w) (with_param name v next q)
      | Some t \<Rightarrow> within_tenant t (with_param name v next q)"
    unfolding with_param_def by simp
qed

lemma tenant_bound_simple:
  "tenant_bound E (AdminVenueHandler_Create E h)" "tenant_bound E (AdminVenueHandler_List E)"
  "tenant_bound E (AdminEventHandler_CreateSeatCategory E h)" "tenant_bound E (AdminEventHandler_CreateEvent E h)"
  "tenant_bound E (AdminEventHandler_CreateTicketCategory E h)"
  unfolding AdminVenueHandler_Create_def [abs_def] AdminVenueHandler_List_def [abs_def] VenueRepo_ListVenues_def
    AdminEventHandler_CreateSeatCategory_def [abs_def] AdminEventHandler_CreateEvent_def [abs_def]
    AdminEventHandler_CreateTicketCategory_def [abs_def]
  by (intro tenant_boundI tenant.frame.api_moves_intros catalog_within_tenant; simp)+

lemma publish_rows_tenant:
  assumes "foldE (publish_row E t e c) is [] w = (Inr rows, w')"
  shows "\<forall>r \<in> set rows. inv_TenantID r = t"
  by (rule foldE_invariant [OF assms]) (auto simp: publish_row_def comp_iffs)

lemma publish_within_tenant:
  "within_tenant t (bindE (foldE (publish_row E t e c) is []) (\<lambda>rows. bindE (attemptE (InventoryRepo_BulkCreate E rows)) (f rows)))"
  if "\<And>rows rb. within_tenant t (f rows rb)"
proof (rule tenant.frame.moves_bind_run)
  show "within_tenant t (foldE (publish_row E t e c) is [])"
    unfolding publish_row_def by (intro tenant.frame.db_moves_intros)
next
  fix w rows w'
  assume "foldE (publish_row E t e c) is [] w = (Inr rows, w')"
  from publish_rows_tenant [OF this] that
  show "within_tenant t (bindE (attemptE (InventoryRepo_BulkCreate E rows)) (f rows))"
    by (intro tenant.frame.db_moves_intros BulkCreate_within_tenant)
qed

lemma found_event_tenant:
  "attemptE (EventRepo_GetByID E t e) w = (Inr (Inr ev), w') \<Longrightarrow> ev_TenantID ev = t"
  by (auto simp: attemptE_iff EventRepo_GetByID_def QueryRow_Inr_iff event_by_id_def find_Some_iff)

lemma tenant_bound_publish: "tenant_bound E (AdminEventHandler_PublishEvent E h)"
  unfolding AdminEventHandler_PublishEvent_def [abs_def]
proof (rule tenant_boundI, intro tenant.frame.http_moves_intros, rule tenant.frame.moves_bind_run)
  fix q t e req c
  show "within_tenant t (attemptE (EventRepo_GetByID E t e))"
    unfolding EventRepo_GetByID_def by (intro tenant.frame.db_moves_intros)
  fix w re w'
  assume found: "attemptE (EventRepo_GetByID E t e) w = (Inr re, w')"
  have "ev_TenantID (ev\<lparr>ev_Status := EventStatusOnSale\<rparr>) = t" if "re = Inr ev" for ev
    using found_event_tenant [OF found [unfolded that]] by simp
  note update = catalog_within_tenant(4) [OF this]
  show "within_tenant t (case re of
      Inl err \<Rightarrow> refuseE StatusNotFound ''event-not-found'' ''event not found''
    | Inr event \<Rightarrow>
        bindE (foldE (publish_row E t e c) [0..<nat (pe_Quantity req)] []) (\<lambda>rows.
        bindE (attemptE (InventoryRepo_BulkCreate E rows)) (\<lambda>rb.
        case rb of
          Inl err \<Rightarrow> refuseE StatusInternalServerError ''internal-error'' ''could not generate inventory''
        | Inr _ \<Rightarrow>
            if ev_Status event = EventStatusDraft \<or> ev_Status event = EventStatusScheduled then
              bindE (attemptE (EventRepo_Update E (event\<lparr>ev_Status := EventStatusOnSale\<rparr>))) (\<lambda>ru.
              case ru of
                Inl err \<Rightarrow> refuseE StatusInternalServerError ''internal-error''
                  ''inventory created but event status update failed''
              | Inr _ \<Rightarrow> replyE StatusCreated (JObject
                  [(''generated'', JInt (int (length rows))), (''event_status'', JEventStatus EventStatusOnSale)]))
            else replyE StatusCreated (JObject
              [(''generated'', JInt (int (length rows))), (''event_status'', JEventStatus (ev_Status event))]))))"
    by (cases re) (auto intro!: publish_within_tenant tenant.frame.db_moves_intros update)
qed

lemma admin_group_isolated:
  assumes run: "admin_group E deps next r w = (q, w')" and bound: "tenant_bound E next"
  shows "db w' = db w \<or> (\<exists>c t. bearer E (dp_jwt deps) r c \<and> cl_Role c = ''admin'' \<and> cl_TenantID c \<noteq> '''' \<and>
    e_uuid_Parse E (cl_TenantID c) = Some t \<and> outside_tenant t (db w') = outside_tenant t (db w))"
  using run unfolding admin_group_def
proof (cases rule: RequireAuth_cases)
  case (2 c w1)
  let ?q = "r\<lparr>rq_claims := Some c\<rparr>"
  show ?thesis
  proof (cases "cl_Role c = ''admin''")
    case False
    with 2 show ?thesis by (auto simp: RequireAdmin_def RoleFromContext_def run_simps)
  next
    case True
    with 2 have step: "next ?q w1 = (q, w')" by (simp add: RequireAdmin_def RoleFromContext_def)
    have "case TenantIDFromContext E ?q of None \<Rightarrow> moves (\<lambda>w w'. db w' = db w) (next ?q) | Some t \<Rightarrow> within_tenant t (next ?q)"
      using bound unfolding tenant_bound_def by blast
    with step 2(2) show ?thesis
    proof (cases "TenantIDFromContext E ?q")
      case (Some t)
      with \<open>case TenantIDFromContext E ?q of None \<Rightarrow> moves (\<lambda>w w'. db w' = db w) (next ?q) | Some t \<Rightarrow> within_tenant t (next ?q)\<close>
      have "within_tenant t (next ?q)" by simp
      from moves_run [OF this step] 2(2) have "outside_tenant t (db w') = outside_tenant t (db w)" by simp
      with 2(1) True Some show ?thesis by (auto simp: TenantIDFromContext_def split: if_splits)
    qed (auto dest: moves_run)
  qed
qed blast

lemma admin_routes:
  assumes "api_routes E deps m (''admin'' # rest) = Some handle" and "rest \<noteq> [''bootstrap'']"
  shows "\<exists>next. handle = admin_group E deps next \<and> tenant_bound E next"
  using assms unfolding api_routes_def
  by (auto split: if_splits list.splits intro: tenant_bound_simple tenant_bound_param tenant_bound_publish)

section \<open>Without a token\<close>

text \<open>The routes that change something for anyone: the auth routes, bootstrap and the webhook.\<close>

definition public_route :: "string \<Rightarrow> string list \<Rightarrow> bool" where
  "public_route m p \<longleftrightarrow> m = ''POST'' \<and>
    p \<in> {[''webhooks'', ''stripe''], [''api'', ''v1'', ''auth'', ''register''], [''api'', ''v1'', ''auth'', ''login''],
      [''api'', ''v1'', ''auth'', ''refresh''], [''api'', ''v1'', ''auth'', ''logout''],
      [''api'', ''v1'', ''admin'', ''bootstrap'']}"

lemma RequireAuth_refuses:
  "\<forall>c. \<not> bearer E cfg r c \<Longrightarrow> RequireAuth E cfg next r w = (q, w') \<Longrightarrow> db w' = db w"
  by (auto elim: RequireAuth_cases)

lemma browsing_keeps_db:
  "moves (\<lambda>w w'. db w' = db w) (EventHandler_List E r)" "moves (\<lambda>w w'. db w' = db w) (EventHandler_Get E r)"
  "moves (\<lambda>w w'. db w' = db w) (HealthHandler_Live r)" "moves (\<lambda>w w'. db w' = db w) (HealthHandler_Ready E r)"
  unfolding EventHandler_List_def EventHandler_Get_def EventRepo_List_def EventRepo_GetByID_def
    EventRepo_ListTicketCategories_def InventoryRepo_CountByStatus_def HealthHandler_Live_def HealthHandler_Ready_def
  by (intro same_db.frame.api_moves_intros)+

lemma browsing_routes_keep_db:
  "moves (\<lambda>w w'. db w' = db w) (RequireTenantHeader E (EventHandler_List E) r)"
  "moves (\<lambda>w w'. db w' = db w) (RequireTenantHeader E (with_param n v (EventHandler_Get E)) r)"
  by (intro same_db.frame.http_moves_intros browsing_keeps_db)+

lemma api_unauthenticated:
  assumes "api_routes E deps m p = Some handle" and "\<not> public_route m (''api'' # ''v1'' # p)"
    and "\<forall>c. \<not> bearer E (dp_jwt deps) r c" and "handle r w = (q, w')"
  shows "db w' = db w"
  using assms unfolding api_routes_def public_route_def admin_group_def purchase_group_def
  by (auto split: if_splits list.splits elim: RequireAuth_refuses moves_run [OF browsing_routes_keep_db(1)]
      moves_run [OF browsing_routes_keep_db(2)] simp: run_simps)

section \<open>Administrators come from the bootstrap route\<close>

interpretation same_users: db_frame users .

abbreviation keeps_users :: "'a op \<Rightarrow> bool" where
  "keeps_users \<equiv> moves (\<lambda>w w'. users (db w') = users (db w))"

abbreviation keeps_admins :: "'a op \<Rightarrow> bool" where
  "keeps_admins \<equiv> moves (\<lambda>w w'. admins (db w') = admins (db w))"

lemma keeps_users_admins: "keeps_users m \<Longrightarrow> keeps_admins m"
  by (simp add: moves_def admins_def)

lemma same_db_users: "moves (\<lambda>w w'. db w' = db w) m \<Longrightarrow> keeps_users m"
  by (simp add: moves_def)

lemma inventory_keeps_users:
  "keeps_users (InventoryRepo_Hold E t i tok u x)" "keeps_users (InventoryRepo_Release E t i tok)"
  "keeps_users (InventoryRepo_ConfirmSale E t i tok)"
  unfolding InventoryRepo_Hold_def InventoryRepo_Release_def InventoryRepo_ConfirmSale_def
  by (intro same_users.frame.db_moves_intros same_users.frame.moves_stmt;
      auto simp: inventory_UPDATE_def Let_def split: if_splits)+

lemma inventory_batch_users: "inventory_INSERT_batch rs now d = Inr (x, d') \<Longrightarrow> users d' = users d"
  by (induction rs arbitrary: d) (auto simp: inventory_INSERT_def split: sum.splits if_splits)

lemma BulkCreate_keeps_users: "keeps_users (InventoryRepo_BulkCreate E rows)"
  unfolding InventoryRepo_BulkCreate_def BulkCreate_row_def
  by (intro same_users.frame.db_moves_intros same_users.frame.moves_stmt) (blast dest: inventory_batch_users)

lemma order_items_batch_users: "order_items_INSERT_batch its now d = Inr (x, d') \<Longrightarrow> users d' = users d"
  by (induction its arbitrary: d) (auto simp: order_items_INSERT_def pg_insert_Inr_iff split: sum.splits)

lemma orders_keep_users:
  "keeps_users (OrderRepo_CreateWithItems E o1 its)" "keeps_users (OrderRepo_UpdateStatus E t i st)"
  "keeps_users (PaymentRepo_Create E p)" "keeps_users (PaymentRepo_UpdateStatus E t i ps ppid raw)"
  "keeps_users (NotificationRepo_Create E n)" "keeps_users (OrderRepo_GetByID E t i)"
  "keeps_users (OrderRepo_GetByIdempotencyKey E t key)" "keeps_users (OrderRepo_ListItems E t i)"
  "keeps_users (OrderRepo_ListByUser E t u l off)" "keeps_users (PaymentRepo_GetByID E t i)"
  "keeps_users (PaymentRepo_GetByIdempotencyKey E t key)"
  unfolding OrderRepo_CreateWithItems_def CreateWithItems_item_def OrderRepo_UpdateStatus_def
    PaymentRepo_Create_def PaymentRepo_UpdateStatus_def NotificationRepo_Create_def order_repo_reads
  by (intro same_users.frame.db_moves_intros same_users.frame.moves_stmt same_users.frame.moves_ExecUpdate;
    auto simp: orders_INSERT_def orders_SET_status_def payments_INSERT_def payments_SET_status_def
      notifications_INSERT_def pg_insert_Inr_iff dest: order_items_batch_users split: if_splits)+

lemma catalog_keeps_users:
  "keeps_users (VenueRepo_CreateVenue E v)" "keeps_users (SeatCategoryRepo_Create E sc)"
  "keeps_users (EventRepo_Create E ev)" "keeps_users (EventRepo_Update E ev)"
  "keeps_users (EventRepo_CreateTicketCategory E tc)" "keeps_users (VenueRepo_ListVenues E t l off)"
  "keeps_users (EventRepo_GetByID E t i)" "keeps_users (EventRepo_List E f l off)"
  "keeps_users (EventRepo_ListTicketCategories E t i)" "keeps_users (InventoryRepo_GetByID E t i)"
  "keeps_users (InventoryRepo_CountByStatus E t i)"
  unfolding VenueRepo_CreateVenue_def SeatCategoryRepo_Create_def EventRepo_Create_def EventRepo_Update_def
    EventRepo_CreateTicketCategory_def VenueRepo_ListVenues_def EventRepo_GetByID_def EventRepo_List_def
    EventRepo_ListTicketCategories_def InventoryRepo_GetByID_def InventoryRepo_CountByStatus_def
  by (intro same_users.frame.db_moves_intros same_users.frame.moves_stmt same_users.frame.moves_ExecUpdate;
      auto simp: venues_INSERT_def seat_categories_INSERT_def events_INSERT_def events_UPDATE_def
        event_ticket_categories_INSERT_def pg_insert_Inr_iff Let_def split: if_splits)+

lemma redis_keeps_users:
  "keeps_users (WaitingRoom_IsAdmitted E e u)" "keeps_users (WaitingRoom_Join E e u)"
  "keeps_users (WaitingRoom_Position E e u)" "keeps_users (RateLimiter_Allow E key l win)"
  "keeps_users (Locker_Acquire E key ttl)" "keeps_users (Locker_Release E key tok)"
  unfolding redis_repo_defs by (intro same_users.frame.db_moves_intros)+

lemma gateway_keeps_users:
  "keeps_users (Gateway_CreateIntent E g amount key md)" "keeps_users (Gateway_Refund E g ppid amount reason)"
  by (simp_all add: moves_def gateway_keeps_db)

lemmas repo_keeps_users =
  inventory_keeps_users BulkCreate_keeps_users orders_keep_users catalog_keeps_users redis_keeps_users
  gateway_keeps_users

lemma services_keep_users:
  "keeps_users (HoldSeat E cfg t e i u)" "keeps_users (ReleaseHold E t i tok)" "keeps_users (JoinQueue E e u)"
  "keeps_users (QueueStatus_of E e u)" "keeps_users (CreateOrder E t u key items)"
  "keeps_users (AuthorizePayment E g t i)" "keeps_users (ConfirmPayment E g t oid pid)"
  unfolding HoldSeat_def HoldSeat_locked_def ReleaseHold_def JoinQueue_def QueueStatus_of_def CreateOrder_def
    CreateOrder_tx_def CreateOrder_item_def hold_over_def cached_categories_def price_item_def AuthorizePayment_def
    ConfirmPayment_def ConfirmPayment_load_def ConfirmPayment_settle_def ConfirmPayment_tx_def confirm_item_def
    refundAndFail_def
  by (intro same_users.frame.db_moves_intros repo_keeps_users)+

lemmas handlers_keep_users_intros = same_users.frame.api_moves_intros repo_keeps_users services_keep_users

lemma publish_row_keeps_users: "keeps_users (publish_row E t e c i rows)"
  unfolding publish_row_def by (intro same_users.frame.db_moves_intros)

lemma fan_keeps_users:
  "keeps_users (AuthHandler_Me E r)" "keeps_users (InventoryHandler_JoinQueue E r)"
  "keeps_users (InventoryHandler_QueueStatus E r)" "keeps_users (InventoryHandler_Hold E h r)"
  "keeps_users (InventoryHandler_Release E h r)" "keeps_users (OrderHandler_Create E h r)"
  "keeps_users (OrderHandler_Authorize E h r)" "keeps_users (OrderHandler_List E r)"
  "keeps_users (OrderHandler_Get E r)" "keeps_users (WebhookHandler_Stripe E h r)"
  "keeps_users (EventHandler_List E r)" "keeps_users (EventHandler_Get E r)"
  unfolding AuthHandler_Me_def InventoryHandler_JoinQueue_def InventoryHandler_QueueStatus_def
    InventoryHandler_Hold_def InventoryHandler_Release_def OrderHandler_Create_def OrderHandler_Authorize_def
    OrderHandler_List_def OrderHandler_Get_def WebhookHandler_Stripe_def WebhookHandler_succeeded_def
    EventHandler_List_def EventHandler_Get_def
  by (intro handlers_keep_users_intros)+

lemma admin_keeps_users:
  "keeps_users (AdminVenueHandler_Create E h r)" "keeps_users (AdminVenueHandler_List E r)"
  "keeps_users (AdminEventHandler_CreateSeatCategory E h r)" "keeps_users (AdminEventHandler_CreateEvent E h r)"
  "keeps_users (AdminEventHandler_CreateTicketCategory E h r)" "keeps_users (AdminEventHandler_PublishEvent E h r)"
  unfolding AdminVenueHandler_Create_def AdminVenueHandler_List_def AdminEventHandler_CreateSeatCategory_def
    AdminEventHandler_CreateEvent_def AdminEventHandler_CreateTicketCategory_def AdminEventHandler_PublishEvent_def
  by (intro handlers_keep_users_intros publish_row_keeps_users)+

lemma moves_succeeds: "moves R (succeeds m) \<longleftrightarrow> moves R m"
proof -
  have "snd (succeeds m s) = snd (m s)" for s
    by (cases "m s"; cases "fst (m s)") (auto simp: run_succeeds)
  then show ?thesis by (simp add: moves_def)
qed

lemma auth_keeps_admins:
  "keeps_admins (AuthHandler_Register E h r)" "keeps_admins (AuthHandler_Login E h r)"
  "keeps_admins (AuthHandler_Refresh E h r)" "keeps_admins (AuthHandler_Logout E h r)"
proof -
  have svc: "keeps_admins (Register E email pw f l)" "keeps_admins (Login E cfg email pw ua ip)"
    "keeps_admins (RefreshAccessToken E cfg raw ua ip)" "keeps_admins (Logout E raw)" for email pw f l cfg ua ip raw
    using same_admins_service [of "ARegister email pw f l" E cfg] same_admins_service [of "ALogin email pw ua ip" E cfg]
      same_admins_service [of "ARefresh raw ua ip" E cfg] same_admins_service [of "ALogout raw" E cfg]
    by (simp_all add: moves_succeeds)
  show "keeps_admins (AuthHandler_Register E h r)" "keeps_admins (AuthHandler_Login E h r)"
    "keeps_admins (AuthHandler_Refresh E h r)" "keeps_admins (AuthHandler_Logout E h r)"
    unfolding AuthHandler_Register_def AuthHandler_Login_def AuthHandler_Refresh_def AuthHandler_Logout_def
    by (intro same_admins.frame.api_moves_intros svc)+
qed

lemma bootstrap_needs_secret:
  assumes "AuthHandler_BootstrapAdmin E h r w = (q, w')"
  shows "db w' = db w \<or> dp_bootstrapSecret h \<noteq> '''' \<and> rq_Header r ''X-Bootstrap-Secret'' = dp_bootstrapSecret h"
  using assms by (auto simp: AuthHandler_BootstrapAdmin_def run_simps split: if_splits)

lemma api_keeps_admins:
  assumes "api_routes E deps m p = Some handle" and "m \<noteq> ''POST'' \<or> p \<noteq> [''admin'', ''bootstrap'']"
  shows "keeps_admins (handle r)"
  using assms unfolding api_routes_def admin_group_def purchase_group_def
  by (auto split: if_splits list.splits
      intro!: same_admins.frame.moves_RequireAuth same_admins.frame.http_moves_intros auth_keeps_admins
        fan_keeps_users [THEN keeps_users_admins] admin_keeps_users [THEN keeps_users_admins]
        same_admins.frame.moves_return)

end
