(* ===== verification/OrderLifecycle.thy ===== *)
theory OrderLifecycle
  imports HttpApi
begin

text \<open>
  The life of an order as a state machine, and that the two processes only ever move orders along it:
  what \<open>OrderRepo.UpdateStatus\<close> is called with depends on the status that was read before, and
  nothing else of a stored order is ever written.
\<close>

section \<open>The state machine\<close>

text \<open>
  The three updates of an order in \<open>service/order\<close>: \<open>AuthorizePayment\<close> sends a pending order to its
  payment, \<open>ConfirmPayment\<close> marks one that is not paid as paid or, after a refund, as expired.
\<close>

inductive order_step :: "Order \<Rightarrow> Order \<Rightarrow> bool" where
  authorized: "ord_Status o1 = OrderStatusPending \<Longrightarrow>
    order_step o1 (o1\<lparr>ord_Status := OrderStatusAwaitingPayment, ord_UpdatedAt := now\<rparr>)"
| paid: "ord_Status o1 \<noteq> OrderStatusPaid \<Longrightarrow>
    order_step o1 (o1\<lparr>ord_Status := OrderStatusPaid, ord_UpdatedAt := now\<rparr>)"
| refunded: "ord_Status o1 \<noteq> OrderStatusPaid \<Longrightarrow>
    order_step o1 (o1\<lparr>ord_Status := OrderStatusExpired, ord_UpdatedAt := now\<rparr>)"

inductive_cases order_stepE: "order_step o1 o2"

text \<open>The parts of an order that its customer agreed to.\<close>

definition order_terms :: "Order \<Rightarrow> uuid \<times> uuid \<times> uuid \<times> string \<times> Money \<times> Money \<times> Money \<times> time option" where
  "order_terms o1 = (ord_ID o1, ord_TenantID o1, ord_UserID o1, ord_IdempotencyKey o1, ord_Subtotal o1,
    ord_Fees o1, ord_Total o1, ord_ExpiresAt o1)"

lemma order_steps_terms: "order_step\<^sup>*\<^sup>* o1 o2 \<Longrightarrow> order_terms o2 = order_terms o1"
  by (induction rule: rtranclp_induct) (auto simp: order_terms_def elim: order_stepE)

lemma order_steps_paid: "order_step\<^sup>*\<^sup>* o1 o2 \<Longrightarrow> ord_Status o1 = OrderStatusPaid \<Longrightarrow> o2 = o1"
  by (induction rule: rtranclp_induct) (auto elim: order_stepE)

lemma order_steps_statuses:
  "order_step\<^sup>*\<^sup>* o1 o2 \<Longrightarrow> o2 = o1 \<or>
     ord_Status o2 \<in> {OrderStatusAwaitingPayment, OrderStatusPaid, OrderStatusExpired}"
  by (induction rule: rtranclp_induct) (auto elim: order_stepE)

lemma order_steps_no_way_back:
  "order_step\<^sup>*\<^sup>* o1 o2 \<Longrightarrow> ord_Status o2 = OrderStatusPending \<Longrightarrow> o2 = o1"
  by (drule order_steps_statuses) auto

section \<open>Databases along the state machine\<close>

text \<open>Every order stays where it is found and has moved along the state machine.\<close>

definition orders_advance :: "database \<Rightarrow> database \<Rightarrow> bool" where
  "orders_advance d d' \<longleftrightarrow> (\<forall>t i o1. order_by_id t i d = Some o1 \<longrightarrow>
    (\<exists>o2. order_by_id t i d' = Some o2 \<and> order_step\<^sup>*\<^sup>* o1 o2))"

lemma orders_advance_frame:
  "orders d1' = orders d1 \<Longrightarrow> orders d2' = orders d2 \<Longrightarrow> orders_advance d1' d2' \<longleftrightarrow> orders_advance d1 d2"
  by (simp add: orders_advance_def order_by_id_def)

lemma orders_advance_same: "orders d' = orders d \<Longrightarrow> orders_advance d d'"
  by (auto simp: orders_advance_def order_by_id_def)

interpretation life: db_effect orders_advance
proof
  fix d d' d'' :: database
  show "orders_advance d d" by (simp add: orders_advance_same)
  show "orders_advance d d''" if "orders_advance d d'" "orders_advance d' d''"
    using that unfolding orders_advance_def by (meson rtranclp_trans)
qed

abbreviation advances :: "'a op \<Rightarrow> bool" where
  "advances \<equiv> moves (\<lambda>w w'. orders_advance (db w) (db w'))"

interpretation same_orders: db_frame orders .

abbreviation keeps_orders :: "'a op \<Rightarrow> bool" where
  "keeps_orders \<equiv> moves (\<lambda>w w'. orders (db w') = orders (db w))"

lemma keeps_orders_advances: "keeps_orders m \<Longrightarrow> advances m"
  by (simp add: moves_def orders_advance_same)

text \<open>What an UPDATE of one order's status needs to be a step.\<close>

lemma orders_SET_advance:
  assumes "orders_SET_status t i st now d = Inr (n, d')"
    and "\<And>o1. order_by_id t i d = Some o1 \<Longrightarrow> order_step o1 (o1\<lparr>ord_Status := st, ord_UpdatedAt := now\<rparr>)"
  shows "orders_advance d d'"
  unfolding orders_advance_def
proof (intro allI impI)
  fix t' i' o1
  let ?set = "\<lambda>x. x\<lparr>ord_Status := st, ord_UpdatedAt := now\<rparr>"
  assume o1: "order_by_id t' i' d = Some o1"
  have d': "orders d' = sql_update (order_where t i) ?set (orders d)"
    using assms(1) by (auto simp: orders_SET_status_def)
  have o2: "order_by_id t' i' d' = Some (if order_where t i o1 then ?set o1 else o1)"
    using o1 find_key_sql_update [of "\<lambda>x. (ord_ID x, ord_TenantID x)" ?set "(i', t')" "order_where t i" "orders d"]
    by (simp add: order_by_id_def d')
  have key: "ord_ID o1 = i'" "ord_TenantID o1 = t'"
    using o1 by (auto simp: order_by_id_def find_Some_iff)
  with o1 have "order_step o1 (?set o1)" if "order_where t i o1"
    using that by (auto simp: order_where_def intro: assms(2))
  with o2 show "\<exists>o2. order_by_id t' i' d' = Some o2 \<and> order_step\<^sup>*\<^sup>* o1 o2"
    by auto
qed

section \<open>Computations that depend on what was read\<close>

text \<open>A computation that advances the orders when it starts from an order known to satisfy \<open>P\<close>.\<close>

definition advances_from :: "uuid \<Rightarrow> uuid \<Rightarrow> (Order \<Rightarrow> bool) \<Rightarrow> 'a op \<Rightarrow> bool" where
  "advances_from t i P m \<longleftrightarrow>
    (\<forall>w r w' o1. order_by_id t i (db w) = Some o1 \<longrightarrow> P o1 \<longrightarrow> m w = (r, w') \<longrightarrow> orders_advance (db w) (db w'))"

lemma advances_fromI:
  "(\<And>w r w' o1. order_by_id t i (db w) = Some o1 \<Longrightarrow> P o1 \<Longrightarrow> m w = (r, w') \<Longrightarrow> orders_advance (db w) (db w'))
    \<Longrightarrow> advances_from t i P m"
  unfolding advances_from_def by blast

lemma advances_fromD:
  "advances_from t i P m \<Longrightarrow> order_by_id t i (db w) = Some o1 \<Longrightarrow> P o1 \<Longrightarrow> m w = (r, w') \<Longrightarrow>
     orders_advance (db w) (db w')"
  unfolding advances_from_def by blast

lemma advances_from_keeps: "keeps_orders m \<Longrightarrow> advances_from t i P m"
  by (rule advances_fromI) (blast dest: keeps_orders_advances moves_run)

lemma advances_from_wrap: "advances_from t i P m \<Longrightarrow> advances_from t i P (mapErrE g m)"
  unfolding advances_from_def mapErrE_def by (fastforce split: prod.splits sum.splits)

lemma advances_from_bind:
  assumes m: "keeps_orders m" and f: "\<And>x. advances_from t i P (f x)"
  shows "advances_from t i P (bindE m f)"
proof (rule advances_fromI)
  fix w r w' o1
  assume o1: "order_by_id t i (db w) = Some o1" "P o1" and run: "bindE m f w = (r, w')"
  obtain q w1 where q: "m w = (q, w1)" by fastforce
  have same: "orders (db w1) = orders (db w)" by (rule moves_run [OF m q])
  show "orders_advance (db w) (db w')"
  proof (cases q)
    case (Inl e)
    with run q same show ?thesis by (simp add: run_simps orders_advance_same)
  next
    case (Inr x)
    with run q have "f x w1 = (r, w')" by (simp add: run_simps)
    with advances_fromD [OF f] o1 same have "orders_advance (db w1) (db w')"
      by (simp add: order_by_id_def)
    with same show ?thesis by (simp add: orders_advance_def order_by_id_def)
  qed
qed

lemma advances_from_then:
  assumes m: "advances_from t i P m" and f: "\<And>x. keeps_orders (f x)"
  shows "advances_from t i P (bindE m f)"
proof (rule advances_fromI)
  fix w r w' o1
  assume o1: "order_by_id t i (db w) = Some o1" "P o1" and run: "bindE m f w = (r, w')"
  obtain q w1 where q: "m w = (q, w1)" by fastforce
  have step: "orders_advance (db w) (db w1)" by (rule advances_fromD [OF m o1 q])
  have "orders_advance (db w1) (db w')" if "f x w1 = (r, w')" for x
    using moves_run [OF f that] by (rule orders_advance_same)
  with run q step show "orders_advance (db w) (db w')"
    by (cases q) (auto simp: run_simps intro: life.db_trans)
qed

lemma advances_from_tx:
  assumes "advances_from t i P fn"
  shows "advances_from t i P (WithTx E fn)"
proof (rule advances_fromI)
  fix w r w' o1
  assume o1: "order_by_id t i (db w) = Some o1" "P o1" and run: "WithTx E fn w = (r, w')"
  from run show "orders_advance (db w) (db w')"
  proof (cases rule: WithTx_cases)
    case (undone e)
    then show ?thesis by (simp add: life.db_refl)
  next
    case (applied x w1)
    with advances_fromD [OF assms _ o1(2) applied(1)] o1(1) show ?thesis by simp
  qed
qed

lemma advances_from_update:
  assumes "\<And>o1 now. P o1 \<Longrightarrow> order_step o1 (o1\<lparr>ord_Status := st, ord_UpdatedAt := now\<rparr>)"
  shows "advances_from t i P (OrderRepo_UpdateStatus E t i st)"
proof (rule advances_fromI)
  fix w r w' o1
  assume o1: "order_by_id t i (db w) = Some o1" "P o1" and run: "OrderRepo_UpdateStatus E t i st w = (r, w')"
  have "db w' = db w \<or> (\<exists>now n. orders_SET_status t i st now (db w) = Inr (n, db w'))"
    using run by (auto simp: OrderRepo_UpdateStatus_def ExecUpdate_def pg_stmt_def run_simps
        split: if_splits sum.splits prod.splits)
  with o1 show "orders_advance (db w) (db w')"
    by (auto intro: life.db_refl assms elim!: orders_SET_advance)
qed

lemma advances_read:
  assumes "\<And>o1. ord_ID o1 = i \<Longrightarrow> advances_from t (ord_ID o1) (\<lambda>x. x = o1) (k o1)"
  shows "advances (bindE (wrapE f (OrderRepo_GetByID E t i)) k)"
proof (rule movesI)
  fix w r w'
  assume run: "bindE (wrapE f (OrderRepo_GetByID E t i)) k w = (r, w')"
  obtain q w1 where q: "OrderRepo_GetByID E t i w = (q, w1)" by fastforce
  show "orders_advance (db w) (db w')"
  proof (cases q)
    case (Inl e)
    with run q show ?thesis
      by (auto simp: OrderRepo_GetByID_def run_simps life.db_refl dest!: QueryRow_Inl)
  next
    case (Inr o1)
    with q have o1: "order_by_id t i (db w1) = Some o1" "db w1 = db w"
      by (auto simp: OrderRepo_GetByID_def QueryRow_Inr_iff)
    then have key: "ord_ID o1 = i" by (auto simp: order_by_id_def find_Some_iff)
    from run q Inr have "k o1 w1 = (r, w')" by (simp add: run_simps)
    with advances_fromD [OF assms [OF key], unfolded key, OF o1(1) refl] o1(2) show ?thesis by simp
  qed
qed

lemma advances_from_if:
  "(c \<Longrightarrow> advances_from t i P m) \<Longrightarrow> (\<not> c \<Longrightarrow> advances_from t i P n) \<Longrightarrow> advances_from t i P (if c then m else n)"
  by simp

lemma advances_from_prod:
  "(\<And>x y. advances_from t i P (f x y)) \<Longrightarrow> advances_from t i P (case z of (x, y) \<Rightarrow> f x y)"
  by (cases z) simp

lemmas advances_from_throw = advances_from_keeps [OF same_orders.frame.moves_throw]

lemmas advances_from_intros =
  advances_from_if advances_from_prod advances_from_throw advances_from_wrap [OF advances_from_update]
  advances_from_then [OF advances_from_wrap [OF advances_from_update]] advances_from_bind

section \<open>Repositories that leave the orders alone\<close>

lemma inventory_keeps_orders:
  "keeps_orders (InventoryRepo_Hold E t i tok u x)" "keeps_orders (InventoryRepo_Release E t i tok)"
  "keeps_orders (InventoryRepo_ConfirmSale E t i tok)" "keeps_orders (InventoryRepo_GetByID E t i)"
  "keeps_orders (InventoryRepo_CountByStatus E t i)" "keeps_orders (InventoryRepo_ListExpiredHolds E now l)"
  unfolding InventoryRepo_Hold_def InventoryRepo_Release_def InventoryRepo_ConfirmSale_def
    InventoryRepo_GetByID_def InventoryRepo_CountByStatus_def InventoryRepo_ListExpiredHolds_def
  by (intro same_orders.frame.db_moves_intros same_orders.frame.moves_stmt;
      auto simp: inventory_UPDATE_def Let_def split: if_splits)+

lemma inventory_batch_orders: "inventory_INSERT_batch rs now d = Inr (x, d') \<Longrightarrow> orders d' = orders d"
  by (induction rs arbitrary: d) (auto simp: inventory_INSERT_def split: sum.splits if_splits)

lemma BulkCreate_keeps_orders: "keeps_orders (InventoryRepo_BulkCreate E rows)"
  unfolding InventoryRepo_BulkCreate_def BulkCreate_row_def
  by (intro same_orders.frame.db_moves_intros same_orders.frame.moves_stmt) (blast dest: inventory_batch_orders)

lemma payments_keep_orders:
  "keeps_orders (PaymentRepo_Create E p)" "keeps_orders (PaymentRepo_UpdateStatus E t i ps ppid raw)"
  "keeps_orders (NotificationRepo_Create E n)" "keeps_orders (NotificationRepo_MarkSent E i)"
  "keeps_orders (NotificationRepo_MarkFailed E i err)" "keeps_orders (NotificationRepo_ListPending E l)"
  "keeps_orders (OrderRepo_GetByID E t i)" "keeps_orders (OrderRepo_GetByIdempotencyKey E t key)"
  "keeps_orders (OrderRepo_ListItems E t i)" "keeps_orders (OrderRepo_ListByUser E t u l off)"
  "keeps_orders (PaymentRepo_GetByID E t i)" "keeps_orders (PaymentRepo_GetByIdempotencyKey E t key)"
  unfolding PaymentRepo_Create_def PaymentRepo_UpdateStatus_def NotificationRepo_Create_def
    NotificationRepo_MarkSent_def NotificationRepo_MarkFailed_def order_repo_reads
  by (intro same_orders.frame.db_moves_intros same_orders.frame.moves_stmt same_orders.frame.moves_ExecUpdate;
    auto simp: payments_INSERT_def payments_SET_status_def notifications_INSERT_def notifications_UPDATE_def
      pg_insert_Inr_iff split: if_splits)+

lemma catalog_keeps_orders:
  "keeps_orders (VenueRepo_CreateVenue E v)" "keeps_orders (SeatCategoryRepo_Create E sc)"
  "keeps_orders (EventRepo_Create E ev)" "keeps_orders (EventRepo_Update E ev)"
  "keeps_orders (EventRepo_CreateTicketCategory E tc)" "keeps_orders (VenueRepo_ListVenues E t l off)"
  "keeps_orders (EventRepo_GetByID E t i)" "keeps_orders (EventRepo_List E f l off)"
  "keeps_orders (EventRepo_ListTicketCategories E t i)" "keeps_orders (TenantRepo_List E st l off)"
  unfolding VenueRepo_CreateVenue_def SeatCategoryRepo_Create_def EventRepo_Create_def EventRepo_Update_def
    EventRepo_CreateTicketCategory_def catalog_reads
  by (intro same_orders.frame.db_moves_intros same_orders.frame.moves_stmt same_orders.frame.moves_ExecUpdate;
      auto simp: venues_INSERT_def seat_categories_INSERT_def events_INSERT_def events_UPDATE_def
        event_ticket_categories_INSERT_def pg_insert_Inr_iff Let_def split: if_splits)+

lemma accounts_keep_orders:
  "keeps_orders (UserRepo_GetByID E i)" "keeps_orders (UserRepo_GetByEmail E email)"
  "keeps_orders (RefreshTokenRepo_GetByTokenHash E h)" "keeps_orders (UserRepo_Create E u)"
  "keeps_orders (UserRepo_Update E u)" "keeps_orders (RefreshTokenRepo_Create E rt)"
  "keeps_orders (RefreshTokenRepo_Revoke E i)" "keeps_orders (RefreshTokenRepo_RevokeAllForUser E i)"
  unfolding UserRepo_GetByID_def UserRepo_GetByEmail_def RefreshTokenRepo_GetByTokenHash_def UserRepo_Create_def
    UserRepo_Update_def RefreshTokenRepo_Create_def RefreshTokenRepo_Revoke_def RefreshTokenRepo_RevokeAllForUser_def
  by (intro same_orders.frame.db_moves_intros same_orders.frame.moves_stmt same_orders.frame.moves_ExecUpdate;
      auto simp: users_INSERT_def users_UPDATE_def refresh_tokens_INSERT_Inr refresh_tokens_revoke_def
        pg_insert_Inr_iff Let_def split: if_splits)+

lemma redis_keeps_orders:
  "keeps_orders (WaitingRoom_IsAdmitted E e u)" "keeps_orders (WaitingRoom_Join E e u)"
  "keeps_orders (WaitingRoom_Position E e u)" "keeps_orders (WaitingRoom_QueueLength E e)"
  "keeps_orders (WaitingRoom_Admit E e n ttl)" "keeps_orders (RateLimiter_Allow E key l win)"
  "keeps_orders (Locker_Acquire E key ttl)" "keeps_orders (Locker_Release E key tok)"
  unfolding redis_repo_defs by (intro same_orders.frame.db_moves_intros)+

lemma outside_keeps_orders:
  "keeps_orders (Gateway_CreateIntent E g amount key md)" "keeps_orders (Gateway_Refund E g ppid amount reason)"
  "keeps_orders (hashPassword E pw)" "keeps_orders (generateRefreshToken E)"
  by (simp_all add: moves_def gateway_keeps_db hashPassword_def generateRefreshToken_def)

lemma Send_keeps_orders: "keeps_orders (Send E sender msg)"
  by (cases sender) (simp_all add: moves_def ConsoleSender_Send_def SMTPSender_Send_def)

lemmas repo_keeps_orders =
  inventory_keeps_orders BulkCreate_keeps_orders payments_keep_orders catalog_keeps_orders accounts_keep_orders
  redis_keeps_orders outside_keeps_orders Send_keeps_orders

lemmas keeps_orders_intros = same_orders.frame.api_moves_intros repo_keeps_orders

section \<open>Services\<close>

lemma sweep_loop_keeps_orders: "keeps_orders (sweep_loop E rows n)"
proof (induction rows arbitrary: n)
  case Nil
  show ?case by (simp add: same_orders.frame.moves_return)
next
  case (Cons r rows)
  then show ?case
    by (auto intro!: keeps_orders_intros split: prod.splits)
qed

lemma services_keep_orders:
  "keeps_orders (Register E email pw f l)" "keeps_orders (RegisterAdmin E t email pw f l)"
  "keeps_orders (Login E cfg email pw ua ip)" "keeps_orders (RefreshAccessToken E cfg raw ua ip)"
  "keeps_orders (Logout E raw)" "keeps_orders (HoldSeat E icfg t e i u)" "keeps_orders (ReleaseHold E t i tok)"
  "keeps_orders (JoinQueue E e u)" "keeps_orders (QueueStatus_of E e u)" "keeps_orders (SweepExpiredHolds E n)"
  unfolding Register_def RegisterAdmin_def Login_def RefreshAccessToken_def Logout_def issueTokenPair_def
    HoldSeat_def HoldSeat_locked_def ReleaseHold_def JoinQueue_def QueueStatus_of_def SweepExpiredHolds_def
  by (intro keeps_orders_intros sweep_loop_keeps_orders)+

lemma order_items_batch_orders: "order_items_INSERT_batch its now d = Inr (x, d') \<Longrightarrow> orders d' = orders d"
  by (induction its arbitrary: d) (auto simp: order_items_INSERT_def pg_insert_Inr_iff split: sum.splits)

lemma orders_INSERT_advance: "orders_INSERT o1 now d = Inr (x, d') \<Longrightarrow> orders_advance d d'"
  by (auto simp: orders_INSERT_def pg_insert_Inr_iff orders_advance_def order_by_id_def find_append_Some)

lemma CreateWithItems_advances: "advances (OrderRepo_CreateWithItems E o1 its)"
  unfolding OrderRepo_CreateWithItems_def CreateWithItems_item_def
  by (intro life.db_moves_intros life.moves_stmt;
      blast intro: orders_INSERT_advance orders_advance_same dest: order_items_batch_orders)

lemma CreateOrder_advances: "advances (CreateOrder E t u key items)"
  unfolding CreateOrder_def CreateOrder_tx_def CreateOrder_item_def hold_over_def cached_categories_def price_item_def
  by (intro life.db_moves_intros CreateWithItems_advances repo_keeps_orders [THEN keeps_orders_advances])

lemma AuthorizePayment_advances: "advances (AuthorizePayment E g t i)"
  unfolding AuthorizePayment_def
  by (intro advances_read advances_from_intros keeps_orders_intros) (simp_all add: order_step.authorized)

lemma ConfirmPayment_tx_advances:
  "advances_from t (ord_ID o1) (\<lambda>x. ord_Status x \<noteq> OrderStatusPaid) (ConfirmPayment_tx E t o1 items)"
  unfolding ConfirmPayment_tx_def confirm_item_def
  by (intro advances_from_intros keeps_orders_intros order_step.paid)

lemma refundAndFail_advances:
  "advances_from t (ord_ID o1) (\<lambda>x. ord_Status x \<noteq> OrderStatusPaid) (refundAndFail E g t o1 p)"
  unfolding refundAndFail_def
  by (intro advances_from_intros keeps_orders_intros order_step.refunded)

text \<open>An error that leads to the refund is one of the body, so the order is as it was read.\<close>

lemma ConfirmPayment_settle_advances:
  "advances_from t (ord_ID o1) (\<lambda>x. ord_Status x \<noteq> OrderStatusPaid) (ConfirmPayment_settle E g t o1 p items)"
proof (rule advances_fromI)
  fix w r w' x
  assume x: "order_by_id t (ord_ID o1) (db w) = Some x" "ord_Status x \<noteq> OrderStatusPaid"
    and run: "ConfirmPayment_settle E g t o1 p items w = (r, w')"
  obtain q w1 where tx: "WithTx E (ConfirmPayment_tx E t o1 items) w = (q, w1)" by fastforce
  have step: "orders_advance (db w) (db w1)"
    by (rule advances_fromD [OF advances_from_tx [OF ConfirmPayment_tx_advances] x tx])
  consider e where "q = Inl e" "errors_Is e ErrExpired" "w' = snd (refundAndFail E g t o1 p w1)"
    | "w' = w1" | "w' = snd (PaymentRepo_UpdateStatus E t (pay_ID p) PaymentStatusCaptured '''' None w1)"
    using run tx
    by (auto simp: ConfirmPayment_settle_def run_simps split: sum.splits prod.splits if_splits)
  then show "orders_advance (db w) (db w')"
  proof cases
    case 1
    with WithTx_Inl_body [OF tx [unfolded 1(1)]] have same: "db w1 = db w" by auto
    with x have "order_by_id t (ord_ID o1) (db w1) = Some x" by simp
    from advances_fromD [OF refundAndFail_advances this x(2) prod.collapse [symmetric]] same 1(3)
    show ?thesis by simp
  next
    case 2
    with step show ?thesis by simp
  next
    case 3
    have "orders (db w') = orders (db w1)"
      unfolding 3 by (rule movesD [OF payments_keep_orders(2)])
    with step show ?thesis by (blast intro: life.db_trans orders_advance_same)
  qed
qed

lemma ConfirmPayment_advances: "advances (ConfirmPayment E g t oid pid)"
proof (rule movesI)
  fix w r w'
  assume run: "ConfirmPayment E g t oid pid w = (r, w')"
  obtain q w1 where load: "ConfirmPayment_load E t oid pid w = (q, w1)" by fastforce
  have same: "db w1 = db w" by (rule moves_run [OF ConfirmPayment_load_frame(1) load])
  show "orders_advance (db w) (db w')"
  proof (cases "w' = w1")
    case True
    with same show ?thesis by (simp add: life.db_refl)
  next
    case False
    with run load obtain o1 p items where q: "q = Inr (Some (o1, p, items))"
      and settle: "ConfirmPayment_settle E g t o1 p items w1 = (r, w')"
      by (auto simp: ConfirmPayment_def run_simps split: sum.splits option.splits)
    from ConfirmPayment_load_Inr [OF load [unfolded q]]
    have o1: "order_by_id t oid (db w1) = Some o1" "ord_Status o1 \<noteq> OrderStatusPaid"
      by (auto simp: same split: if_splits)
    then have "ord_ID o1 = oid" by (auto simp: order_by_id_def find_Some_iff)
    with advances_fromD [OF ConfirmPayment_settle_advances _ o1(2) settle] o1(1) same show ?thesis by simp
  qed
qed

section \<open>The processes\<close>

lemma publish_row_keeps_orders: "keeps_orders (publish_row E t e c i rows)"
  unfolding publish_row_def by (intro same_orders.frame.db_moves_intros)

lemma fan_keeps_orders:
  "keeps_orders (AuthHandler_Register E h r)" "keeps_orders (AuthHandler_Login E h r)"
  "keeps_orders (AuthHandler_Refresh E h r)" "keeps_orders (AuthHandler_Logout E h r)"
  "keeps_orders (AuthHandler_Me E r)" "keeps_orders (AuthHandler_BootstrapAdmin E h r)"
  "keeps_orders (InventoryHandler_JoinQueue E r)" "keeps_orders (InventoryHandler_QueueStatus E r)"
  "keeps_orders (InventoryHandler_Hold E h r)" "keeps_orders (InventoryHandler_Release E h r)"
  "keeps_orders (OrderHandler_List E r)" "keeps_orders (OrderHandler_Get E r)"
  "keeps_orders (EventHandler_List E r)" "keeps_orders (EventHandler_Get E r)"
  "keeps_orders (HealthHandler_Live r)" "keeps_orders (HealthHandler_Ready E r)"
  unfolding AuthHandler_Register_def AuthHandler_Login_def AuthHandler_Refresh_def AuthHandler_Logout_def
    AuthHandler_Me_def AuthHandler_BootstrapAdmin_def InventoryHandler_JoinQueue_def
    InventoryHandler_QueueStatus_def InventoryHandler_Hold_def InventoryHandler_Release_def
    OrderHandler_List_def OrderHandler_Get_def EventHandler_List_def EventHandler_Get_def
    HealthHandler_Live_def HealthHandler_Ready_def
  by (intro keeps_orders_intros services_keep_orders)+

lemma admin_keeps_orders:
  "keeps_orders (AdminVenueHandler_Create E h r)" "keeps_orders (AdminVenueHandler_List E r)"
  "keeps_orders (AdminEventHandler_CreateSeatCategory E h r)" "keeps_orders (AdminEventHandler_CreateEvent E h r)"
  "keeps_orders (AdminEventHandler_CreateTicketCategory E h r)" "keeps_orders (AdminEventHandler_PublishEvent E h r)"
  unfolding AdminVenueHandler_Create_def AdminVenueHandler_List_def AdminEventHandler_CreateSeatCategory_def
    AdminEventHandler_CreateEvent_def AdminEventHandler_CreateTicketCategory_def AdminEventHandler_PublishEvent_def
  by (intro keeps_orders_intros publish_row_keeps_orders)+

lemma order_handlers_advance:
  "advances (OrderHandler_Create E h r)" "advances (OrderHandler_Authorize E h r)"
  "advances (WebhookHandler_Stripe E h r)"
  unfolding OrderHandler_Create_def OrderHandler_Authorize_def WebhookHandler_Stripe_def WebhookHandler_succeeded_def
  by (intro life.api_moves_intros CreateOrder_advances AuthorizePayment_advances ConfirmPayment_advances
      payments_keep_orders [THEN keeps_orders_advances])+

lemmas handlers_advance =
  fan_keeps_orders [THEN keeps_orders_advances] admin_keeps_orders [THEN keeps_orders_advances] order_handlers_advance

lemma routes_advance: "routes E deps m p = Some handle \<Longrightarrow> advances (handle r)"
  unfolding routes_def api_routes_def admin_group_def purchase_group_def
  by (auto split: if_splits list.splits
      intro!: life.moves_RequireAuth life.http_moves_intros handlers_advance life.moves_return)

lemma NewRouter_advances: "advances (NewRouter E deps r)"
  unfolding NewRouter_def
proof (rule life.moves_RequestID)
  show "advances (case routes E deps (rq_Method r) (rq_Path r) of
        None \<Rightarrow> returnE (dp_NotFound deps r)
      | Some handle \<Rightarrow> handle (r\<lparr>rq_RemoteAddr := dp_RealIP deps r, rq_claims := None, rq_resolvedTenant := None\<rparr>))"
    by (auto intro: life.moves_return routes_advance split: option.split)
qed

lemma worker_keeps_orders:
  "keeps_orders (runSweepLoop_tick E wc)" "keeps_orders (runAdmissionLoop_tick E wc)"
  "keeps_orders (runNotificationLoop_tick E wc sender)"
  unfolding runSweepLoop_tick_def runAdmissionLoop_tick_def runNotificationLoop_tick_def RunOnce_def RunOnce_tenant_def
    RunOnce_event_def admitForEvent_def QueueLength_def AdmitNext_def ProcessPending_def ProcessPending_one_def
    processOne_def
  by (intro keeps_orders_intros services_keep_orders)+

lemma system_advances: "advances (system_step E sy inp u)"
  by (cases inp) (auto intro: life.moves_bind life.moves_return NewRouter_advances
      worker_keeps_orders [THEN keeps_orders_advances])

end
