(* ===== verification/Responses.thy ===== *)
theory Responses
  imports HttpApi
begin

text \<open>
  Every handler writes a response, whatever fails below it: no error of a service or a repository gets
  past it.  The response is of one of the forms the API documents, and an internal error tells nothing
  of its cause.
\<close>

definition answers :: "('a \<Rightarrow> bool) \<Rightarrow> 'a op \<Rightarrow> bool" where
  "answers P m \<longleftrightarrow> (\<forall>w. \<exists>x w'. m w = (Inr x, w') \<and> P x)"

lemma answers_return: "P x \<Longrightarrow> answers P (returnE x)"
  by (simp add: answers_def run_simps)

text \<open>A call whose error is inspected always lets the rest go on.\<close>

lemma answers_attempt:
  assumes "\<And>r. answers P (k r)"
  shows "answers P (bindE (attemptE m) k)"
  unfolding answers_def
proof
  fix w
  obtain r w1 where r: "m w = (r, w1)" by (cases "m w")
  have "bindE (attemptE m) k w = k r w1" by (rule bind_attemptE [where m = m, OF r])
  with assms [of r] show "\<exists>x w'. bindE (attemptE m) k w = (Inr x, w') \<and> P x" by (simp add: answers_def)
qed

lemma answers_bind:
  assumes "answers Q m" and "\<And>x. Q x \<Longrightarrow> answers P (k x)"
  shows "answers P (bindE m k)"
  unfolding answers_def
proof
  fix w
  obtain x w1 where x: "m w = (Inr x, w1)" "Q x" using assms(1) unfolding answers_def by blast
  with assms(2) [OF x(2)] show "\<exists>y w'. bindE m k w = (Inr y, w') \<and> P y" by (simp add: answers_def run_simps)
qed

lemma answers_if: "(b \<Longrightarrow> answers P m) \<Longrightarrow> (\<not> b \<Longrightarrow> answers P n) \<Longrightarrow> answers P (if b then m else n)"
  by simp

lemma answers_option:
  "answers P m \<Longrightarrow> (\<And>x. answers P (f x)) \<Longrightarrow> answers P (case v of None \<Rightarrow> m | Some x \<Rightarrow> f x)"
  by (simp split: option.split)

lemma answers_sum:
  "(\<And>e. answers P (f e)) \<Longrightarrow> (\<And>x. answers P (g x)) \<Longrightarrow> answers P (case v of Inl e \<Rightarrow> f e | Inr x \<Rightarrow> g x)"
  by (simp split: sum.split)

lemma answers_prod: "(\<And>x y. answers P (f x y)) \<Longrightarrow> answers P (case v of (x, y) \<Rightarrow> f x y)"
  by (simp split: prod.split)

lemma answers_withUUID:
  "P (response_Error StatusBadRequest code (Literal msg)) \<Longrightarrow> (\<And>i. answers P (k i)) \<Longrightarrow> answers P (withUUID E s code msg k)"
  unfolding withUUID_def by (intro answers_option answers_return)

lemma answers_withBody:
  "(\<And>resp. d = Inl resp \<Longrightarrow> P resp) \<Longrightarrow> (\<And>v. answers P (k v)) \<Longrightarrow> answers P (withBody d k)"
  unfolding withBody_def by (auto intro: answers_return split: sum.split)

lemma answers_withAdminTenant:
  "P (response_Error StatusForbidden ''no-tenant'' (Literal ''admin account has no associated tenant'')) \<Longrightarrow>
   (\<And>t. answers P (k t)) \<Longrightarrow> answers P (withAdminTenant E r k)"
  unfolding withAdminTenant_def by (intro answers_option answers_return)

section \<open>Well-formed responses\<close>

text \<open>
  Data comes with 200 or 201, or with 503 from the readiness probe; a failure has one of the statuses for
  failures, and an internal error has its fixed code and a message that is part of the program.
\<close>

fun proper_envelope :: "nat \<Rightarrow> Envelope \<Rightarrow> bool" where
  "proper_envelope status (Data d) \<longleftrightarrow> status \<in> set [StatusOK, StatusCreated, StatusServiceUnavailable]"
| "proper_envelope status (Failure code msg) \<longleftrightarrow>
    status \<in> set [StatusBadRequest, StatusUnauthorized, StatusForbidden, StatusNotFound, StatusConflict,
      StatusTooManyRequests, StatusInternalServerError] \<and>
    (status = StatusInternalServerError \<longrightarrow> code = ''internal-error'' \<and> (case msg of Literal s \<Rightarrow> True | ErrorOf e \<Rightarrow> False))"

definition proper :: "Response \<Rightarrow> bool" where
  "proper resp \<longleftrightarrow> proper_envelope (rs_Status resp) (rs_Envelope resp)"

lemma proper_JSON [simp]:
  "proper (response_JSON status d) \<longleftrightarrow> status \<in> set [StatusOK, StatusCreated, StatusServiceUnavailable]"
  by (simp add: proper_def response_JSON_def)

lemma proper_Error [simp]: "proper (response_Error status code msg) \<longleftrightarrow> proper_envelope status (Failure code msg)"
  by (simp add: proper_def response_Error_def)

lemma proper_guards:
  "decodeJSONBody dec r = Inl resp \<Longrightarrow> proper resp"
  "decodeAndValidate dec val r = Inl resp \<Longrightarrow> proper resp"
  "userAndTenant E r = Inl resp \<Longrightarrow> proper resp"
  by (auto simp: decodeJSONBody_def decodeAndValidate_def userAndTenant_def split: option.splits)

lemma proper_items: "parse_items E its = Inl resp \<Longrightarrow> proper resp"
  by (induction its) (auto split: option.splits sum.splits)

lemmas answers_intros =
  answers_attempt answers_withUUID answers_withBody answers_withAdminTenant answers_return answers_if answers_option
  answers_sum answers_prod

lemmas handler_defs =
  AuthHandler_Register_def AuthHandler_Login_def AuthHandler_Refresh_def AuthHandler_Logout_def AuthHandler_Me_def
  AuthHandler_BootstrapAdmin_def InventoryHandler_JoinQueue_def InventoryHandler_QueueStatus_def
  InventoryHandler_Hold_def InventoryHandler_Release_def OrderHandler_Create_def OrderHandler_Authorize_def
  OrderHandler_List_def OrderHandler_Get_def WebhookHandler_Stripe_def WebhookHandler_succeeded_def
  EventHandler_List_def EventHandler_Get_def AdminVenueHandler_Create_def AdminVenueHandler_List_def
  AdminEventHandler_CreateSeatCategory_def AdminEventHandler_CreateEvent_def
  AdminEventHandler_CreateTicketCategory_def HealthHandler_Live_def HealthHandler_Ready_def

text \<open>Making the rows of a publish draws ids and cannot fail.\<close>

lemma answers_publish_rows: "answers (\<lambda>rows. length rows = length acc + length is) (foldE (publish_row E t e c) is acc)"
proof (induction "is" arbitrary: acc)
  case Nil
  show ?case by (simp add: answers_return)
next
  case (Cons i "is")
  have "answers (\<lambda>rows. length rows = Suc (length acc)) (publish_row E t e c i acc)"
    by (simp add: answers_def publish_row_def run_simps)
  then show ?case unfolding foldE.simps
  proof (rule answers_bind)
    fix x :: "EventSeatInventory list"
    assume "length x = Suc (length acc)"
    with Cons.IH [of x] show "answers (\<lambda>rows. length rows = length acc + length (i # is)) (foldE (publish_row E t e c) is x)"
      by simp
  qed
qed

lemma handlers_answer:
  "answers proper (AuthHandler_Register E h r)" "answers proper (AuthHandler_Login E h r)"
  "answers proper (AuthHandler_Refresh E h r)" "answers proper (AuthHandler_Logout E h r)"
  "answers proper (AuthHandler_Me E r)" "answers proper (AuthHandler_BootstrapAdmin E h r)"
  "answers proper (InventoryHandler_JoinQueue E r)" "answers proper (InventoryHandler_QueueStatus E r)"
  "answers proper (InventoryHandler_Hold E h r)" "answers proper (InventoryHandler_Release E h r)"
  "answers proper (OrderHandler_Create E h r)" "answers proper (OrderHandler_Authorize E h r)"
  "answers proper (OrderHandler_List E r)" "answers proper (OrderHandler_Get E r)"
  "answers proper (WebhookHandler_Stripe E h r)" "answers proper (EventHandler_List E r)"
  "answers proper (EventHandler_Get E r)" "answers proper (AdminVenueHandler_Create E h r)"
  "answers proper (AdminVenueHandler_List E r)" "answers proper (AdminEventHandler_CreateSeatCategory E h r)"
  "answers proper (AdminEventHandler_CreateEvent E h r)" "answers proper (AdminEventHandler_CreateTicketCategory E h r)"
  "answers proper (HealthHandler_Live r)" "answers proper (HealthHandler_Ready E r)"
  unfolding handler_defs
  by (intro answers_intros; (erule proper_guards | erule proper_items | simp))+

lemma publish_answers: "answers proper (AdminEventHandler_PublishEvent E h r)"
  unfolding AdminEventHandler_PublishEvent_def
  by (intro answers_bind [OF answers_publish_rows] answers_intros; (erule proper_guards | simp))+

lemma answers_RequireAuth: "(\<And>r. answers proper (next r)) \<Longrightarrow> answers proper (RequireAuth E cfg next r)"
  unfolding RequireAuth_def by (intro answers_intros; simp)+

lemma answers_groups:
  assumes "\<And>r. answers proper (next r)"
  shows "answers proper (admin_group E deps next r)" "answers proper (purchase_group E deps next r)"
    "answers proper (RequireTenantHeader E next r)" "answers proper (with_param name v next r)"
  unfolding admin_group_def purchase_group_def RequireAdmin_def RequireTenantHeader_def with_param_def Let_def
  by (intro answers_RequireAuth answers_intros assms; simp)+

lemma routes_answer:
  assumes "routes E deps method path = Some handle"
  shows "answers proper (handle r)"
  using assms unfolding routes_def api_routes_def
  by (auto intro!: handlers_answer publish_answers answers_groups answers_RequireAuth answers_return
      split: if_splits list.splits)

end
