(* ===== verification/HttpServer.thy ===== *)
theory HttpServer
  imports Responses
begin

text \<open>
  A request on the wire: the response writer of \<open>net/http\<close>, the request id, panic recovery and request logging of
  \<open>internal/handler/middleware\<close>, and the middleware chain of \<open>NewRouter\<close>.  A handler here may panic, and what it
  wrote before it did stays written.  The middleware of the router package (real IP, timeout, CORS, the response
  writer that counts) are arguments.
\<close>

section \<open>The response writer\<close>

text \<open>\<open>rw_Sent\<close> is the status line with the headers as they were when it was written.\<close>

record ResponseWriter =
  rw_Header :: "string \<rightharpoonup> string"
  rw_Sent :: "(nat \<times> (string \<rightharpoonup> string)) option"
  rw_Body :: "Envelope list"

definition Header_Set :: "string \<Rightarrow> string \<Rightarrow> ResponseWriter \<Rightarrow> ResponseWriter" where
  "Header_Set name v w = w\<lparr>rw_Header := (rw_Header w)(name \<mapsto> v)\<rparr>"

text \<open>Only the first status counts; a superfluous \<open>WriteHeader\<close> is dropped.\<close>

definition WriteHeader :: "nat \<Rightarrow> ResponseWriter \<Rightarrow> ResponseWriter" where
  "WriteHeader status w =
    (case rw_Sent w of None \<Rightarrow> w\<lparr>rw_Sent := Some (status, rw_Header w)\<rparr> | Some _ \<Rightarrow> w)"

text \<open>\<open>json.NewEncoder(w).Encode(env)\<close>\<close>

definition Write :: "Envelope \<Rightarrow> ResponseWriter \<Rightarrow> ResponseWriter" where
  "Write env w = (WriteHeader StatusOK w)\<lparr>rw_Body := rw_Body w @ [env]\<rparr>"

text \<open>\<open>write\<close> of \<open>pkg/response\<close>\<close>

definition response_write :: "Response \<Rightarrow> ResponseWriter \<Rightarrow> ResponseWriter" where
  "response_write resp w =
    Write (rs_Envelope resp) (WriteHeader (rs_Status resp)
      (Header_Set ''Content-Type'' ''application/json; charset=utf-8'' w))"

section \<open>Connections\<close>

text \<open>
  A line of the log: the fields of \<open>http_request\<close>, with the method and path of the request, or of
  \<open>panic_recovered\<close>, of which the stack trace is left out.
\<close>

datatype log_entry =
    HttpRequest (hl_request_id: string) (hl_method: string) (hl_path: "string list") (hl_status: nat) (hl_bytes: nat)
      (hl_duration: duration) (hl_remote_addr: string)
  | PanicRecovered (pr_request_id: string) (pr_panic: string)

record conn =
  cn_w :: ResponseWriter
  cn_log :: "log_entry list"
  cn_world :: world

text \<open>A request with the id in its context.\<close>

record wire_request = Request +
  rq_requestID :: "string option"

text \<open>\<open>ServeHTTP\<close>: the value of a panic that was not recovered, if any, and the connection afterwards.\<close>

type_synonym ServeHTTP = "wire_request \<Rightarrow> conn \<Rightarrow> string option \<times> conn"

section \<open>middleware/requestid.go\<close>

definition RequestID_ServeHTTP :: "env \<Rightarrow> ServeHTTP \<Rightarrow> ServeHTTP" where
  "RequestID_ServeHTTP E next r c =
    (let given = rq_Header r ''X-Request-ID'';
         (i, w) = (if given = '''' then (e_uuid_String E (e_uuid E (tick (cn_world c))), (cn_world c)\<lparr>tick := Suc (tick (cn_world c))\<rparr>)
           else (given, cn_world c))
     in next (r\<lparr>rq_requestID := Some i\<rparr>) (c\<lparr>cn_w := Header_Set ''X-Request-ID'' i (cn_w c), cn_world := w\<rparr>))"

definition RequestIDFromContext :: "wire_request \<Rightarrow> string" where
  "RequestIDFromContext r = (case rq_requestID r of None \<Rightarrow> '''' | Some i \<Rightarrow> i)"

section \<open>middleware/recovery.go\<close>

definition Recovery :: "ServeHTTP \<Rightarrow> ServeHTTP" where
  "Recovery next r c =
    (case next r c of
      (None, c') \<Rightarrow> (None, c')
    | (Some p, c') \<Rightarrow>
        (None, c'\<lparr>cn_log := cn_log c' @ [PanicRecovered (RequestIDFromContext r) p],
          cn_w := response_write (response_Error StatusInternalServerError ''internal-error''
            (Literal ''something went wrong'')) (cn_w c')\<rparr>))"

section \<open>middleware/logging.go\<close>

text \<open>
  What the router package provides: the status and the number of bytes its wrapped writer has seen, the timeout and
  the CORS middleware, and the answer to a request no route matches.
\<close>

record chi =
  ch_Status :: "ResponseWriter \<Rightarrow> nat"
  ch_BytesWritten :: "ResponseWriter \<Rightarrow> nat"
  ch_Timeout :: "ServeHTTP \<Rightarrow> ServeHTTP"
  ch_CORS :: "ServeHTTP \<Rightarrow> ServeHTTP"
  ch_NotFound :: ServeHTTP

text \<open>The line is written after \<open>next\<close> returned; a panic passes by it.\<close>

definition Logging :: "env \<Rightarrow> chi \<Rightarrow> ServeHTTP \<Rightarrow> ServeHTTP" where
  "Logging E X next r c =
    (let start = e_now E (tick (cn_world c))
     in case next r (c\<lparr>cn_world := (cn_world c)\<lparr>tick := Suc (tick (cn_world c))\<rparr>\<rparr>) of
       (Some p, c') \<Rightarrow> (Some p, c')
     | (None, c') \<Rightarrow>
         (None, c'\<lparr>cn_log := cn_log c' @ [HttpRequest (RequestIDFromContext r) (rq_Method r) (rq_Path r)
             (ch_Status X (cn_w c')) (ch_BytesWritten X (cn_w c')) (e_now E (tick (cn_world c')) - start) (rq_RemoteAddr r)],
           cn_world := (cn_world c')\<lparr>tick := Suc (tick (cn_world c'))\<rparr>\<rparr>))"

section \<open>The chain of router.go\<close>

definition RealIP :: "RouterDeps \<Rightarrow> ServeHTTP \<Rightarrow> ServeHTTP" where
  "RealIP deps next r c = next (r\<lparr>rq_RemoteAddr := dp_RealIP deps (Request.truncate r)\<rparr>) c"

text \<open>
  The mux and a handler behind it, whose response is written; no handler returns without one.  The handler at the
  root of the API is the one that writes without \<open>pkg/response\<close>, and so without a content type.
\<close>

definition api_root :: "string \<Rightarrow> string list \<Rightarrow> bool" where
  "api_root method path \<longleftrightarrow> method = ''GET'' \<and> path = [''api'', ''v1'']"

definition handler_write :: "wire_request \<Rightarrow> Response \<Rightarrow> ResponseWriter \<Rightarrow> ResponseWriter" where
  "handler_write r resp w =
    (if api_root (rq_Method r) (rq_Path r) then Write (rs_Envelope resp) (WriteHeader (rs_Status resp) w)
     else response_write resp w)"

definition mux :: "env \<Rightarrow> RouterDeps \<Rightarrow> chi \<Rightarrow> ServeHTTP" where
  "mux E deps X r c =
    (case routes E deps (rq_Method r) (rq_Path r) of
      None \<Rightarrow> ch_NotFound X r c
    | Some handle \<Rightarrow>
        (case handle ((Request.truncate r)\<lparr>rq_claims := None, rq_resolvedTenant := None\<rparr>) (cn_world c) of
          (Inr resp, w') \<Rightarrow> (None, c\<lparr>cn_w := handler_write r resp (cn_w c), cn_world := w'\<rparr>)
        | (Inl e, w') \<Rightarrow> (Some ''no response'', c\<lparr>cn_world := w'\<rparr>)))"

definition router_ServeHTTP :: "env \<Rightarrow> RouterDeps \<Rightarrow> chi \<Rightarrow> ServeHTTP" where
  "router_ServeHTTP E deps X =
    RequestID_ServeHTTP E (RealIP deps (Recovery (Logging E X (ch_Timeout X (ch_CORS X (mux E deps X))))))"

text \<open>What \<open>net/http\<close> hands to the router: a fresh writer and an empty context.\<close>

definition new_conn :: "log_entry list \<Rightarrow> world \<Rightarrow> conn" where
  "new_conn log w = \<lparr>cn_w = \<lparr>rw_Header = Map.empty, rw_Sent = None, rw_Body = []\<rparr>, cn_log = log, cn_world = w\<rparr>"

definition wire :: "Request \<Rightarrow> wire_request" where
  "wire r = Request.extend r \<lparr>rq_requestID = None\<rparr>"

section \<open>Facts\<close>

lemma response_write_fresh:
  "rw_Sent w = None \<Longrightarrow> rw_Sent (response_write resp w) =
     Some (rs_Status resp, (rw_Header w)(''Content-Type'' \<mapsto> ''application/json; charset=utf-8''))"
  by (simp add: response_write_def Write_def WriteHeader_def Header_Set_def)

lemma response_write_sent: "rw_Sent w = Some s \<Longrightarrow> rw_Sent (response_write resp w) = Some s"
  by (simp add: response_write_def Write_def WriteHeader_def Header_Set_def)

lemma response_write_body: "rw_Body (response_write resp w) = rw_Body w @ [rs_Envelope resp]"
  by (simp add: response_write_def Write_def WriteHeader_def Header_Set_def split: option.split)

lemma handler_write_fresh:
  assumes "rw_Sent w = None"
  shows "\<exists>hdr. rw_Sent (handler_write r resp w) = Some (rs_Status resp, hdr) \<and>
    hdr ''X-Request-ID'' = rw_Header w ''X-Request-ID'' \<and>
    (api_root (rq_Method r) (rq_Path r) \<or> hdr ''Content-Type'' = Some ''application/json; charset=utf-8'')"
  using assms by (auto simp: handler_write_def response_write_fresh Write_def WriteHeader_def)

lemma handler_write_body: "rw_Body (handler_write r resp w) = rw_Body w @ [rs_Envelope resp]"
  by (simp add: handler_write_def response_write_body Write_def WriteHeader_def split: option.split)

text \<open>
  What the router package documents of its middleware, for a request that is no CORS preflight and is served in time:
  the timeout lets it through, CORS adds headers of its own, and the wrapped writer knows the status that was sent.
\<close>

definition passes :: "chi \<Rightarrow> wire_request \<Rightarrow> bool" where
  "passes X r \<longleftrightarrow> (\<forall>next c. ch_Timeout X next r c = next r c) \<and>
    (\<exists>h. ''X-Request-ID'' \<notin> dom h \<and> (\<forall>next c. ch_CORS X next r c =
      next r (c\<lparr>cn_w := (cn_w c)\<lparr>rw_Header := rw_Header (cn_w c) ++ h\<rparr>\<rparr>))) \<and>
    (\<forall>w status h. rw_Sent w = Some (status, h) \<longrightarrow> ch_Status X w = status)"

text \<open>The chain inside the request id, for a route.\<close>

lemma served_inside:
  assumes route: "routes E deps (rq_Method r) (rq_Path r) = Some handle"
    and pass: "passes X (r\<lparr>rq_RemoteAddr := dp_RealIP deps (Request.truncate r)\<rparr>)"
    and fresh: "rw_Sent (cn_w c) = None"
  shows "\<exists>resp w' c'. RealIP deps (Recovery (Logging E X (ch_Timeout X (ch_CORS X (mux E deps X))))) r c = (None, c') \<and>
    handle ((Request.truncate r)\<lparr>rq_RemoteAddr := dp_RealIP deps (Request.truncate r), rq_claims := None, rq_resolvedTenant := None\<rparr>)
      ((cn_world c)\<lparr>tick := Suc (tick (cn_world c))\<rparr>) = (Inr resp, w') \<and> proper resp \<and>
    cn_world c' = w'\<lparr>tick := Suc (tick w')\<rparr> \<and> rw_Body (cn_w c') = rw_Body (cn_w c) @ [rs_Envelope resp] \<and>
    (\<exists>hdr bytes. rw_Sent (cn_w c') = Some (rs_Status resp, hdr) \<and>
      hdr ''X-Request-ID'' = rw_Header (cn_w c) ''X-Request-ID'' \<and>
      (api_root (rq_Method r) (rq_Path r) \<or> hdr ''Content-Type'' = Some ''application/json; charset=utf-8'') \<and>
      cn_log c' = cn_log c @ [HttpRequest (RequestIDFromContext r) (rq_Method r) (rq_Path r) (rs_Status resp) bytes
        (e_now E (tick w') - e_now E (tick (cn_world c))) (dp_RealIP deps (Request.truncate r))])"
proof -
  let ?ip = "dp_RealIP deps (Request.truncate r)"
  let ?r = "r\<lparr>rq_RemoteAddr := ?ip\<rparr>"
  let ?h = "(Request.truncate r)\<lparr>rq_RemoteAddr := ?ip, rq_claims := None, rq_resolvedTenant := None\<rparr>"
  let ?w = "(cn_world c)\<lparr>tick := Suc (tick (cn_world c))\<rparr>"
  obtain resp w' where resp: "handle ?h ?w = (Inr resp, w')" "proper resp"
    using routes_answer [OF route, of ?h] unfolding answers_def by blast
  from pass obtain h where h: "''X-Request-ID'' \<notin> dom h"
    "\<And>next c. ch_CORS X next ?r c = next ?r (c\<lparr>cn_w := (cn_w c)\<lparr>rw_Header := rw_Header (cn_w c) ++ h\<rparr>\<rparr>)"
    and timeout: "\<And>next c. ch_Timeout X next ?r c = next ?r c"
    and status: "\<And>w status h. rw_Sent w = Some (status, h) \<Longrightarrow> ch_Status X w = status"
    unfolding passes_def by blast
  define cw where "cw = handler_write ?r resp ((cn_w c)\<lparr>rw_Header := rw_Header (cn_w c) ++ h\<rparr>)"
  obtain hdr where sent: "rw_Sent cw = Some (rs_Status resp, hdr)"
    and hdr: "hdr ''X-Request-ID'' = (rw_Header (cn_w c) ++ h) ''X-Request-ID''"
      "api_root (rq_Method r) (rq_Path r) \<or> hdr ''Content-Type'' = Some ''application/json; charset=utf-8''"
    using handler_write_fresh [of "(cn_w c)\<lparr>rw_Header := rw_Header (cn_w c) ++ h\<rparr>" ?r resp] fresh
    by (auto simp: cw_def)
  have mux: "mux E deps X ?r (c\<lparr>cn_world := ?w, cn_w := (cn_w c)\<lparr>rw_Header := rw_Header (cn_w c) ++ h\<rparr>\<rparr>) =
      (None, c\<lparr>cn_world := w', cn_w := cw\<rparr>)"
    using route resp(1) by (simp add: mux_def cw_def Request.defs)
  have "RealIP deps (Recovery (Logging E X (ch_Timeout X (ch_CORS X (mux E deps X))))) r c =
      (None, c\<lparr>cn_world := w'\<lparr>tick := Suc (tick w')\<rparr>, cn_w := cw,
        cn_log := cn_log c @ [HttpRequest (RequestIDFromContext r) (rq_Method r) (rq_Path r) (rs_Status resp)
          (ch_BytesWritten X cw) (e_now E (tick w') - e_now E (tick (cn_world c))) ?ip]\<rparr>)"
    using mux by (simp add: RealIP_def Recovery_def Logging_def timeout h(2) status [OF sent] RequestIDFromContext_def)
  moreover have "hdr ''X-Request-ID'' = rw_Header (cn_w c) ''X-Request-ID''"
    using h(1) hdr(1) by (simp add: map_add_dom_app_simps)
  moreover have "rw_Body cw = rw_Body (cn_w c) @ [rs_Envelope resp]"
    by (simp add: cw_def handler_write_body)
  ultimately show ?thesis
    using resp sent hdr(2) by simp
qed

lemma new_conn_simps:
  "rw_Header (cn_w (new_conn log w)) = Map.empty" "rw_Sent (cn_w (new_conn log w)) = None"
  "rw_Body (cn_w (new_conn log w)) = []" "cn_log (new_conn log w) = log" "cn_world (new_conn log w) = w"
  by (simp_all add: new_conn_def)

lemma truncate_wire:
  "Request.truncate ((wire r)\<lparr>rq_requestID := i\<rparr>) = r"
  "Request.truncate ((wire r)\<lparr>rq_requestID := i, rq_RemoteAddr := a\<rparr>) = r\<lparr>rq_RemoteAddr := a\<rparr>"
  "rq_Method (wire r) = rq_Method r" "rq_Path (wire r) = rq_Path r" "rq_Header (wire r) = rq_Header r"
  by (simp_all add: wire_def Request.defs)

end
