(* ===== verification/Publishing.thy ===== *)
theory Publishing
  imports HttpHandlers
begin

text \<open>
  What publishing an event puts on sale: the rows \<open>PublishEvent\<close> makes, what \<open>BulkCreate\<close> stores of them,
  and the status the event ends with.
\<close>

section \<open>General-admission units\<close>

definition fresh_unit :: "uuid \<Rightarrow> uuid \<Rightarrow> uuid \<Rightarrow> EventSeatInventory \<Rightarrow> bool" where
  "fresh_unit t e c r \<longleftrightarrow> inv_TenantID r = t \<and> inv_EventID r = e \<and> inv_CategoryID r = c \<and> inv_SeatID r = None \<and>
    inv_Status r = InventoryStatusAvailable \<and> inv_HoldToken r = None \<and> inv_HeldByUserID r = None \<and>
    inv_HoldExpiresAt r = None"

lemma publish_rows_fresh:
  assumes "foldE (publish_row E t e c) is [] w = (Inr rows, w')"
  shows "length rows = length is \<and> list_all (fresh_unit t e c) rows \<and> db w' = db w"
  by (rule foldE_prefix [OF assms, where P = "\<lambda>ys rs v. length rs = length ys \<and> list_all (fresh_unit t e c) rs \<and> db v = db w"])
    (auto simp: publish_row_def comp_iffs run_uuid_New fresh_unit_def)

lemma BulkCreate_rows_fresh:
  assumes "foldE (BulkCreate_row E) rows [] w = (Inr batch, w')" and "list_all (fresh_unit t e c) rows"
  shows "length batch = length rows \<and> list_all (fresh_unit t e c) batch \<and> db w' = db w"
  by (rule foldE_prefix [OF assms(1), where P = "\<lambda>ys rs v. length rs = length ys \<and>
      list_all (fresh_unit t e c) rs \<and> db v = db w"])
    (use assms(2) in \<open>auto simp: BulkCreate_row_def comp_iffs fresh_unit_def dest: id_or_New_frame\<close>)

lemma inventory_INSERT_batch_appends:
  "inventory_INSERT_batch rs now d = Inr (x, d') \<Longrightarrow>
     event_seat_inventory d' = event_seat_inventory d @ rs \<and> events d' = events d"
  by (induction rs arbitrary: d) (auto simp: inventory_INSERT_def split: sum.splits if_splits)

lemma BulkCreate_fresh:
  assumes "InventoryRepo_BulkCreate E rows w = (Inr (), w')" and "list_all (fresh_unit t e c) rows"
  obtains stored where "event_seat_inventory (db w') = event_seat_inventory (db w) @ stored"
    "length stored = length rows" "list_all (fresh_unit t e c) stored" "events (db w') = events (db w)"
proof (cases "rows = []")
  case True
  with assms(1) show thesis by (intro that [of "[]"]) (auto simp: InventoryRepo_BulkCreate_def run_simps)
next
  case False
  with assms(1) obtain batch w1 where batch: "foldE (BulkCreate_row E) rows [] w = (Inr batch, w1)"
    and run: "pg_stmt E (\<lambda>now. inventory_INSERT_batch
      (map (\<lambda>r. r\<lparr>inv_CreatedAt := now, inv_UpdatedAt := now\<rparr>) batch) now) w1 = (Inr (), w')"
    by (auto simp: InventoryRepo_BulkCreate_def comp_iffs)
  note fresh = BulkCreate_rows_fresh [OF batch assms(2)]
  from run obtain now where "inventory_INSERT_batch
      (map (\<lambda>r. r\<lparr>inv_CreatedAt := now, inv_UpdatedAt := now\<rparr>) batch) now (db w1) = Inr ((), db w')"
    by (auto simp: pg_stmt_Inr_iff)
  from inventory_INSERT_batch_appends [OF this] fresh show thesis
    by (intro that [of "map (\<lambda>r. r\<lparr>inv_CreatedAt := now, inv_UpdatedAt := now\<rparr>) batch"])
      (auto simp: list_all_iff fresh_unit_def)
qed

section \<open>The event's status\<close>

lemma EventRepo_Update_status:
  assumes "EventRepo_Update E (event\<lparr>ev_Status := st\<rparr>) w = (Inr (), w')" and "event_by_id t e (db w) = Some event"
  shows "event_seat_inventory (db w') = event_seat_inventory (db w) \<and>
    (\<exists>ev'. event_by_id t e (db w') = Some ev' \<and> ev_Status ev' = st)"
proof -
  from assms(2) have key: "ev_ID event = e" "ev_TenantID event = t" by (auto simp: event_by_id_def find_Some_iff)
  define f where "f now = (\<lambda>x :: Event. x\<lparr>ev_Name := ev_Name event, ev_Competition := ev_Competition event,
      ev_HomeTeam := ev_HomeTeam event, ev_AwayTeam := ev_AwayTeam event, ev_StartsAt := ev_StartsAt event,
      ev_DoorsOpenAt := ev_DoorsOpenAt event, ev_SalesStartAt := ev_SalesStartAt event,
      ev_SalesEndAt := ev_SalesEndAt event, ev_Status := st, ev_UpdatedAt := now\<rparr>)" for now
  from assms(1) obtain now where
    "db w' = (db w)\<lparr>events := sql_update (\<lambda>x. ev_ID x = e \<and> ev_TenantID x = t) (f now) (events (db w))\<rparr>"
    by (auto simp: EventRepo_Update_def ExecUpdate_def comp_iffs pg_stmt_Inr_iff events_UPDATE_def Let_def key f_def
        split: if_splits)
  moreover have "find (\<lambda>x. ev_ID x = e \<and> ev_TenantID x = t)
      (sql_update (\<lambda>x. ev_ID x = e \<and> ev_TenantID x = t) (f now) xs) =
      map_option (f now) (find (\<lambda>x. ev_ID x = e \<and> ev_TenantID x = t) xs)" for xs
    by (induction xs) (auto simp: sql_update_def f_def)
  ultimately show ?thesis using assms(2) by (simp add: event_by_id_def f_def)
qed

section \<open>The handler\<close>

text \<open>What a publish that is answered with 201 went through.\<close>

lemma PublishEvent_steps:
  assumes run: "AdminEventHandler_PublishEvent E h r w = (Inr resp, w')" and ok: "rs_Status resp = StatusCreated"
  obtains t e c req event rows w1 w2 w3 where "TenantIDFromContext E r = Some t"
    "e_uuid_Parse E (rq_URLParam r ''eventID'') = Some e"
    "decodeAndValidate (dec_publish (dp_codec h)) (val_publish (dp_codec h)) r = Inr req"
    "e_uuid_Parse E (pe_EventTicketCategoryID req) = Some c" "event_by_id t e (db w) = Some event" "db w1 = db w"
    "foldE (publish_row E t e c) [0..<nat (pe_Quantity req)] [] w1 = (Inr rows, w2)"
    "InventoryRepo_BulkCreate E rows w2 = (Inr (), w3)"
    "if ev_Status event = EventStatusDraft \<or> ev_Status event = EventStatusScheduled
      then EventRepo_Update E (event\<lparr>ev_Status := EventStatusOnSale\<rparr>) w3 = (Inr (), w') else w' = w3"
proof -
  from run ok obtain t e req c where guards: "TenantIDFromContext E r = Some t"
    "e_uuid_Parse E (rq_URLParam r ''eventID'') = Some e"
    "decodeAndValidate (dec_publish (dp_codec h)) (val_publish (dp_codec h)) r = Inr req"
    "e_uuid_Parse E (pe_EventTicketCategoryID req) = Some c"
    unfolding AdminEventHandler_PublishEvent_def withAdminTenant_def withUUID_def withBody_def
    by (auto simp: run_simps response_Error_def decodeAndValidate_def split: option.splits sum.splits)
  obtain re w1 where re: "EventRepo_GetByID E t e w = (re, w1)" by fastforce
  note step1 = run [unfolded AdminEventHandler_PublishEvent_def withAdminTenant_def withUUID_def withBody_def guards
      option.case sum.case bind_attemptE [where m = "EventRepo_GetByID E t e", OF re]]
  from step1 ok obtain event where event: "re = Inr event"
    by (cases re) (auto simp: run_simps response_Error_def)
  from re event have found: "event_by_id t e (db w) = Some event" "db w1 = db w"
    by (auto simp: EventRepo_GetByID_def QueryRow_Inr_iff)
  from step1 event obtain rows w2 where rows: "foldE (publish_row E t e c) [0..<nat (pe_Quantity req)] [] w1 = (Inr rows, w2)"
    by (auto simp: comp_iffs)
  obtain rb w3 where rb: "InventoryRepo_BulkCreate E rows w2 = (rb, w3)" by fastforce
  note step2 = step1 [unfolded event sum.case bindE_def [of "foldE _ _ _"] rows prod.case
      bind_attemptE [where m = "InventoryRepo_BulkCreate E rows", OF rb]]
  from step2 ok have created: "rb = Inr ()"
    by (cases rb) (auto simp: run_simps response_Error_def)
  obtain ru w4 where ru: "EventRepo_Update E (event\<lparr>ev_Status := EventStatusOnSale\<rparr>) w3 = (ru, w4)" by fastforce
  note step3 = step2 [unfolded created sum.case]
  have "if ev_Status event = EventStatusDraft \<or> ev_Status event = EventStatusScheduled
      then ru = Inr () \<and> w4 = w' else w' = w3"
    using step3 ok ru by (cases ru) (auto simp: run_simps response_Error_def split: if_splits)
  with ru guards found rows rb created show thesis by (intro that) (auto split: if_splits)
qed

lemma PublishEvent_created:
  assumes run: "AdminEventHandler_PublishEvent E h r w = (Inr resp, w')" and ok: "rs_Status resp = StatusCreated"
  obtains t e c req event rows ev' where "TenantIDFromContext E r = Some t"
    "e_uuid_Parse E (rq_URLParam r ''eventID'') = Some e"
    "decodeAndValidate (dec_publish (dp_codec h)) (val_publish (dp_codec h)) r = Inr req"
    "e_uuid_Parse E (pe_EventTicketCategoryID req) = Some c" "event_by_id t e (db w) = Some event"
    "event_seat_inventory (db w') = event_seat_inventory (db w) @ rows" "length rows = nat (pe_Quantity req)"
    "list_all (fresh_unit t e c) rows" "event_by_id t e (db w') = Some ev'"
    "ev_Status ev' = (if ev_Status event \<in> {EventStatusDraft, EventStatusScheduled} then EventStatusOnSale
      else ev_Status event)"
proof -
  from run ok obtain t e c req event rows w1 w2 w3 where guards: "TenantIDFromContext E r = Some t"
    "e_uuid_Parse E (rq_URLParam r ''eventID'') = Some e"
    "decodeAndValidate (dec_publish (dp_codec h)) (val_publish (dp_codec h)) r = Inr req"
    "e_uuid_Parse E (pe_EventTicketCategoryID req) = Some c"
    and found: "event_by_id t e (db w) = Some event" and w1: "db w1 = db w"
    and rows: "foldE (publish_row E t e c) [0..<nat (pe_Quantity req)] [] w1 = (Inr rows, w2)"
    and created: "InventoryRepo_BulkCreate E rows w2 = (Inr (), w3)"
    and rest: "if ev_Status event = EventStatusDraft \<or> ev_Status event = EventStatusScheduled
      then EventRepo_Update E (event\<lparr>ev_Status := EventStatusOnSale\<rparr>) w3 = (Inr (), w') else w' = w3"
    by (rule PublishEvent_steps)
  from created publish_rows_fresh [OF rows] obtain stored where stored:
    "event_seat_inventory (db w3) = event_seat_inventory (db w) @ stored" "length stored = nat (pe_Quantity req)"
    "list_all (fresh_unit t e c) stored" "events (db w3) = events (db w)"
    by (auto elim!: BulkCreate_fresh simp: w1)
  have found3: "event_by_id t e (db w3) = Some event" using found stored(4) by (simp add: event_by_id_def)
  have "event_seat_inventory (db w') = event_seat_inventory (db w3) \<and> (\<exists>ev'. event_by_id t e (db w') = Some ev' \<and>
      ev_Status ev' = (if ev_Status event \<in> {EventStatusDraft, EventStatusScheduled} then EventStatusOnSale
        else ev_Status event))"
    using rest EventRepo_Update_status [OF _ found3] found3 by (auto split: if_splits)
  with guards found stored show thesis by (auto intro: that)
qed

end
