(* ===== verification/Interleaving.thy ===== *)
theory Interleaving
  imports World
begin

text \<open>
  Requests that overlap.  A handler that is computed in one go sees no other request between its
  statements; here a request is a \<open>thread\<close> that stops after every call of a repository, which
  for Postgres is one statement, and any number of threads run on one world, in any order of their steps.  The locale \<open>contest\<close> is the argument by which
  only one of them can win: each needs to make a fact true that none may find true already.
\<close>

section \<open>Threads\<close>

datatype 'a thread = Done "error + 'a" | Step "world \<Rightarrow> 'a thread \<times> world"

text \<open>One call, made in one step.\<close>

definition atomic :: "'a op \<Rightarrow> 'a thread" where
  "atomic m = Step (\<lambda>w. apfst Done (m w))"

primrec bindT :: "'a thread \<Rightarrow> ('a \<Rightarrow> 'b thread) \<Rightarrow> 'b thread" where
  "bindT (Done r) k = (case r of Inl e \<Rightarrow> Done (Inl e) | Inr x \<Rightarrow> k x)"
| "bindT (Step f) k = Step (map_prod (\<lambda>t. bindT t k) id \<circ> f)"

primrec attemptT :: "'a thread \<Rightarrow> (error + 'a) thread" where
  "attemptT (Done r) = Done (Inr r)"
| "attemptT (Step f) = Step (map_prod attemptT id \<circ> f)"

text \<open>A thread that runs alone.\<close>

primrec solo :: "'a thread \<Rightarrow> 'a op" where
  "solo (Done r) = (\<lambda>w. (r, w))"
| "solo (Step f) = (\<lambda>w. case map_prod solo id (f w) of (m, w') \<Rightarrow> m w')"

lemma solo_Step: "solo (Step f) w = solo (fst (f w)) (snd (f w))"
  by (simp add: case_prod_beta)

declare solo.simps(2) [simp del]

lemma solo_atomic: "solo (atomic m) = m"
  by (rule ext) (simp add: atomic_def solo_Step)

lemma solo_bindT: "solo (bindT t k) = bindE (solo t) (\<lambda>x. solo (k x))"
proof (induction t)
  case (Done r)
  show ?case by (rule ext) (simp add: run_simps split: sum.split)
next
  case (Step f)
  have IH: "solo (bindT (fst (f w)) k) = bindE (solo (fst (f w))) (\<lambda>x. solo (k x))" for w
    by (rule Step [of "f w"]) (auto simp: prod_set_defs)
  show ?case by (rule ext) (simp add: solo_Step IH run_simps)
qed

lemma solo_attemptT: "solo (attemptT t) = attemptE (solo t)"
proof (induction t)
  case (Done r)
  show ?case by (rule ext) (simp add: run_simps)
next
  case (Step f)
  have IH: "solo (attemptT (fst (f w))) = attemptE (solo (fst (f w)))" for w
    by (rule Step [of "f w"]) (auto simp: prod_set_defs)
  show ?case by (rule ext) (simp add: solo_Step IH run_simps)
qed

lemma solo_cases:
  "solo (if c then t else t') = (if c then solo t else solo t')"
  "solo (case r of Inl e \<Rightarrow> f e | Inr x \<Rightarrow> g x) = (case r of Inl e \<Rightarrow> solo (f e) | Inr x \<Rightarrow> solo (g x))"
  "solo (case p of (x, y) \<Rightarrow> h x y) = (case p of (x, y) \<Rightarrow> solo (h x y))"
  by (simp_all split: sum.split prod.split)

lemmas solo_simps = solo_atomic solo_bindT solo_attemptT solo_cases solo.simps(1)

abbreviation returnT :: "'a \<Rightarrow> 'a thread" where
  "returnT x \<equiv> Done (Inr x)"

abbreviation throwT :: "error \<Rightarrow> 'a thread" where
  "throwT e \<equiv> Done (Inl e)"

text \<open>The call with its result dropped.\<close>

abbreviation forgetT :: "'a thread \<Rightarrow> unit thread" where
  "forgetT t \<equiv> bindT t (\<lambda>_. returnT ())"

lemma bindT_atomic_return: "bindT (atomic m) returnT = atomic m"
  by (auto simp: atomic_def fun_eq_iff apfst_def map_prod_def split: sum.split prod.split)

section \<open>Schedules\<close>

text \<open>At each step one thread that is not done makes its next call.\<close>

inductive sched :: "'a thread list \<times> world \<Rightarrow> 'a thread list \<times> world \<Rightarrow> bool" where
  turn: "i < length ts \<Longrightarrow> ts ! i = Step f \<Longrightarrow> f w = (t, w') \<Longrightarrow> sched (ts, w) (ts[i := t], w')"

inductive_cases schedE: "sched (ts, w) c"

text \<open>An executable form: the indices of the threads whose turn it is; a thread that is done passes.\<close>

primrec run_schedule :: "nat list \<Rightarrow> 'a thread list \<times> world \<Rightarrow> 'a thread list \<times> world" where
  "run_schedule [] c = c"
| "run_schedule (i # is) c = run_schedule is (case c of (ts, w) \<Rightarrow>
    if i < length ts then (case ts ! i of Done r \<Rightarrow> (ts, w) | Step f \<Rightarrow> (case f w of (t, w') \<Rightarrow> (ts[i := t], w')))
    else (ts, w))"

lemma run_schedule_sched: "sched\<^sup>*\<^sup>* c (run_schedule is c)"
proof (induction "is" arbitrary: c)
  case Nil
  show ?case by simp
next
  case (Cons i js)
  obtain ts w where c: "c = (ts, w)" by fastforce
  show ?case
  proof (cases "\<exists>f. i < length ts \<and> ts ! i = Step f")
    case True
    then obtain f t w' where f: "i < length ts" "ts ! i = Step f" "f w = (t, w')" by (metis surj_pair)
    from sched.turn [OF this] Cons.IH [of "(ts[i := t], w')"] show ?thesis
      by (simp add: c f converse_rtranclp_into_rtranclp)
  next
    case False
    then have "run_schedule (i # js) c = run_schedule js c"
      by (auto simp: c split: thread.split)
    with Cons.IH show ?thesis by simp
  qed
qed

lemma run_schedule_pair: "sched\<^sup>*\<^sup>* (ts, w) (fst (run_schedule is (ts, w)), snd (run_schedule is (ts, w)))"
  by (simp add: run_schedule_sched)

lemma sched_length: "sched\<^sup>*\<^sup>* (ts, w) (ts', w') \<Longrightarrow> length ts' = length ts"
  by (induction rule: rtranclp_induct2) (auto elim: schedE)

text \<open>The threads that have succeeded.\<close>

definition winners :: "(nat \<Rightarrow> bool) \<Rightarrow> 'a thread list \<Rightarrow> nat set" where
  "winners C ts = {i. i < length ts \<and> C i \<and> (\<exists>x. ts ! i = Done (Inr x))}"

section \<open>Contests\<close>

text \<open>
  \<open>T\<close> is the fact that decides, \<open>G\<close> what every step of every thread keeps to and \<open>J\<close> an invariant.  A
  thread may rely on what it has learnt from its earlier calls as long as every \<open>G\<close> preserves it
  (\<open>stable\<close>).  A \<open>contender\<close> does not succeed without a step of its own that makes \<open>T\<close> true; a \<open>bystander\<close>
  only keeps to \<open>G\<close>.
\<close>

locale contest =
  fixes G :: "world \<Rightarrow> world \<Rightarrow> bool" and J :: "world \<Rightarrow> bool" and T :: "world \<Rightarrow> bool"
  assumes T_stable: "G w w' \<Longrightarrow> J w \<Longrightarrow> T w \<Longrightarrow> T w'"
begin

definition stable :: "(world \<Rightarrow> bool) \<Rightarrow> bool" where
  "stable K \<longleftrightarrow> (\<forall>w w'. G w w' \<longrightarrow> J w \<longrightarrow> K w \<longrightarrow> K w')"

inductive bystander :: "(world \<Rightarrow> bool) \<Rightarrow> 'a thread \<Rightarrow> bool" where
  finished: "bystander K (Done r)"
| step: "(\<And>w t w'. K w \<Longrightarrow> J w \<Longrightarrow> f w = (t, w') \<Longrightarrow>
     G w w' \<and> J w' \<and> (\<exists>K'. stable K' \<and> K' w' \<and> bystander K' t)) \<Longrightarrow> bystander K (Step f)"

inductive contender :: "(world \<Rightarrow> bool) \<Rightarrow> 'a thread \<Rightarrow> bool" where
  failed: "contender K (Done (Inl e))"
| step: "(\<And>w t w'. K w \<Longrightarrow> J w \<Longrightarrow> f w = (t, w') \<Longrightarrow>
     G w w' \<and> J w' \<and> (\<exists>K'. stable K' \<and> K' w' \<and>
       (contender K' t \<or> \<not> T w \<and> T w' \<and> bystander K' t))) \<Longrightarrow> contender K (Step f)"

inductive_cases bystander_StepE: "bystander K (Step f)"
inductive_cases contender_StepE: "contender K (Step f)"
inductive_cases contender_DoneE: "contender K (Done (Inr x))"

text \<open>Threads built from calls.\<close>

definition keeps_to :: "(world \<Rightarrow> bool) \<Rightarrow> 'a op \<Rightarrow> ('a \<Rightarrow> world \<Rightarrow> bool) \<Rightarrow> bool" where
  "keeps_to K m K' \<longleftrightarrow> (\<forall>w r w'. K w \<longrightarrow> J w \<longrightarrow> m w = (r, w') \<longrightarrow>
     G w w' \<and> J w' \<and> (\<forall>x. r = Inr x \<longrightarrow> K' x w'))"

lemma stable_True: "stable (\<lambda>_. True)"
  by (simp add: stable_def)

lemma call_step:
  assumes m: "keeps_to K m K'" and w: "K w" "J w" and k: "\<And>x. stable (K' x)"
    and run: "(map_prod (\<lambda>t. bindT t k) id \<circ> (\<lambda>w. apfst Done (m w))) w = (t, w')"
  obtains (failed) e where "G w w'" "J w'" "t = Done (Inl e)"
  | (went_on) x where "G w w'" "J w'" "m w = (Inr x, w')" "t = k x" "stable (K' x)" "K' x w'"
proof -
  obtain r w1 where r: "m w = (r, w1)" by fastforce
  with run have t: "w1 = w'" "t = bindT (Done r) k" by auto
  from m w r t have "G w w'" "J w'" "\<And>x. r = Inr x \<Longrightarrow> K' x w'" by (auto simp: keeps_to_def)
  with r t k show thesis by (cases r) (auto intro: failed went_on)
qed

lemma bystander_bind:
  assumes m: "keeps_to K m K'" and k: "\<And>x. stable (K' x)" "\<And>x. bystander (K' x) (k x)"
  shows "bystander K (bindT (atomic m) k)"
  unfolding atomic_def bindT.simps
proof (rule bystander.step)
  fix w t w'
  assume w: "K w" "J w" and run: "(map_prod (\<lambda>t. bindT t k) id \<circ> (\<lambda>w. apfst Done (m w))) w = (t, w')"
  from m w k(1) run show "G w w' \<and> J w' \<and> (\<exists>K'. stable K' \<and> K' w' \<and> bystander K' t)"
    by (cases rule: call_step) (auto intro: stable_True bystander.finished k(2))
qed

text \<open>After a call a contender goes on as one, or the call has decided: it has made \<open>T\<close> true.\<close>

lemma contender_bind:
  assumes m: "keeps_to K m K'" and k: "\<And>x. stable (K' x)"
    and after: "\<And>x. contender (K' x) (k x) \<or> bystander (K' x) (k x) \<and>
      (\<forall>w w'. K w \<longrightarrow> J w \<longrightarrow> m w = (Inr x, w') \<longrightarrow> \<not> T w \<and> T w')"
  shows "contender K (bindT (atomic m) k)"
  unfolding atomic_def bindT.simps
proof (rule contender.step)
  fix w t w'
  assume w: "K w" "J w" and run: "(map_prod (\<lambda>t. bindT t k) id \<circ> (\<lambda>w. apfst Done (m w))) w = (t, w')"
  from m w k run
  show "G w w' \<and> J w' \<and> (\<exists>K'. stable K' \<and> K' w' \<and> (contender K' t \<or> \<not> T w \<and> T w' \<and> bystander K' t))"
  proof (cases rule: call_step)
    case (failed e)
    then show ?thesis by (auto intro: stable_True contender.failed)
  next
    case (went_on x)
    with after [of x] w show ?thesis by blast
  qed
qed

lemma bystander_atomic:
  assumes "keeps_to K m (\<lambda>_ _. True)"
  shows "bystander K (atomic m)"
proof -
  have "bystander K (bindT (atomic m) returnT)"
    by (rule bystander_bind [OF assms]) (rule stable_True bystander.finished)+
  then show ?thesis by (simp add: bindT_atomic_return)
qed

lemma bystander_forget: "bystander K t \<Longrightarrow> bystander K (forgetT t)"
proof (induction rule: bystander.induct)
  case (finished K r)
  show ?case by (auto intro: bystander.finished split: sum.split)
next
  case (step K f)
  show ?case
    unfolding bindT.simps
  proof (rule bystander.step)
    fix w t w'
    assume w: "K w" "J w" and run: "(map_prod forgetT id \<circ> f) w = (t, w')"
    then obtain t1 where t1: "f w = (t1, w')" "t = forgetT t1" by (cases "f w") auto
    from step.IH [OF w t1(1)] t1(2) show "G w w' \<and> J w' \<and> (\<exists>K'. stable K' \<and> K' w' \<and> bystander K' t)"
      by blast
  qed
qed

lemma contender_forget: "contender K t \<Longrightarrow> contender K (forgetT t)"
proof (induction rule: contender.induct)
  case (failed K e)
  show ?case by (simp add: contender.failed)
next
  case (step K f)
  show ?case
    unfolding bindT.simps
  proof (rule contender.step)
    fix w t w'
    assume w: "K w" "J w" and run: "(map_prod forgetT id \<circ> f) w = (t, w')"
    then obtain t1 where t1: "f w = (t1, w')" "t = forgetT t1" by (cases "f w") auto
    from step.IH [OF w t1(1)] t1(2)
    show "G w w' \<and> J w' \<and> (\<exists>K'. stable K' \<and> K' w' \<and> (contender K' t \<or> \<not> T w \<and> T w' \<and> bystander K' t))"
      by (blast intro: bystander_forget)
  qed
qed

lemmas contender_call = contender_bind [OF _ _ disjI1]

lemma contender_decides:
  assumes "keeps_to K m (\<lambda>_ _. True)" and "\<And>x. bystander (\<lambda>_. True) (k x)"
    and "\<And>w x w'. K w \<Longrightarrow> J w \<Longrightarrow> m w = (Inr x, w') \<Longrightarrow> \<not> T w \<and> T w'"
  shows "contender K (bindT (atomic m) k)"
  using assms by (intro contender_bind [OF assms(1) stable_True disjI2]) blast

lemma contender_weaken:
  assumes "contender K t" and "\<And>w. K' w \<Longrightarrow> K w"
  shows "contender K' t"
  using assms(1)
proof cases
  case (failed e)
  then show ?thesis by (simp add: contender.failed)
next
  case (step f)
  show ?thesis unfolding step(1) by (rule contender.step) (use step(2) assms(2) in blast)
qed

lemma contender_if: "(c \<Longrightarrow> contender K t) \<Longrightarrow> (\<not> c \<Longrightarrow> contender K t') \<Longrightarrow> contender K (if c then t else t')"
  by simp

lemma contender_sum:
  "(\<And>e. r = Inl e \<Longrightarrow> contender K (f e)) \<Longrightarrow> (\<And>x. r = Inr x \<Longrightarrow> contender K (g x)) \<Longrightarrow>
    contender K (case r of Inl e \<Rightarrow> f e | Inr x \<Rightarrow> g x)"
  by (simp split: sum.split)

lemma bystander_if: "(c \<Longrightarrow> bystander K t) \<Longrightarrow> (\<not> c \<Longrightarrow> bystander K t') \<Longrightarrow> bystander K (if c then t else t')"
  by simp

lemma bystander_sum:
  "(\<And>e. bystander K (f e)) \<Longrightarrow> (\<And>x. bystander K (g x)) \<Longrightarrow> bystander K (case r of Inl e \<Rightarrow> f e | Inr x \<Rightarrow> g x)"
  by (simp split: sum.split)

lemma bystander_call:
  "keeps_to K m (\<lambda>_ _. True) \<Longrightarrow> (\<And>x. bystander (\<lambda>_. True) (k x)) \<Longrightarrow> bystander K (bindT (atomic m) k)"
  by (rule bystander_bind [where K' = "\<lambda>_ _. True"]) (simp_all add: stable_True)

lemma contender_prod: "(\<And>x y. contender K (f x y)) \<Longrightarrow> contender K (case p of (x, y) \<Rightarrow> f x y)"
  by (cases p) simp

lemma bystander_prod: "(\<And>x y. bystander K (f x y)) \<Longrightarrow> bystander K (case p of (x, y) \<Rightarrow> f x y)"
  by (cases p) simp

lemmas contender_intros = contender_if contender_sum contender.failed
lemmas bystander_intros = bystander_if bystander_sum bystander.finished bystander_call bystander_atomic

text \<open>
  What holds of a pool at any moment: \<open>W\<close> are the contenders that have decided, at most one, and once
  there is one \<open>T\<close> is true.
\<close>

definition placed :: "bool \<Rightarrow> world \<Rightarrow> 'a thread \<Rightarrow> bool" where
  "placed c w t \<longleftrightarrow> (\<exists>K. stable K \<and> K w \<and> (if c then contender K t else bystander K t))"

definition fair :: "(nat \<Rightarrow> bool) \<Rightarrow> nat set \<Rightarrow> 'a thread list \<times> world \<Rightarrow> bool" where
  "fair C W c \<longleftrightarrow> (case c of (ts, w) \<Rightarrow> J w \<and> card W \<le> 1 \<and> finite W \<and> (W \<noteq> {} \<longrightarrow> T w) \<and>
    (\<forall>i < length ts. placed (C i \<and> i \<notin> W) w (ts ! i)))"

lemma placed_others: "placed c w t \<Longrightarrow> G w w' \<Longrightarrow> J w \<Longrightarrow> placed c w' t"
  unfolding placed_def stable_def by blast

lemma placed_turn:
  assumes "placed c w (Step f)" and "J w" and "f w = (t, w')"
  shows "G w w' \<and> J w' \<and> (placed c w' t \<or> c \<and> \<not> T w \<and> T w' \<and> placed False w' t)"
proof (cases c)
  case True
  with assms obtain K where "K w" "contender K (Step f)" by (auto simp: placed_def)
  with assms(2,3) obtain K' where "G w w'" "J w'" "stable K'" "K' w'"
    "contender K' t \<or> \<not> T w \<and> T w' \<and> bystander K' t" by (blast elim: contender_StepE)
  with True show ?thesis unfolding placed_def by auto
next
  case False
  with assms obtain K where "K w" "bystander K (Step f)" by (auto simp: placed_def)
  with assms(2,3) obtain K' where "G w w'" "J w'" "stable K'" "K' w'" "bystander K' t"
    by (blast elim: bystander_StepE)
  with False show ?thesis unfolding placed_def by auto
qed

lemma fair_turn:
  assumes fair: "fair C W (ts, w)" and i: "i < length ts" "ts ! i = Step f" and run: "f w = (t, w')"
  shows "\<exists>W'. W \<subseteq> W' \<and> fair C W' (ts[i := t], w')"
proof -
  have inv: "J w" "card W \<le> 1" "finite W" "W \<noteq> {} \<Longrightarrow> T w"
    and all: "\<And>j. j < length ts \<Longrightarrow> placed (C j \<and> j \<notin> W) w (ts ! j)"
    using fair by (auto simp: fair_def)
  from placed_turn [OF all [OF i(1), unfolded i(2)] inv(1) run]
  have G: "G w w'" "J w'" and t: "placed (C i \<and> i \<notin> W) w' t \<or> \<not> T w \<and> T w' \<and> placed False w' t" by auto
  have others: "placed (C j \<and> j \<notin> W) w' (ts ! j)" if "j < length ts" for j
    by (rule placed_others [OF all [OF that] G(1) inv(1)])
  from t show ?thesis
  proof (elim disjE conjE)
    assume "placed (C i \<and> i \<notin> W) w' t"
    with i(1) inv G others T_stable [OF G(1) inv(1)] have "fair C W (ts[i := t], w')"
      by (auto simp: fair_def nth_list_update)
    then show ?thesis by blast
  next
    assume "\<not> T w" "T w'" "placed False w' t"
    with inv have W: "W = {}" by blast
    with i(1) G others \<open>T w'\<close> \<open>placed False w' t\<close> have "fair C {i} (ts[i := t], w')"
      by (auto simp: fair_def nth_list_update)
    with W show ?thesis by blast
  qed
qed

lemma fair_sched: "sched\<^sup>*\<^sup>* c c' \<Longrightarrow> fair C W c \<Longrightarrow> \<exists>W'. W \<subseteq> W' \<and> fair C W' c'"
proof (induction rule: rtranclp_induct)
  case base
  then show ?case by blast
next
  case (step c1 c2)
  then obtain W1 where W1: "W \<subseteq> W1" "fair C W1 c1" by blast
  with step.hyps(2) show ?case
  proof (cases rule: sched.cases)
    case (turn i ts f w t w')
    with fair_turn [of C W1 ts w i f t w'] W1 show ?thesis by (metis order_trans)
  qed
qed

lemma fair_winners:
  assumes "fair C W (ts, w)"
  shows "winners C ts \<subseteq> W"
proof
  fix i
  assume "i \<in> winners C ts"
  then obtain x where i: "i < length ts" "C i" "ts ! i = Done (Inr x)" by (auto simp: winners_def)
  with assms have "placed (C i \<and> i \<notin> W) w (Done (Inr x))" by (auto simp: fair_def)
  with i(2) show "i \<in> W" by (auto simp: placed_def elim: contender_DoneE split: if_splits)
qed

theorem one_winner:
  assumes "sched\<^sup>*\<^sup>* (ts, w) (ts', w')" and "J w"
    and "\<And>i. i < length ts \<Longrightarrow> if C i then contender (\<lambda>_. True) (ts ! i) else bystander (\<lambda>_. True) (ts ! i)"
  shows "card (winners C ts') \<le> 1"
proof -
  have "fair C {} (ts, w)"
    using assms(2,3) by (auto simp: fair_def placed_def intro: stable_True)
  from fair_sched [OF assms(1) this] obtain W where W: "fair C W (ts', w')" by blast
  then have "finite W" "card W \<le> 1" by (simp_all add: fair_def)
  with card_mono [OF _ fair_winners [OF W]] show ?thesis by simp
qed

text \<open>When the fact holds from the start, nobody wins.\<close>

theorem no_winner:
  assumes "sched\<^sup>*\<^sup>* (ts, w) (ts', w')" and "J w" and "T w"
    and "\<And>i. i < length ts \<Longrightarrow> if C i then contender (\<lambda>_. True) (ts ! i) else bystander (\<lambda>_. True) (ts ! i)"
  shows "winners C ts' = {}"
proof -
  have "fair C {length ts} (ts, w)"
    using assms(2-4) by (auto simp: fair_def placed_def intro: stable_True)
  from fair_sched [OF assms(1) this] obtain W where W: "length ts \<in> W" "fair C W (ts', w')" by blast
  then have "W \<subseteq> {length ts}" by (auto simp: fair_def card_le_Suc0_iff_eq)
  with fair_winners [OF W(2)] sched_length [OF assms(1)] show ?thesis by (auto simp: winners_def)
qed

end

end
