(* ===== verification/AuthThreads.thy ===== *)
theory AuthThreads
  imports AuthService Interleaving
begin

text \<open>
  Overlapping calls of the auth service (\<open>internal/service/auth/service.go\<close>), one step per statement.  Of any
  number of refreshes with one token, interleaved in any way, at most one is granted: the UPDATE of \<open>Revoke\<close>
  counts only a token that is not revoked yet.
\<close>

section \<open>The service as threads\<close>

definition RefreshAccessToken_thread ::
  "env \<Rightarrow> JWTConfig \<Rightarrow> string \<Rightarrow> string \<Rightarrow> string \<Rightarrow> TokenPair thread" where
  "RefreshAccessToken_thread E cfg rawToken userAgent ipAddress =
    bindT (atomic (attemptE (RefreshTokenRepo_GetByTokenHash E (hashToken rawToken)))) (\<lambda>r.
    case r of
      Inl err \<Rightarrow>
        if errors_Is err ErrNotFound then throwT ErrInvalidCredentials
        else throwT (Wrap ''auth: look up refresh token: %w'' err)
    | Inr stored \<Rightarrow>
        if rt_RevokedAt stored \<noteq> None then throwT ErrRefreshRevoked
        else bindT (atomic (time_Now E)) (\<lambda>now.
          if rt_ExpiresAt stored < now then throwT ErrRefreshExpired
          else bindT (atomic (wrapE ''auth: look up user for refresh: %w'' (UserRepo_GetByID E (rt_UserID stored)))) (\<lambda>user.
            if u_Status user \<noteq> UserStatusActive then throwT ErrAccountInactive
            else bindT (atomic (wrapE ''auth: revoke used refresh token: %w''
              (RefreshTokenRepo_Revoke E (rt_ID stored)))) (\<lambda>_.
            atomic (issueTokenPair E cfg user userAgent ipAddress)))))"

definition Logout_thread :: "env \<Rightarrow> string \<Rightarrow> unit thread" where
  "Logout_thread E rawToken =
    bindT (atomic (attemptE (RefreshTokenRepo_GetByTokenHash E (hashToken rawToken)))) (\<lambda>r.
    case r of
      Inl err \<Rightarrow>
        if errors_Is err ErrNotFound then returnT ()
        else throwT (Wrap ''auth: look up refresh token: %w'' err)
    | Inr stored \<Rightarrow>
        if rt_RevokedAt stored \<noteq> None then returnT ()
        else atomic (wrapE ''auth: revoke refresh token: %w'' (RefreshTokenRepo_Revoke E (rt_ID stored))))"

definition Login_thread :: "env \<Rightarrow> JWTConfig \<Rightarrow> string \<Rightarrow> string \<Rightarrow> string \<Rightarrow> string \<Rightarrow> TokenPair thread" where
  "Login_thread E cfg email password userAgent ipAddress =
    bindT (atomic (attemptE (UserRepo_GetByEmail E (normalizeEmail email)))) (\<lambda>r.
    case r of
      Inl err \<Rightarrow>
        if errors_Is err ErrNotFound then throwT ErrInvalidCredentials
        else throwT (Wrap ''auth: look up user: %w'' err)
    | Inr user \<Rightarrow>
        if u_Status user \<noteq> UserStatusActive then throwT ErrAccountInactive
        else if \<not> e_bcrypt_ok E (u_PasswordHash user) password then throwT ErrInvalidCredentials
        else atomic (issueTokenPair E cfg user userAgent ipAddress))"

text \<open>\<open>Register\<close> and \<open>RegisterAdmin\<close> make one statement each.\<close>

fun auth_thread :: "env \<Rightarrow> JWTConfig \<Rightarrow> auth_call \<Rightarrow> unit thread" where
  "auth_thread E cfg (ARegister email pw f l) = forgetT (atomic (Register E email pw f l))"
| "auth_thread E cfg (ARegisterAdmin t email pw f l) = forgetT (atomic (RegisterAdmin E t email pw f l))"
| "auth_thread E cfg (ALogin email pw ua ip) = forgetT (Login_thread E cfg email pw ua ip)"
| "auth_thread E cfg (ARefresh raw ua ip) = forgetT (RefreshAccessToken_thread E cfg raw ua ip)"
| "auth_thread E cfg (ALogout raw) = forgetT (Logout_thread E raw)"

text \<open>A thread that runs alone is the call.\<close>

lemma auth_threads_solo:
  "solo (RefreshAccessToken_thread E cfg raw ua ip) = RefreshAccessToken E cfg raw ua ip"
  "solo (Logout_thread E raw) = Logout E raw"
  "solo (Login_thread E cfg email pw ua ip) = Login E cfg email pw ua ip"
  unfolding RefreshAccessToken_thread_def RefreshAccessToken_def Logout_thread_def Logout_def Login_thread_def Login_def
  by (simp_all add: solo_simps returnE_def throwE_def cong: sum.case_cong if_cong)

section \<open>What every statement of the service keeps\<close>

text \<open>A token keeps its id, and stays revoked once it is.\<close>

definition tokens_kept :: "database \<Rightarrow> database \<Rightarrow> bool" where
  "tokens_kept d d' \<longleftrightarrow> (\<forall>h rt. token_by_hash h d = Some rt \<longrightarrow>
    (\<exists>rt'. token_by_hash h d' = Some rt' \<and> rt_ID rt' = rt_ID rt \<and> (rt_RevokedAt rt \<noteq> None \<longrightarrow> rt_RevokedAt rt' \<noteq> None)))"

interpretation tokens: db_effect "\<lambda>d d'. tokens_kept d d' \<and> (accounts_ok d \<longrightarrow> accounts_ok d')"
proof
  show "tokens_kept d d \<and> (accounts_ok d \<longrightarrow> accounts_ok d)" for d by (simp add: tokens_kept_def)
  show "tokens_kept d d'' \<and> (accounts_ok d \<longrightarrow> accounts_ok d'')"
    if "tokens_kept d d' \<and> (accounts_ok d \<longrightarrow> accounts_ok d')"
      "tokens_kept d' d'' \<and> (accounts_ok d' \<longrightarrow> accounts_ok d'')" for d d' d''
    using that unfolding tokens_kept_def by (metis (no_types, lifting))
qed

abbreviation keeps_tokens :: "'a op \<Rightarrow> bool" where
  "keeps_tokens \<equiv> moves (\<lambda>w w'. tokens_kept (db w) (db w') \<and> (accounts_ok (db w) \<longrightarrow> accounts_ok (db w')))"

lemma tokens_kept_INSERT: "refresh_tokens d' = refresh_tokens d @ ts \<Longrightarrow> tokens_kept d d'"
  by (auto simp: tokens_kept_def token_by_hash_def find_append_Some)

lemma statements_keep_tokens:
  "users_INSERT u now d = Inr (x, d') \<Longrightarrow> tokens_kept d d' \<and> (accounts_ok d \<longrightarrow> accounts_ok d')"
  "refresh_tokens_INSERT E rt now d = Inr (x, d') \<Longrightarrow> tokens_kept d d' \<and> (accounts_ok d \<longrightarrow> accounts_ok d')"
  "refresh_tokens_revoke c now d = Inr (n, d') \<Longrightarrow> tokens_kept d d' \<and> (accounts_ok d \<longrightarrow> accounts_ok d')"
proof -
  assume ins: "users_INSERT u now d = Inr (x, d')"
  then have "refresh_tokens d' = refresh_tokens d @ []" by (auto simp: users_INSERT_def pg_insert_Inr_iff)
  with accounts_INSERT_user [OF ins] show "tokens_kept d d' \<and> (accounts_ok d \<longrightarrow> accounts_ok d')"
    by (blast intro: tokens_kept_INSERT)
next
  assume ins: "refresh_tokens_INSERT E rt now d = Inr (x, d')"
  then obtain ts where "refresh_tokens d' = refresh_tokens d @ ts" by (auto simp: refresh_tokens_INSERT_Inr)
  with accounts_INSERT_token [OF ins] show "tokens_kept d d' \<and> (accounts_ok d \<longrightarrow> accounts_ok d')"
    by (blast intro: tokens_kept_INSERT)
next
  assume rev: "refresh_tokens_revoke c now d = Inr (n, d')"
  then have "tokens_kept d d'" by (auto simp: tokens_kept_def token_by_hash_revoke)
  with accounts_revoke [OF rev] show "tokens_kept d d' \<and> (accounts_ok d \<longrightarrow> accounts_ok d')" by blast
qed

lemma repo_keeps_tokens:
  "keeps_tokens (UserRepo_Create E u)" "keeps_tokens (RefreshTokenRepo_Create E rt)"
  "keeps_tokens (RefreshTokenRepo_Revoke E i)" "keeps_tokens (RefreshTokenRepo_GetByTokenHash E h)"
  "keeps_tokens (UserRepo_GetByID E i)" "keeps_tokens (UserRepo_GetByEmail E email)"
  unfolding UserRepo_Create_def RefreshTokenRepo_Create_def RefreshTokenRepo_Revoke_def
    RefreshTokenRepo_GetByTokenHash_def UserRepo_GetByID_def UserRepo_GetByEmail_def
  by (intro tokens.db_moves_intros tokens.moves_stmt tokens.moves_ExecUpdate; blast dest: statements_keep_tokens)+

lemma local_keeps_tokens: "keeps_tokens (hashPassword E pw)" "keeps_tokens (generateRefreshToken E)"
  by (simp_all add: moves_def hashPassword_def generateRefreshToken_def tokens.db_refl)

lemma calls_keep_tokens:
  "keeps_tokens (Register E email pw f l)" "keeps_tokens (RegisterAdmin E t email pw f l)"
  "keeps_tokens (issueTokenPair E cfg user ua ip)"
  unfolding Register_def RegisterAdmin_def issueTokenPair_def
  by (intro tokens.db_moves_intros repo_keeps_tokens local_keeps_tokens)+

lemmas keeps_tokens_intros = tokens.db_moves_intros repo_keeps_tokens calls_keep_tokens

section \<open>The contest for a token\<close>

interpretation refresh: contest
  "\<lambda>w w'. tokens_kept (db w) (db w')" "\<lambda>w. accounts_ok (db w)" "\<lambda>w. spent (hashToken raw) (db w)" for raw
proof
  fix w w' :: world
  assume "tokens_kept (db w) (db w')" "spent (hashToken raw) (db w)"
  then show "spent (hashToken raw) (db w')"
    unfolding tokens_kept_def spent_def by (auto split: option.splits) (metis option.distinct(1) option.sel)+
qed

lemma refresh_keeps_to:
  assumes "keeps_tokens m" and "\<And>w x w'. K w \<Longrightarrow> m w = (Inr x, w') \<Longrightarrow> K' x w'"
  shows "refresh.keeps_to K m K'"
  unfolding refresh.keeps_to_def using moves_run [OF assms(1)] assms(2) by blast

lemma refresh_keeps_to_any: "keeps_tokens m \<Longrightarrow> refresh.keeps_to K m (\<lambda>_ _. True)"
  by (rule refresh_keeps_to) simp_all

text \<open>What the lookup teaches: the id of the row under the hash.\<close>

definition knows_token :: "string \<Rightarrow> uuid \<Rightarrow> world \<Rightarrow> bool" where
  "knows_token h i w \<longleftrightarrow> (\<exists>rt. token_by_hash h (db w) = Some rt \<and> rt_ID rt = i)"

lemma knows_token_kept: "knows_token h i w \<Longrightarrow> tokens_kept (db w) (db w') \<Longrightarrow> knows_token h i w'"
  unfolding knows_token_def tokens_kept_def by (metis (no_types, lifting))

lemma knows_token_stable: "refresh.stable (knows_token h i)"
  unfolding refresh.stable_def by (blast intro: knows_token_kept)

lemma refresh_knows: "keeps_tokens m \<Longrightarrow> refresh.keeps_to (knows_token h i) m (\<lambda>_. knows_token h i)"
  by (rule refresh_keeps_to) (blast intro: knows_token_kept dest: moves_run)+

lemma Revoke_decides:
  assumes "knows_token (hashToken raw) i w" and "accounts_ok (db w)" and "RefreshTokenRepo_Revoke E i w = (Inr x, w')"
  shows "\<not> spent (hashToken raw) (db w) \<and> spent (hashToken raw) (db w')"
proof -
  let ?live = "\<lambda>rt. rt_ID rt = i \<and> rt_RevokedAt rt = None"
  from assms(3) obtain n now where rev: "refresh_tokens_revoke (\<lambda>rt. rt_ID rt = i) now (db w) = Inr (n, db w')"
    and "n \<noteq> 0"
    by (auto simp: RefreshTokenRepo_Revoke_def ExecUpdate_def comp_iffs pg_stmt_Inr_iff split: if_splits)
  then have "sql_affected ?live (refresh_tokens (db w)) \<noteq> 0"
    by (auto simp: refresh_tokens_revoke_def Let_def)
  then obtain x where x: "x \<in> set (refresh_tokens (db w))" "?live x" by (auto simp: sql_affected_0_iff)
  from assms(1) obtain rt where rt: "token_by_hash (hashToken raw) (db w) = Some rt" "rt_ID rt = i"
    by (auto simp: knows_token_def)
  then have "rt \<in> set (refresh_tokens (db w))" by (auto simp: token_by_hash_def find_Some_iff)
  with x rt(2) assms(2) have "rt = x"
    by (auto simp: accounts_ok_def distinct_map inj_on_def)
  with x rt token_by_hash_revoke [OF rev, of "hashToken raw"] show ?thesis by (simp add: spent_def)
qed

text \<open>The statements after the lookup, for the row that was found.\<close>

lemma refresh_rotate:
  "refresh.contender raw (knows_token (hashToken raw) (rt_ID stored))
    (bindT (atomic (time_Now E)) (\<lambda>now.
      if rt_ExpiresAt stored < now then throwT ErrRefreshExpired
      else bindT (atomic (wrapE ''auth: look up user for refresh: %w'' (UserRepo_GetByID E (rt_UserID stored)))) (\<lambda>user.
        if u_Status user \<noteq> UserStatusActive then throwT ErrAccountInactive
        else bindT (atomic (wrapE ''auth: revoke used refresh token: %w''
          (RefreshTokenRepo_Revoke E (rt_ID stored)))) (\<lambda>_.
        atomic (issueTokenPair E cfg user ua ip)))))"
  by (intro refresh.contender_call [OF refresh_knows knows_token_stable] refresh.contender_intros
      refresh.contender_decides refresh.bystander_intros refresh_keeps_to_any keeps_tokens_intros)
    (auto simp: comp_iffs dest: Revoke_decides)

lemma refresh_contender: "refresh.contender raw (\<lambda>_. True) (RefreshAccessToken_thread E cfg raw ua ip)"
  unfolding RefreshAccessToken_thread_def
proof (rule refresh.contender_call
    [where K' = "\<lambda>r w. \<forall>stored. r = Inr stored \<longrightarrow> knows_token (hashToken raw) (rt_ID stored) w"];
    (intro refresh.contender_intros refresh.contender_weaken [OF refresh_rotate])?)
  show "refresh.keeps_to (\<lambda>_. True) (attemptE (RefreshTokenRepo_GetByTokenHash E (hashToken raw)))
      (\<lambda>r w. \<forall>stored. r = Inr stored \<longrightarrow> knows_token (hashToken raw) (rt_ID stored) w)"
    by (intro refresh_keeps_to keeps_tokens_intros)
      (auto simp: comp_iffs RefreshTokenRepo_GetByTokenHash_def QueryRow_Inr_iff knows_token_def)
  show "refresh.stable (\<lambda>w. \<forall>stored. r = Inr stored \<longrightarrow> knows_token (hashToken raw) (rt_ID stored) w)"
    for r :: "error + RefreshToken"
    using knows_token_stable unfolding refresh.stable_def by blast
qed auto

lemma auth_bystander: "refresh.bystander (\<lambda>_. True) (auth_thread E cfg c)"
  by (cases c; simp only: auth_thread.simps RefreshAccessToken_thread_def Logout_thread_def Login_thread_def;
      intro refresh.bystander_forget refresh.bystander_intros refresh_keeps_to_any keeps_tokens_intros)

lemma auth_contender: "refreshes raw c \<Longrightarrow> refresh.contender raw (\<lambda>_. True) (auth_thread E cfg c)"
  by (cases c) (auto intro: refresh.contender_forget refresh_contender)

lemma auth_pool:
  assumes "i < length calls"
  shows "if refreshes raw (calls ! i) then refresh.contender raw (\<lambda>_. True) (map (auth_thread E cfg) calls ! i)
    else refresh.bystander (\<lambda>_. True) (map (auth_thread E cfg) calls ! i)"
  using assms auth_contender auth_bystander by simp

end
