(* ===== verification/Samples.thy ===== *)
theory Samples
  imports InventoryService
begin

text \<open>
  A concrete environment and a small database, on which the properties of the development are
  applied: Postgres and Redis answer every call, the clocks advance by one second per external
  call, and UUIDs are written as 32 letters and 4 dashes.
\<close>

section \<open>A textual form of UUIDs\<close>

primrec nibbles :: "nat \<Rightarrow> nat \<Rightarrow> nat list" where
  "nibbles 0 n = []"
| "nibbles (Suc k) n = n mod 16 # nibbles k (n div 16)"

definition unnibble :: "nat list \<Rightarrow> nat" where
  "unnibble ds = foldr (\<lambda>d a. d + 16 * a) ds 0"

lemma unnibble_nibbles: "unnibble (nibbles k n) = n mod 16 ^ k"
proof (induction k arbitrary: n)
  case 0
  show ?case by (simp add: unnibble_def)
next
  case (Suc k)
  have "unnibble (nibbles (Suc k) n) = n mod 16 + 16 * unnibble (nibbles k (n div 16))"
    by (simp add: unnibble_def)
  with Suc show ?case by (simp add: mod_mult2_eq)
qed

lemma length_nibbles [simp]: "length (nibbles k n) = k"
  by (induction k arbitrary: n) simp_all

lemma nibbles_less: "d \<in> set (nibbles k n) \<Longrightarrow> d < 16"
  by (induction k arbitrary: n) auto

definition sample_String :: "uuid \<Rightarrow> string" where
  "sample_String u = map (\<lambda>d. char_of (97 + d)) (nibbles 32 (unat u)) @ ''----''"

definition sample_Parse :: "string \<Rightarrow> uuid option" where
  "sample_Parse s =
    (if length s = 36 then Some (word_of_nat (unnibble (map (\<lambda>c. of_char c - 97) (take 32 s))))
     else None)"

lemma sample_text: "sample_Parse (sample_String u) = Some u" "length (sample_String u) = 36"
proof -
  have "map (\<lambda>c. of_char c - 97) (map (\<lambda>d. char_of (97 + d) :: char) (nibbles 32 (unat u))) =
      nibbles 32 (unat u)"
    by (auto simp: take_bit_eq_mod dest!: nibbles_less intro!: map_idI)
  moreover have "unat u mod 16 ^ 32 = unat u"
    using unsigned_less [where 'a = nat and w = u] by simp
  ultimately show "sample_Parse (sample_String u) = Some u"
    by (simp add: sample_Parse_def sample_String_def unnibble_nibbles)
  show "length (sample_String u) = 36" by (simp add: sample_String_def)
qed

lemma sample_String_inj [simp]: "sample_String u = sample_String v \<longleftrightarrow> u = v"
  by (metis sample_text(1) option.inject)

section \<open>Access tokens\<close>

text \<open>A token that carries its claims behind the secret, in a form that can be read back.\<close>

definition spell :: "string \<Rightarrow> string" where
  "spell s = concat (map (\<lambda>c. [CHR ''x'', c]) s) @ ''y''"

fun unspell :: "string \<Rightarrow> string \<times> string" where
  "unspell (a # b # s) = (if a = CHR ''x'' then apfst (Cons b) (unspell s) else ([], b # s))"
| "unspell _ = ([], [])"

lemma unspell_spell [simp]: "unspell (spell s @ rest) = (s, rest)"
proof (induction s)
  case Nil
  show ?case by (cases rest) (simp_all add: spell_def)
next
  case (Cons c s)
  then show ?case by (simp add: spell_def)
qed

definition sample_sign :: "string \<Rightarrow> Claims \<Rightarrow> error + string" where
  "sample_sign secret c =
    Inr (secret @ CHR ''.'' # spell (cl_Subject c) @ spell (cl_Role c) @ spell (cl_TenantID c))"

definition sample_parse_token :: "string \<Rightarrow> time \<Rightarrow> string \<Rightarrow> error + Claims \<times> bool" where
  "sample_parse_token secret now tok =
    (if take (Suc (length secret)) tok = secret @ ''.'' then
       (let (subject, tok1) = unspell (drop (Suc (length secret)) tok);
            (role, tok2) = unspell tok1;
            (tenant, tok3) = unspell tok2
        in Inr (\<lparr>cl_Subject = subject, cl_IssuedAt = 0, cl_ExpiresAt = now + 1, cl_Role = role,
          cl_TenantID = tenant\<rparr>, True))
     else Inl (ErrText ''token signature is invalid''))"

section \<open>The environment\<close>

definition sample_env :: env where
  "sample_env =
    \<lparr>e_now = (\<lambda>n. 1000000 * int n), e_pg_now = (\<lambda>n. 1000000 * int n),
     e_uuid = (\<lambda>n. word_of_nat (1000 + n)), e_uuid_String = sample_String,
     e_uuid_Parse = sample_Parse, e_pg_fault = (\<lambda>n. False), e_commit = (\<lambda>n. Committed),
     e_redis = reference_redis (\<lambda>n. 1000000 * int n),
     e_stripe = (\<lambda>n rq. StripeReply 200 ''pi_1'' ''secret_1'' None),
     e_inet = (\<lambda>s. Some s), e_rand = (\<lambda>n. Inr (replicate 32 (char_of n))),
     e_bcrypt_hash = (\<lambda>n pw. Inr (CHR ''$'' # pw)), e_bcrypt_ok = (\<lambda>h pw. h = CHR ''$'' # pw),
     e_jwt_sign = sample_sign, e_jwt_parse = sample_parse_token,
     e_smtp = (\<lambda>n m. None), e_redis_ping = (\<lambda>n. True)\<rparr>"

lemma sample_healthy: "pg_healthy sample_env"
  by (simp add: pg_healthy_def sample_env_def)

lemma sample_redis: "redis_server (e_redis sample_env)"
  by (simp add: sample_env_def reference_redis_server)

lemma sample_redis_up: "redis_up sample_env w"
  by (simp add: redis_up_def sample_redis)

lemma sample_uuid_text: "uuid_text sample_env"
  by (simp add: uuid_text_def sample_env_def sample_text)

section \<open>A database\<close>

definition sample_seat :: "uuid \<Rightarrow> EventSeatInventory" where
  "sample_seat i = \<lparr>inv_ID = i, inv_TenantID = 1, inv_EventID = 2, inv_CategoryID = 3,
    inv_SeatID = None, inv_Status = InventoryStatusAvailable, inv_HoldToken = None,
    inv_HeldByUserID = None, inv_HoldExpiresAt = None, inv_CreatedAt = 0, inv_UpdatedAt = 0\<rparr>"

definition sample_user :: User where
  "sample_user = \<lparr>u_ID = 7, u_Email = ''fan@example.com'', u_Phone = '''', u_PasswordHash = ''h'',
    u_FirstName = ''A'', u_LastName = ''B'', u_Status = UserStatusActive, u_Role = UserRoleFan,
    u_TenantID = None, u_EmailVerifiedAt = None, u_CreatedAt = 0, u_UpdatedAt = 0\<rparr>"

definition sample_price :: Money where
  "sample_price = \<lparr>Cents = 2500, Currency = ''KES''\<rparr>"

definition sample_category :: EventTicketCategory where
  "sample_category = \<lparr>etc_ID = 3, etc_TenantID = 1, etc_EventID = 2, etc_SeatCategoryID = 4,
    etc_Price = sample_price, etc_MaxPerOrder = 4, etc_CreatedAt = 0, etc_UpdatedAt = 0\<rparr>"

definition sample_event :: Event where
  "sample_event = \<lparr>ev_ID = 2, ev_TenantID = 1, ev_VenueID = 5, ev_Name = ''Derby'',
    ev_Competition = ''League'', ev_HomeTeam = ''H'', ev_AwayTeam = ''A'', ev_StartsAt = 10 ^ 12,
    ev_DoorsOpenAt = None, ev_SalesStartAt = 0, ev_SalesEndAt = 10 ^ 12,
    ev_Status = EventStatusOnSale, ev_CreatedAt = 0, ev_UpdatedAt = 0\<rparr>"

text \<open>The seats 10 and 11 of the event, created and audited.\<close>

definition sample_db :: database where
  "sample_db = empty_db\<lparr>users := [sample_user], events := [sample_event],
    event_ticket_categories := [sample_category],
    event_seat_inventory := [sample_seat 10, sample_seat 11],
    inventory_audit_log := [log_insert 0 (sample_seat 10), log_insert 0 (sample_seat 11)]\<rparr>"

text \<open>User 7 is past the waiting room until the end of time.\<close>

definition sample_ks :: keyspace where
  "sample_ks = [admittedKey sample_env 2 7 \<mapsto> (RStr ''1'', None)]"

definition sample_world :: world where
  "sample_world = \<lparr>db = sample_db, ks = sample_ks, tick = 0, tx_now = None, mock_intents = [],
    gateway_calls = [], console_sent = []\<rparr>"

text \<open>The two INSERTs that lead to this database from one without seats.\<close>

lemma sample_history: "history (sample_db\<lparr>event_seat_inventory := [], inventory_audit_log := []\<rparr>) sample_db"
proof (rule inv_step_INSERT_batch)
  show "inventory_INSERT_batch [sample_seat 10, sample_seat 11] 0
      (sample_db\<lparr>event_seat_inventory := [], inventory_audit_log := []\<rparr>) = Inr ((), sample_db)"
    by code_simp
qed (simp add: sample_seat_def)

lemma sample_audited: "audited sample_db"
  by (rule history_audited [OF sample_history]) (simp add: audited_empty)

lemmas sample_defs =
  sample_world_def sample_db_def sample_seat_def sample_user_def sample_ks_def sample_env_def
  empty_db_def reference_redis_def sem_setnx_def sem_incr_def sem_expire_def sem_exists_def
  sem_GET_def sem_DEL_def live_def ttl_of_def apfst_def

lemmas hold_defs =
  HoldSeat_def HoldSeat_locked_def InventoryRepo_Hold_def inventory_UPDATE_def hold_where_def
  hold_set_def esi_check_def esi_holder_exists_def log_status_change_def
  sql_affected_def sql_update_def pg_stmt_def pg_now_def
  redis_repo_defs redis_call_def unlockScript_def DefaultConfig_def
  lockKey_def rateLimitKey_def admittedKey_def

lemma sample_hold:
  "fst (HoldSeat sample_env DefaultConfig 1 2 10 7 sample_world) =
     Inr \<lparr>hr_HoldToken = 1005, hr_ExpiresAt = 306000000\<rparr>"
  by (simp add: hold_defs sample_defs run_simps Let_def)


section \<open>The waiting room\<close>

lemma sample_room_ok: "n < 2 ^ 53 \<Longrightarrow> room_ok sample_env n sample_world"
  by (simp add: room_ok_def sample_redis_up sample_uuid_text event_room_def queue_zs_def seq_at_def
      sample_world_def sample_ks_def)

lemma sample_queue: "queue_line sample_env (ks sample_world) e = []"
  by (simp add: queue_line_def queue_zs_def sample_world_def sample_ks_def map_filter_simps)

lemma sample_room_run:
  "\<exists>out w'. foldE (room_step (WaitingRoom_Join sample_env) (WaitingRoom_Admit sample_env) 2)
      [RJoin 2 8, RJoin 2 9, RAdmit 2 1 1000] [] sample_world = (Inr out, w')"
  by (simp add: redis_repo_defs redis_call_def sample_defs sem_zaddnx_def sem_zrank_def sem_zpopmin_def
      sem_sets_def zset_at_def put_zset_def zset_insert_def queueKey_def seqKey_def admittedKey_def
      sample_text map_filter_simps float64_def round_to_53_def bit_length.simps run_simps Let_def)

end
