(* ===== verification/AuthProperties.thy ===== *)
theory AuthProperties
  imports AuthThreads Samples
begin

text \<open>
  What the auth service guarantees: who gets an account and with which rights, what a password and a
  refresh token are worth, and how long a session lasts.
\<close>

section \<open>Samples\<close>

definition sample_jwt :: JWTConfig where
  "sample_jwt = \<lparr>jwt_Secret = ''s3cret'', jwt_RefreshSecret = ''r3fresh'', jwt_AccessTTL = 900 * 10 ^ 6, jwt_RefreshTTL = 10 ^ 12\<rparr>"

lemmas auth_defs =
  auth_service_defs issueTokenPair_def hashPassword_def generateRefreshToken_def UserRepo_Create_def
  RefreshTokenRepo_Create_def RefreshTokenRepo_Revoke_def ExecUpdate_def
  users_INSERT_def user_check_def user_by_email_def user_by_id_def token_by_hash_def
  refresh_tokens_INSERT_def refresh_tokens_revoke_def inet_column_def nullIfEmpty_def pg_insert_def pg_stmt_def
  conflictE_def id_or_New_def pg_now_def new_user_def minPasswordLength_def

text \<open>An account just registered, and its session after a login.\<close>

definition fan_email :: string where
  "fan_email = '' Fan2@Example.com''"

definition joined_world :: world where
  "joined_world = snd (Register sample_env fan_email ''password1'' ''C'' ''D'' sample_world)"

definition session_world :: world where
  "session_world = snd (Login sample_env sample_jwt fan_email ''password1'' ''ua'' '''' joined_world)"

lemma fan_normalized: "normalizeEmail fan_email = ''fan2@example.com''"
  by code_simp

lemma fan_same_email:
  "\<not> same_email ''fan@example.com'' ''fan2@example.com''" "same_email e e"
  by code_simp (simp add: same_email_def)

definition joined_user :: User where
  "joined_user = new_user 1001 ''fan2@example.com'' '''' ''C'' ''D'' UserRoleFan None"

lemma sample_register:
  "Register sample_env fan_email ''password1'' ''C'' ''D'' sample_world = (Inr joined_user, joined_world)"
  by (simp add: joined_world_def joined_user_def auth_defs fan_normalized fan_same_email sample_defs
      run_simps Let_def)

lemma joined_tables:
  "refresh_tokens (db joined_world) = []" "tick joined_world = 3"
  "users (db joined_world) = [sample_user,
     joined_user\<lparr>u_PasswordHash := ''$password1'', u_CreatedAt := 2000000, u_UpdatedAt := 2000000\<rparr>]"
  by (simp_all add: joined_world_def joined_user_def auth_defs fan_normalized fan_same_email sample_defs
      run_simps Let_def)

lemma joined_ok: "accounts_ok (db joined_world)"
proof -
  have "strings_ToLower ''fan@example.com'' \<noteq> strings_ToLower ''fan2@example.com''" by code_simp
  then show ?thesis
    by (simp add: accounts_ok_def joined_tables sample_user_def joined_user_def new_user_def user_check_def)
qed

lemma sample_session_possible:
  "session_possible sample_env sample_jwt '''' 4" "session_possible sample_env sample_jwt '''' 12"
  by (simp_all add: session_possible_def sample_env_def sample_sign_def inet_column_def nullIfEmpty_def)

lemma sample_login:
  "\<exists>p. Login sample_env sample_jwt fan_email ''password1'' ''ua'' '''' joined_world = (Inr p, session_world)"
proof -
  let ?u = "joined_user\<lparr>u_PasswordHash := ''$password1'', u_CreatedAt := 2000000, u_UpdatedAt := 2000000\<rparr>"
  have "user_by_email (normalizeEmail fan_email) (db joined_world) = Some ?u"
    by (simp add: user_by_email_def joined_tables fan_normalized fan_same_email sample_user_def
        joined_user_def new_user_def)
  moreover have "e_bcrypt_ok sample_env (u_PasswordHash ?u) ''password1''" "u_Status ?u = UserStatusActive"
    by (simp_all add: sample_env_def joined_user_def new_user_def)
  moreover have "fresh_session sample_env 4 (db joined_world)"
    by (simp add: fresh_session_def joined_tables token_by_hash_def)
  ultimately obtain p w' where
    "Login sample_env sample_jwt fan_email ''password1'' ''ua'' '''' joined_world = (Inr p, w')"
    using Login_known [OF sample_healthy, of fan_email joined_world ?u "''password1''" sample_jwt "''''" "''ua''"]
      sample_session_possible(1) joined_tables(2) by (auto simp: numeral_eq_Suc)
  then show ?thesis by (simp add: session_world_def)
qed

section \<open>Accounts\<close>

text \<open>
  C12. Whoever registers gets a fan's account, active and of no tenant, under the trimmed, lower case
  email, which had none before.  Exactly that account is added; its password is stored as its bcrypt
  hash only, and the hash is not part of the answer.
\<close>

theorem Register_creates_fan:
  assumes "Register E email password firstName lastName w = (Inr u, w')"
  shows "u_Role u = UserRoleFan \<and> u_TenantID u = None \<and> u_Status u = UserStatusActive \<and>
     u_Email u = normalizeEmail email \<and> u_PasswordHash u = '''' \<and> minPasswordLength \<le> length password \<and>
     user_by_email (normalizeEmail email) (db w) = None \<and>
     (\<exists>hash now. e_bcrypt_hash E (tick w) password = Inr hash \<and>
       db w' = (db w)\<lparr>users := users (db w) @ [u\<lparr>u_PasswordHash := hash, u_CreatedAt := now, u_UpdatedAt := now\<rparr>]\<rparr>)"
  using assms
proof (rule Register_Inr)
qed blast

theorem Register_creates_fan_witness:
  "u_Role joined_user = UserRoleFan \<and> user_by_email ''fan2@example.com'' (db sample_world) = None"
  using Register_creates_fan [OF sample_register] by (simp add: fan_normalized)



text \<open>
  No call but \<open>RegisterAdmin\<close> makes an administrator or changes one.
\<close>

theorem only_RegisterAdmin_makes_admins:
  assumes "run_calls (auth_step E cfg) cs w = (won, w')" and "\<not> list_ex makes_admin cs"
  shows "admins (db w') = admins (db w)"
  using assms(2) by (intro same_admins.frame.moves_calls [OF assms(1)] same_admins_service) (auto simp: list_ex_iff)

theorem only_RegisterAdmin_makes_admins_witness:
  "admins (db (snd (run_calls (auth_step sample_env sample_jwt)
     [ALogin fan_email ''password1'' ''ua'' '''', ARegister fan_email ''password2'' ''E'' ''F''] joined_world))) =
   admins (db joined_world)"
  by (rule only_RegisterAdmin_makes_admins [OF prod.collapse [symmetric]]) simp

section \<open>Sessions\<close>

text \<open>
  C22. \<open>Login\<close> succeeds only for an active account with the password's hash.  Its access token then
  carries that account's id, role and tenant; the refresh token is fresh, and what is stored of it is
  its hash, for that account, until its expiry.
\<close>

theorem Login_needs_password:
  assumes "Login E cfg email password ua ip w = (Inr p, w')"
  shows "\<exists>user rt now. user_by_email (normalizeEmail email) (db w) = Some user \<and>
     u_Status user = UserStatusActive \<and> e_bcrypt_ok E (u_PasswordHash user) password \<and>
     e_jwt_sign E (jwt_Secret cfg) (access_claims E cfg user now) = Inr (tp_AccessToken p) \<and>
     tp_AccessTokenExpiresAt p = now + jwt_AccessTTL cfg \<and>
     token_by_hash (hashToken (tp_RefreshToken p)) (db w) = None \<and>
     db w' = (db w)\<lparr>refresh_tokens := refresh_tokens (db w) @ [rt]\<rparr> \<and>
     rt_TokenHash rt = hashToken (tp_RefreshToken p) \<and> rt_UserID rt = u_ID user \<and>
     rt_ExpiresAt rt = now + jwt_RefreshTTL cfg \<and> rt_RevokedAt rt = None"
proof -
  from assms obtain user where user: "user_by_email (normalizeEmail email) (db w) = Some user"
      "u_Status user = UserStatusActive" "e_bcrypt_ok E (u_PasswordHash user) password"
    and issue: "issueTokenPair E cfg user ua ip (w\<lparr>tick := Suc (tick w)\<rparr>) = (Inr p, w')"
    by (rule Login_Inr)
  from issue show ?thesis
  proof (rule issueTokenPair_Inr)
  qed (use user in auto)
qed

theorem Login_needs_password_witness:
  "\<exists>user rt. user_by_email ''fan2@example.com'' (db joined_world) = Some user \<and>
     db session_world = (db joined_world)\<lparr>refresh_tokens := [rt]\<rparr> \<and> rt_UserID rt = u_ID user"
proof -
  from sample_login obtain p where
    "Login sample_env sample_jwt fan_email ''password1'' ''ua'' '''' joined_world = (Inr p, session_world)" by blast
  from Login_needs_password [OF this] show ?thesis by (auto simp: fan_normalized joined_tables)
qed

text \<open>
  C19. The round trip from registration to login: whoever has registered can log in with the same
  email, written in whatever case and with spaces around it, and the same password.  bcrypt must accept
  the password it hashed, and Postgres, the signer and the random source must answer.
\<close>

theorem register_then_login:
  assumes reg: "Register E email password firstName lastName w = (Inr u, w1)"
    and bcrypt: "\<forall>n pw h. e_bcrypt_hash E n pw = Inr h \<longrightarrow> e_bcrypt_ok E h pw"
    and same: "normalizeEmail email' = normalizeEmail email" and "pg_healthy E"
    and "session_possible E cfg ip (Suc (tick w1))" and "fresh_session E (Suc (tick w1)) (db w1)"
  shows "\<exists>p w2. Login E cfg email' password ua ip w1 = (Inr p, w2)"
proof -
  from reg obtain hash now where hash: "e_bcrypt_hash E (tick w) password = Inr hash"
    and new: "user_by_email (normalizeEmail email) (db w) = None" and email: "u_Email u = normalizeEmail email"
    and d: "db w1 = (db w)\<lparr>users := users (db w) @
      [u\<lparr>u_PasswordHash := hash, u_CreatedAt := now, u_UpdatedAt := now\<rparr>]\<rparr>"
    and active: "u_Status u = UserStatusActive"
    by (rule Register_Inr)
  from bcrypt hash have ok: "e_bcrypt_ok E hash password" by blast
  have "user_by_email (normalizeEmail email') (db w1) =
      Some (u\<lparr>u_PasswordHash := hash, u_CreatedAt := now, u_UpdatedAt := now\<rparr>)"
    using new email by (simp add: same d user_by_email_def find_append_None same_email_def)
  from Login_known [OF assms(4) this] assms(5,6) active ok show ?thesis by simp
qed

theorem register_then_login_witness:
  "\<exists>p w2. Login sample_env sample_jwt fan_email ''password1'' ''ua'' '''' joined_world = (Inr p, w2)"
proof (rule register_then_login [OF sample_register _ refl sample_healthy])
  show "\<forall>n pw h. e_bcrypt_hash sample_env n pw = Inr h \<longrightarrow> e_bcrypt_ok sample_env h pw"
    by (simp add: sample_env_def)
qed (use sample_session_possible(1) in \<open>simp_all add: joined_tables fresh_session_def token_by_hash_def numeral_eq_Suc\<close>)

text \<open>
  A refresh token can be exchanged once: of any calls of the service, in any order, at most one
  succeeds in refreshing with a given token.
\<close>

theorem refresh_token_single_use:
  assumes "run_calls (auth_step E cfg) cs w = (won, w')"
  shows "length (filter (refreshes raw) won) \<le> 1"
  by (rule refresh_token.used_once [OF assms])

theorem refresh_token_single_use_witness:
  "length (filter (refreshes ''abc'') (fst (run_calls (auth_step sample_env sample_jwt)
     [ARefresh ''abc'' ''ua'' '''', ALogout ''abc'', ARefresh ''abc'' ''ua'' ''''] session_world))) \<le> 1"
  by (rule refresh_token_single_use [OF prod.collapse [symmetric]])

text \<open>
  C7. A refresh token can be exchanged once even by calls that overlap: however the statements of any number of
  registrations, logins, refreshes and logouts are interleaved, at most one of the refreshes with a given token is granted, and none
  when the token was revoked before they began.
\<close>

theorem overlapping_refreshes_single_use:
  assumes "sched\<^sup>*\<^sup>* (map (auth_thread E cfg) calls, w) (ts, w')" and "accounts_ok (db w)"
  shows "card (winners (\<lambda>i. refreshes raw (calls ! i)) ts) \<le> 1 \<and>
    (spent (hashToken raw) (db w) \<longrightarrow> winners (\<lambda>i. refreshes raw (calls ! i)) ts = {})"
proof (intro conjI impI)
  show "card (winners (\<lambda>i. refreshes raw (calls ! i)) ts) \<le> 1"
    by (rule refresh.one_winner [OF assms]) (unfold length_map, rule auth_pool)
  show "winners (\<lambda>i. refreshes raw (calls ! i)) ts = {}" if "spent (hashToken raw) (db w)"
    by (rule refresh.no_winner [OF assms that]) (unfold length_map, rule auth_pool)
qed

lemma session_token:
  "\<exists>raw rt. token_by_hash (hashToken raw) (db session_world) = Some rt \<and> rt_RevokedAt rt = None"
proof -
  from sample_login obtain p where
    "Login sample_env sample_jwt fan_email ''password1'' ''ua'' '''' joined_world = (Inr p, session_world)" by blast
  then obtain user where "issueTokenPair sample_env sample_jwt user ''ua'' ''''
      (joined_world\<lparr>tick := Suc (tick joined_world)\<rparr>) = (Inr p, session_world)"
    by (rule Login_Inr)
  then obtain rt where "refresh_tokens (db session_world) = [rt]"
      "rt_TokenHash rt = hashToken (tp_RefreshToken p)" "rt_RevokedAt rt = None"
    by (rule issueTokenPair_Inr) (simp add: joined_tables)
  then have "token_by_hash (hashToken (tp_RefreshToken p)) (db session_world) = Some rt"
    by (simp add: token_by_hash_def)
  with \<open>rt_RevokedAt rt = None\<close> show ?thesis by blast
qed

lemma session_ok: "accounts_ok (db session_world)"
proof -
  have "auth_step sample_env sample_jwt (ALogin fan_email ''password1'' ''ua'' '''') joined_world = (Inr True, session_world)"
    using sample_login by (auto simp: run_simps)
  from moves_run [OF accounts_service this] joined_ok show ?thesis by blast
qed

theorem overlapping_refreshes_single_use_witness:
  "\<exists>raw rt. token_by_hash (hashToken raw) (db session_world) = Some rt \<and> rt_RevokedAt rt = None \<and>
    card (winners (\<lambda>i. refreshes raw ([ARefresh raw ''ua'' '''', ALogout raw, ARefresh raw ''ua'' ''''] ! i))
      (fst (run_schedule [0, 2, 0, 2, 1, 0, 2, 2, 0, 1, 2, 0] (map (auth_thread sample_env sample_jwt)
        [ARefresh raw ''ua'' '''', ALogout raw, ARefresh raw ''ua'' ''''], session_world)))) \<le> 1"
proof -
  from session_token obtain raw rt where "token_by_hash (hashToken raw) (db session_world) = Some rt"
    "rt_RevokedAt rt = None" by blast
  with overlapping_refreshes_single_use [OF run_schedule_pair session_ok, THEN conjunct1] show ?thesis by blast
qed

text \<open>
  Logging out ends the session: after a successful \<open>Logout\<close> with the refresh token of a session no
  call, however late, refreshes with it again.
\<close>

theorem logout_ends_session:
  assumes "Logout E raw w = (Inr (), w1)" and "token_by_hash (hashToken raw) (db w) \<noteq> None"
    and "run_calls (auth_step E cfg) cs w1 = (won, w')"
  shows "filter (refreshes raw) won = []"
  by (rule refresh_token.spent_never_used [OF assms(3) Logout_spends [OF assms(1,2)]])

theorem logout_ends_session_witness:
  "\<exists>raw w1. Logout sample_env raw session_world = (Inr (), w1) \<and>
     filter (refreshes raw) (fst (run_calls (auth_step sample_env sample_jwt) [ARefresh raw ''ua'' ''''] w1)) = []"
proof -
  from session_token obtain raw rt where tok: "token_by_hash (hashToken raw) (db session_world) = Some rt"
    and live: "rt_RevokedAt rt = None" by blast
  then have "sql_affected (\<lambda>x. rt_ID x = rt_ID rt \<and> rt_RevokedAt x = None) (refresh_tokens (db session_world)) \<noteq> 0"
    by (auto simp: sql_affected_0_iff token_by_hash_def find_Some_iff)
  with tok live have "\<exists>w1. Logout sample_env raw session_world = (Inr (), w1)"
    using sample_healthy by (simp add: Logout_def RefreshTokenRepo_GetByTokenHash_def run_simps
        RefreshTokenRepo_Revoke_def ExecUpdate_def pg_stmt_def pg_healthy_def refresh_tokens_revoke_def Let_def)
  then obtain w1 where out: "Logout sample_env raw session_world = (Inr (), w1)" by blast
  from logout_ends_session [OF out _ prod.collapse [symmetric]] tok out show ?thesis by blast
qed

text \<open>
  A session can be prolonged until it ends: a refresh token that is used before its expiry, as the
  next call after the login, is exchanged for a new pair for the same account, and is spent.  The only
  thing in the way, with Postgres, the signer and the random source answering, is that the token or
  the id drawn for the new session is one already stored.
\<close>

theorem session_can_be_refreshed:
  assumes login: "Login E cfg email password ua ip w = (Inr p, w1)" and "accounts_ok (db w)" and "pg_healthy E"
    and "e_now E (Suc (tick w1)) \<le> tp_RefreshTokenExpiresAt p"
    and "session_possible E cfg ip' (tick w1 + 4)"
  shows "(\<exists>q w2. RefreshAccessToken E cfg (tp_RefreshToken p) ua' ip' w1 = (Inr q, w2) \<and>
      spent (hashToken (tp_RefreshToken p)) (db w2)) \<or> \<not> fresh_session E (tick w1 + 4) (db w1)"
proof (cases "fresh_session E (tick w1 + 4) (db w1)")
  case True
  from login obtain user where user: "user_by_email (normalizeEmail email) (db w) = Some user"
      "u_Status user = UserStatusActive"
    and issue: "issueTokenPair E cfg user ua ip (w\<lparr>tick := Suc (tick w)\<rparr>) = (Inr p, w1)"
    by (rule Login_Inr)
  from issue obtain rt where d: "db w1 = (db w)\<lparr>refresh_tokens := refresh_tokens (db w) @ [rt]\<rparr>"
    and new: "token_by_hash (hashToken (tp_RefreshToken p)) (db w) = None"
    and rt: "rt_TokenHash rt = hashToken (tp_RefreshToken p)" "rt_UserID rt = u_ID user" "rt_RevokedAt rt = None"
      "rt_ExpiresAt rt = tp_RefreshTokenExpiresAt p"
    by (rule issueTokenPair_Inr) simp
  have "token_by_hash (hashToken (tp_RefreshToken p)) (db w1) = Some rt"
    using new rt by (simp add: d token_by_hash_def find_append_None)
  moreover have "user_by_id (u_ID user) (db w1) = Some user"
  proof -
    have "user \<in> set (users (db w))" using user(1) by (auto simp: user_by_email_def find_Some_iff)
    with assms(2) show ?thesis by (simp add: user_by_id_def accounts_ok_def d find_key_Some_iff)
  qed
  ultimately obtain q w2 where "RefreshAccessToken E cfg (tp_RefreshToken p) ua' ip' w1 = (Inr q, w2)"
    using RefreshAccessToken_live [OF assms(3), of "tp_RefreshToken p" w1 rt user cfg ip' ua'] rt user(2)
      assms(4,5) True by auto
  with RefreshAccessToken_spends [OF this] show ?thesis by blast
qed simp

theorem session_can_be_refreshed_witness:
  "\<exists>p :: TokenPair. (\<exists>q w2. RefreshAccessToken sample_env sample_jwt (tp_RefreshToken p) ''ua'' '''' session_world = (Inr q, w2) \<and>
      spent (hashToken (tp_RefreshToken p)) (db w2)) \<or>
      \<not> fresh_session sample_env (tick session_world + 4) (db session_world)"
proof -
  from sample_login obtain p where login:
    "Login sample_env sample_jwt fan_email ''password1'' ''ua'' '''' joined_world = (Inr p, session_world)" by blast
  then obtain user where issue: "issueTokenPair sample_env sample_jwt user ''ua'' ''''
      (joined_world\<lparr>tick := 4\<rparr>) = (Inr p, session_world)"
    by (rule Login_Inr) (simp add: joined_tables)
  have "tick w = 8 \<and> tp_RefreshTokenExpiresAt p = 1000004000000"
    if "issueTokenPair sample_env sample_jwt user ''ua'' '''' (joined_world\<lparr>tick := 4\<rparr>) = (Inr p, w)" for w
    using that by (auto simp: issueTokenPair_def comp_iffs run_time_Now run_uuid_New generateRefreshToken_def
        RefreshTokenRepo_Create_def id_or_New_def conflictE_def pg_stmt_Inr_iff sample_jwt_def
        sample_env_def joined_tables split: sum.splits if_splits)
  from this [OF issue] have "tick session_world = 8" "tp_RefreshTokenExpiresAt p = 1000004000000" by simp_all
  with sample_session_possible(2)
  have "e_now sample_env (Suc (tick session_world)) \<le> tp_RefreshTokenExpiresAt p"
    "session_possible sample_env sample_jwt '''' (tick session_world + 4)"
    by (simp_all add: sample_env_def)
  from session_can_be_refreshed [OF login joined_ok sample_healthy this] show ?thesis by blast
qed

end
