(* ===== verification/Sweeping.thy ===== *)
theory Sweeping
  imports Workers
begin

text \<open>
  How often the sweep loop of \<open>cmd/worker\<close> has to tick: \<open>ListExpiredHolds\<close> lists the oldest expired
  holds first, so a batch is never spent on younger ones while older ones wait, and every tick brings the
  seats whose holds had lapsed by a given instant down by a whole batch.
\<close>

section \<open>The head of a sorted list\<close>

lemma filter_sorted_takeWhile:
  assumes "sorted (map f xs)"
  shows "filter (\<lambda>x. f x < (b :: 'b :: linorder)) xs = takeWhile (\<lambda>x. f x < b) xs"
  using assms
proof (induction xs)
  case (Cons x xs)
  show ?case
  proof (cases "f x < b")
    case False
    with Cons.prems show ?thesis by (auto simp: filter_empty_conv)
  qed (use Cons in simp)
qed simp

lemma takeWhile_of_take: "takeWhile P (take n xs) = take n (takeWhile P xs)"
  by (induction xs arbitrary: n) (auto simp: take_Cons split: nat.split)

lemma filter_take_sorted:
  assumes "sorted (map f xs)"
  shows "filter (\<lambda>x. f x < (b :: 'b :: linorder)) (take n xs) = take n (filter (\<lambda>x. f x < b) xs)"
proof -
  have "sorted (map f (take n xs))" using assms by (simp add: sorted_wrt_take flip: take_map)
  with assms show ?thesis by (simp add: filter_sorted_takeWhile takeWhile_of_take)
qed

section \<open>What a sweep does to the seats lapsed by an instant\<close>

definition lapsed_seats :: "time \<Rightarrow> database \<Rightarrow> seat_key set" where
  "lapsed_seats T d = {k. hold_lapsed T d k}"

abbreviation expiry :: "EventSeatInventory \<Rightarrow> time" where
  "expiry r \<equiv> case inv_HoldExpiresAt r of None \<Rightarrow> 0 | Some t \<Rightarrow> t"

lemma lapsed_seats_rows:
  assumes "inventory_ok d"
  shows "lapsed_seats T d = row_key ` set (filter (hold_expired T) (event_seat_inventory d))"
  using expired_row_lapsed [OF assms] lapsed_row by (fastforce simp: lapsed_seats_def)

lemma card_lapsed_seats:
  assumes "inventory_ok d"
  shows "card (lapsed_seats T d) = length (filter (hold_expired T) (event_seat_inventory d))"
proof -
  have "distinct (map inv_ID (filter (hold_expired T) (event_seat_inventory d)))"
    using assms by (simp add: inventory_ok_def distinct_map_filter)
  then have "distinct (map row_key (filter (hold_expired T) (event_seat_inventory d)))"
    by (auto simp: distinct_map inj_on_def)
  from distinct_card [OF this] show ?thesis by (simp add: lapsed_seats_rows [OF assms])
qed

text \<open>The batch holds the oldest of them, up to its size.\<close>

lemma batch_takes_oldest:
  assumes "T \<le> now"
  shows "length (filter (hold_expired T) (expired_holds now n d)) =
    min (nat n) (length (filter (hold_expired T) (event_seat_inventory d)))"
proof -
  let ?xs = "sort_key expiry (filter (hold_expired now) (event_seat_inventory d))"
  have early: "hold_expired T r \<longleftrightarrow> expiry r < T" if "hold_expired now r" for r
    using that by (auto simp: hold_expired_def split: option.splits)
  have "filter (hold_expired T) (take (nat n) ?xs) = filter (\<lambda>r. expiry r < T) (take (nat n) ?xs)"
    using early by (intro filter_cong) (auto dest!: in_set_takeD)
  also have "\<dots> = take (nat n) (filter (\<lambda>r. expiry r < T) ?xs)"
    by (rule filter_take_sorted) simp
  also have "filter (\<lambda>r. expiry r < T) ?xs = filter (hold_expired T) ?xs"
    using early by (intro filter_cong) auto
  finally have "length (filter (hold_expired T) (expired_holds now n d)) =
      min (nat n) (length (filter (hold_expired T) ?xs))"
    by (simp add: expired_holds_def sql_page_def min.commute)
  moreover have "length (filter (hold_expired T) ?xs) = length (filter (hold_expired T) (event_seat_inventory d))"
  proof -
    have "hold_expired now r \<and> hold_expired T r \<longleftrightarrow> hold_expired T r" for r
      using assms by (auto simp: hold_expired_def split: option.splits)
    then show ?thesis by (simp add: filter_sort)
  qed
  ultimately show ?thesis by simp
qed

lemma sweep_progress:
  assumes "pg_healthy E" and "inventory_ok (db w)" and "T \<le> e_now E (tick w)"
  obtains m w' where "SweepExpiredHolds E n w = (Inr (m, None), w')" "inventory_ok (db w')"
    "lapsed_seats T (db w') \<subseteq> lapsed_seats T (db w)"
    "card (lapsed_seats T (db w')) = card (lapsed_seats T (db w)) - nat n"
    "\<forall>k. seat_view (db w') k = seat_view (db w) k \<or> seat_view (db w') k = Some Free"
proof -
  let ?rows = "expired_holds (e_now E (tick w)) n (db w)"
  from SweepExpiredHolds_frees [OF assms(1,2), of n] obtain w' where
    run: "SweepExpiredHolds E n w = (Inr (int (length ?rows), None), w')" and ok: "inventory_ok (db w')"
    and view: "seat_view (db w') = (\<lambda>k. if k \<in> row_key ` set ?rows then Some Free else seat_view (db w) k)"
    by blast
  have left: "lapsed_seats T (db w') = lapsed_seats T (db w) - row_key ` set ?rows"
    by (auto simp: lapsed_seats_def hold_lapsed_def view split: if_splits)
  have "lapsed_seats T (db w) \<inter> row_key ` set ?rows = row_key ` set (filter (hold_expired T) ?rows)"
  proof -
    have "k \<in> row_key ` set (filter (hold_expired T) ?rows)" if "k \<in> row_key ` set ?rows" "hold_lapsed T (db w) k" for k
    proof -
      from that(1) obtain r where r: "r \<in> set ?rows" "k = row_key r" by auto
      from expired_holds_props(2) [OF assms(2) r(1)]
      have row: "r \<in> set (event_seat_inventory (db w))" "inv_Status r = InventoryStatusHeld"
        by (auto simp: hold_expired_def)
      from held_row_view [OF assms(2) this] that(2) r(2) row(2) have "hold_expired T r"
        by (auto simp: hold_expired_def hold_lapsed_def)
      with r show ?thesis by auto
    qed
    moreover have "hold_lapsed T (db w) (row_key r)" if "r \<in> set ?rows" "hold_expired T r" for r
      using expired_row_lapsed [OF assms(2) _ that(2)] expired_holds_props(2) [OF assms(2) that(1)] by blast
    ultimately show ?thesis by (auto simp: lapsed_seats_def)
  qed
  moreover have "card (row_key ` set (filter (hold_expired T) ?rows)) = length (filter (hold_expired T) ?rows)"
    using distinct_card [OF distinct_map_filter [OF expired_holds_props(1) [OF assms(2)]]] by fastforce
  ultimately have "card (lapsed_seats T (db w')) = card (lapsed_seats T (db w)) - nat n"
    using batch_takes_oldest [OF assms(3), of n "db w"]
    by (simp add: left card_Diff_subset_Int lapsed_seats_rows [OF assms(2)] card_lapsed_seats [OF assms(2), symmetric])
  with run ok view left show thesis by (intro that) auto
qed

section \<open>Ticks\<close>

text \<open>No computation turns the count of external calls back.\<close>

interpretation onward: effect "\<lambda>w w'. tick w \<le> tick w'"
  by unfold_locales auto

lemma onward_calls:
  "moves (\<lambda>w w'. tick w \<le> tick w') (pg_stmt E f)"
  "moves (\<lambda>w w'. tick w \<le> tick w') (pg_query E q)"
  "moves (\<lambda>w w'. tick w \<le> tick w') (time_Now E)"
  by (auto simp: moves_def pg_query_def pg_stmt_def run_simps split: sum.splits)

lemma onward_sweep_loop: "moves (\<lambda>w w'. tick w \<le> tick w') (sweep_loop E rows n)"
proof (induction rows arbitrary: n)
  case Nil
  show ?case unfolding sweep_loop.simps by (rule onward.moves_return)
next
  case (Cons r rows)
  show ?case unfolding sweep_loop.simps InventoryRepo_Release_def
    by (intro onward.moves_intros onward_calls Cons.IH)
qed

lemma onward_sweep: "moves (\<lambda>w w'. tick w \<le> tick w') (SweepExpiredHolds E n)"
  unfolding SweepExpiredHolds_def InventoryRepo_ListExpiredHolds_def
  by (intro onward.moves_intros onward_calls onward_sweep_loop)

text \<open>Every tick is a whole batch nearer to none left.\<close>

lemma runSweepLoop_frees:
  assumes "pg_healthy E" and "inventory_ok (db w)" and "\<forall>n \<ge> tick w. T \<le> e_now E n"
    and "card (lapsed_seats T (db w)) \<le> k * nat (wc_SweepBatchSize wc)"
  shows "\<exists>w'. runSweepLoop E wc (replicate k TickerC) w = (Inr (), w') \<and> inventory_ok (db w') \<and>
    lapsed_seats T (db w') = {} \<and>
    (\<forall>key. seat_view (db w') key = seat_view (db w) key \<or> seat_view (db w') key = Some Free)"
  using assms
proof (induction k arbitrary: w)
  case 0
  then have "finite (lapsed_seats T (db w))" "card (lapsed_seats T (db w)) = 0"
    by (simp_all add: lapsed_seats_rows)
  with 0 show ?case by (simp add: runSweepLoop_def run_simps)
next
  case (Suc k)
  let ?n = "wc_SweepBatchSize wc"
  have "T \<le> e_now E (tick w)" using Suc.prems(3) by simp
  then obtain m w1 where run: "SweepExpiredHolds E ?n w = (Inr (m, None), w1)" and ok: "inventory_ok (db w1)"
    and "lapsed_seats T (db w1) \<subseteq> lapsed_seats T (db w)"
    and less: "card (lapsed_seats T (db w1)) = card (lapsed_seats T (db w)) - nat ?n"
    and view: "\<forall>key. seat_view (db w1) key = seat_view (db w) key \<or> seat_view (db w1) key = Some Free"
    by (rule sweep_progress [OF Suc.prems(1,2)])
  have "tick w \<le> tick w1" using moves_run [OF onward_sweep run] by simp
  with Suc.prems(3) have later: "\<forall>n \<ge> tick w1. T \<le> e_now E n" by auto
  have "card (lapsed_seats T (db w1)) \<le> k * nat ?n"
    using Suc.prems(4) less by (simp add: le_diff_conv add.commute)
  with Suc.IH [OF Suc.prems(1) ok later] obtain w' where
    rest: "runSweepLoop E wc (replicate k TickerC) w1 = (Inr (), w')" "inventory_ok (db w')"
      "lapsed_seats T (db w') = {}"
      "\<forall>key. seat_view (db w') key = seat_view (db w1) key \<or> seat_view (db w') key = Some Free"
    by blast
  have "runSweepLoop E wc (replicate (Suc k) TickerC) w = runSweepLoop E wc (replicate k TickerC) w1"
    using bind_attemptE [where m = "SweepExpiredHolds E ?n", OF run]
    by (simp add: runSweepLoop_def runSweepLoop_tick_def run_simps)
  with rest view show ?case by (metis (no_types))
qed

text \<open>A seat that had lapsed and neither kept its state nor is still lapsed is free.\<close>

lemma swept_is_free:
  assumes "lapsed_seats T d' = {}" and "\<forall>key. seat_view d' key = seat_view d key \<or> seat_view d' key = Some Free"
    and "hold_lapsed T d key"
  shows "seat_view d' key = Some Free"
proof (rule ccontr)
  assume "seat_view d' key \<noteq> Some Free"
  with assms(2) have "seat_view d' key = seat_view d key" by blast
  with assms(3) have "key \<in> lapsed_seats T d'" by (simp add: lapsed_seats_def hold_lapsed_def)
  with assms(1) show False by simp
qed

end
