(* ===== verification/OrderProperties.thy ===== *)
theory OrderProperties
  imports PaymentFlow Samples
begin

text \<open>
  What holds of the order and payment flow (\<open>internal/service/order\<close>), with the applications to a
  concrete order.
\<close>

section \<open>A concrete order\<close>

definition sample_tenant :: Tenant where
  "sample_tenant = \<lparr>t_ID = 1, t_Slug = ''club'', t_Name = ''Club'', t_Sport = ''football'',
    t_Status = TenantStatusActive, t_ContactEmail = '''', t_Branding = [], t_CreatedAt = 0,
    t_UpdatedAt = 0\<rparr>"

definition held_seat :: "uuid \<Rightarrow> uuid \<Rightarrow> EventSeatInventory" where
  "held_seat i tok = (sample_seat i)\<lparr>inv_Status := InventoryStatusHeld, inv_HoldToken := Some tok,
    inv_HeldByUserID := Some 7, inv_HoldExpiresAt := Some 900000000\<rparr>"

text \<open>User 7 holds the seats 10 and 11 under the tokens 50 and 51 until second 900.\<close>

definition held_db :: database where
  "held_db = sample_db\<lparr>tenants := [sample_tenant],
    event_seat_inventory := [held_seat 10 50, held_seat 11 51]\<rparr>"

definition held_world :: world where
  "held_world = sample_world\<lparr>db := held_db\<rparr>"

definition sample_items :: "HeldItem list" where
  "sample_items = [\<lparr>hi_InventoryID = 10, hi_HoldToken = 50\<rparr>, \<lparr>hi_InventoryID = 11, hi_HoldToken = 51\<rparr>]"

text \<open>The order made of them, with its payment.\<close>

definition sample_order :: Order where
  "sample_order = \<lparr>ord_ID = 60, ord_TenantID = 1, ord_UserID = 7, ord_Status = OrderStatusAwaitingPayment,
    ord_IdempotencyKey = ''key-1'', ord_Subtotal = \<lparr>Cents = 5000, Currency = ''KES''\<rparr>,
    ord_Fees = \<lparr>Cents = 0, Currency = ''KES''\<rparr>, ord_Total = \<lparr>Cents = 5000, Currency = ''KES''\<rparr>,
    ord_ExpiresAt = Some 900000000, ord_CreatedAt = 0, ord_UpdatedAt = 0\<rparr>"

definition sample_item :: "uuid \<Rightarrow> uuid \<Rightarrow> uuid \<Rightarrow> OrderItem" where
  "sample_item i inv_id tok = \<lparr>oi_ID = i, oi_TenantID = 1, oi_OrderID = 60, oi_InventoryID = inv_id,
    oi_HoldToken = tok, oi_UnitPrice = sample_price, oi_CreatedAt = 0\<rparr>"

definition sample_payment :: Payment where
  "sample_payment = \<lparr>pay_ID = 70, pay_TenantID = 1, pay_OrderID = 60, pay_Provider = PaymentProviderStripe,
    pay_ProviderPaymentID = ''pi_1'', pay_Status = PaymentStatusPending,
    pay_Amount = \<lparr>Cents = 5000, Currency = ''KES''\<rparr>, pay_IdempotencyKey = ''key-1'',
    pay_RawResponse = None, pay_CreatedAt = 0, pay_UpdatedAt = 0\<rparr>"

definition ordered_db :: database where
  "ordered_db = held_db\<lparr>orders := [sample_order],
    order_items := [sample_item 61 10 50, sample_item 62 11 51], payments := [sample_payment]\<rparr>"

definition ordered_world :: world where
  "ordered_world = sample_world\<lparr>db := ordered_db\<rparr>"

definition pending_world :: world where
  "pending_world = sample_world\<lparr>db := ordered_db\<lparr>payments := [],
    orders := [sample_order\<lparr>ord_Status := OrderStatusPending\<rparr>]\<rparr>\<rparr>"

definition sample_gateway :: gateway where
  "sample_gateway = StripeGateway ''sk'' ''wh''"

lemmas order_sample_defs =
  ordered_world_def held_world_def ordered_db_def held_db_def sample_db_def empty_db_def held_seat_def
  sample_seat_def sample_tenant_def sample_user_def sample_event_def sample_category_def sample_price_def
  sample_order_def sample_item_def sample_payment_def sample_items_def sample_world_def sample_env_def
  sample_gateway_def

lemma ordered_ok: "inventory_ok (db ordered_world)" "inventory_ok (db held_world)"
    "categories_ok (db held_world)"
  by (simp_all add: inventory_ok_def categories_ok_def esi_check_def order_sample_defs)

lemma ordered_confirmable: "confirmable sample_env 1 sample_order sample_payment (db ordered_world)"
  by (simp add: confirmable_def order_where_def payment_where_def order_sample_defs)

abbreviation ordered_items :: "OrderItem list" where
  "ordered_items \<equiv> items_of_order 1 60 ordered_db"

lemma ordered_items_held:
  "list_all (held_for 1 (db ordered_world)) ordered_items" "distinct (map oi_InventoryID ordered_items)"
  "ordered_items \<noteq> []"
  by (simp_all add: held_for_def items_of_order_def seat_view_def inventory_by_id_def seat_of_def
      order_sample_defs)

lemmas create_defs =
  CreateOrder_def CreateOrder_tx_def CreateOrder_item_def hold_over_def cached_categories_def
  price_item_def empty_acc_def Money_Add_def InventoryRepo_GetByID_def inventory_by_id_def
  EventRepo_ListTicketCategories_def categories_of_event_def OrderRepo_GetByIdempotencyKey_def
  order_by_key_def OrderRepo_CreateWithItems_def CreateWithItems_item_def orders_INSERT_def
  order_items_INSERT_def pg_insert_def non_negative_def conflictE_def id_or_New_def WithTx_def
  pg_stmt_def pg_query_def pg_now_def QueryRow_def order_row_def tighten_def

lemma sample_create:
  "\<exists>o1 w'. CreateOrder sample_env 1 7 ''key-1'' sample_items held_world = (Inr o1, w')"
  by (simp add: create_defs order_sample_defs run_simps Let_def)


section \<open>Creating an order\<close>

text \<open>
  C8. A new order records exactly the seats asked for, in their order.  Every one of them was held
  under the token given; it is charged the current price of its ticket category; all are in one
  currency; the total is the sum of the prices; the order is pending and belongs to the caller.
  Besides the order and its items the database is unchanged: no seat changes state.
\<close>

theorem CreateOrder_records_held_seats:
  assumes "CreateOrder E t u key items w = (Inr o1, w')" and "order_by_key t key (db w) = None"
    and "categories_ok (db w)"
  shows "\<exists>st now. list_all2 (item_accepted E (db w) t) items st \<and>
    (\<forall>it \<in> set st. oi_TenantID it = t \<and> oi_OrderID it = ord_ID o1 \<and>
      Currency (oi_UnitPrice it) = Currency (ord_Total o1)) \<and>
    Cents (ord_Total o1) = sum_list (map (Cents \<circ> oi_UnitPrice) st) \<and>
    ord_Status o1 = OrderStatusPending \<and> ord_TenantID o1 = t \<and> ord_UserID o1 = u \<and>
    ord_IdempotencyKey o1 = key \<and>
    db w' = (db w)\<lparr>orders := orders (db w) @ [order_row now o1], order_items := order_items (db w) @ st\<rparr>"
proof (rule CreateOrder_new_acc [OF assms])
  fix acc :: order_acc and st now
  assume acc: "acc_ok E (db w) t items acc" and o1: "ord_TenantID o1 = t" "ord_UserID o1 = u"
      "ord_IdempotencyKey o1 = key" "ord_Status o1 = OrderStatusPending" "ord_Total o1 = oa_subtotal acc"
    and st: "list_all2 (stored_item o1) (oa_items acc) st"
    and prices: "map oi_UnitPrice st = map oi_UnitPrice (oa_items acc)"
    and db: "db w' = (db w)\<lparr>orders := orders (db w) @ [order_row now o1],
      order_items := order_items (db w) @ st\<rparr>"
  have "list_all2 (item_accepted E (db w) t) items st"
    using acc st by (fastforce simp: acc_ok_def list_all2_conv_all_nth stored_item_def item_accepted_def)
  moreover have "map (Cents \<circ> oi_UnitPrice) st = map (Cents \<circ> oi_UnitPrice) (oa_items acc)"
    using prices by (metis map_map)
  moreover have "oi_TenantID it = t \<and> oi_OrderID it = ord_ID o1 \<and>
      Currency (oi_UnitPrice it) = Currency (ord_Total o1)" if "it \<in> set st" for it
  proof -
    from that obtain k where "k < length st" "it = st ! k" by (auto simp: in_set_conv_nth)
    with st o1 acc show ?thesis
      by (auto simp: list_all2_conv_all_nth stored_item_def acc_ok_def dest!: nth_mem)
  qed
  ultimately show ?thesis using o1 acc db by (auto simp: acc_ok_def)
qed

theorem CreateOrder_records_held_seats_witness:
  "\<exists>o1 st now w'. CreateOrder sample_env 1 7 ''key-1'' sample_items held_world = (Inr o1, w') \<and>
     list_all2 (item_accepted sample_env held_db 1) sample_items st \<and> ord_Status o1 = OrderStatusPending \<and>
     db w' = held_db\<lparr>orders := [order_row now o1], order_items := st\<rparr>"
proof -
  obtain o1 w' where run: "CreateOrder sample_env 1 7 ''key-1'' sample_items held_world = (Inr o1, w')"
    using sample_create by blast
  have "order_by_key 1 ''key-1'' (db held_world) = None"
    by (simp add: order_by_key_def order_sample_defs)
  from CreateOrder_records_held_seats [OF run this ordered_ok(3)] run show ?thesis
    by (auto simp: held_world_def) (auto simp: held_db_def sample_db_def empty_db_def)
qed




text \<open>
  C27. An order never exceeds the limit of a ticket category: for every item, the number of items of
  the order in its category is at most the category's \<open>MaxPerOrder\<close>.
\<close>

theorem CreateOrder_respects_max_per_order:
  assumes "CreateOrder E t u key items w = (Inr o1, w')" and "order_by_key t key (db w) = None"
    and "categories_ok (db w)"
    and "y \<in> set items" and "item_row (db w) t y = Some r" and "row_category (db w) t r = Some c"
  shows "int (length (filter (\<lambda>z. item_category (db w) t z = item_category (db w) t y) items))
    \<le> etc_MaxPerOrder c"
proof (rule CreateOrder_new_acc [OF assms(1-3)])
  fix acc :: order_acc and st now
  assume "acc_ok E (db w) t items acc"
  with assms(4-6) have "oa_count acc (inv_CategoryID r) \<le> etc_MaxPerOrder c"
    and "oa_count acc (inv_CategoryID r) =
      int (length (filter (\<lambda>z. item_category (db w) t z = Some (inv_CategoryID r)) items))"
    by (auto simp: acc_ok_def)
  moreover have "item_category (db w) t y = Some (inv_CategoryID r)"
    using assms(5) by (simp add: item_category_def)
  ultimately show ?thesis by simp
qed

theorem CreateOrder_respects_max_per_order_witness:
  "fst (CreateOrder sample_env 1 7 ''key-1'' sample_items held_world) \<noteq> Inl ErrNotFound \<and>
   int (length (filter (\<lambda>z. item_category held_db 1 z = Some 3) sample_items)) \<le> 4"
proof -
  obtain o1 w' where run: "CreateOrder sample_env 1 7 ''key-1'' sample_items held_world = (Inr o1, w')"
    using sample_create by blast
  have "int (length (filter (\<lambda>z. item_category (db held_world) 1 z =
      item_category (db held_world) 1 \<lparr>hi_InventoryID = 10, hi_HoldToken = 50\<rparr>) sample_items))
      \<le> etc_MaxPerOrder sample_category"
    by (rule CreateOrder_respects_max_per_order [OF run _ ordered_ok(3), where r = "held_seat 10 50"])
      (simp_all add: order_by_key_def inventory_by_id_def row_category_def categories_of_event_def
        order_sample_defs)
  with run show ?thesis
    by (simp add: item_category_def inventory_by_id_def held_world_def)
      (simp add: order_sample_defs)
qed

text \<open>
  An order lives no longer than its holds: it expires when the first of them does.
\<close>

theorem CreateOrder_expires_with_first_hold:
  assumes "CreateOrder E t u key items w = (Inr o1, w')" and "order_by_key t key (db w) = None"
    and "categories_ok (db w)" and ok: "inventory_ok (db w)"
  shows "ord_ExpiresAt o1 = Some (Min (the ` item_expiry (db w) t ` set items))"
proof (rule CreateOrder_new_acc [OF assms(1-3)])
  fix acc :: order_acc and st now
  assume acc: "acc_ok E (db w) t items acc" and "ord_ExpiresAt o1 = oa_expiry acc"
  then have "ord_ExpiresAt o1 = fold (\<lambda>y x. tighten x (item_expiry (db w) t y)) items None"
    by (simp add: acc_ok_def)
  moreover have "item_expiry (db w) t y \<noteq> None" if y: "y \<in> set items" for y
  proof -
    from y acc obtain oi where "item_accepted E (db w) t y oi"
      by (auto simp: acc_ok_def list_all2_conv_all_nth in_set_conv_nth)
    then obtain r where r: "item_row (db w) t y = Some r" "inv_Status r = InventoryStatusHeld"
      by (auto simp: item_accepted_def)
    then have "r \<in> set (event_seat_inventory (db w))"
      by (auto simp: inventory_by_id_def find_Some_iff)
    with ok r show ?thesis by (auto simp: inventory_ok_def list_all_iff esi_check_def item_expiry_def)
  qed
  ultimately show ?thesis using CreateOrder_nonempty [OF assms(1)] by (simp add: fold_tighten)
qed

theorem CreateOrder_expires_with_first_hold_witness:
  "\<exists>o1 w'. CreateOrder sample_env 1 7 ''key-1'' sample_items held_world = (Inr o1, w') \<and>
     ord_ExpiresAt o1 = Some 900000000"
proof -
  obtain o1 w' where run: "CreateOrder sample_env 1 7 ''key-1'' sample_items held_world = (Inr o1, w')"
    using sample_create by blast
  have "order_by_key 1 ''key-1'' (db held_world) = None"
    by (simp add: order_by_key_def order_sample_defs)
  from CreateOrder_expires_with_first_hold [OF run this ordered_ok(3,2)]
  have "ord_ExpiresAt o1 = Some 900000000"
    by (simp add: item_expiry_def inventory_by_id_def order_sample_defs)
  with run show ?thesis by blast
qed

text \<open>
  C28. Order creation is atomic: a call that fails, at whatever item or statement, leaves the database
  as it was, unless a COMMIT was applied and its reply lost.
\<close>

theorem CreateOrder_error_no_effect:
  assumes "CreateOrder E t u key items w = (Inl e, w')" and "\<And>n. e_commit E n \<noteq> CommitReplyLost"
  shows "db w' = db w"
  using assms by (rule CreateOrder_Inl_db)

theorem CreateOrder_error_no_effect_witness:
  "\<exists>e. fst (CreateOrder sample_env 1 7 ''key-1'' [\<lparr>hi_InventoryID = 10, hi_HoldToken = 51\<rparr>] held_world) = Inl e \<and>
   db (snd (CreateOrder sample_env 1 7 ''key-1'' [\<lparr>hi_InventoryID = 10, hi_HoldToken = 51\<rparr>] held_world)) = held_db"
proof -
  obtain e w' where run: "CreateOrder sample_env 1 7 ''key-1'' [\<lparr>hi_InventoryID = 10, hi_HoldToken = 51\<rparr>]
      held_world = (Inl e, w')"
    by (simp add: create_defs order_sample_defs run_simps Let_def)
  have "db w' = db held_world"
    by (rule CreateOrder_error_no_effect [OF run]) (simp add: sample_env_def)
  with run show ?thesis by (simp add: held_world_def)
qed

text \<open>
  C29. A retry is harmless: once a call with an idempotency key has succeeded, every later call with
  that key, whatever its items, returns the same order and writes nothing.
\<close>

theorem CreateOrder_retry_returns_same_order:
  assumes run: "CreateOrder E t u key items w = (Inr o1, w')" and cats: "categories_ok (db w)"
    and "items' \<noteq> []" and "\<not> e_pg_fault E (tick w')"
  shows "\<exists>o2. CreateOrder E t u' key items' w' = (Inr o2, w'\<lparr>tick := Suc (tick w')\<rparr>) \<and>
    ord_ID o2 = ord_ID o1 \<and> ord_UserID o2 = ord_UserID o1 \<and> ord_Total o2 = ord_Total o1"
  using CreateOrder_stored [OF run cats] CreateOrder_known [OF _ assms(3,4)] by blast

theorem CreateOrder_retry_returns_same_order_witness:
  "\<exists>o1 o2 w' w''. CreateOrder sample_env 1 7 ''key-1'' sample_items held_world = (Inr o1, w') \<and>
     CreateOrder sample_env 1 7 ''key-1'' sample_items w' = (Inr o2, w'') \<and> ord_ID o2 = ord_ID o1 \<and>
     db w'' = db w'"
proof -
  obtain o1 w' where run: "CreateOrder sample_env 1 7 ''key-1'' sample_items held_world = (Inr o1, w')"
    using sample_create by blast
  have "sample_items \<noteq> []" "\<not> e_pg_fault sample_env (tick w')"
    by (simp_all add: sample_items_def sample_env_def)
  from CreateOrder_retry_returns_same_order [OF run ordered_ok(3) this, of 7] run show ?thesis
    by fastforce
qed


section \<open>Paying for an order\<close>

text \<open>
  C30. A payment intent is requested once, for the order's total and under its idempotency key; the
  payment is recorded as pending with that amount and the order awaits it.
\<close>

theorem AuthorizePayment_requests_total:
  assumes "AuthorizePayment E g t oid w = (Inr secret, w')" and "order_by_id t oid (db w) = Some o1"
  shows "ord_Status o1 = OrderStatusPending \<and>
    gateway_calls w' = gateway_calls w @ [IntentRequested (ord_Total o1) (ord_IdempotencyKey o1)] \<and>
    (\<exists>p. payments (db w') = payments (db w) @ [p] \<and> pay_OrderID p = oid \<and> pay_Amount p = ord_Total o1 \<and>
      pay_Status p = PaymentStatusPending \<and> pay_IdempotencyKey p = ord_IdempotencyKey o1) \<and>
    (\<exists>o2. order_by_id t oid (db w') = Some o2 \<and> ord_Status o2 = OrderStatusAwaitingPayment \<and>
      ord_Total o2 = ord_Total o1)"
  using assms by (rule AuthorizePayment_Inr)

theorem AuthorizePayment_requests_total_witness:
  "\<exists>w'. AuthorizePayment sample_env sample_gateway 1 60 pending_world = (Inr ''secret_1'', w') \<and>
     gateway_calls w' = [IntentRequested (ord_Total sample_order) ''key-1'']"
proof -
  obtain w' where run: "AuthorizePayment sample_env sample_gateway 1 60 pending_world = (Inr ''secret_1'', w')"
    by (simp add: AuthorizePayment_def OrderRepo_GetByID_def order_by_id_def PaymentRepo_Create_def
        payments_INSERT_def pg_insert_def non_negative_def OrderRepo_UpdateStatus_def orders_SET_status_def
        order_where_def ExecUpdate_def QueryRow_def Gateway_CreateIntent_def note_call_def
        Stripe_CreateIntent_def Stripe_do_def conflictE_def id_or_New_def pg_stmt_def pg_query_def pg_now_def
        sql_affected_def sql_update_def pending_world_def order_sample_defs run_simps Let_def)
  have "order_by_id 1 60 (db pending_world) = Some (sample_order\<lparr>ord_Status := OrderStatusPending\<rparr>)"
    by (simp add: order_by_id_def pending_world_def sample_order_def)
  from AuthorizePayment_requests_total [OF run this] run show ?thesis
    by (simp add: pending_world_def sample_world_def sample_order_def)
qed





lemma ordered_rows:
  "order_by_id 1 60 (db ordered_world) = Some sample_order" "ord_Status sample_order \<noteq> OrderStatusPaid"
  "payment_by_id 1 70 (db ordered_world) = Some sample_payment"
  "pay_OrderID sample_payment = ord_ID sample_order"
  by (simp_all add: order_by_id_def payment_by_id_def order_sample_defs)


text \<open>
  A confirmation that is delivered again after the order was paid does nothing: no seat, no payment,
  no notification and no call to the provider.
\<close>

theorem ConfirmPayment_replay_no_effect:
  assumes "order_by_id t oid (db w) = Some o1" and "ord_Status o1 = OrderStatusPaid"
    and "\<not> e_pg_fault E (tick w)"
  shows "ConfirmPayment E g t oid pid w = (Inr (), w\<lparr>tick := Suc (tick w)\<rparr>)"
  using assms by (rule ConfirmPayment_paid)

theorem ConfirmPayment_replay_no_effect_witness:
  "ConfirmPayment sample_env sample_gateway 1 60 70
     (ordered_world\<lparr>db := ordered_db\<lparr>orders := [sample_order\<lparr>ord_Status := OrderStatusPaid\<rparr>]\<rparr>\<rparr>) =
   (Inr (), ordered_world\<lparr>db := ordered_db\<lparr>orders := [sample_order\<lparr>ord_Status := OrderStatusPaid\<rparr>]\<rparr>,
     tick := 1\<rparr>)"
  by (subst ConfirmPayment_replay_no_effect [of _ _ _ "sample_order\<lparr>ord_Status := OrderStatusPaid\<rparr>"])
    (simp_all add: order_by_id_def sample_order_def sample_env_def ordered_world_def sample_world_def)

text \<open>
  C24. The guard against repeated confirmations is read before the transaction, so it does not cover two
  deliveries that overlap.  When two of them have read the same unpaid order and the first one settles,
  the second finds the seats sold, takes that for expired holds and requests a refund of the payment.
\<close>

theorem ConfirmPayment_overlapping_deliveries_refund:
  assumes "pg_healthy E" and "inventory_ok (db w)" and "items \<noteq> []"
    and "ConfirmPayment_settle E g t o1 p items w = (Inr (), w1)"
  shows "\<exists>e w2. ConfirmPayment_settle E g t o1 p items w1 = (Inl e, w2) \<and>
    gateway_calls w2 = gateway_calls w @ [RefundRequested (pay_ProviderPaymentID p) (pay_Amount p)]"
  using assms by (rule ConfirmPayment_settle_twice)

theorem ConfirmPayment_overlapping_deliveries_refund_witness:
  "\<exists>w1 e w2. ConfirmPayment_settle sample_env sample_gateway 1 sample_order sample_payment ordered_items
      ordered_world = (Inr (), w1) \<and>
    ConfirmPayment_settle sample_env sample_gateway 1 sample_order sample_payment ordered_items w1 = (Inl e, w2) \<and>
    gateway_calls w2 = [RefundRequested ''pi_1'' \<lparr>Cents = 5000, Currency = ''KES''\<rparr>]"
proof -
  obtain w1 where w1: "ConfirmPayment_settle sample_env sample_gateway 1 sample_order sample_payment
      ordered_items ordered_world = (Inr (), w1)"
    using ConfirmPayment_settle_sells [OF sample_healthy ordered_ok(1) ordered_confirmable ordered_items_held(1,2)]
    by blast
  from ConfirmPayment_overlapping_deliveries_refund [OF sample_healthy ordered_ok(1) ordered_items_held(3) w1] w1
  show ?thesis by (auto simp: ordered_world_def sample_world_def sample_payment_def)
qed

text \<open>
  A refund that goes through is recorded: the payment is refunded, keeps the id of the charge and its
  amount and gains the provider's answer; the order is expired.
\<close>

theorem refundAndFail_records:
  assumes "refundAndFail E g t o1 p w = (Inr z, w')"
    and "order_by_id t (ord_ID o1) (db w) = Some o0" and "payment_by_id t (pay_ID p) (db w) = Some p0"
  shows "\<exists>o2 p2. order_by_id t (ord_ID o1) (db w') = Some o2 \<and> ord_Status o2 = OrderStatusExpired \<and>
    payment_by_id t (pay_ID p) (db w') = Some p2 \<and> pay_Status p2 = PaymentStatusRefunded \<and>
    pay_ProviderPaymentID p2 = pay_ProviderPaymentID p0 \<and> pay_Amount p2 = pay_Amount p0 \<and>
    pay_RawResponse p2 \<noteq> None"
  using assms by (rule refundAndFail_Inr)

theorem refundAndFail_records_witness:
  "\<exists>w' o2. refundAndFail sample_env sample_gateway 1 sample_order sample_payment ordered_world = (Inr (), w') \<and>
     order_by_id 1 60 (db w') = Some o2 \<and> ord_Status o2 = OrderStatusExpired"
proof -
  obtain w' where run: "refundAndFail sample_env sample_gateway 1 sample_order sample_payment ordered_world =
      (Inr (), w')"
    by (simp add: refundAndFail_def Gateway_Refund_def note_call_def Stripe_Refund_def Stripe_do_def
        PaymentRepo_UpdateStatus_def OrderRepo_UpdateStatus_def ExecUpdate_def payments_SET_status_def
        orders_SET_status_def sql_affected_def sql_update_def payment_where_def order_where_def pg_stmt_def
        order_sample_defs run_simps Let_def)
  have "order_by_id 1 (ord_ID sample_order) (db ordered_world) = Some sample_order"
    "payment_by_id 1 (pay_ID sample_payment) (db ordered_world) = Some sample_payment"
    using ordered_rows by (simp_all add: sample_order_def sample_payment_def)
  from refundAndFail_records [OF run this] run show ?thesis by (auto simp: sample_order_def)
qed

text \<open>
  \<open>CreateOrder\<close> does not reject an item given twice: it charges the seat twice, and by the property on
  confirmation above such an order can only be refunded.
\<close>

theorem CreateOrder_accepts_duplicate_item:
  "\<exists>o1 w'. CreateOrder sample_env 1 7 ''key-1''
      [\<lparr>hi_InventoryID = 10, hi_HoldToken = 50\<rparr>, \<lparr>hi_InventoryID = 10, hi_HoldToken = 50\<rparr>] held_world = (Inr o1, w') \<and>
    Cents (ord_Total o1) = 5000 \<and> map oi_InventoryID (order_items (db w')) = [10, 10]"
  by (simp add: create_defs order_sample_defs run_simps Let_def)

end
