(* ===== verification/HoldThreads.thy ===== *)
theory HoldThreads
  imports InventoryService Interleaving
begin

text \<open>
  Fans who try to hold seats at the same time (\<open>internal/service/inventory/service.go\<close>), one step per call of a
  repository.  Between the gates, the lock and the UPDATE of one attempt any steps of the others may come, and
  Redis may answer whatever it likes: a seat that nobody gives back is still won at most once.
\<close>

section \<open>The service as threads\<close>

definition HoldSeat_thread ::
  "env \<Rightarrow> InventoryConfig \<Rightarrow> uuid \<Rightarrow> uuid \<Rightarrow> uuid \<Rightarrow> uuid \<Rightarrow> HoldResult thread" where
  "HoldSeat_thread E cfg tenantID eventID inventoryID userID =
    bindT (atomic (wrapE ''inventory: check admission: %w'' (WaitingRoom_IsAdmitted E eventID userID))) (\<lambda>admitted.
    if \<not> admitted then throwT ErrNotAdmitted else
    bindT (atomic (wrapE ''inventory: check rate limit: %w''
        (RateLimiter_Allow E (rateLimitKey E tenantID eventID userID) (HoldRateLimit cfg)
          (HoldRateLimitWindow cfg)))) (\<lambda>allowed.
    if \<not> allowed then throwT ErrRateLimited else
    bindT (atomic (wrapE ''inventory: acquire lock: %w''
        (Locker_Acquire E (lockKey E tenantID inventoryID) (LockTTL cfg)))) (\<lambda>(lockToken, acquired).
    if \<not> acquired then throwT ErrLockContention
    else bindT (atomic (attemptE (HoldSeat_locked E cfg tenantID inventoryID userID))) (\<lambda>r.
      bindT (atomic (attemptE (Locker_Release E (lockKey E tenantID inventoryID) lockToken))) (\<lambda>_. Done r)))))"

text \<open>A thread that runs alone is the call.\<close>

lemma HoldSeat_thread_solo: "solo (HoldSeat_thread E cfg t e i u) = HoldSeat E cfg t e i u"
proof -
  have deferred: "bindE (attemptE m) (\<lambda>r. bindE (attemptE d) (\<lambda>_ w. (r, w))) = deferE d m"
    for m :: "HoldResult op" and d :: "bool op"
    by (rule ext) (simp add: run_simps split: prod.split)
  show ?thesis
    unfolding HoldSeat_thread_def HoldSeat_def
    by (simp add: solo_simps throwE_def deferred Let_def cong: if_cong prod.case_cong)
qed

text \<open>Attempts to hold a seat, and sales of seats that are held.\<close>

datatype seat_request =
    RHold InventoryConfig uuid uuid uuid uuid
  | RConfirm uuid uuid uuid

fun seat_thread :: "env \<Rightarrow> seat_request \<Rightarrow> unit thread" where
  "seat_thread E (RHold cfg t e i u) = forgetT (HoldSeat_thread E cfg t e i u)"
| "seat_thread E (RConfirm t i tok) = atomic (ConfirmSale E t i tok)"

fun wants :: "uuid \<times> uuid \<Rightarrow> seat_request \<Rightarrow> bool" where
  "wants k (RHold cfg t e i u) \<longleftrightarrow> (t, i) = k"
| "wants k _ \<longleftrightarrow> False"

section \<open>The contest for a seat\<close>

text \<open>A seat that is not free stays so.\<close>

definition seats_taken :: "database \<Rightarrow> database \<Rightarrow> bool" where
  "seats_taken d d' \<longleftrightarrow> (\<forall>k. seat_view d k \<noteq> Some Free \<longrightarrow> seat_view d' k \<noteq> Some Free)"

interpretation hold: contest "\<lambda>w w'. seats_taken (db w) (db w')" "\<lambda>w. inventory_ok (db w)"
  "\<lambda>w. seat_view (db w) k \<noteq> Some Free" for k
  by unfold_locales (unfold seats_taken_def, blast)

lemma hold_keeps_to_db:
  assumes "moves (\<lambda>w w'. db w' = db w) m"
  shows "hold.keeps_to K m (\<lambda>_ _. True)"
  unfolding hold.keeps_to_def by (auto simp: seats_taken_def dest: moves_run [OF assms])

lemma locked_keeps: "hold.keeps_to K (attemptE (HoldSeat_locked E cfg t i u)) (\<lambda>_ _. True)"
  unfolding hold.keeps_to_def
proof (intro allI impI)
  fix w r w'
  assume ok: "inventory_ok (db w)" and "attemptE (HoldSeat_locked E cfg t i u) w = (r, w')"
  then obtain q where run: "HoldSeat_locked E cfg t i u w = (q, w')" by (auto simp: comp_iffs)
  have "inventory_ok (db w')"
    using history_ok [OF moves_run [OF HoldSeat_locked_history run] ok] .
  moreover have "seats_taken (db w) (db w')"
  proof (cases q)
    case (Inl e)
    with HoldSeat_locked_Inl [OF _ ok] run show ?thesis by (auto simp: seats_taken_def)
  next
    case (Inr res)
    with HoldSeat_locked_Inr [OF _ ok] run show ?thesis by (auto simp: seats_taken_def)
  qed
  ultimately show "seats_taken (db w) (db w') \<and> inventory_ok (db w') \<and> (\<forall>x. r = Inr x \<longrightarrow> True)" by simp
qed

lemma ConfirmSale_keeps: "hold.keeps_to K (ConfirmSale E t i tok) (\<lambda>_ _. True)"
  unfolding hold.keeps_to_def
proof (intro allI impI)
  fix w r w'
  assume ok: "inventory_ok (db w)" and "ConfirmSale E t i tok w = (r, w')"
  then obtain q where run: "InventoryRepo_ConfirmSale E t i tok w = (q, w')"
    by (auto simp: ConfirmSale_def run_simps split: prod.splits sum.splits if_splits)
  from inventory_repo.confirm_ok [OF ok run] have "inventory_ok (db w')" .
  moreover have "seats_taken (db w) (db w')"
  proof (cases q)
    case (Inl e)
    with inventory_repo.confirm_error [OF ok] run show ?thesis by (auto simp: seats_taken_def)
  next
    case (Inr b)
    with inventory_repo.confirm_obeys [OF ok, of E t i tok b w'] run
    have "obeys (OpConfirm tok) (t, i) (seat_view (db w)) b (seat_view (db w'))" by simp
    then show ?thesis
      by (auto simp: seats_taken_def obeys_def split: option.splits Option.bind_splits if_splits
          elim!: seat_step_SomeE)
  qed
  ultimately show "seats_taken (db w) (db w') \<and> inventory_ok (db w') \<and> (\<forall>x. r = Inr x \<longrightarrow> True)" by simp
qed

lemmas hold_keeps_to_any =
  locked_keeps ConfirmSale_keeps hold_keeps_to_db [OF same_db.frame.moves_mapErr]
  hold_keeps_to_db [OF same_db.frame.moves_attempt] redis_repo_db

lemma HoldSeat_bystander: "hold.bystander (\<lambda>_. True) (HoldSeat_thread E cfg t e i u)"
  unfolding HoldSeat_thread_def
  by (intro hold.bystander_intros hold.bystander_prod hold_keeps_to_any)

text \<open>The UPDATE decides; what is left is to give the lock back.\<close>

lemma locked_contender:
  "hold.contender (t, i) (\<lambda>_. True) (bindT (atomic (attemptE (HoldSeat_locked E cfg t i u)))
    (\<lambda>r. bindT (atomic (attemptE (Locker_Release E key lockToken))) (\<lambda>_. Done r)))"
proof (rule hold.contender_bind [OF locked_keeps hold.stable_True])
  fix r :: "error + HoldResult"
  let ?rest = "bindT (atomic (attemptE (Locker_Release E key lockToken))) (\<lambda>_. Done r)"
  show "hold.contender (t, i) (\<lambda>_. True) ?rest \<or> hold.bystander (\<lambda>_. True) ?rest \<and>
    (\<forall>w w'. True \<longrightarrow> inventory_ok (db w) \<longrightarrow> attemptE (HoldSeat_locked E cfg t i u) w = (Inr r, w') \<longrightarrow>
      \<not> seat_view (db w) (t, i) \<noteq> Some Free \<and> seat_view (db w') (t, i) \<noteq> Some Free)"
  proof (cases r)
    case (Inl err)
    have "hold.contender (t, i) (\<lambda>_. True) ?rest"
      unfolding Inl by (intro hold.contender_call [OF _ hold.stable_True] hold.contender_intros hold_keeps_to_any)
    then show ?thesis ..
  next
    case (Inr res)
    have "hold.bystander (\<lambda>_. True) ?rest" by (intro hold.bystander_intros hold_keeps_to_any)
    with Inr show ?thesis by (auto simp: comp_iffs dest: HoldSeat_locked_Inr)
  qed
qed

lemma HoldSeat_contender: "hold.contender (t, i) (\<lambda>_. True) (HoldSeat_thread E cfg t e i u)"
  unfolding HoldSeat_thread_def
  by (intro locked_contender hold.contender_call [OF _ hold.stable_True] hold.contender_intros hold.contender_prod
      hold_keeps_to_any)

lemma seat_pool:
  assumes "i < length calls"
  shows "if wants k (calls ! i) then hold.contender k (\<lambda>_. True) (map (seat_thread E) calls ! i)
    else hold.bystander (\<lambda>_. True) (map (seat_thread E) calls ! i)"
proof -
  have "hold.contender k (\<lambda>_. True) (seat_thread E c)" if "wants k c" for c
    using that by (cases c) (auto intro: hold.contender_forget HoldSeat_contender)
  moreover have "hold.bystander (\<lambda>_. True) (seat_thread E c)" for c
    by (cases c) (auto intro: hold.bystander_forget HoldSeat_bystander hold.bystander_atomic ConfirmSale_keeps)
  ultimately show ?thesis using assms by simp
qed

end
