(* ===== verification/InventoryProperties.thy ===== *)
theory InventoryProperties
  imports Samples HoldThreads
begin

text \<open>
  What holds of the inventory: the table and its repository, the lock, the rate limiter and the
  waiting room, and the service that composes them.  Each property is followed by its application
  to the sample environment where it has hypotheses.
\<close>

section \<open>The inventory is never oversold\<close>

text \<open>
  Start from an inventory without rows and let any number of processes run any of the program's
  statements in any order.  Then the audit trail of every row is a chain of legal transitions that
  ends in the row's current status; it contains at most one sale; a row that is sold was sold
  exactly once.
\<close>

theorem never_oversold:
  assumes "event_seat_inventory d = []" and "inventory_audit_log d = []" and "history d d'"
  shows "walk (trail i d') None = Some (status_at i d') \<and>
    sales (trail i d') \<le> 1 \<and>
    (status_at i d' = Some InventoryStatusSold \<longrightarrow> sales (trail i d') = 1)"
proof -
  have "audited d'" using assms by (blast intro: history_audited audited_empty)
  with audited_sales [OF this] show ?thesis by (simp add: audited_def)
qed

theorem never_oversold_witness:
  "sales (trail 10 sample_db) \<le> 1 \<and> status_at 10 sample_db = Some InventoryStatusAvailable"
  using never_oversold [OF _ _ sample_history, of 10]
  by (simp add: status_at_def sample_db_def sample_seat_def)



section \<open>The repository\<close>

text \<open>
  C4. Any sequence of Hold, Release, ConfirmSale and Void calls, on any seats and by any callers,
  failed calls included: the calls on one seat that reported success are, in order, a run of the
  seat's state machine from its first to its last state.  So a refused or failed call changes
  nothing, a call on one seat never changes another, and a token of one hold has no power over
  the next.
\<close>

theorem repository_refines_seat_machine:
  assumes "run_calls (seat_call (InventoryRepo_Hold E) (InventoryRepo_Release E)
      (InventoryRepo_ConfirmSale E) (InventoryRepo_Void E)) calls w = (won, w')"
    and "inventory_ok (db w)" and "seat_view (db w) k = Some s"
  shows "seat_run (map snd (filter (\<lambda>c. fst c = k) won)) s = seat_view (db w') k"
  using inventory_repo.run_calls_machine [OF assms(1,2), of k] assms(3) by simp

theorem repository_refines_seat_machine_witness:
  "seat_run (map snd (filter (\<lambda>c. fst c = (1, 10)) (fst (run_calls
      (seat_call (InventoryRepo_Hold sample_env) (InventoryRepo_Release sample_env)
        (InventoryRepo_ConfirmSale sample_env) (InventoryRepo_Void sample_env))
      [((1, 10), OpHold 5 7 9), ((1, 10), OpConfirm 6)] sample_world)))) Free
    = seat_view (db (snd (run_calls
      (seat_call (InventoryRepo_Hold sample_env) (InventoryRepo_Release sample_env)
        (InventoryRepo_ConfirmSale sample_env) (InventoryRepo_Void sample_env))
      [((1, 10), OpHold 5 7 9), ((1, 10), OpConfirm 6)] sample_world))) (1, 10)"
  by (rule repository_refines_seat_machine [OF prod.collapse [symmetric]])
    (simp_all add: sample_world_def audited_ok [OF sample_audited],
     simp add: seat_view_def inventory_by_id_def sample_db_def sample_seat_def seat_of_def)

text \<open>
  In such a sequence a seat is sold at most once, and every hold of it after the first was
  preceded by a release.
\<close>

theorem seat_sold_at_most_once:
  assumes "run_calls (seat_call (InventoryRepo_Hold E) (InventoryRepo_Release E)
      (InventoryRepo_ConfirmSale E) (InventoryRepo_Void E)) calls w = (won, w')"
    and "inventory_ok (db w)" and "seat_view (db w) k = Some s"
  shows "tally (\<lambda>c. fst c = k \<and> is_confirm (snd c)) won \<le> 1 \<and>
    tally (\<lambda>c. fst c = k \<and> is_hold (snd c)) won
      \<le> 1 + tally (\<lambda>c. fst c = k \<and> is_release (snd c)) won"
proof -
  let ?as = "map snd (filter (\<lambda>c. fst c = k) won)"
  obtain s' where run: "seat_run ?as s = Some s'"
    using assms by (rule inventory_repo.run_calls_seat_run)
  have "tally is_confirm ?as \<le> 1" "tally is_hold ?as \<le> 1 + tally is_release ?as"
    using seat_run_confirm_once [OF run] seat_run_hold_release [OF run] by (simp_all split: if_splits)
  then show ?thesis by (simp add: filter_map comp_def)
qed

theorem seat_sold_at_most_once_witness:
  "tally (\<lambda>c. fst c = (1, 10) \<and> is_confirm (snd c)) (fst (run_calls
      (seat_call (InventoryRepo_Hold sample_env) (InventoryRepo_Release sample_env)
        (InventoryRepo_ConfirmSale sample_env) (InventoryRepo_Void sample_env))
      [((1, 10), OpHold 5 7 9), ((1, 10), OpConfirm 5), ((1, 10), OpConfirm 5)] sample_world)) \<le> 1"
  by (rule seat_sold_at_most_once [THEN conjunct1, OF prod.collapse [symmetric]])
    (simp_all add: sample_world_def audited_ok [OF sample_audited],
     simp add: seat_view_def inventory_by_id_def sample_db_def sample_seat_def seat_of_def)

text \<open>
  C39. \<open>CountByStatus\<close> reports, for every ticket category of the event and every status, the number
  of rows there are, and has no entry for a category without rows.
\<close>

theorem CountByStatus_exact:
  assumes "InventoryRepo_CountByStatus E t e w = (Inr m, w')"
  shows "count_of st (counts_at m c) =
      int (length (filter (\<lambda>r. in_event t e c r \<and> inv_Status r = st) (event_seat_inventory (db w)))) \<and>
    (map_of m c = None \<longleftrightarrow> (\<forall>r \<in> set (event_seat_inventory (db w)). \<not> in_event t e c r)) \<and> db w' = db w"
  using assms counts_by_status_count [of st t e "db w" c] counts_by_status_None [of t e "db w" c]
  by (auto simp: InventoryRepo_CountByStatus_def mapErrE_Inr_iff pg_query_Inr_iff)

theorem CountByStatus_exact_witness:
  "count_of InventoryStatusAvailable (counts_at (counts_by_status 1 2 sample_db) 3) = 2"
  using CountByStatus_exact [of sample_env 1 2 sample_world "counts_by_status 1 2 sample_db" _
      InventoryStatusAvailable 3]
  by (simp add: InventoryRepo_CountByStatus_def mapErrE_Inr_iff pg_query_Inr_iff
      sample_world_def sample_db_def sample_seat_def sample_env_def)

section \<open>Holding a seat\<close>

text \<open>
  C5. \<open>HoldSeat\<close> succeeds only on a free seat of the tenant, and then exactly that seat becomes held,
  by the caller, under the returned token and until the returned expiry.  Every other seat, of this
  and of every other tenant, keeps its state.
\<close>

theorem HoldSeat_holds:
  assumes "HoldSeat E cfg t e i u w = (Inr res, w')" and "inventory_ok (db w)"
  shows "seat_view (db w) (t, i) = Some Free \<and>
    seat_view (db w') = (seat_view (db w))((t, i) \<mapsto>
      HeldBy (hr_HoldToken res) (Some u) (hr_ExpiresAt res))"
  using assms by (rule HoldSeat_success)

theorem HoldSeat_holds_witness:
  "seat_view (db (snd (HoldSeat sample_env DefaultConfig 1 2 10 7 sample_world))) (1, 10) =
     Some (HeldBy 1005 (Some 7) 306000000)"
  using HoldSeat_holds [OF prod_eqI [of _ "(_, _)", unfolded fst_conv snd_conv, OF sample_hold refl]]
  by (simp add: sample_world_def audited_ok [OF sample_audited])



text \<open>
  However many fans, with whatever configuration, try to hold one seat one after the other: at
  most one of them succeeds, whatever Redis does.
\<close>

theorem HoldSeat_at_most_one_winner:
  assumes "run_calls (\<lambda>(cfg, e, u). succeeds (HoldSeat E cfg t e i u)) fans w = (won, w')"
    and "audited (db w)"
  shows "length won \<le> 1"
  using assms by (rule HoldSeat_one_winner)

theorem HoldSeat_at_most_one_winner_witness:
  "length (fst (run_calls (\<lambda>(cfg, e, u). succeeds (HoldSeat sample_env cfg 1 e 10 u))
     [(DefaultConfig, 2, 7), (DefaultConfig, 2, 7), (DefaultConfig, 2, 8)] sample_world)) \<le> 1"
  by (rule HoldSeat_at_most_one_winner [OF prod.collapse [symmetric]])
    (simp add: sample_world_def sample_audited)

text \<open>
  C15. A seat has one winner even when the attempts overlap: however the gates, locks and statements of any attempts to hold seats
  and of any sales are interleaved, and whatever Redis answers, at most one of the attempts on a given seat
  succeeds, and none when the seat was not free before they began.
\<close>

theorem overlapping_holds_one_winner:
  assumes "sched\<^sup>*\<^sup>* (map (seat_thread E) calls, w) (ts, w')" and "inventory_ok (db w)"
  shows "card (winners (\<lambda>j. wants (t, i) (calls ! j)) ts) \<le> 1 \<and>
    (seat_view (db w) (t, i) \<noteq> Some Free \<longrightarrow> winners (\<lambda>j. wants (t, i) (calls ! j)) ts = {})"
proof (intro conjI impI)
  show "card (winners (\<lambda>j. wants (t, i) (calls ! j)) ts) \<le> 1"
    by (rule hold.one_winner [OF assms]) (unfold length_map, rule seat_pool)
  show "winners (\<lambda>j. wants (t, i) (calls ! j)) ts = {}" if "seat_view (db w) (t, i) \<noteq> Some Free"
    by (rule hold.no_winner [OF assms that]) (unfold length_map, rule seat_pool)
qed

theorem overlapping_holds_one_winner_witness:
  "card (winners (\<lambda>j. wants (1, 10) ([RHold DefaultConfig 1 2 10 7, RHold DefaultConfig 1 2 10 7] ! j))
    (fst (run_schedule [0, 1, 0, 1, 1, 0, 0, 1, 0] (map (seat_thread sample_env)
      [RHold DefaultConfig 1 2 10 7, RHold DefaultConfig 1 2 10 7], sample_world)))) \<le> 1"
  by (rule overlapping_holds_one_winner [OF run_schedule_pair, THEN conjunct1])
    (simp add: sample_world_def audited_ok [OF sample_audited])

section \<open>Expired holds\<close>


definition swept_world :: world where
  "swept_world = sample_world\<lparr>tick := 1000, db := sample_db\<lparr>event_seat_inventory :=
    [(sample_seat 10)\<lparr>inv_Status := InventoryStatusHeld, inv_HoldToken := Some 5,
      inv_HoldExpiresAt := Some 900000000\<rparr>, sample_seat 11]\<rparr>\<rparr>"


section \<open>The lock, the rate limiter and the waiting room\<close>

text \<open>
  C37. A lock is exclusive while its lease lasts: after a successful \<open>Acquire\<close>, and until the TTL has
  passed on the server's clock, no sequence of \<open>Acquire\<close> and \<open>Release\<close> calls on any keys, in which the
  owner's token is not released, acquires that key again.
\<close>

theorem lock_exclusive_until_lease_ends:
  assumes "redis_server (e_redis E)" and "0 < ttl"
    and "Locker_Acquire E key ttl w = (Inr (tok, True), w1)"
    and "run_calls (lock_step (Locker_Acquire E) (Locker_Release E)) calls w1 = (won, w')"
    and "redis_time E w' < redis_time E w + ttl" and "LRelease key tok \<notin> set calls"
  shows "LAcquire key ttl' \<notin> set won"
proof -
  have up: "redis_up E w" using assms(1) by (simp add: redis_up_def)
  from redis_lock.acquire_lease [OF up assms(2,3)] obtain x where
    x: "lock_owner w1 key = Some (tok, x)" "redis_time E w + ttl \<le> x" by blast
  have "redis_up E w1" using redis_lock.acquire_ok [OF up assms(3)] by simp
  with redis_lock.lease_exclusive [OF assms(4) _ x(1) _ assms(6)] x(2) assms(5) show ?thesis by simp
qed

theorem lock_exclusive_until_lease_ends_witness:
  "\<exists>tok w1. Locker_Acquire sample_env ''k'' 10000000 sample_world = (Inr (tok, True), w1) \<and>
     LAcquire ''k'' 5 \<notin> set (fst (run_calls (lock_step (Locker_Acquire sample_env) (Locker_Release sample_env))
       [LAcquire ''k'' 5] w1))"
proof -
  let ?run = "run_calls (lock_step (Locker_Acquire sample_env) (Locker_Release sample_env)) [LAcquire ''k'' 5]"
  obtain w1 where acq: "Locker_Acquire sample_env ''k'' 10000000 sample_world =
      (Inr (sample_String 1000, True), w1)" and w1: "tick w1 = 2"
    by (simp add: redis_repo_defs redis_call_def sample_defs admittedKey_def run_simps Let_def)
  have "tick (snd (?run w1)) = 4"
    using w1 by (auto simp: run_simps split: prod.splits sum.splits bool.splits dest!: Locker_Acquire_run)
  then have "redis_time sample_env (snd (?run w1)) < redis_time sample_env sample_world + 10000000"
    by (simp add: redis_time_def sample_env_def sample_world_def reference_redis_def)
  from lock_exclusive_until_lease_ends [OF sample_redis _ acq surjective_pairing this, of 5] acq
  show ?thesis by auto
qed

text \<open>
  C38. The rate limiter's bound: when a window of a key opens with a first attempt, that attempt and all
  later ones on the key until the window ends, mixed with attempts on other keys, are allowed at most
  \<open>limit\<close> times.
\<close>

theorem rate_limit_bounds_window:
  assumes "redis_server (e_redis E)" and "0 < window" and "attempts_used w key = None"
    and "RateLimiter_Allow E key limit window w = (Inr b, w1)"
    and "run_calls (\<lambda>(k, l, win). RateLimiter_Allow E k l win) calls w1 = (won, w')"
    and "redis_time E w' < redis_time E w + window"
    and "\<forall>(k, l, win) \<in> set calls. k = key \<longrightarrow> l = limit"
  shows "int (length (filter (\<lambda>c. fst c = key) won)) + (if b then 1 else 0) \<le> max 0 limit"
proof -
  have up: "redis_up E w" using assms(1) by (simp add: redis_up_def)
  from redis_limiter.allow_first [OF up assms(2) _ assms(4)] assms(3) obtain x where
    b: "b = (1 \<le> limit)" and x: "attempts_used w1 key = Some (1, Some x)" "redis_time E w + window \<le> x"
    by auto
  have "redis_up E w1" using redis_limiter.allow_ok [OF up assms(4)] by simp
  with redis_limiter.allowed_within [OF assms(5) _ x(1) _ _ assms(7)] x(2) assms(6) b show ?thesis
    by (auto simp: max_def split: if_splits)
qed

theorem rate_limit_bounds_window_witness:
  "\<exists>w1. RateLimiter_Allow sample_env ''k'' 2 60000000 sample_world = (Inr True, w1) \<and>
     int (length (filter (\<lambda>c. fst c = ''k'') (fst (run_calls
       (\<lambda>(k, l, win). RateLimiter_Allow sample_env k l win) [(''k'', 2, 60000000)] w1)))) \<le> 1"
proof -
  let ?run = "run_calls (\<lambda>(k, l, win). RateLimiter_Allow sample_env k l win) [(''k'', 2, 60000000)]"
  obtain w1 where run: "RateLimiter_Allow sample_env ''k'' 2 60000000 sample_world = (Inr True, w1)"
    and w1: "tick w1 = 2"
    by (simp add: redis_repo_defs redis_call_def sample_defs admittedKey_def run_simps Let_def)
  have "tick (snd (RateLimiter_Allow sample_env k l win v)) \<le> tick v + 2" for k l win v
    by (auto simp: RateLimiter_Allow_def run_simps redis_call_def split: prod.splits sum.splits)
  from this [of "''k''" 2 60000000 w1] w1
  have "tick (snd (?run w1)) \<le> 4" by (auto split: prod.splits sum.splits bool.splits)
  then have "redis_time sample_env (snd (?run w1)) < redis_time sample_env sample_world + 60000000"
    by (simp add: redis_time_def sample_env_def sample_world_def reference_redis_def)
  moreover have "attempts_used sample_world ''k'' = None"
    by (simp add: attempts_used_def sample_world_def sample_ks_def admittedKey_def)
  ultimately have "int (length (filter (\<lambda>c. fst c = ''k'') (fst (?run w1)))) + 1 \<le> 2"
    using rate_limit_bounds_window [OF sample_redis _ _ run surjective_pairing, of
        "[(''k'', 2, 60000000)]"] by simp
  with run show ?thesis by simp
qed

text \<open>
  The waiting room is first come, first served: over any sequence of joins and admissions of fans
  that join an event once, those admitted to the event followed by those still waiting are those who
  waited before followed by those who joined, in that order.
\<close>

theorem waiting_room_fifo:
  assumes "foldE (room_step (WaitingRoom_Join E) (WaitingRoom_Admit E) e) calls [] w = (Inr out, w')"
    and "room_ok E (length calls) w"
    and "distinct (queue_line E (ks w) e @ arrivals e calls)"
  shows "out @ queue_line E (ks w') e = queue_line E (ks w) e @ arrivals e calls"
proof -
  from redis_room.room_refines_line [OF assms(1,2)] have
    "line_run e calls (queue_line E (ks w) e) = (out, queue_line E (ks w') e)" by simp
  from line_run_fifo [OF this assms(3)] show ?thesis .
qed

theorem waiting_room_fifo_witness:
  "\<exists>out w'. foldE (room_step (WaitingRoom_Join sample_env) (WaitingRoom_Admit sample_env) 2)
      [RJoin 2 8, RJoin 2 9, RAdmit 2 1 1000] [] sample_world = (Inr out, w') \<and>
    out @ queue_line sample_env (ks w') 2 = [8, 9]"
proof -
  obtain out w' where run: "foldE (room_step (WaitingRoom_Join sample_env) (WaitingRoom_Admit sample_env) 2)
      [RJoin 2 8, RJoin 2 9, RAdmit 2 1 1000] [] sample_world = (Inr out, w')"
    using sample_room_run by blast
  have "out @ queue_line sample_env (ks w') 2 =
      queue_line sample_env (ks sample_world) 2 @ arrivals 2 [RJoin 2 8, RJoin 2 9, RAdmit 2 1 1000]"
    by (rule waiting_room_fifo [OF run]) (simp_all add: sample_room_ok sample_queue)
  with run show ?thesis by (simp add: sample_queue)
qed

text \<open>
  C36. Without that proviso the waiting room still refines the abstract line: a fan who joins again keeps
  the place already taken, and every admission takes the first ones of the line.
\<close>

theorem waiting_room_refines_line:
  assumes "foldE (room_step (WaitingRoom_Join E) (WaitingRoom_Admit E) e) calls [] w = (Inr out, w')"
    and "room_ok E (length calls) w"
  shows "line_run e calls (queue_line E (ks w) e) = (out, queue_line E (ks w') e)"
  using redis_room.room_refines_line [OF assms] by simp

theorem waiting_room_refines_line_witness:
  "\<exists>out w'. foldE (room_step (WaitingRoom_Join sample_env) (WaitingRoom_Admit sample_env) 2)
      [RJoin 2 8, RJoin 2 9, RAdmit 2 1 1000] [] sample_world = (Inr out, w') \<and>
    out = [8] \<and> queue_line sample_env (ks w') 2 = [9]"
proof -
  obtain out w' where run: "foldE (room_step (WaitingRoom_Join sample_env) (WaitingRoom_Admit sample_env) 2)
      [RJoin 2 8, RJoin 2 9, RAdmit 2 1 1000] [] sample_world = (Inr out, w')"
    using sample_room_run by blast
  have "line_run 2 [RJoin 2 8, RJoin 2 9, RAdmit 2 1 1000] (queue_line sample_env (ks sample_world) 2) =
      (out, queue_line sample_env (ks w') 2)"
    by (rule waiting_room_refines_line [OF run]) (simp add: sample_room_ok)
  with run show ?thesis by (simp add: sample_queue)
qed

end
