(* ===== verification/WorkerProperties.thy ===== *)
theory WorkerProperties
  imports Sweeping OrderProperties InventoryProperties
begin

text \<open>
  What the background loops guarantee: how many fans a tick admits, that a batch of notifications is
  settled whatever becomes of a single one, and that the confirmation a fan reads states the order's sum.
\<close>

section \<open>Admission\<close>


definition queued_world :: world where
  "queued_world = snd (WaitingRoom_Join sample_env 2 9 (snd (WaitingRoom_Join sample_env 2 8 sample_world)))"

lemmas room_defs =
  redis_repo_defs redis_call_def sem_zaddnx_def sem_zrank_def sem_zcard_def sem_zpopmin_def sem_sets_def
  zset_at_def put_zset_def zset_insert_def queueKey_def seqKey_def admittedKey_def sample_text
  map_filter_simps float64_def round_to_53_def bit_length.simps

lemma queued_room: "room_ok sample_env 0 queued_world" "queue_line sample_env (ks queued_world) 2 = [8, 9]"
proof -
  obtain p1 w1 where one: "WaitingRoom_Join sample_env 2 8 sample_world = (Inr p1, w1)"
    by (simp add: room_defs sample_defs run_simps Let_def)
  have "\<exists>p2. fst (WaitingRoom_Join sample_env 2 9 (snd (WaitingRoom_Join sample_env 2 8 sample_world))) = Inr p2"
    by (simp add: room_defs sample_defs run_simps Let_def)
  with one obtain p2 where two: "WaitingRoom_Join sample_env 2 9 w1 = (Inr p2, queued_world)"
    by (auto simp: queued_world_def prod_eq_iff)
  have "room_ok sample_env (Suc (Suc 0)) sample_world" by (rule sample_room_ok) simp
  note j1 = WaitingRoom_Join_room [OF this one]
  note j2 = WaitingRoom_Join_room [OF j1 [THEN conjunct1] two]
  from j2 show "room_ok sample_env 0 queued_world" by blast
  from j1 j2 show "queue_line sample_env (ks queued_world) 2 = [8, 9]"
    by (auto simp: sample_queue)
qed


section \<open>Notifications\<close>


definition told_world :: world where
  "told_world = sample_world\<lparr>db := sample_db\<lparr>notifications :=
    [(confirmation sample_env 1 sample_order [])\<lparr>n_ID := 70\<rparr>]\<rparr>\<rparr>"


text \<open>
  C35. The confirmation states the sum that was paid: from the order through the JSONB column, where
  the amount becomes a \<open>float64\<close>, the division by 100 and \<open>%.2f\<close>, the email shows the order's id, the
  whole units, the two digits of the cents and the currency, for every sum below 70 trillion units.
\<close>

theorem confirmation_email_exact:
  assumes "0 \<le> sint (Cents (ord_Total order))" and "sint (Cents (ord_Total order)) < 100 * 2 ^ 46"
    and "n = (confirmation E t order items)\<lparr>n_Payload := map (apsnd json_read) (n_Payload (confirmation E t order items))\<rparr>"
  shows "render n email = Inr \<lparr>em_To = email, em_Subject = ''Your order is confirmed'',
    em_Body = ''Thanks for your order!'' @ LF @ LF @ ''Order: '' @ e_uuid_String E (ord_ID order) @ LF @
      ''Total: '' @ fmt_d (sint (Cents (ord_Total order)) div 100) @ ''.'' @
      fmt_02d (sint (Cents (ord_Total order)) mod 100) @ '' '' @ Currency (ord_Total order) @ LF @ LF @
      ''See you at the match.''\<rparr>"
proof -
  let ?c = "sint (Cents (ord_Total order))"
  have float: "float64 ?c = ?c" using assms(1,2) by (intro float64_exact) simp_all
  have exact: "hundredths (nat ?c) = nat ?c"
    using assms(1,2) by (intro hundredths_exact) (simp add: nat_less_iff)
  have "fmt_2f_div100 ?c = fmt_d (?c div 100) @ ''.'' @ fmt_02d (?c mod 100)"
    using assms(1) by (simp add: fmt_2f_div100_def exact Let_def fmt_d_def nat_div_distrib zmod_int
        pos_imp_zdiv_neg_iff)
  then show ?thesis
    by (simp add: assms(3) confirmation_def payload_string_def payload_float_def float Let_def)
qed

theorem confirmation_email_exact_witness:
  "render ((confirmation sample_env 1 sample_order [])\<lparr>n_Payload := map (apsnd json_read)
      (n_Payload (confirmation sample_env 1 sample_order []))\<rparr>) ''fan@example.com'' =
    Inr \<lparr>em_To = ''fan@example.com'', em_Subject = ''Your order is confirmed'',
      em_Body = ''Thanks for your order!'' @ LF @ LF @ ''Order: '' @ sample_String (ord_ID sample_order) @ LF @
        ''Total: 50.00 KES'' @ LF @ LF @ ''See you at the match.''\<rparr>"
proof -
  have "fmt_d 50 = ''50''" "fmt_02d 0 = ''00''" by code_simp+
  then show ?thesis
    using confirmation_email_exact [OF _ _ refl, of sample_order sample_env 1 "[]" "''fan@example.com''"]
    by (simp add: sample_order_def sample_env_def)
qed

section \<open>The sweep loop\<close>

text \<open>
  C10. Lapsed holds do not stay: with Postgres answering, every seat whose hold had lapsed when the sweep
  loop woke up is free again after as many ticks as it takes to cover those seats with batches, whatever
  younger holds lapse in the meantime; and the loop changes no seat in any other way.
\<close>

theorem sweep_loop_frees_every_lapsed_hold:
  assumes "pg_healthy E" and "inventory_ok (db w)" and "\<forall>n \<ge> tick w. T \<le> e_now E n"
    and "card {key. hold_lapsed T (db w) key} \<le> k * nat (wc_SweepBatchSize wc)"
  shows "\<exists>w'. runSweepLoop E wc (replicate k TickerC) w = (Inr (), w') \<and>
    (\<forall>key. hold_lapsed T (db w) key \<longrightarrow> seat_view (db w') key = Some Free) \<and>
    (\<forall>key. seat_view (db w') key = seat_view (db w) key \<or> seat_view (db w') key = Some Free)"
  using runSweepLoop_frees [OF assms(1-3)] assms(4) swept_is_free unfolding lapsed_seats_def by meson

theorem sweep_loop_frees_every_lapsed_hold_witness:
  "\<exists>w'. runSweepLoop sample_env \<lparr>wc_SweepInterval = 1, wc_SweepBatchSize = 1, wc_AdmissionInterval = 1,
      wc_AdmissionMaxPerTick = 1, wc_NotificationInterval = 1, wc_NotificationBatchSize = 1\<rparr> [TickerC, TickerC]
      swept_world = (Inr (), w') \<and> seat_view (db w') (1, 10) = Some Free"
proof -
  let ?wc = "\<lparr>wc_SweepInterval = 1, wc_SweepBatchSize = 1, wc_AdmissionInterval = 1,
      wc_AdmissionMaxPerTick = 1, wc_NotificationInterval = 1, wc_NotificationBatchSize = 1\<rparr> :: WorkerConfig"
  have ok: "inventory_ok (db swept_world)"
    by (simp add: inventory_ok_def esi_check_def swept_world_def sample_seat_def)
  have "card {key. hold_lapsed 1000000000 (db swept_world) key} \<le> 2 * nat (wc_SweepBatchSize ?wc)"
    using card_lapsed_seats [OF ok, of 1000000000] unfolding lapsed_seats_def by (simp add: swept_world_def)
  moreover have "hold_lapsed 1000000000 (db swept_world) (1, 10)"
    by (simp add: hold_lapsed_def seat_view_def inventory_by_id_def seat_of_def swept_world_def sample_seat_def)
  ultimately show ?thesis
    using sweep_loop_frees_every_lapsed_hold [OF sample_healthy ok, of 1000000000 2 ?wc]
    by (auto simp: numeral_2_eq_2 sample_env_def swept_world_def)
qed

end
