(* ===== verification/HttpProperties.thy ===== *)
theory HttpProperties
  imports AccessControl OrderLifecycle HttpServer Publishing AuthProperties WorkerProperties
begin

text \<open>
  What the two processes guarantee as a whole: the inventory under any requests and ticks, who can
  change what through the API, and what an access token and a webhook signature stand for.
\<close>

section \<open>Samples\<close>

text \<open>A codec for which the body of a login is the password of the sample fan, and nothing else is JSON.\<close>

definition sample_codec :: codec where
  "sample_codec = \<lparr>dec_register = (\<lambda>_. None),
    dec_login = (\<lambda>b. Some \<lparr>lg_Email = fan_email, lg_Password = b\<rparr>),
    dec_refresh = (\<lambda>_. None), dec_bootstrap = (\<lambda>_. None), dec_hold = (\<lambda>_. None), dec_release = (\<lambda>_. None),
    dec_order = (\<lambda>_. None), dec_seatCategory = (\<lambda>_. None), dec_event = (\<lambda>_. None),
    dec_ticketCategory = (\<lambda>_. None), dec_publish = (\<lambda>_. None), dec_venue = (\<lambda>_. None), dec_stripe = (\<lambda>_. None),
    val_register = (\<lambda>_. None), val_login = (\<lambda>_. None), val_refresh = (\<lambda>_. None), val_bootstrap = (\<lambda>_. None),
    val_seatCategory = (\<lambda>_. None), val_event = (\<lambda>_. None), val_ticketCategory = (\<lambda>_. None),
    val_publish = (\<lambda>_. None), val_venue = (\<lambda>_. None)\<rparr>"

definition sample_deps :: RouterDeps where
  "sample_deps = \<lparr>dp_codec = sample_codec, dp_jwt = sample_jwt, dp_gateway = MockGateway ''whsec'',
    dp_bootstrapSecret = '''', dp_inventory = DefaultConfig, dp_RealIP = rq_RemoteAddr,
    dp_NotFound = (\<lambda>_. response_Error StatusNotFound ''not-found'' (Literal ''''))\<rparr>"

definition sample_request :: "string \<Rightarrow> string list \<Rightarrow> string \<Rightarrow> Request" where
  "sample_request method path body = \<lparr>rq_Method = method, rq_Path = path, rq_Header = (\<lambda>_. ''''),
    rq_URLParam = (\<lambda>_. ''''), rq_RemoteAddr = ''10.0.0.1:4711'', rq_Body = Some body, rq_claims = None,
    rq_resolvedTenant = None\<rparr>"

definition sample_system :: system where
  "sample_system = \<lparr>sy_deps = sample_deps,
    sy_worker = \<lparr>wc_SweepInterval = 10 * 10 ^ 6, wc_SweepBatchSize = 500, wc_AdmissionInterval = 5 * 10 ^ 6,
      wc_AdmissionMaxPerTick = 200, wc_NotificationInterval = 5 * 10 ^ 6, wc_NotificationBatchSize = 100\<rparr>,
    sy_email = \<lparr>ec_Host = '''', ec_Port = ''587'', ec_Username = '''', ec_Password = '''', ec_From = ''''\<rparr>\<rparr>"

lemma sample_no_bearer: "\<not> bearer E cfg (sample_request m p b) c"
  by (simp add: bearer_def sample_request_def strings_CutPrefix_def)

section \<open>The system never oversells\<close>

text \<open>
  C1. Start the system on an inventory without rows and feed it any requests, from anyone and with any
  content, and any ticks of the worker, in any order and with any failures of Postgres, Redis, Stripe
  and the mail server.  Then the audit trail of every seat is a chain of legal transitions that ends in
  the seat's status and contains at most one sale, and exactly one when the seat is sold.
\<close>

theorem system_never_oversells:
  assumes "foldE (system_step E sy) inputs () w = (r, w')"
    and "event_seat_inventory (db w) = []" and "inventory_audit_log (db w) = []"
  shows "walk (trail i (db w')) None = Some (status_at i (db w')) \<and>
    sales (trail i (db w')) \<le> 1 \<and>
    (status_at i (db w') = Some InventoryStatusSold \<longrightarrow> sales (trail i (db w')) = 1)"
proof -
  have "writes_history (foldE (system_step E sy) inputs ())"
    by (intro hist.moves_fold system_history)
  from moves_run [OF this assms(1)] assms(2,3) have "audited (db w')"
    by (blast intro: history_audited audited_empty)
  with audited_sales [OF this] show ?thesis by (simp add: audited_def)
qed

theorem system_never_oversells_witness:
  "sales (trail 10 (db (snd (foldE (system_step sample_env sample_system)
     [SweepTick, Http (sample_request ''GET'' [''healthz''] ''''), AdmissionTick] ()
     (sample_world\<lparr>db := empty_db\<rparr>))))) \<le> 1"
  using system_never_oversells [OF prod.collapse [symmetric], of "sample_world\<lparr>db := empty_db\<rparr>" 10 sample_env
    sample_system "[SweepTick, Http (sample_request ''GET'' [''healthz''] ''''), AdmissionTick]"]
  by (simp add: empty_db_def)

section \<open>The life of an order\<close>

text \<open>
  C3. Whatever the system is fed after an order was placed, one input after the other and with any
  failures, the order is still there under its id, for the same customer and the same amounts, and has
  only moved along the three steps of its state machine.  So an order that is paid is never changed
  again, not by a repeated webhook, a late refund or another authorization, and no order becomes pending
  again or is cancelled.
\<close>

theorem order_lifecycle:
  assumes "foldE (system_step E sy) inputs () w = (r, w')" and "order_by_id t i (db w) = Some o1"
  shows "\<exists>o2. order_by_id t i (db w') = Some o2 \<and> order_step\<^sup>*\<^sup>* o1 o2 \<and> order_terms o2 = order_terms o1 \<and>
    (ord_Status o1 = OrderStatusPaid \<longrightarrow> o2 = o1) \<and>
    (o2 \<noteq> o1 \<longrightarrow> ord_Status o2 \<in> {OrderStatusAwaitingPayment, OrderStatusPaid, OrderStatusExpired})"
proof -
  have "advances (foldE (system_step E sy) inputs ())"
    by (intro life.moves_fold system_advances)
  from moves_run [OF this assms(1)] assms(2) obtain o2 where
    "order_by_id t i (db w') = Some o2" and steps: "order_step\<^sup>*\<^sup>* o1 o2"
    unfolding orders_advance_def by blast
  with order_steps_terms [OF steps] order_steps_paid [OF steps] order_steps_statuses [OF steps]
  show ?thesis by blast
qed

theorem order_lifecycle_witness:
  "\<exists>o2. order_by_id 1 60 (db (snd (foldE (system_step sample_env sample_system)
      [SweepTick, Http (sample_request ''POST'' [''webhooks'', ''stripe''] ''''), NotificationTick] () ordered_world))) = Some o2 \<and>
    ord_Total o2 = ord_Total sample_order"
proof -
  have "order_by_id 1 60 (db ordered_world) = Some sample_order"
    by (simp add: order_by_id_def order_sample_defs)
  from order_lifecycle [OF prod.collapse [symmetric] this, of sample_env sample_system
      "[SweepTick, Http (sample_request ''POST'' [''webhooks'', ''stripe''] ''''), NotificationTick]"]
  show ?thesis by (auto simp: order_terms_def)
qed

section \<open>Access control\<close>

text \<open>What a request reaches, past the request id and the mux.\<close>

lemma NewRouter_cases:
  assumes "NewRouter E deps r w = (q, w')"
  obtains "db w' = db w"
  | handle r1 w1 where "routes E deps (rq_Method r) (rq_Path r) = Some handle" "rq_Header r1 = rq_Header r"
      "db w1 = db w" "handle r1 w1 = (q, w')"
proof -
  let ?r1 = "r\<lparr>rq_RemoteAddr := dp_RealIP deps r, rq_claims := None, rq_resolvedTenant := None\<rparr>"
  let ?k = "case routes E deps (rq_Method r) (rq_Path r) of
    None \<Rightarrow> returnE (dp_NotFound deps r) | Some handle \<Rightarrow> handle ?r1"
  define w1 where "w1 = (if rq_Header r ''X-Request-ID'' = '''' then w\<lparr>tick := Suc (tick w)\<rparr> else w)"
  have w1: "db w1 = db w" by (simp add: w1_def)
  have run: "?k w1 = (q, w')"
    using assms by (auto simp: w1_def NewRouter_def RequestID_def Let_def run_simps split: if_splits)
  show thesis
  proof (cases "routes E deps (rq_Method r) (rq_Path r)")
    case None
    with run w1 show thesis by (intro that(1)) (auto simp: run_simps)
  next
    case (Some handle)
    with run w1 show thesis by (intro that(2) [of handle ?r1 w1]) simp_all
  qed
qed

lemma bearer_header: "rq_Header r1 = rq_Header r \<Longrightarrow> bearer E cfg r1 c = bearer E cfg r c"
  by (simp add: bearer_def)

text \<open>
  C6. Administrators are confined to their tenant: whatever a request to a route under \<open>/api/v1/admin\<close>,
  bootstrap apart, contains, it leaves the database as it was, or it carried an access token with the
  admin role and a tenant, and then no row of any other tenant was added, changed or removed.
\<close>

theorem admin_routes_isolated:
  assumes "NewRouter E deps r w = (q, w')" and "rq_Path r = ''api'' # ''v1'' # ''admin'' # rest"
    and "rest \<noteq> [''bootstrap'']"
  shows "db w' = db w \<or> (\<exists>c t. bearer E (dp_jwt deps) r c \<and> cl_Role c = ''admin'' \<and> cl_TenantID c \<noteq> '''' \<and>
    e_uuid_Parse E (cl_TenantID c) = Some t \<and> outside_tenant t (db w') = outside_tenant t (db w))"
  using assms(1)
proof (cases rule: NewRouter_cases)
  case (2 handle r1 w1)
  from 2(1) assms(2) have "api_routes E deps (rq_Method r) (''admin'' # rest) = Some handle"
    by (simp add: routes_def)
  from admin_routes [OF this assms(3)] obtain k where "handle = admin_group E deps k" "tenant_bound E k" by blast
  with admin_group_isolated [of E deps k r1 w1 q w'] 2 show ?thesis
    by (simp add: bearer_header [OF 2(2)])
qed blast

theorem admin_routes_isolated_witness:
  "db (snd (NewRouter sample_env sample_deps
     (sample_request ''POST'' [''api'', ''v1'', ''admin'', ''venues''] '''') sample_world)) = db sample_world"
  using admin_routes_isolated [OF prod.collapse [symmetric], of
      "sample_request ''POST'' [''api'', ''v1'', ''admin'', ''venues''] ''''" "[''venues'']"
      sample_env sample_deps sample_world]
  by (simp add: sample_no_bearer) (simp add: sample_request_def)

text \<open>
  C20. Without an access token that is accepted, no request changes the database, except through the
  routes that are meant for it: registration, login, refresh, logout, bootstrap and the webhook.
\<close>

theorem unauthenticated_changes_nothing:
  assumes "NewRouter E deps r w = (q, w')" and "\<not> public_route (rq_Method r) (rq_Path r)"
    and "\<forall>c. \<not> bearer E (dp_jwt deps) r c"
  shows "db w' = db w"
  using assms(1)
proof (cases rule: NewRouter_cases)
  case (2 handle r1 w1)
  have none: "\<forall>c. \<not> bearer E (dp_jwt deps) r1 c" using assms(3) by (simp add: bearer_header [OF 2(2)])
  consider "handle = HealthHandler_Live \<or> handle = HealthHandler_Ready E"
    | p where "rq_Path r = ''api'' # ''v1'' # p" "api_routes E deps (rq_Method r) p = Some handle"
    using 2(1) assms(2) unfolding routes_def public_route_def by (auto split: if_splits list.splits)
  then show ?thesis
  proof cases
    case 1
    with 2(3,4) show ?thesis
      using moves_run [OF browsing_keeps_db(3)] moves_run [OF browsing_keeps_db(4)] by metis
  next
    case 3: 2
    with api_unauthenticated [OF 3(2) _ none 2(4)] assms(2) 2(3) show ?thesis by simp
  qed
qed

theorem unauthenticated_changes_nothing_witness:
  "db (snd (NewRouter sample_env sample_deps
     (sample_request ''POST'' [''api'', ''v1'', ''orders''] '''') sample_world)) = db sample_world"
proof (rule unauthenticated_changes_nothing [OF prod.collapse [symmetric]])
  show "\<not> public_route (rq_Method (sample_request ''POST'' [''api'', ''v1'', ''orders''] ''''))
      (rq_Path (sample_request ''POST'' [''api'', ''v1'', ''orders''] ''''))"
    by (simp add: public_route_def sample_request_def)
qed (simp add: sample_no_bearer)

text \<open>
  C13. The only way to an administrator's account is the bootstrap route, with the secret it is
  configured with; an empty secret opens nothing.
\<close>

theorem admins_only_by_bootstrap:
  assumes "NewRouter E deps r w = (q, w')"
  shows "admins (db w') = admins (db w) \<or>
    rq_Path r = [''api'', ''v1'', ''admin'', ''bootstrap''] \<and> dp_bootstrapSecret deps \<noteq> '''' \<and>
    rq_Header r ''X-Bootstrap-Secret'' = dp_bootstrapSecret deps"
  using assms
proof (cases rule: NewRouter_cases)
  case (2 handle r1 w1)
  consider "handle = HealthHandler_Live \<or> handle = HealthHandler_Ready E" | "handle = WebhookHandler_Stripe E deps"
    | p where "rq_Path r = ''api'' # ''v1'' # p" "api_routes E deps (rq_Method r) p = Some handle"
    using 2(1) unfolding routes_def by (auto split: if_splits list.splits)
  then show ?thesis
  proof cases
    case 1
    with 2(3,4) show ?thesis
      using moves_run [OF browsing_keeps_db(3)] moves_run [OF browsing_keeps_db(4)] by metis
  next
    case webhook: 2
    with 2(3,4) moves_run [OF fan_keeps_users(10) [THEN keeps_users_admins]] show ?thesis by metis
  next
    case 3
    show ?thesis
    proof (cases "rq_Method r = ''POST'' \<and> p = [''admin'', ''bootstrap'']")
      case True
      with 3 have "handle = AuthHandler_BootstrapAdmin E deps" by (simp add: api_routes_def)
      with bootstrap_needs_secret [of E deps r1 w1 q w'] 2 3 True show ?thesis by auto
    next
      case False
      with moves_run [OF api_keeps_admins [OF 3(2)] 2(4)] 2(3) show ?thesis by auto
    qed
  qed
qed simp

theorem admins_only_by_bootstrap_witness:
  "admins (db (snd (NewRouter sample_env sample_deps
     (sample_request ''POST'' [''api'', ''v1'', ''admin'', ''bootstrap''] '''') sample_world))) =
   admins (db sample_world)"
  using admins_only_by_bootstrap [OF prod.collapse [symmetric], of sample_env sample_deps
      "sample_request ''POST'' [''api'', ''v1'', ''admin'', ''bootstrap''] ''''" sample_world]
  by (simp add: sample_deps_def)

section \<open>Webhooks\<close>

text \<open>
  C9. A webhook does nothing unless it is signed: if it had any effect, then its header carried the
  HMAC of exactly the body that was acted on, under the webhook secret; for Stripe, of the timestamp,
  a dot and the body, as one of the signatures of the header.
\<close>

theorem webhook_needs_signature:
  assumes "WebhookHandler_Stripe E h r w = (q, w')" and "w' \<noteq> w"
  shows "\<exists>body. map_option (take maxWebhookBodyBytes) (rq_Body r) = Some body \<and>
    (case dp_gateway h of
      StripeGateway sk secret \<Rightarrow> (\<exists>t sigs. parseStripeSignatureHeader (rq_Header r ''Stripe-Signature'') = Inr (t, sigs) \<and>
        hex_EncodeToString (hmac_sha256 secret (t @ ''.'' @ body)) \<in> set sigs)
    | MockGateway secret \<Rightarrow> rq_Header r ''Stripe-Signature'' = hex_EncodeToString (hmac_sha256 secret body))"
proof -
  obtain body where body: "map_option (take maxWebhookBodyBytes) (rq_Body r) = Some body"
    using assms unfolding WebhookHandler_Stripe_def by (auto simp: run_simps split: option.splits)
  then have ok: "VerifyWebhookSignature (dp_gateway h) body (rq_Header r ''Stripe-Signature'') = Inr ()"
    using assms unfolding WebhookHandler_Stripe_def
    by (cases "VerifyWebhookSignature (dp_gateway h) body (rq_Header r ''Stripe-Signature'')") (auto simp: run_simps)
  show ?thesis
  proof (cases "dp_gateway h")
    case (StripeGateway sk secret)
    with ok body show ?thesis
      by (auto simp: VerifyWebhookSignature_def Stripe_VerifyWebhookSignature_def Let_def list_ex_iff
          split: sum.splits if_splits)
  next
    case (MockGateway secret)
    with ok body show ?thesis
      by (auto simp: VerifyWebhookSignature_def Mock_VerifyWebhookSignature_def split: if_splits)
  qed
qed

text \<open>A codec that reads every webhook body as a capture without metadata of an order.\<close>

definition capture_deps :: RouterDeps where
  "capture_deps = sample_deps\<lparr>dp_codec := sample_codec\<lparr>dec_stripe := (\<lambda>_. Some \<lparr>evt_Type = ''payment_intent.succeeded'',
    evt_ID = ''pi_1'', evt_Metadata = [(''tenant_id'', sample_String 1), (''order_id'', sample_String 60)]\<rparr>)\<rparr>\<rparr>"

definition signed_request :: Request where
  "signed_request = (sample_request ''POST'' [''webhooks'', ''stripe''] ''{}'')\<lparr>rq_Header :=
    (\<lambda>_. hex_EncodeToString (hmac_sha256 ''whsec'' ''{}''))\<rparr>"

theorem webhook_needs_signature_witness:
  "rq_Header signed_request ''Stripe-Signature'' = hex_EncodeToString (hmac_sha256 ''whsec'' ''{}'')"
proof -
  have body: "map_option (take maxWebhookBodyBytes) (rq_Body signed_request) = Some ''{}''"
    by (simp add: signed_request_def sample_request_def maxWebhookBodyBytes_def)
  have "VerifyWebhookSignature (dp_gateway capture_deps) ''{}'' (rq_Header signed_request ''Stripe-Signature'') = Inr ()"
    by (simp add: VerifyWebhookSignature_def Mock_VerifyWebhookSignature_def capture_deps_def sample_deps_def
        signed_request_def)
  then have "snd (WebhookHandler_Stripe sample_env capture_deps signed_request sample_world) =
      snd (WebhookHandler_succeeded sample_env capture_deps 1 60 sample_world)"
    unfolding WebhookHandler_Stripe_def body
    by (simp add: capture_deps_def sample_codec_def withUUID_def metadata_at_def sample_env_def sample_text)
  moreover have "tick (snd (WebhookHandler_succeeded sample_env capture_deps 1 60 sample_world)) \<noteq> tick sample_world"
    by (simp add: WebhookHandler_succeeded_def OrderRepo_GetByID_def order_by_id_def run_simps
        run_QueryRow_healthy [OF sample_healthy] sample_world_def sample_db_def empty_db_def)
  ultimately have "snd (WebhookHandler_Stripe sample_env capture_deps signed_request sample_world) \<noteq> sample_world"
    by metis
  from webhook_needs_signature [OF prod.collapse [symmetric] this] body show ?thesis
    by (simp add: capture_deps_def sample_deps_def)
qed

text \<open>A header with one signature.\<close>

lemma Stripe_one_signature:
  assumes "CHR '','' \<notin> set t" and "t \<noteq> ''''" and "CHR '','' \<notin> set sig"
  shows "Stripe_VerifyWebhookSignature secret body (''t='' @ t @ '',v1='' @ sig) = Inr () \<longleftrightarrow>
    sig = hex_EncodeToString (hmac_sha256 secret (t @ ''.'' @ body))"
proof -
  have "strings_Split CHR '','' (''t='' @ t @ '',v1='' @ sig) = [''t='' @ t, ''v1='' @ sig]"
    using strings_Split_append [of "CHR '',''" "''t='' @ t" "''v1='' @ sig"] strings_Split_none [of "CHR '',''" "''v1='' @ sig"]
      assms by simp
  moreover have "strings_SplitN2 CHR ''='' (''t='' @ t) = [''t'', t]" "strings_SplitN2 CHR ''='' (''v1='' @ sig) = [''v1'', sig]"
    using strings_SplitN2_append [of "CHR ''=''" "''t''" t] strings_SplitN2_append [of "CHR ''=''" "''v1''" sig] by simp_all
  ultimately have "parseStripeSignatureHeader (''t='' @ t @ '',v1='' @ sig) = Inr (t, [sig])"
    using assms(2) by (simp add: parseStripeSignatureHeader_def parseStripeSignature_part_def del: strings_SplitN2.simps)
  then show ?thesis by (simp add: Stripe_VerifyWebhookSignature_def Let_def)
qed

section \<open>Sessions at the API\<close>


lemma sample_jwt_roundtrip: "jwt_roundtrip sample_env secret"
  unfolding jwt_roundtrip_def
  using unspell_spell [of _ "[]"] by (auto simp: sample_env_def sample_sign_def sample_parse_token_def)




section \<open>Every request is answered\<close>

text \<open>
  Whatever a request contains and whatever fails while it is served, a request to a route of the API
  is answered, and properly: data with 200 or 201, or 503 from the readiness probe; otherwise a failure
  with one of the documented statuses.  An internal error has the code \<open>internal-error\<close> and a fixed
  message, so nothing of its cause reaches the client.
\<close>

theorem every_request_answered:
  assumes "routes E deps (rq_Method r) (rq_Path r) \<noteq> None"
  shows "\<exists>resp w'. NewRouter E deps r w = (Inr resp, w') \<and> proper resp"
proof -
  let ?r = "r\<lparr>rq_RemoteAddr := dp_RealIP deps r, rq_claims := None, rq_resolvedTenant := None\<rparr>"
  from assms obtain handle where handle: "routes E deps (rq_Method r) (rq_Path r) = Some handle" by blast
  have "\<exists>resp w'. handle ?r v = (Inr resp, w') \<and> proper resp" for v
    using routes_answer [OF handle, of ?r] by (simp add: answers_def)
  with handle show ?thesis by (simp add: NewRouter_def RequestID_def Let_def run_simps)
qed

theorem every_request_answered_witness:
  "\<exists>resp w'. NewRouter sample_env sample_deps (sample_request ''POST'' [''api'', ''v1'', ''auth'', ''login''] ''wrong'')
     sample_world = (Inr resp, w') \<and> proper resp"
  by (rule every_request_answered) (simp add: sample_request_def routes_def api_routes_def)


definition sample_chi :: chi where
  "sample_chi = \<lparr>ch_Status = (\<lambda>w. case rw_Sent w of None \<Rightarrow> 0 | Some (status, _) \<Rightarrow> status), ch_BytesWritten = (\<lambda>_. 0),
    ch_Timeout = (\<lambda>next. next),
    ch_CORS = (\<lambda>next r c. next r (c\<lparr>cn_w := (cn_w c)\<lparr>rw_Header := rw_Header (cn_w c) ++ [''Vary'' \<mapsto> ''Origin'']\<rparr>\<rparr>)),
    ch_NotFound = (\<lambda>r c. (None, c\<lparr>cn_w := WriteHeader StatusNotFound (cn_w c)\<rparr>))\<rparr>"




section \<open>Putting an event on sale\<close>

text \<open>
  C31. A publish that is answered with 201 adds exactly the number of units asked for, each free and of the
  tenant of the token, the event of the path and the ticket category of the body, and no seat that was
  there changes; an event that was a draft or scheduled is on sale afterwards, any other keeps its status.
\<close>

theorem PublishEvent_generates:
  assumes "AdminEventHandler_PublishEvent E h r w = (Inr resp, w')" and "rs_Status resp = StatusCreated"
  shows "\<exists>t e c req event rows ev'. TenantIDFromContext E r = Some t \<and>
    e_uuid_Parse E (rq_URLParam r ''eventID'') = Some e \<and>
    decodeAndValidate (dec_publish (dp_codec h)) (val_publish (dp_codec h)) r = Inr req \<and>
    e_uuid_Parse E (pe_EventTicketCategoryID req) = Some c \<and> event_by_id t e (db w) = Some event \<and>
    event_seat_inventory (db w') = event_seat_inventory (db w) @ rows \<and> length rows = nat (pe_Quantity req) \<and>
    list_all (fresh_unit t e c) rows \<and> event_by_id t e (db w') = Some ev' \<and>
    ev_Status ev' = (if ev_Status event \<in> {EventStatusDraft, EventStatusScheduled} then EventStatusOnSale
      else ev_Status event)"
  using assms
proof (rule PublishEvent_created)
qed blast

text \<open>Two units of category 3, asked for by an administrator of tenant 1 for event 2.\<close>

definition publish_deps :: RouterDeps where
  "publish_deps = sample_deps\<lparr>dp_codec := sample_codec\<lparr>dec_publish :=
    (\<lambda>_. Some \<lparr>pe_EventTicketCategoryID = sample_String 3, pe_Quantity = 2\<rparr>)\<rparr>\<rparr>"

definition publish_request :: Request where
  "publish_request = (sample_request ''POST'' [] '''')\<lparr>rq_URLParam := (\<lambda>_. sample_String 2),
    rq_claims := Some \<lparr>cl_Subject = sample_String 9, cl_IssuedAt = 0, cl_ExpiresAt = 1, cl_Role = ''admin'',
      cl_TenantID = sample_String 1\<rparr>\<rparr>"

definition draft_world :: "EventTicketCategory list \<Rightarrow> world" where
  "draft_world cs = sample_world\<lparr>db := sample_db\<lparr>events := [sample_event\<lparr>ev_Status := EventStatusDraft\<rparr>],
    event_ticket_categories := cs\<rparr>\<rparr>"

lemma sample_String_nonempty [simp]: "sample_String u \<noteq> ''''"
  using sample_text(2) [of u] by auto

lemmas publish_defs =
  AdminEventHandler_PublishEvent_def withAdminTenant_def TenantIDFromContext_def withUUID_def withBody_def
  decodeAndValidate_def EventRepo_GetByID_def QueryRow_def pg_query_def event_by_id_def
  publish_row_def InventoryRepo_BulkCreate_def BulkCreate_row_def id_or_New_def pg_stmt_def pg_now_def inventory_INSERT_def esi_check_def
  esi_unique_def esi_refs_exist_def esi_holder_exists_def EventRepo_Update_def ExecUpdate_def events_UPDATE_def
  event_check_def sql_affected_def sql_update_def publish_deps_def publish_request_def draft_world_def
  sample_deps_def sample_codec_def sample_request_def sample_event_def sample_category_def sample_price_def

lemma sample_publish:
  assumes "etc_ID c = 3" and "etc_TenantID c = 1"
  shows "\<exists>resp w'. AdminEventHandler_PublishEvent sample_env publish_deps publish_request (draft_world [c]) =
    (Inr resp, w') \<and> rs_Status resp = StatusCreated \<and> event_ticket_categories (db w') = [c]"
  using assms
  by (simp add: publish_defs sample_defs sample_text run_simps Let_def upt_rec [of 0] upt_rec [of "Suc 0"] response_JSON_def)

theorem PublishEvent_generates_witness:
  "\<exists>w'. length (event_seat_inventory (db w')) = 4 \<and>
     (\<exists>resp. AdminEventHandler_PublishEvent sample_env publish_deps publish_request (draft_world [sample_category]) =
       (Inr resp, w'))"
proof -
  obtain resp w' where run: "AdminEventHandler_PublishEvent sample_env publish_deps publish_request
      (draft_world [sample_category]) = (Inr resp, w')" and ok: "rs_Status resp = StatusCreated"
    using sample_publish [of sample_category] by (auto simp: sample_category_def)
  have "decodeAndValidate (dec_publish (dp_codec publish_deps)) (val_publish (dp_codec publish_deps)) publish_request =
      Inr \<lparr>pe_EventTicketCategoryID = sample_String 3, pe_Quantity = 2\<rparr>"
    by (simp add: decodeAndValidate_def publish_deps_def publish_request_def sample_deps_def sample_codec_def
        sample_request_def)
  moreover have "length (event_seat_inventory (db (draft_world [sample_category]))) = 2"
    by (simp add: draft_world_def sample_db_def)
  ultimately have "length (event_seat_inventory (db w')) = 4"
    using PublishEvent_generates [OF run ok] by auto
  with run show ?thesis by blast
qed

text \<open>
  The ticket category may be one of another event of the tenant: the foreign key does not tell them apart
  and the handler does not ask.  No category of the event then has a price for the units that are made.
\<close>

theorem PublishEvent_accepts_category_of_other_event:
  "\<exists>w w' resp. AdminEventHandler_PublishEvent sample_env publish_deps publish_request w = (Inr resp, w') \<and>
     rs_Status resp = StatusCreated \<and>
     \<not> list_ex (\<lambda>c. etc_ID c = 3 \<and> etc_EventID c = 2) (event_ticket_categories (db w'))"
proof -
  let ?c = "sample_category\<lparr>etc_EventID := 6\<rparr>"
  from sample_publish [of ?c] obtain resp w' where
    "AdminEventHandler_PublishEvent sample_env publish_deps publish_request (draft_world [?c]) = (Inr resp, w')"
    "rs_Status resp = StatusCreated" "event_ticket_categories (db w') = [?c]"
    by (auto simp: sample_category_def)
  then show ?thesis by (intro exI [of _ "draft_world [?c]"] exI [of _ w'] exI [of _ resp]) simp
qed

text \<open>
  A seat of an event that is not on sale can be held all the same: nothing on the way to a hold reads the
  event.
\<close>

theorem HoldSeat_ignores_sales_window:
  "\<exists>w res w' event. event_by_id 1 2 (db w) = Some event \<and> (\<forall>now. \<not> IsOnSale event now) \<and>
     HoldSeat sample_env DefaultConfig 1 2 10 7 w = (Inr res, w')"
proof -
  let ?w = "draft_world [sample_category]"
  have "\<exists>res w'. HoldSeat sample_env DefaultConfig 1 2 10 7 ?w = (Inr res, w')"
    by (simp add: draft_world_def hold_defs sample_defs run_simps Let_def)
  moreover have "event_by_id 1 2 (db ?w) = Some (sample_event\<lparr>ev_Status := EventStatusDraft\<rparr>)"
    by (simp add: draft_world_def event_by_id_def sample_event_def)
  moreover have "\<not> IsOnSale (sample_event\<lparr>ev_Status := EventStatusDraft\<rparr>) now" for now
    by (simp add: IsOnSale_def)
  ultimately show ?thesis by blast
qed

text \<open>
  A header \<open>X-Forwarded-For\<close> that is not an address, which a client can send, keeps it from logging in: the
  text goes into an \<open>INET\<close> column, which refuses it.
\<close>

theorem forwarded_for_can_block_login:
  assumes "clientIP r \<noteq> ''''" and "e_inet E (clientIP r) = None" and "AuthHandler_Login E h r w = (Inr resp, w')"
  shows "rs_Status resp \<noteq> StatusOK"
proof
  assume ok: "rs_Status resp = StatusOK"
  then obtain req where req: "decodeAndValidate (dec_login (dp_codec h)) (val_login (dp_codec h)) r = Inr req"
    using assms(3) by (auto simp: AuthHandler_Login_def withBody_def decodeAndValidate_def run_simps response_Error_def
        split: sum.splits option.splits)
  obtain q w1 where q: "Login E (dp_jwt h) (lg_Email req) (lg_Password req) (UserAgent r) (clientIP r) w = (q, w1)"
    by fastforce
  with assms(3) req ok obtain p where "q = Inr p"
    by (cases q) (auto simp: AuthHandler_Login_def withBody_def run_simps response_Error_def split: if_splits)
  with q obtain user where "issueTokenPair E (dp_jwt h) user (UserAgent r) (clientIP r) (w\<lparr>tick := Suc (tick w)\<rparr>) = (Inr p, w1)"
    by (auto elim: Login_Inr)
  with assms(1,2) show False
    by (auto simp: issueTokenPair_def comp_iffs RefreshTokenRepo_Create_def id_or_New_def conflictE_def pg_stmt_Inr_iff
        refresh_tokens_INSERT_Inr inet_column_def nullIfEmpty_def run_uuid_New split: sum.splits if_splits)
      (metis sum.exhaust)
qed

end
