(* ===== verification/StartupProperties.thy ===== *)
theory StartupProperties
  imports Startup HttpProperties
begin

text \<open>
  What is known of a process once it serves: its configuration passed validation, Postgres and Redis
  answered, and whatever way it ends its connections are closed.  Two settings that validation lets
  through are shown to be harmful: an interval of zero, and a webhook secret that is empty.
\<close>

section \<open>Samples\<close>

definition sample_config :: Config where
  "sample_config =
    \<lparr>cfg_App = \<lparr>app_Env = ''production'', app_Name = ''ticketing-backend'', app_LogLevel = ''info''\<rparr>,
     cfg_HTTP = \<lparr>http_Port = 8080, http_ReadTimeout = seconds 10, http_WriteTimeout = seconds 15,
       http_IdleTimeout = seconds 60, http_ShutdownTimeout = seconds 15\<rparr>,
     cfg_Postgres = \<lparr>pg_DSN = ''postgres://db'', pg_MaxOpenConns = 25, pg_MaxIdleConns = 10,
       pg_ConnMaxLifetime = seconds 1800\<rparr>,
     cfg_Redis = \<lparr>rc_Addr = ''localhost:6379'', rc_Password = '''', rc_DB = 0, rc_PoolSize = 50\<rparr>,
     cfg_Kafka = \<lparr>kc_Brokers = [''localhost:9092''], kc_ConsumerGroup = ''ticketing-worker''\<rparr>,
     cfg_JWT = \<lparr>jwt_Secret = ''0123456789abcdef'', jwt_RefreshSecret = ''fedcba9876543210'',
       jwt_AccessTTL = seconds 900, jwt_RefreshTTL = seconds 2592000\<rparr>,
     cfg_Stripe = \<lparr>stripe_SecretKey = ''sk_live_1'', stripe_WebhookSecret = ''''\<rparr>,
     cfg_Adyen = \<lparr>adyen_APIKey = '''', adyen_MerchantAccount = ''''\<rparr>,
     cfg_Bootstrap = \<lparr>bootstrap_Secret = ''''\<rparr>,
     cfg_Worker = \<lparr>wc_SweepInterval = seconds 10, wc_SweepBatchSize = 500, wc_AdmissionInterval = seconds 5,
       wc_AdmissionMaxPerTick = 200, wc_NotificationInterval = seconds 5, wc_NotificationBatchSize = 100\<rparr>,
     cfg_Email = \<lparr>ec_Host = '''', ec_Port = ''587'', ec_Username = '''', ec_Password = '''',
       ec_From = ''noreply@ticketing.example''\<rparr>\<rparr>"

text \<open>Packages that answer, with a validator that accepts exactly what the tags allow.\<close>

definition sample_start :: "Config \<Rightarrow> start_env" where
  "sample_start cfg = \<lparr>se_env_Parse = Inr cfg,
    se_validate = (\<lambda>c. if config_tags c then None else Some (ErrText ''validation'')),
    se_ParseLevel = (\<lambda>_. Inr 0), se_zap_Build = (\<lambda>_. None),
    se_pgx_ParseConfig = (\<lambda>dsn. Inr \<lparr>pc_ConnConfig = dsn, pc_MaxConns = 4, pc_MinConns = 0, pc_MaxConnLifetime = seconds 3600,
      pc_MaxConnIdleTime = seconds 1800, pc_HealthCheckPeriod = seconds 60\<rparr>),
    se_pgx_NewWithConfig = (\<lambda>_. None), se_pgx_Ping = (\<lambda>_. None), se_redis_Ping = (\<lambda>_. None)\<rparr>"

definition new_process :: process where
  "new_process = \<lparr>open_pools = 0, open_clients = 0, served = [], looping = []\<rparr>"

lemmas startup_defs =
  api_run_def worker_run_def with_connections_def worker_loops_def api_serve_def NewPool_def NewClient_def pool_open_def
  client_open_def pool_Close_def client_Close_def answerE_def Load_def logger_New_def tickers_start_def
  deferE_def bindE_def mapErrE_def returnE_def throwE_def Let_def sample_start_def new_process_def

lemma sample_config_tags: "config_tags sample_config"
  by (simp add: config_tags_def sample_config_def)

section \<open>Ready before serving, clean after\<close>

text \<open>
  C40. The API serves nothing before it is ready: if it came to serve at all, with whatever end, then the
  environment parsed into a configuration that meets the demands of its tags, Postgres and Redis answered
  a ping on the connections made from it, and what is served is the router built from this configuration.
  The validator must accept only what the tags allow.
\<close>

theorem api_serves_only_when_ready:
  assumes "api_run S deps fin s = (r, s')" and "served s' \<noteq> served s"
    and "\<forall>c. se_validate S c = None \<longrightarrow> config_tags c"
  shows "\<exists>cfg p q. se_env_Parse S = Inr cfg \<and> config_tags cfg \<and>
    se_pgx_Ping S p = None \<and> pc_MaxConns p = pg_MaxOpenConns (cfg_Postgres cfg) \<and>
    se_redis_Ping S q = None \<and> ro_Addr q = rc_Addr (cfg_Redis cfg) \<and> served s' = served s @ [deps cfg]"
  using assms(1) unfolding api_run_def
proof (cases rule: with_connections_cases)
  case (2 cfg p q s1)
  moreover from this(6) have "served s1 = served s @ [deps cfg]" by (auto simp: api_serve_def)
  ultimately show ?thesis using assms(3) by (auto simp: Load_Inr_iff)
qed (use assms(2) in simp)

theorem api_serves_only_when_ready_witness:
  "served (snd (api_run (sample_start sample_config) (api_deps sample_codec rq_RemoteAddr (dp_NotFound sample_deps))
     (Signalled None) new_process)) = [api_deps sample_codec rq_RemoteAddr (dp_NotFound sample_deps) sample_config]"
proof -
  let ?deps = "api_deps sample_codec rq_RemoteAddr (dp_NotFound sample_deps)"
  have "served (snd (api_run (sample_start sample_config) ?deps (Signalled None) new_process)) \<noteq> served new_process"
    by (simp add: startup_defs sample_config_tags)
  with api_serves_only_when_ready [OF prod.collapse [symmetric] this] show ?thesis
    by (auto simp: sample_start_def new_process_def)
qed

text \<open>
  Neither process leaks a connection: however \<open>run\<close> of \<open>cmd/api\<close> and of \<open>cmd/worker\<close> ends, the pools
  and Redis clients that are open are those that were open before, also when the ping of the one fails
  after the other was opened.
\<close>

theorem processes_release_connections:
  "open_pools (snd (api_run S deps fin s)) = open_pools s \<and> open_clients (snd (api_run S deps fin s)) = open_clients s \<and>
   open_pools (snd (worker_run S s)) = open_pools s \<and> open_clients (snd (worker_run S s)) = open_clients s"
  using with_connections_balanced [of "\<lambda>cfg. api_serve (deps cfg) fin" S s] with_connections_balanced [of worker_loops S s]
  by (simp add: api_run_def worker_run_def api_serve_def worker_loops_def)

section \<open>What validation lets through\<close>

text \<open>An interval of zero is accepted and brings the worker down.\<close>

theorem valid_config_can_stop_worker:
  "\<exists>cfg. config_tags cfg \<and> fst (worker_run (sample_start cfg) new_process) = Inr Panicked"
proof -
  let ?cfg = "sample_config\<lparr>cfg_Worker := (cfg_Worker sample_config)\<lparr>wc_SweepInterval := 0\<rparr>\<rparr>"
  have ok: "config_tags ?cfg" by (simp add: config_tags_def sample_config_def)
  then have "fst (worker_run (sample_start ?cfg) new_process) = Inr Panicked"
    by (simp add: startup_defs)
  with ok show ?thesis by blast
qed

text \<open>With Stripe configured and the webhook secret left out, anyone can sign a webhook.\<close>

theorem valid_config_can_accept_forged_webhooks:
  "\<exists>cfg. config_tags cfg \<and> stripe_SecretKey (cfg_Stripe cfg) \<noteq> '''' \<and>
    (\<forall>body. VerifyWebhookSignature (api_gateway (cfg_Stripe cfg)) body
      (''t=1,v1='' @ hex_EncodeToString (hmac_sha256 '''' (''1.'' @ body))) = Inr ())"
proof (intro exI conjI allI)
  show "config_tags sample_config" by (rule sample_config_tags)
  show "stripe_SecretKey (cfg_Stripe sample_config) \<noteq> ''''" by (simp add: sample_config_def)
  fix body
  have "api_gateway (cfg_Stripe sample_config) = StripeGateway ''sk_live_1'' ''''"
    by (simp add: api_gateway_def sample_config_def)
  with Stripe_one_signature [of "''1''" "hex_EncodeToString (hmac_sha256 '''' (''1.'' @ body))" "''''" body] hex_no_comma
  show "VerifyWebhookSignature (api_gateway (cfg_Stripe sample_config)) body
      (''t=1,v1='' @ hex_EncodeToString (hmac_sha256 '''' (''1.'' @ body))) = Inr ()"
    by (simp add: VerifyWebhookSignature_def)
qed

end
