(* ===== verification/Platform.thy ===== *)
theory Platform
  imports Domain
begin

text \<open>
  \<open>internal/platform/storage.go\<close> and \<open>internal/platform/kafka.go\<close>: an object store in memory, and the
  producer and consumer of events.  No other part of the program calls them.  What the Kafka client and
  \<open>encoding/json\<close> answer are arguments.
\<close>

section \<open>storage.go\<close>

record Object =
  ob_Key :: string
  ob_ContentType :: string
  ob_Size :: int
  ob_Checksum :: string

text \<open>The map of a \<open>MemoryStore\<close>.\<close>

type_synonym memory_store = "string \<rightharpoonup> string"

definition NewMemoryStore :: memory_store where
  "NewMemoryStore = (\<lambda>_. None)"

text \<open>\<open>content\<close> is what \<open>io.ReadAll\<close> makes of the reader; the checksum is left at its zero value.\<close>

definition MemoryStore_Put ::
  "string \<Rightarrow> string \<Rightarrow> error + string \<Rightarrow> (memory_store, error, Object) comp" where
  "MemoryStore_Put key contentType content = (\<lambda>m.
    case content of
      Inl e \<Rightarrow> (Inl e, m)
    | Inr b \<Rightarrow>
        (Inr \<lparr>ob_Key = key, ob_ContentType = contentType, ob_Size = int (length b), ob_Checksum = ''''\<rparr>, m(key \<mapsto> b)))"

definition MemoryStore_Get :: "string \<Rightarrow> (memory_store, error, string \<times> string) comp" where
  "MemoryStore_Get key = (\<lambda>m.
    case m key of
      None \<Rightarrow> (Inl (ErrText ''object not found''), m)
    | Some b \<Rightarrow> (Inr (b, ''application/pdf''), m))"

definition MemoryStore_Delete :: "string \<Rightarrow> (memory_store, error, unit) comp" where
  "MemoryStore_Delete key = (\<lambda>m. (Inr (), m(key := None)))"

text \<open>\<open>Read\<close> into a buffer of length \<open>n\<close>: \<open>None\<close> is \<open>io.EOF\<close>, otherwise the bytes read and what is left.\<close>

definition byteReader_Read :: "nat \<Rightarrow> string \<Rightarrow> (string \<times> string) option" where
  "byteReader_Read n b = (if b = [] then None else Some (take n b, drop n b))"

text \<open>Reading to the end with buffers that are not empty.\<close>

function read_to_end :: "nat \<Rightarrow> string \<Rightarrow> string" where
  "read_to_end n b = (case byteReader_Read (Suc n) b of None \<Rightarrow> [] | Some (p, rest) \<Rightarrow> p @ read_to_end n rest)"
  by pat_completeness auto

termination
  by (relation "measure (\<lambda>(n, b). length b)") (auto simp: byteReader_Read_def split: if_splits)

declare read_to_end.simps [simp del]

lemma read_to_end_all: "read_to_end n b = b"
proof (induction n b rule: read_to_end.induct)
  case (1 n b)
  show ?case
  proof (cases "b = []")
    case True
    then show ?thesis by (subst read_to_end.simps) (simp add: byteReader_Read_def)
  next
    case False
    then have "byteReader_Read (Suc n) b = Some (take (Suc n) b, drop (Suc n) b)" by (simp add: byteReader_Read_def)
    with 1 [OF this refl] show ?thesis by (subst read_to_end.simps) simp
  qed
qed

text \<open>What is put can be read back until it is put or deleted again, whatever the buffers.\<close>

lemma MemoryStore_roundtrip:
  assumes "MemoryStore_Put key ct (Inr b) m = (Inr ob, m')"
  shows "\<exists>rd ct'. fst (MemoryStore_Get key m') = Inr (rd, ct') \<and> read_to_end n rd = b"
    and "ob_Size ob = int (length b)" and "key' \<noteq> key \<Longrightarrow> fst (MemoryStore_Get key' m') = fst (MemoryStore_Get key' m)"
    and "fst (MemoryStore_Get key (snd (MemoryStore_Delete key m'))) = Inl (ErrText ''object not found'')"
  using assms by (auto simp: MemoryStore_Put_def MemoryStore_Get_def MemoryStore_Delete_def read_to_end_all split: option.split)

text \<open>The content type that was given is not kept.\<close>

lemma MemoryStore_forgets_content_type:
  assumes "MemoryStore_Put key ''image/png'' (Inr b) m = (Inr ob, m')"
  shows "ob_ContentType ob = ''image/png'' \<and> fst (MemoryStore_Get key m') = Inr (b, ''application/pdf'')"
  using assms by (auto simp: MemoryStore_Put_def MemoryStore_Get_def)

section \<open>kafka.go\<close>

text \<open>\<open>platform.Event\<close>; its data is JSON text.\<close>

record PlatformEvent =
  pev_ID :: string
  pev_Type :: string
  pev_OccurredAt :: string
  pev_Data :: string

record kafka_message =
  km_Topic :: string
  km_Key :: string
  km_Value :: string
  km_Offset :: nat

definition KafkaProducer_Publish ::
  "(PlatformEvent \<Rightarrow> error + string) \<Rightarrow> (kafka_message \<Rightarrow> error option) \<Rightarrow> string \<Rightarrow> string \<Rightarrow> PlatformEvent \<Rightarrow> error option" where
  "KafkaProducer_Publish marshal write topic key e =
    (case marshal e of
      Inl err \<Rightarrow> Some err
    | Inr b \<Rightarrow> write \<lparr>km_Topic = topic, km_Key = key, km_Value = b, km_Offset = 0\<rparr>)"

text \<open>
  The consumer's loop, on what \<open>FetchMessage\<close> answers one after the other; the log holds the messages it
  commits.  The result is the error it returns with, \<open>None\<close> while it waits for the next message.
\<close>

fun Consumer_Run ::
  "(string \<Rightarrow> error + PlatformEvent) \<Rightarrow> (PlatformEvent \<Rightarrow> error option) \<Rightarrow> (kafka_message \<Rightarrow> error option) \<Rightarrow>
   (error + kafka_message) list \<Rightarrow> kafka_message list \<Rightarrow> error option \<times> kafka_message list" where
  "Consumer_Run unmarshal handle commit [] log = (None, log)"
| "Consumer_Run unmarshal handle commit (Inl e # fetched) log = (Some e, log)"
| "Consumer_Run unmarshal handle commit (Inr m # fetched) log =
    (case (case unmarshal (km_Value m) of Inl e \<Rightarrow> Some e | Inr ev \<Rightarrow> handle ev) of
      Some e \<Rightarrow> Consumer_Run unmarshal handle commit fetched log
    | None \<Rightarrow>
        (case commit m of
          Some e \<Rightarrow> (Some e, log)
        | None \<Rightarrow> Consumer_Run unmarshal handle commit fetched (log @ [m])))"

text \<open>Only what was decoded and handled is committed.\<close>

lemma Consumer_commits_handled:
  assumes "Consumer_Run unmarshal handle commit fetched log = (r, log')" and "m \<in> set log'" and "m \<notin> set log"
  shows "Inr m \<in> set fetched \<and> (\<exists>ev. unmarshal (km_Value m) = Inr ev \<and> handle ev = None)"
  using assms
proof (induction unmarshal handle commit fetched log rule: Consumer_Run.induct)
  case (3 unmarshal handle commit m1 fetched log)
  then show ?case by (auto split: option.splits sum.splits)
qed auto

text \<open>
  A commit moves the group's offset past every earlier message of its partition: the message after a
  failed one, once it is committed, leaves the failed one behind for good.
\<close>

lemma Consumer_skips_failed:
  assumes "unmarshal (km_Value m1) = Inr ev1" and "handle ev1 = Some e"
    and "unmarshal (km_Value m2) = Inr ev2" and "handle ev2 = None" and "commit m2 = None"
  shows "Consumer_Run unmarshal handle commit [Inr m1, Inr m2] [] = (None, [m2])"
  using assms by simp

end
