(* ===== verification/Spec2Isabelle.thy ===== *)
theory Spec2Isabelle
  imports StartupProperties Platform
begin

text \<open>
  Verification of the ticketing backend, a Go program that sells seats of events for several clubs
  (tenants).  This theory imports the whole development and describes it.

  \<^bold>\<open>The program.\<close>  Two processes share a Postgres database and a Redis server.  \<open>cmd/api\<close> serves an HTTP
  API: a fan registers and logs in, joins the waiting room of an event, holds a seat for some minutes,
  turns holds into an order and has a payment authorized; the payment provider's webhook then confirms
  the order, which sells the seats.  An administrator of a club creates venues, events and ticket
  categories and publishes seats.  \<open>cmd/worker\<close> runs three loops: it frees seats whose holds have
  lapsed, lets fans out of the waiting rooms, and sends queued notifications.  What must never happen is
  that a seat is sold twice; Postgres decides, by compare-and-set statements on one table, and Redis only
  keeps contention away from it.

  \<^bold>\<open>How it is modelled.\<close>  A computation of the program is a function from a world to a result or an error
  and a new world (\<open>comp\<close>, \<open>op\<close>; \<open>Prelude\<close>, \<open>World\<close>): \<open>bindE\<close> is the Go idiom of returning on an error,
  \<open>attemptE\<close> a call whose error is inspected, \<open>foldE\<close> a loop over a slice, \<open>deferE\<close> a deferred call.  The
  world holds the tables, the Redis keyspace, the messages and gateway calls made, and a count of the
  external calls, by which the environment \<open>E\<close> gives each call an answer of its own: clocks, UUIDs, random
  bytes, faults of Postgres, outcomes of a COMMIT, replies of Redis, Stripe and the mail server.  So every
  theorem holds for every pattern of failures unless it says otherwise (\<open>pg_healthy\<close>).  Packages that
  are not part of the repository are functions of \<open>E\<close> or arguments, with what is relied on as named
  hypotheses: \<open>redis_server\<close> (the documented commands), \<open>jwt_roundtrip\<close>, \<open>uuid_text\<close>, that bcrypt accepts
  what it hashed, that the validator respects the struct tags.  Errors are a datatype with the sentinels of
  the program and their wrapping; \<open>int64\<close> amounts are 64-bit words; instants are microseconds.

  \<^bold>\<open>Theories and code.\<close>
  \<^item> \<open>Domain\<close>: \<open>internal/domain\<close>, errors, money, statuses and entities.  \<open>StdCrypto\<close>: SHA-256, HMAC, hex
    and base64 of the standard library.
  \<^item> \<open>World\<close>: the database, statements and transactions (\<open>repository/postgres/tx.go\<close>, \<open>errors.go\<close>).
  \<^item> \<open>InventoryRepo\<close>, \<open>InventoryHistory\<close>, \<open>SeatStore\<close>: \<open>repository/postgres/inventory.go\<close> over the table
    of \<open>migrations/000006\<close> and the audit trigger of \<open>000010\<close>; the histories of statements; the abstract
    seat machine and its contract \<open>seat_store\<close>.
  \<^item> \<open>OrderRepo\<close>, \<open>CatalogRepo\<close>, \<open>AccountRepo\<close>: the other repositories of \<open>repository/postgres\<close>.
  \<^item> \<open>Redis\<close>, \<open>RedisRepo\<close>, \<open>WaitingRoom\<close>: the Redis commands and \<open>repository/redis\<close>, with the contracts
    \<open>lease_lock\<close>, \<open>window_limiter\<close> and \<open>waiting_line\<close>.
  \<^item> \<open>InventoryService\<close>, \<open>OrderService\<close>, \<open>PaymentFlow\<close>, \<open>AuthService\<close>, \<open>Workers\<close>: the services of
    \<open>internal/service\<close>, \<open>platform/email\<close> and the loops of \<open>cmd/worker\<close>; \<open>PaymentGateway\<close>:
    \<open>platform/payment\<close>.
  \<^item> \<open>HttpBase\<close>, \<open>HttpHandlers\<close>, \<open>HttpApi\<close>: \<open>pkg/response\<close>, \<open>handler/middleware\<close>, \<open>handler/http\<close>, the router,
    and the system of both processes as a step function on requests and ticks.
  \<^item> \<open>HttpServer\<close>: the same routes on the wire, with a response writer, headers and panics: \<open>write\<close> of
    \<open>pkg/response\<close>, \<open>middleware/requestid.go\<close>, \<open>recovery.go\<close> and \<open>logging.go\<close>, and the chain of \<open>NewRouter\<close>.
  \<^item> \<open>Interleaving\<close>: requests that overlap, as threads that stop after every call of a repository and are
    scheduled in any order (\<open>sched\<close>); \<open>AuthThreads\<close>, \<open>HoldThreads\<close>: the auth service and \<open>HoldSeat\<close> as such
    threads, each shown to be the call of its service when it runs alone.
  \<^item> \<open>Startup\<close>: \<open>internal/config\<close>, \<open>pkg/logger\<close>, \<open>platform/database\<close>, \<open>platform/redis\<close> and the \<open>run\<close> functions
    of the three commands.  \<open>Platform\<close>: \<open>platform/storage.go\<close> and \<open>platform/kafka.go\<close>.
  \<^item> \<open>Samples\<close>: a concrete environment and database, on which the properties are applied.

  \<^bold>\<open>What is shown.\<close>
  \<^item> Seats (\<open>InventoryProperties\<close>, \<open>HttpProperties\<close>): under any requests and ticks with any failures each
    seat's audit trail is a chain of legal transitions with at most one sale; the repository refines the
    seat machine; a hold takes exactly one free seat, and of any number of fans at most one gets it, one
    after the other or with their attempts interleaved in any way and whatever Redis answers; a failed hold changes nothing; lock, rate limiter and waiting room keep their contracts.
  \<^item> Orders and payments (\<open>OrderProperties\<close>): an order records exactly the held seats at current prices,
    within the limits, once per idempotency key; a confirmation sells all seats or none, and decides by
    the holds; a replay after payment has no effect.  Two overlapping deliveries are shown to refund a
    fulfilled order.  Under any inputs handled one after the other an order keeps its terms and moves along
    the state machine \<open>order_step\<close>, in which a paid order is final (\<open>OrderLifecycle\<close>, \<open>HttpProperties\<close>).
  \<^item> Accounts (\<open>AuthProperties\<close>): who registers becomes a fan and can log in; refresh tokens work once,
    however the statements of overlapping refreshes are interleaved, and never after a logout; accounts stay well-formed.
  \<^item> Workers (\<open>WorkerProperties\<close>, from \<open>Sweeping\<close>): every lapsed hold is freed within as many ticks as
    batches are needed; a batch of notifications is settled; admission takes the least of line, seats and
    cap; the amount in the email is exact.
  \<^item> The API (\<open>HttpProperties\<close>, from \<open>AccessControl\<close>, \<open>Responses\<close>, \<open>Publishing\<close>): administrators reach the
    rows of their tenant only and come from the bootstrap route only; without a token nothing changes
    outside the public routes; a webhook without a valid signature has no effect; every request to
    a route is served with one well-formed response under its request id and one log line; a panic is
    recovered, logged and answered as an internal error; a token identifies its account; failed logins look alike;
    publishing creates exactly what was asked for.
  \<^item> Startup (\<open>StartupProperties\<close>): the API serves only with a validated configuration and after both
    stores answered; no connection is leaked; two harmful settings that pass validation.

  \<^bold>\<open>Interfaces.\<close>  \<open>effect\<close>, \<open>db_effect\<close>, \<open>db_frame\<close> and \<open>pg_frame\<close> carry a relation on worlds or databases
  from statements to whole handlers; they are interpreted for the inventory's history, for the life of
  orders, for tenants, users, administrators, accounts, revoked tokens and the count of external calls.
  \<open>seat_store\<close>, \<open>lease_lock\<close>, \<open>window_limiter\<close>, \<open>waiting_line\<close> and \<open>single_use\<close> are contracts of components,
  interpreted on their models.  \<open>contest\<close> is the argument that of interleaved threads only one can make a
  fact true that none may find true already; it is interpreted for spent refresh tokens and for taken seats.

  \<^bold>\<open>Bounds.\<close>  There is no fuel: loops run over lists, the endless loops of the worker over the signals
  they receive.  Redis scores are exact up to \<open>2 ^ 53\<close>, which \<open>room_ok\<close> demands of the waiting room's
  sequence; order totals are exact while they fit in 63 bits, and amounts are printed exactly in the range
  stated with the theorem.  Strings are bytes; lower case, trimming and quoting are those of ASCII text.

  \<^bold>\<open>Not modelled.\<close>  Requests interleave at the level of statements for the inventory, for holds, for the auth
  service and for overlapping confirmations; elsewhere they are handled one after the other.  The timeout,
  CORS and the counting writer of the router package are arguments of \<open>HttpServer\<close>; the rendering of
  responses to bytes and the stack trace of a panic are left out; so are \<open>SetTenantContext\<close>, which nothing calls, and
  \<open>domain/membership.go\<close>, which has no implementation.
\<close>

end
